(* ===== verification/Prelude.thy ===== *)
theory Prelude
  imports Main "HOL-Library.Word" "HOL-Library.Monad_Syntax"
begin

text \<open>
  The vocabulary the component theories share: the widths of the C integer types, the
  convention for C executions that do not return, and the generic facts on words, lists and
  options that the component proofs use.

  \<^item> An unsigned C integer of \<open>w\<close> bits is a word of that width, so \<open>+\<close>, \<open>-\<close> and shifts wrap as
    they do in C; a C \<open>int\<close> whose sign matters is an \<open>int\<close>.
  \<^item> A pointer into the daemon's address space is a \<open>u64\<close>, with 0 for \<open>NULL\<close>.
  \<^item> A definition of type \<open>'a option\<close> that models a C function returns \<open>None\<close> exactly where the
    C execution has undefined behaviour (a null dereference, an array index out of range) or
    never returns (a loop on a flag that nobody clears). C error codes are ordinary results.
\<close>

unbundle bit_operations_syntax

section \<open>C integer types\<close>

type_synonym u8 = "8 word"
type_synonym u16 = "16 word"
type_synonym u32 = "32 word"
type_synonym u64 = "64 word"

text \<open>The C idiom \<open>x & FLAG\<close> used as a truth value.\<close>

definition has_flag :: "'a::len word \<Rightarrow> 'a word \<Rightarrow> bool" where
  "has_flag x f \<longleftrightarrow> x AND f \<noteq> 0"

text \<open>
  Converting to the C type \<open>int\<close> keeps the low 32 bits as a signed number on the compilers the
  tool is built with; \<open>INT_MAX\<close> is the largest value.
\<close>

definition to_c_int :: "int \<Rightarrow> int" where
  "to_c_int n = signed_take_bit 31 n"

definition INT_MAX :: int where [simp]: "INT_MAX = 2147483647"

text \<open>
  A C function that reports failure by a negative code, with its outputs only meaningful on
  success.
\<close>

datatype 'a cres = Ok 'a | Err int

section \<open>Collections of facts\<close>

named_theorems ub_simps \<open>equations that say when a C operation is defined\<close>
named_theorems frame_simps \<open>fields an operation does not write\<close>
named_theorems mem_simps \<open>loads after stores\<close>

section \<open>Words\<close>

text \<open>Masking with a power of two minus one is the remainder: the ring indices of the code.\<close>

lemma unat_and_mask: "unat (x AND mask n) = unat x mod 2 ^ n"
  by (simp only: take_bit_eq_mask [symmetric] unsigned_take_bit_eq) (simp add: take_bit_eq_mod)

lemma and_eq_take_bit: "(x :: 'a::len word) AND mask n = take_bit n x"
  by (simp add: take_bit_eq_mask)

lemma unat_of_nat_small: "n < 2 ^ LENGTH('a) \<Longrightarrow> unat (of_nat n :: 'a::len word) = n"
  by (simp add: unat_of_nat take_bit_nat_eq_self)

lemma unat_lt_64 [simp]: "unat (x :: u64) < 18446744073709551616"
  using unsigned_less [where 'a = nat, of x] by simp

lemma unat_lt_32 [simp]: "unat (x :: u32) < 4294967296"
  using unsigned_less [where 'a = nat, of x] by simp

lemma unat_lt_16 [simp]: "unat (x :: u16) < 65536"
  using unsigned_less [where 'a = nat, of x] by simp

lemma has_flag_or [simp]: "has_flag (x OR f) f \<longleftrightarrow> f \<noteq> 0"
  by (auto simp: has_flag_def bit.conj_disj_distrib2 bit.conj_disj_distrib)

lemma to_c_int_small [simp]: "0 \<le> n \<Longrightarrow> n \<le> INT_MAX \<Longrightarrow> to_c_int n = n"
  unfolding to_c_int_def by (rule signed_take_bit_int_eq_self) simp_all

section \<open>Lists and options\<close>

text \<open>Indexing as C does it, made partial: out of range is undefined behaviour.\<close>

definition nth_ub :: "'a list \<Rightarrow> nat \<Rightarrow> 'a option" where
  "nth_ub xs i = (if i < length xs then Some (xs ! i) else None)"

definition upd_ub :: "'a list \<Rightarrow> nat \<Rightarrow> 'a \<Rightarrow> 'a list option" where
  "upd_ub xs i x = (if i < length xs then Some (xs[i := x]) else None)"

lemma nth_ub_Some [ub_simps]: "nth_ub xs i = Some x \<longleftrightarrow> i < length xs \<and> x = xs ! i"
  by (auto simp: nth_ub_def)

lemma nth_ub_None [ub_simps]: "nth_ub xs i = None \<longleftrightarrow> length xs \<le> i"
  by (auto simp: nth_ub_def)

lemma upd_ub_Some [ub_simps]: "upd_ub xs i x = Some ys \<longleftrightarrow> i < length xs \<and> ys = xs[i := x]"
  by (auto simp: upd_ub_def)

lemma upd_ub_None [ub_simps]: "upd_ub xs i x = None \<longleftrightarrow> length xs \<le> i"
  by (auto simp: upd_ub_def)

lemma nth_ub_in [simp]: "i < length xs \<Longrightarrow> nth_ub xs i = Some (xs ! i)"
  by (simp add: nth_ub_def)

lemma upd_ub_in [simp]: "i < length xs \<Longrightarrow> upd_ub xs i x = Some (xs[i := x])"
  by (simp add: upd_ub_def)

lemma bind_Some_iff [ub_simps]:
  "Option.bind m f = Some y \<longleftrightarrow> (\<exists>x. m = Some x \<and> f x = Some y)"
  by (cases m) auto

section \<open>Postconditions of C executions\<close>

text \<open>
  A postcondition of a modelled execution: it holds of the result whenever there is one. The rules
  walk over the statements of a definition, so that \<open>intro wp\<close> leaves one goal for every \<open>return\<close>.
\<close>

definition post :: "('a \<Rightarrow> bool) \<Rightarrow> 'a option \<Rightarrow> bool" where
  "post P m \<longleftrightarrow> (\<forall>x. m = Some x \<longrightarrow> P x)"

named_theorems wp \<open>rules for postconditions\<close>

lemma post_Some [wp]: "P x \<Longrightarrow> post P (Some x)"
  by (simp add: post_def)

lemma post_None [wp]: "post P None"
  by (simp add: post_def)

lemma post_bind [wp]: "post (\<lambda>x. post P (f x)) m \<Longrightarrow> post P (Option.bind m f)"
  by (cases m) (auto simp: post_def)

lemma post_if [wp]: "(c \<Longrightarrow> post P a) \<Longrightarrow> (\<not> c \<Longrightarrow> post P b) \<Longrightarrow> post P (if c then a else b)"
  by simp

lemma post_let [wp]: "(\<And>y. y = x \<Longrightarrow> post P (f y)) \<Longrightarrow> post P (Let x f)"
  by simp

lemma post_case_prod [wp]: "(\<And>a b. x = (a, b) \<Longrightarrow> post P (f a b)) \<Longrightarrow> post P (case x of (a, b) \<Rightarrow> f a b)"
  by (cases x) simp

lemma post_case_option [wp]:
  "(x = None \<Longrightarrow> post P a) \<Longrightarrow> (\<And>y. x = Some y \<Longrightarrow> post P (f y)) \<Longrightarrow> post P (case x of None \<Rightarrow> a | Some y \<Rightarrow> f y)"
  by (cases x) simp_all

lemma post_case_cres [wp]:
  "(\<And>y. x = Ok y \<Longrightarrow> post P (f y)) \<Longrightarrow> (\<And>e. x = Err e \<Longrightarrow> post P (g e)) \<Longrightarrow> post P (case x of Ok y \<Rightarrow> f y | Err e \<Rightarrow> g e)"
  by (cases x) simp_all

lemma post_nth_ub [wp]: "(i < length xs \<Longrightarrow> P (xs ! i)) \<Longrightarrow> post P (nth_ub xs i)"
  by (auto simp: post_def nth_ub_def)

lemma post_upd_ub [wp]: "(i < length xs \<Longrightarrow> P (xs[i := x])) \<Longrightarrow> post P (upd_ub xs i x)"
  by (auto simp: post_def upd_ub_def)

text \<open>Starting and using a postcondition.\<close>

lemma postI: "(\<And>x. m = Some x \<Longrightarrow> P x) \<Longrightarrow> post P m"
  by (simp add: post_def)

lemma postD: "post P m \<Longrightarrow> m = Some x \<Longrightarrow> P x"
  by (simp add: post_def)

lemma post_mono: "post P m \<Longrightarrow> (\<And>x. P x \<Longrightarrow> Q x) \<Longrightarrow> post Q m"
  by (simp add: post_def)

section \<open>Loops\<close>

text \<open>A \<open>while\<close> loop whose body may be undefined; \<open>None\<close> also stands for a loop that is never left.\<close>

partial_function (option) while_opt :: "('s \<Rightarrow> bool) \<Rightarrow> ('s \<Rightarrow> 's option) \<Rightarrow> 's \<Rightarrow> 's option" where
  "while_opt c f s = (if c s then Option.bind (f s) (\<lambda>s'. while_opt c f s') else Some s)"

declare while_opt.simps [code]

text \<open>The invariant rule.\<close>

lemma post_while_opt:
  assumes "I s" and "\<And>s. I s \<Longrightarrow> c s \<Longrightarrow> post I (f s)" and "\<And>s. I s \<Longrightarrow> \<not> c s \<Longrightarrow> P s"
  shows "post P (while_opt c f s)"
proof (rule postI)
  fix y assume y: "while_opt c f s = Some y"
  have "c = c \<and> f = f \<and> I s \<longrightarrow> P y"
  proof (rule while_opt.raw_induct [OF _ y, of "\<lambda>c' f' s y. c' = c \<and> f' = f \<and> I s \<longrightarrow> P y"], intro impI)
    fix rec c' f' s y
    assume IH: "\<And>c' f' s y. rec c' f' s = Some y \<Longrightarrow> c' = c \<and> f' = f \<and> I s \<longrightarrow> P y"
      and body: "(if c' s then Option.bind (f' s) (\<lambda>s'. rec c' f' s') else Some s) = Some y"
      and eqs: "c' = c \<and> f' = f \<and> I s"
    show "P y"
    proof (cases "c s")
      case True
      then obtain s' where "f s = Some s'" and "rec c f s' = Some y" using body eqs by (auto simp: bind_Some_iff)
      then show ?thesis using IH postD [OF assms(2) [of s]] True eqs by blast
    qed (use body eqs assms(3) in auto)
  qed
  then show "P y" using assms(1) by simp
qed

end
