(* ===== verification/Guest_Memory.thy ===== *)
theory Guest_Memory
  imports Prelude
begin

text \<open>
  The daemon's view of guest memory. The bytes the daemon shares with the guests are a function
  from daemon addresses to bytes, read and written in the little-endian layout of the targets
  the tool is built for. The second half models the zone memory table of
  \<^verbatim>\<open>src/tools/virtio/virtio.c\<close> (\<open>struct zone_mem\<close>) and \<open>get_virt_addr\<close>, which turns an address of a
  guest (its intermediate physical address, IPA) into a daemon address.
\<close>

section \<open>Bytes, and the loads and stores of C\<close>

type_synonym memory = "u64 \<Rightarrow> u8"

definition ld16 :: "memory \<Rightarrow> u64 \<Rightarrow> u16" where
  "ld16 m a = word_cat (m (a + 1)) (m a)"

definition ld32 :: "memory \<Rightarrow> u64 \<Rightarrow> u32" where
  "ld32 m a = word_cat (ld16 m (a + 2)) (ld16 m a)"

definition ld64 :: "memory \<Rightarrow> u64 \<Rightarrow> u64" where
  "ld64 m a = word_cat (ld32 m (a + 4)) (ld32 m a)"

definition st8 :: "memory \<Rightarrow> u64 \<Rightarrow> u8 \<Rightarrow> memory" where
  "st8 m a v = m(a := v)"

definition st16 :: "memory \<Rightarrow> u64 \<Rightarrow> u16 \<Rightarrow> memory" where
  "st16 m a v = m(a := ucast v, a + 1 := ucast (drop_bit 8 v))"

definition st32 :: "memory \<Rightarrow> u64 \<Rightarrow> u32 \<Rightarrow> memory" where
  "st32 m a v = st16 (st16 m a (ucast v)) (a + 2) (ucast (drop_bit 16 v))"

definition st64 :: "memory \<Rightarrow> u64 \<Rightarrow> u64 \<Rightarrow> memory" where
  "st64 m a v = st32 (st32 m a (ucast v)) (a + 4) (ucast (drop_bit 32 v))"

text \<open>\<open>memcpy\<close> into guest memory.\<close>

fun st_bytes :: "memory \<Rightarrow> u64 \<Rightarrow> u8 list \<Rightarrow> memory" where
  "st_bytes m a [] = m"
| "st_bytes m a (b # bs) = st_bytes (m(a := b)) (a + 1) bs"

text \<open>
  Address ranges may wrap around the end of the address space, so two ranges are apart when each
  starts no earlier than the other ends, walking upwards.
\<close>

definition apart :: "u64 \<Rightarrow> nat \<Rightarrow> u64 \<Rightarrow> nat \<Rightarrow> bool" where
  "apart a n b k \<longleftrightarrow> n \<le> unat (b - a) \<and> k \<le> unat (a - b)"

text \<open>The addresses an access of \<open>n\<close> bytes at \<open>a\<close> touches.\<close>

definition footprint :: "u64 \<Rightarrow> nat \<Rightarrow> u64 set" where
  "footprint a n = (\<lambda>i. a + of_nat i) ` {..<n}"

lemma footprint_0 [simp]: "footprint a 0 = {}"
  by (simp add: footprint_def)

lemma footprint_Suc: "footprint a (Suc n) = insert a (footprint (a + 1) n)"
proof -
  have "footprint a (Suc n) = (\<lambda>i. a + of_nat i) ` insert 0 (Suc ` {..<n})"
    by (simp add: footprint_def lessThan_Suc_eq_insert_0)
  also have "\<dots> = insert a ((\<lambda>i. a + of_nat (Suc i)) ` {..<n})"
    by (simp add: image_image)
  also have "(\<lambda>i. a + of_nat (Suc i)) ` {..<n} = footprint (a + 1) n"
    by (auto simp: footprint_def add.assoc)
  finally show ?thesis .
qed

lemma in_footprint: "i < n \<Longrightarrow> a + of_nat i \<in> footprint a n"
  by (auto simp: footprint_def)

lemma apart_offsets:
  assumes "apart a n b k" and "i < n" and "j < k"
  shows "a + of_nat i \<noteq> b + of_nat j"
proof
  assume eq: "a + of_nat i = b + of_nat j"
  have "n \<le> unat (b - a)" and "k \<le> unat (a - b)"
    using assms(1) by (auto simp: apart_def)
  then have bnd: "n < 18446744073709551616" "k < 18446744073709551616"
    using unat_lt_64 [of "b - a"] unat_lt_64 [of "a - b"] by linarith+
  show False
  proof (cases "j \<le> i")
    case True
    then have "b - a = of_nat (i - j)"
      using eq by (simp add: of_nat_diff algebra_simps)
    then have "unat (b - a) = i - j"
      using assms(2) bnd by (simp add: unat_of_nat_small)
    then show False using assms(1,2) by (auto simp: apart_def)
  next
    case False
    then have "a - b = of_nat (j - i)"
      using eq by (simp add: of_nat_diff algebra_simps)
    then have "unat (a - b) = j - i"
      using assms(3) bnd by (simp add: unat_of_nat_small)
    then show False using assms(1,3) False by (auto simp: apart_def)
  qed
qed

lemma apart_footprints: "apart a n b k \<Longrightarrow> footprint a n \<inter> footprint b k = {}"
  by (auto simp: footprint_def dest: apart_offsets)

lemma apart_sym: "apart a n b k \<longleftrightarrow> apart b k a n"
  by (auto simp: apart_def)

subsection \<open>Loads after stores\<close>

lemma bit_ld16: "bit (ld16 m a) i \<longleftrightarrow> i < 16 \<and> (if i < 8 then bit (m a) i else bit (m (a + 1)) (i - 8))"
  by (auto simp: ld16_def bit_word_cat_iff)

lemma bit_ld32: "bit (ld32 m a) i \<longleftrightarrow> i < 32 \<and> (if i < 16 then bit (ld16 m a) i else bit (ld16 m (a + 2)) (i - 16))"
  by (auto simp: ld32_def bit_word_cat_iff)

lemma bit_ld64: "bit (ld64 m a) i \<longleftrightarrow> i < 64 \<and> (if i < 32 then bit (ld32 m a) i else bit (ld32 m (a + 4)) (i - 32))"
  by (auto simp: ld64_def bit_word_cat_iff)

lemma footprint_2: "footprint a 2 = {a, a + 1}"
  by (simp add: footprint_Suc numeral_2_eq_2)

lemma st16_outside: "b \<notin> footprint a 2 \<Longrightarrow> st16 m a v b = m b"
  by (auto simp: st16_def footprint_Suc numeral_2_eq_2)

lemma footprint_split: "footprint a (n + k) = footprint a n \<union> footprint (a + of_nat n) k"
  by (induction n arbitrary: a) (auto simp: footprint_Suc add.assoc)

lemma footprint_4: "footprint a 4 = footprint a 2 \<union> footprint (a + 2) 2"
  using footprint_split [of a 2 2] by simp

lemma footprint_8: "footprint a 8 = footprint a 4 \<union> footprint (a + 4) 4"
  using footprint_split [of a 4 4] by simp

lemma st32_outside: "b \<notin> footprint a 4 \<Longrightarrow> st32 m a v b = m b"
  by (simp add: st32_def footprint_4 st16_outside)

lemma st64_outside: "b \<notin> footprint a 8 \<Longrightarrow> st64 m a v b = m b"
  by (simp add: st64_def footprint_8 st32_outside)

lemma st_bytes_outside: "b \<notin> footprint a (length bs) \<Longrightarrow> st_bytes m a bs b = m b"
  by (induction m a bs rule: st_bytes.induct) (auto simp: footprint_Suc)

lemma ld16_cong: "(\<And>b. b \<in> footprint a 2 \<Longrightarrow> m b = m' b) \<Longrightarrow> ld16 m a = ld16 m' a"
  by (simp add: ld16_def footprint_Suc numeral_2_eq_2)

lemma ld32_cong: "(\<And>b. b \<in> footprint a 4 \<Longrightarrow> m b = m' b) \<Longrightarrow> ld32 m a = ld32 m' a"
  unfolding ld32_def footprint_4 by (metis UnCI ld16_cong)

lemma ld64_cong: "(\<And>b. b \<in> footprint a 8 \<Longrightarrow> m b = m' b) \<Longrightarrow> ld64 m a = ld64 m' a"
  unfolding ld64_def footprint_8 by (metis UnCI ld32_cong)

text \<open>A load through a store that touches none of its bytes.\<close>

lemma ld16_st16_apart [mem_simps]: "apart a 2 b 2 \<Longrightarrow> ld16 (st16 m b v) a = ld16 m a"
  by (rule ld16_cong, rule st16_outside) (use apart_footprints in blast)

lemma ld16_st32_apart [mem_simps]: "apart a 2 b 4 \<Longrightarrow> ld16 (st32 m b v) a = ld16 m a"
  by (rule ld16_cong, rule st32_outside) (use apart_footprints in blast)

lemma ld32_st16_apart [mem_simps]: "apart a 4 b 2 \<Longrightarrow> ld32 (st16 m b v) a = ld32 m a"
  by (rule ld32_cong, rule st16_outside) (use apart_footprints in blast)

lemma ld32_st32_apart [mem_simps]: "apart a 4 b 4 \<Longrightarrow> ld32 (st32 m b v) a = ld32 m a"
  by (rule ld32_cong, rule st32_outside) (use apart_footprints in blast)

lemma ld16_st16_same [simp]: "ld16 (st16 m a v) a = v"
  by (rule bit_word_eqI) (auto simp: bit_ld16 st16_def bit_ucast_iff bit_drop_bit_eq)

lemma ld32_st32_same [simp]: "ld32 (st32 m a v) a = v"
proof (rule bit_word_eqI)
  fix i assume "i < LENGTH(32)"
  moreover have "apart a 2 (a + 2) 2"
    by (simp add: apart_def)
  ultimately show "bit (ld32 (st32 m a v) a) i = bit v i"
    by (auto simp: bit_ld32 st32_def ld16_st16_apart bit_ucast_iff bit_drop_bit_eq)
qed

lemma ld64_st64_same [simp]: "ld64 (st64 m a v) a = v"
proof (rule bit_word_eqI)
  fix i assume "i < LENGTH(64)"
  moreover have "apart a 4 (a + 4) 4"
    by (simp add: apart_def)
  ultimately show "bit (ld64 (st64 m a v) a) i = bit v i"
    by (auto simp: bit_ld64 st64_def ld32_st32_apart bit_ucast_iff bit_drop_bit_eq)
qed

lemma st_bytes_inside:
  "\<lbrakk>i < length bs; length bs \<le> 2 ^ 64\<rbrakk> \<Longrightarrow> st_bytes m a bs (a + of_nat i) = bs ! i"
proof (induction m a bs arbitrary: i rule: st_bytes.induct)
  case (2 m a b bs)
  show ?case
  proof (cases i)
    case 0
    have "a \<notin> footprint (a + 1) (length bs)"
    proof
      assume "a \<in> footprint (a + 1) (length bs)"
      then obtain j where j: "j < length bs" "a = a + 1 + of_nat j"
        by (auto simp: footprint_def)
      then have "(of_nat (Suc j) :: u64) = 0" by (simp add: add.assoc)
      moreover have "Suc j < 2 ^ 64" using j(1) "2.prems"(2) by simp
      ultimately show False
        using unat_of_nat_small [of "Suc j", where 'a = 64] by simp
    qed
    then show ?thesis using 0 by (simp add: st_bytes_outside)
  next
    case (Suc k)
    then show ?thesis using "2.IH" [of k] "2.prems" by (simp add: add.assoc fun_upd_def)
  qed
qed simp

subsection \<open>Confined writes\<close>

text \<open>Two memories agree outside a set of addresses.\<close>

definition mem_within :: "u64 set \<Rightarrow> memory \<Rightarrow> memory \<Rightarrow> bool" where
  "mem_within A m m' \<longleftrightarrow> (\<forall>a. a \<notin> A \<longrightarrow> m' a = m a)"

lemma mem_within_refl [simp, intro]: "mem_within A m m"
  by (simp add: mem_within_def)

lemma mem_within_trans [trans]: "mem_within A m m' \<Longrightarrow> mem_within A m' m'' \<Longrightarrow> mem_within A m m''"
  by (simp add: mem_within_def)

lemma mem_within_mono: "mem_within A m m' \<Longrightarrow> A \<subseteq> B \<Longrightarrow> mem_within B m m'"
  by (auto simp: mem_within_def)

lemma footprint_mono: "n \<le> k \<Longrightarrow> footprint a n \<subseteq> footprint a k"
  by (auto simp: footprint_def)

lemma footprint_offset: "i + n \<le> k \<Longrightarrow> footprint (a + of_nat i) n \<subseteq> footprint a k"
  using footprint_mono [of "i + n" k a] by (simp add: footprint_split)

lemma mem_within_st8: "footprint a 1 \<subseteq> A \<Longrightarrow> mem_within A m (st8 m a v)"
  by (auto simp: mem_within_def st8_def footprint_def)

lemma mem_within_st16: "footprint a 2 \<subseteq> A \<Longrightarrow> mem_within A m (st16 m a v)"
  using st16_outside by (fastforce simp: mem_within_def)

lemma mem_within_st32: "footprint a 4 \<subseteq> A \<Longrightarrow> mem_within A m (st32 m a v)"
  using st32_outside by (fastforce simp: mem_within_def)

lemma mem_within_st64: "footprint a 8 \<subseteq> A \<Longrightarrow> mem_within A m (st64 m a v)"
  using st64_outside by (fastforce simp: mem_within_def)

lemma mem_within_st_bytes: "footprint a (length bs) \<subseteq> A \<Longrightarrow> mem_within A m (st_bytes m a bs)"
  using st_bytes_outside by (fastforce simp: mem_within_def)

lemmas mem_within_intros = mem_within_st8 mem_within_st16 mem_within_st32 mem_within_st64 mem_within_st_bytes

text \<open>A further store, and the parts of a buffer by numeric offsets.\<close>

lemma mem_within_then:
  "mem_within A m m' \<Longrightarrow> footprint a 1 \<subseteq> A \<Longrightarrow> mem_within A m (st8 m' a v8)"
  "mem_within A m m' \<Longrightarrow> footprint a 2 \<subseteq> A \<Longrightarrow> mem_within A m (st16 m' a v16)"
  "mem_within A m m' \<Longrightarrow> footprint a 4 \<subseteq> A \<Longrightarrow> mem_within A m (st32 m' a v32)"
  "mem_within A m m' \<Longrightarrow> footprint a 8 \<subseteq> A \<Longrightarrow> mem_within A m (st64 m' a v64)"
  "mem_within A m m' \<Longrightarrow> footprint a (length bs) \<subseteq> A \<Longrightarrow> mem_within A m (st_bytes m' a bs)"
  by (blast intro: mem_within_trans mem_within_intros)+

lemma footprint_start: "n \<le> k \<Longrightarrow> footprint a n \<subseteq> footprint a k"
  by (rule footprint_mono)

lemma footprint_at: "numeral i + n \<le> k \<Longrightarrow> footprint (a + numeral i) n \<subseteq> footprint a k"
  using footprint_offset [of "numeral i" n k a] by simp

text \<open>The bytes of a 32-bit store, and a byte merged into a word that has a zero there.\<close>

lemma byte1: "ucast (drop_bit 8 (ucast (v :: u32) :: u16)) = (ucast (drop_bit 8 v) :: u8)"
  by (rule bit_word_eqI) (auto simp: bit_simps)

lemma byte3: "ucast (drop_bit 8 (ucast (drop_bit 16 (v :: u32)) :: u16)) = (ucast (drop_bit 24 v) :: u8)"
  by (rule bit_word_eqI) (auto simp: bit_simps)

lemma byte0: "ucast (ucast (v :: u32) :: u16) = (ucast v :: u8)"
  by (rule bit_word_eqI) (auto simp: bit_simps)

lemma byte2: "ucast (ucast (drop_bit 16 (v :: u32)) :: u16) = (ucast (drop_bit 16 v) :: u8)"
  by (rule bit_word_eqI) (auto simp: bit_simps)

lemma st32_bytes: "st32 m a v = m(a := ucast v, a + 1 := ucast (drop_bit 8 v), a + 2 := ucast (drop_bit 16 v), a + 3 := ucast (drop_bit 24 v))"
  by (simp add: st32_def st16_def byte0 byte1 byte2 byte3 add.assoc)

lemma ld32_byte:
  "ucast (ld32 m a) = m a" "ucast (drop_bit 8 (ld32 m a)) = m (a + 1)"
  "ucast (drop_bit 16 (ld32 m a)) = m (a + 2)" "ucast (drop_bit 24 (ld32 m a)) = m (a + 3)"
  by (rule bit_word_eqI, auto simp: bit_simps bit_ld32 bit_ld16 add.assoc)+

lemma placed_byte:
  "j < 4 \<Longrightarrow> k < 4 \<Longrightarrow> ucast (drop_bit (8 * j) (push_bit (8 * k) (ucast (p :: u8)) :: u32)) = (if j = k then p else 0 :: u8)"
proof (rule bit_word_eqI)
  fix n assume *: "j < 4" "k < 4" "n < LENGTH(8)"
  have "j \<noteq> k \<Longrightarrow> 8 * k \<le> 8 * j + n \<Longrightarrow> bit p (8 * j + n - 8 * k) \<Longrightarrow> False"
    using * bit_imp_le_length [of p "8 * j + n - 8 * k"] by simp
  then show "bit (ucast (drop_bit (8 * j) (push_bit (8 * k) (ucast p) :: u32)) :: u8) n = bit (if j = k then p else 0 :: u8) n"
    using * by (auto simp: bit_simps)
qed

lemma st32_or_byte:
  assumes "k < 4" and "m (a + of_nat k) = 0"
  shows "st32 m a (ld32 m a OR push_bit (8 * k) (ucast (p :: u8))) = m(a + of_nat k := p)"
proof -
  have b: "ucast (drop_bit (8 * j) (ld32 m a OR push_bit (8 * k) (ucast p))) = ucast (drop_bit (8 * j) (ld32 m a)) OR (if j = k then p else 0)"
    if "j < 4" for j
    using placed_byte [OF that assms(1)] by (simp add: unsigned_or_eq)
  have "ucast (ld32 m a OR push_bit (8 * k) (ucast p)) = m a OR (if 0 = k then p else 0)"
       "ucast (drop_bit 8 (ld32 m a OR push_bit (8 * k) (ucast p))) = m (a + 1) OR (if 1 = k then p else 0)"
       "ucast (drop_bit 16 (ld32 m a OR push_bit (8 * k) (ucast p))) = m (a + 2) OR (if 2 = k then p else 0)"
       "ucast (drop_bit 24 (ld32 m a OR push_bit (8 * k) (ucast p))) = m (a + 3) OR (if 3 = k then p else 0)"
    using b [of 0] b [of 1] b [of 2] b [of 3] by (simp_all add: ld32_byte)
  note eq = st32_bytes [of m a "ld32 m a OR push_bit (8 * k) (ucast p)", unfolded this]
  consider "k = 0" | "k = 1" | "k = 2" | "k = 3" using assms(1) by linarith
  then show ?thesis
    using assms(2) unfolding eq by cases (simp_all add: fun_eq_iff)
qed

lemma start_notin_next: "n < 2 ^ 64 \<Longrightarrow> (a :: u64) \<notin> footprint (a + 1) n"
proof
  assume "n < 2 ^ 64" and "a \<in> footprint (a + 1) n"
  then obtain i where "i < n" and "of_nat (Suc i) = (0 :: u64)"
    by (auto simp: footprint_def add.assoc)
  then show False
    using \<open>n < 2 ^ 64\<close> unat_of_nat_small [of "Suc i", where 'a = 64] by simp
qed

section \<open>The zone memory table\<close>

definition MAX_ZONES :: nat where [simp]: "MAX_ZONES = 32"

definition CONFIG_MAX_MEMORY_REGIONS :: nat where [simp]: "CONFIG_MAX_MEMORY_REGIONS = 64"

text \<open>
  One mapped region of a zone. The fixed array of \<open>CONFIG_MAX_MEMORY_REGIONS\<close> slots and its
  count are the list of the live slots.
\<close>

record zone_mem_region =
  virt_addr :: u64
  zone0_ipa :: u64
  zonex_ipa :: u64
  mem_size :: u64

type_synonym zone_mem = "nat \<Rightarrow> zone_mem_region list"

fun find_region :: "zone_mem_region list \<Rightarrow> u64 \<Rightarrow> u64" where
  "find_region [] ipa = 0"
| "find_region (r # rs) ipa =
     (if zonex_ipa r \<le> ipa \<and> ipa < zonex_ipa r + mem_size r
      then ipa - zonex_ipa r + virt_addr r
      else find_region rs ipa)"

definition get_virt_addr :: "zone_mem \<Rightarrow> u64 \<Rightarrow> int \<Rightarrow> u64" where
  "get_virt_addr zm ipa zone_id =
     (if zone_id < 0 \<or> zone_id \<ge> int MAX_ZONES then 0
      else find_region (zm (nat zone_id)) ipa)"

text \<open>
  A region is well formed when neither its guest range nor its daemon range wraps and the
  mapping is not at address zero. Ranges are sets of addresses.
\<close>

definition region_ok :: "zone_mem_region \<Rightarrow> bool" where
  "region_ok r \<longleftrightarrow> unat (zonex_ipa r) + unat (mem_size r) < 2 ^ 64
     \<and> unat (virt_addr r) + unat (mem_size r) < 2 ^ 64 \<and> virt_addr r \<noteq> 0"

definition addr_span :: "u64 \<Rightarrow> u64 \<Rightarrow> u64 set" where
  "addr_span start len = {a. start \<le> a \<and> unat a < unat start + unat len}"

abbreviation guest_span :: "zone_mem_region \<Rightarrow> u64 set" where
  "guest_span r \<equiv> addr_span (zonex_ipa r) (mem_size r)"

abbreviation host_span :: "zone_mem_region \<Rightarrow> u64 set" where
  "host_span r \<equiv> addr_span (virt_addr r) (mem_size r)"

text \<open>
  The table of a zone is well formed when all its regions are, no two overlap in the guest, and
  no two share daemon memory.
\<close>

definition regions_ok :: "zone_mem_region list \<Rightarrow> bool" where
  "regions_ok rs \<longleftrightarrow> (\<forall>r\<in>set rs. region_ok r)
     \<and> (\<forall>r\<in>set rs. \<forall>q\<in>set rs. r \<noteq> q \<longrightarrow> guest_span r \<inter> guest_span q = {} \<and> host_span r \<inter> host_span q = {})"

lemma addr_span_disjoint:
  "unat a + unat n \<le> unat b \<or> unat b + unat k \<le> unat a \<Longrightarrow> addr_span a n \<inter> addr_span b k = {}"
  by (auto simp: addr_span_def word_le_nat_alt)

lemma region_end: "region_ok r \<Longrightarrow> unat (zonex_ipa r + mem_size r) = unat (zonex_ipa r) + unat (mem_size r)"
  by (simp add: region_ok_def unat_word_ariths)

lemma in_guest_span:
  "region_ok r \<Longrightarrow> ipa \<in> guest_span r \<longleftrightarrow> zonex_ipa r \<le> ipa \<and> ipa < zonex_ipa r + mem_size r"
  by (simp add: addr_span_def region_end word_less_nat_alt)

lemma translated_unat:
  assumes "region_ok r" and "ipa \<in> guest_span r"
  shows "unat (ipa - zonex_ipa r + virt_addr r) = unat ipa - unat (zonex_ipa r) + unat (virt_addr r)"
proof -
  have "zonex_ipa r \<le> ipa" and lt: "unat ipa < unat (zonex_ipa r) + unat (mem_size r)"
    using assms(2) by (auto simp: addr_span_def)
  then have "unat (ipa - zonex_ipa r) = unat ipa - unat (zonex_ipa r)"
    by (simp add: unat_sub)
  moreover have "unat ipa - unat (zonex_ipa r) + unat (virt_addr r) < 2 ^ 64"
    using assms(1) lt by (auto simp: region_ok_def)
  ultimately show ?thesis by (simp add: unat_word_ariths)
qed

lemma translated_in_host:
  assumes "region_ok r" and "ipa \<in> guest_span r"
  shows "ipa - zonex_ipa r + virt_addr r \<in> host_span r"
  using assms(2) translated_unat [OF assms] by (auto simp: addr_span_def word_le_nat_alt)

lemma find_region_cases:
  "find_region rs ipa = 0 \<or>
   (\<exists>r\<in>set rs. zonex_ipa r \<le> ipa \<and> ipa < zonex_ipa r + mem_size r
      \<and> find_region rs ipa = ipa - zonex_ipa r + virt_addr r)"
  by (induction rs) auto

lemma find_region_hit:
  assumes "regions_ok rs" and "r \<in> set rs" and "ipa \<in> guest_span r"
  shows "find_region rs ipa = ipa - zonex_ipa r + virt_addr r"
  using assms
proof (induction rs)
  case (Cons q rs)
  have ok: "region_ok q" "region_ok r" using Cons.prems by (auto simp: regions_ok_def)
  have sub: "regions_ok rs" using Cons.prems(1) by (simp add: regions_ok_def)
  show ?case
  proof (cases "ipa \<in> guest_span q")
    case True
    then have "q = r" using Cons.prems by (auto simp: regions_ok_def)
    then show ?thesis using True ok by (simp add: in_guest_span)
  next
    case False
    then have "r \<in> set rs" using Cons.prems(2,3) by auto
    then show ?thesis using Cons.IH [OF sub] Cons.prems(3) False ok(1) by (auto simp: in_guest_span)
  qed
qed simp

lemma find_region_miss:
  assumes "regions_ok rs" and "\<forall>r\<in>set rs. ipa \<notin> guest_span r"
  shows "find_region rs ipa = 0"
  using assms
proof (induction rs)
  case (Cons q rs)
  then show ?case using in_guest_span [of q ipa] by (auto simp: regions_ok_def)
qed simp

text \<open>A daemon address is backed for a zone when it lies in a mapping of that zone.\<close>

definition zone_backed :: "zone_mem \<Rightarrow> int \<Rightarrow> u64 \<Rightarrow> bool" where
  "zone_backed zm zone_id a \<longleftrightarrow> 0 \<le> zone_id \<and> zone_id < int MAX_ZONES
     \<and> (\<exists>r\<in>set (zm (nat zone_id)). a - virt_addr r < mem_size r)"

lemma covered_offset:
  fixes lef ipa n :: u64
  assumes "lef \<le> ipa" and "ipa < lef + n"
  shows "ipa - lef < n"
proof -
  have "unat (lef + n) \<le> unat lef + unat n"
    by (simp add: unat_word_ariths)
  then have "unat ipa < unat lef + unat n"
    using assms(2) by (simp add: word_less_nat_alt)
  then show ?thesis
    using assms(1) by (simp add: word_less_nat_alt unat_sub word_le_nat_alt less_diff_conv2)
qed

text \<open>
  The interface the virtqueue code relies on: a translation that answers zero or an address
  that is backed. The client lemmas are stated once for every such translation.
\<close>

locale address_translation =
  fixes translate :: "u64 \<Rightarrow> u64"
    and backed :: "u64 \<Rightarrow> bool"
  assumes translate_backed: "translate ipa \<noteq> 0 \<Longrightarrow> backed (translate ipa)"

interpretation gva: address_translation "\<lambda>ipa. get_virt_addr zm ipa zid" "zone_backed zm zid" for zm zid
proof
  fix ipa assume nz: "get_virt_addr zm ipa zid \<noteq> 0"
  then have zid: "0 \<le> zid" "zid < int MAX_ZONES" and eq: "get_virt_addr zm ipa zid = find_region (zm (nat zid)) ipa"
    by (auto simp: get_virt_addr_def split: if_splits)
  then show "zone_backed zm zid (get_virt_addr zm ipa zid)"
    using nz find_region_cases [of "zm (nat zid)" ipa]
    by (auto simp: zone_backed_def covered_offset intro!: bexI [rotated])
qed

text \<open>
  C18: In a zone whose regions are well formed and disjoint, a guest address inside a region is
  translated to the byte at the same offset of that region's mapping, and that byte is never the
  null pointer. A guest address in no region is translated to the null pointer.
\<close>

theorem get_virt_addr_exact:
  assumes "regions_ok (zm z)" and "z < MAX_ZONES"
  shows "(\<forall>r\<in>set (zm z). ipa \<in> guest_span r \<longrightarrow>
             unat (get_virt_addr zm ipa (int z)) = unat (virt_addr r) + (unat ipa - unat (zonex_ipa r))
             \<and> get_virt_addr zm ipa (int z) \<in> host_span r \<and> get_virt_addr zm ipa (int z) \<noteq> 0)
         \<and> ((\<forall>r\<in>set (zm z). ipa \<notin> guest_span r) \<longrightarrow> get_virt_addr zm ipa (int z) = 0)"
proof (intro conjI ballI impI)
  fix r assume r: "r \<in> set (zm z)" and ipa: "ipa \<in> guest_span r"
  have ok: "region_ok r" using assms(1) r by (simp add: regions_ok_def)
  have eq: "get_virt_addr zm ipa (int z) = ipa - zonex_ipa r + virt_addr r"
    using assms(2) find_region_hit [OF assms(1) r ipa] by (simp add: get_virt_addr_def)
  show val: "unat (get_virt_addr zm ipa (int z)) = unat (virt_addr r) + (unat ipa - unat (zonex_ipa r))"
    using eq translated_unat [OF ok ipa] by simp
  show "get_virt_addr zm ipa (int z) \<in> host_span r"
    using eq translated_in_host [OF ok ipa] by simp
  have "unat (virt_addr r) \<noteq> 0" using ok by (simp add: region_ok_def unat_eq_0)
  then show "get_virt_addr zm ipa (int z) \<noteq> 0"
    using val by (metis add_is_0 unsigned_0)
next
  assume "\<forall>r\<in>set (zm z). ipa \<notin> guest_span r"
  then show "get_virt_addr zm ipa (int z) = 0"
    using assms find_region_miss by (simp add: get_virt_addr_def)
qed

text \<open>A zone with two regions, as a configuration file would map them.\<close>

definition example_regions :: "zone_mem_region list" where
  "example_regions =
     [\<lparr>virt_addr = 0x7f0000000000, zone0_ipa = 0x50000000, zonex_ipa = 0x50000000, mem_size = 0x15000000\<rparr>,
      \<lparr>virt_addr = 0x7f0080000000, zone0_ipa = 0x80000000, zonex_ipa = 0x70000000, mem_size = 0x1000\<rparr>]"

lemma example_regions_ok: "regions_ok example_regions"
  by (simp add: regions_ok_def region_ok_def example_regions_def addr_span_disjoint)

lemma get_virt_addr_exact_witness:
  "get_virt_addr (\<lambda>_. example_regions) 0x70000010 1 = 0x7f0080000010
   \<and> get_virt_addr (\<lambda>_. example_regions) 0x10 1 = 0"
  using get_virt_addr_exact [of "\<lambda>_. example_regions" 1 "0x70000010"]
    get_virt_addr_exact [of "\<lambda>_. example_regions" 1 "0x10"] example_regions_ok
  by (simp add: example_regions_def addr_span_def word_le_nat_alt word_unat_eq_iff)

text \<open>
  Translation never aliases: in a well-formed zone two guest addresses that are both mapped
  and are translated to the same daemon address are the same guest address.
\<close>

theorem get_virt_addr_inj:
  assumes "regions_ok (zm z)" and "z < MAX_ZONES"
    and "get_virt_addr zm ipa (int z) = get_virt_addr zm ipb (int z)"
    and "get_virt_addr zm ipa (int z) \<noteq> 0"
  shows "ipa = ipb"
proof -
  have z: "get_virt_addr zm x (int z) = find_region (zm z) x" for x
    using assms(2) by (simp add: get_virt_addr_def)
  obtain r where r: "r \<in> set (zm z)" "ipa \<in> guest_span r"
    using assms(1,4) find_region_miss z by metis
  obtain q where q: "q \<in> set (zm z)" "ipb \<in> guest_span q"
    using assms(1,3,4) find_region_miss z by metis
  have ok: "region_ok r" "region_ok q" using assms(1) r q by (auto simp: regions_ok_def)
  have eq: "ipa - zonex_ipa r + virt_addr r = ipb - zonex_ipa q + virt_addr q"
    using assms(1,3) r q z by (simp add: find_region_hit)
  then have shared: "host_span r \<inter> host_span q \<noteq> {}"
    using translated_in_host [OF ok(1) r(2)] translated_in_host [OF ok(2) q(2)] by auto
  have "r = q"
  proof (rule ccontr)
    assume "r \<noteq> q"
    then show False using assms(1) r(1) q(1) shared by (simp add: regions_ok_def)
  qed
  then show ?thesis using eq by simp
qed

lemma get_virt_addr_inj_witness:
  "\<forall>ipa. (get_virt_addr (\<lambda>_. example_regions) ipa 1 = 0x7f0000000001) = (ipa = 0x50000001)"
proof
  fix ipa
  have v: "get_virt_addr (\<lambda>_. example_regions) 0x50000001 1 = 0x7f0000000001"
    by (simp add: get_virt_addr_def example_regions_def)
  then show "(get_virt_addr (\<lambda>_. example_regions) ipa 1 = 0x7f0000000001) = (ipa = 0x50000001)"
    using get_virt_addr_inj [of "\<lambda>_. example_regions" 1 ipa "0x50000001"] example_regions_ok by auto
qed

end
