(* ===== verification/Virtqueue.thy ===== *)
theory Virtqueue
  imports Guest_Memory
begin

text \<open>
  The split virtqueue of \<^verbatim>\<open>src/tools/virtio/virtio.c\<close>: the descriptor table, the available ring and
  the used ring a driver lays out in guest memory, the routine that turns a descriptor chain
  into I/O vectors of the caller, and the suppression of notifications. The layouts and flag values of \<^verbatim>\<open>linux/virtio_ring.h\<close> are those of the virtio
  specification. Table lookups past the end of a driver's table read whatever byte lies there;
  a null table is undefined behaviour.
\<close>

section \<open>Layouts\<close>

definition VRING_DESC_F_NEXT :: u16 where [simp]: "VRING_DESC_F_NEXT = 1"
definition VRING_DESC_F_WRITE :: u16 where [simp]: "VRING_DESC_F_WRITE = 2"
definition VRING_DESC_F_INDIRECT :: u16 where [simp]: "VRING_DESC_F_INDIRECT = 4"
definition VRING_USED_F_NO_NOTIFY :: u16 where [simp]: "VRING_USED_F_NO_NOTIFY = 1"
definition VRING_AVAIL_F_NO_INTERRUPT :: u16 where [simp]: "VRING_AVAIL_F_NO_INTERRUPT = 1"

record VirtqDesc =
  d_addr :: u64
  d_len :: u32
  d_flags :: u16
  d_next :: u16

definition ld_desc :: "memory \<Rightarrow> u64 \<Rightarrow> u16 \<Rightarrow> VirtqDesc" where
  "ld_desc m tbl i = (let a = tbl + 16 * ucast i in
     \<lparr>d_addr = ld64 m a, d_len = ld32 m (a + 8), d_flags = ld16 m (a + 12), d_next = ld16 m (a + 14)\<rparr>)"

text \<open>Fields of the available ring and of the used ring, by address.\<close>

definition avail_flags_at :: "u64 \<Rightarrow> u64" where "avail_flags_at r = r"
definition avail_idx_at :: "u64 \<Rightarrow> u64" where "avail_idx_at r = r + 2"
definition avail_ring_at :: "u64 \<Rightarrow> u64 \<Rightarrow> u64" where "avail_ring_at r i = r + 4 + 2 * i"
definition used_flags_at :: "u64 \<Rightarrow> u64" where "used_flags_at r = r"
definition used_idx_at :: "u64 \<Rightarrow> u64" where "used_idx_at r = r + 2"
definition used_elem_at :: "u64 \<Rightarrow> u64 \<Rightarrow> u64" where "used_elem_at r i = r + 4 + 8 * i"

text \<open>
  The queue. \<open>notify_handler\<close> is the slot of the device's handler table the queue was given; the
  back pointer \<open>dev\<close> is replaced by passing the device (or its zone) to the functions that follow
  it. The mutex has no state here.
\<close>

record VirtQueue =
  vq_idx :: u64
  vq_num :: u64
  queue_num_max :: u32
  desc_table_addr :: u64
  avail_addr :: u64
  used_addr :: u64
  desc_table :: u64
  avail_ring :: u64
  used_ring :: u64
  notify_handler :: "nat option"
  last_avail_idx :: u16
  last_used_idx :: u16
  vq_ready :: u8
  event_idx_enabled :: u8

record iovec =
  iov_base :: u64
  iov_len :: u64

section \<open>Queue set-up and notification control\<close>

definition zero_vq :: VirtQueue where
  "zero_vq = \<lparr>vq_idx = 0, vq_num = 0, queue_num_max = 0, desc_table_addr = 0, avail_addr = 0,
     used_addr = 0, desc_table = 0, avail_ring = 0, used_ring = 0, notify_handler = None,
     last_avail_idx = 0, last_used_idx = 0, vq_ready = 0, event_idx_enabled = 0\<rparr>"

definition virtqueue_reset :: "VirtQueue \<Rightarrow> u64 \<Rightarrow> VirtQueue" where
  "virtqueue_reset vq idx = zero_vq\<lparr>vq_idx := idx, notify_handler := notify_handler vq,
     queue_num_max := queue_num_max vq\<rparr>"

definition vq_is_empty :: "memory \<Rightarrow> VirtQueue \<Rightarrow> bool" where
  "vq_is_empty m vq =
     (if avail_ring vq = 0 then True
      else ld16 m (avail_idx_at (avail_ring vq)) = last_avail_idx vq)"

definition virtqueue_is_empty :: "memory \<Rightarrow> VirtQueue \<Rightarrow> bool" where
  "virtqueue_is_empty m vq = vq_is_empty m vq"

definition desc_is_writable :: "memory \<Rightarrow> u64 \<Rightarrow> u16 \<Rightarrow> bool" where
  "desc_is_writable m tbl idx \<longleftrightarrow> has_flag (d_flags (ld_desc m tbl idx)) VRING_DESC_F_WRITE"

definition VQ_USED_EVENT :: "memory \<Rightarrow> VirtQueue \<Rightarrow> u16" where
  "VQ_USED_EVENT m vq = ld16 m (avail_ring_at (avail_ring vq) (vq_num vq))"

definition VQ_AVAIL_EVENT :: "VirtQueue \<Rightarrow> u64" where
  "VQ_AVAIL_EVENT vq = used_elem_at (used_ring vq) (vq_num vq)"

definition virtqueue_disable_notify :: "memory \<Rightarrow> VirtQueue \<Rightarrow> memory option" where
  "virtqueue_disable_notify m vq =
     (if used_ring vq = 0 then None
      else if event_idx_enabled vq \<noteq> 0
      then Some (st16 m (VQ_AVAIL_EVENT vq) (last_avail_idx vq - 1))
      else Some (st16 m (used_flags_at (used_ring vq))
                   (ld16 m (used_flags_at (used_ring vq)) OR VRING_USED_F_NO_NOTIFY)))"

definition virtqueue_enable_notify :: "memory \<Rightarrow> VirtQueue \<Rightarrow> memory option" where
  "virtqueue_enable_notify m vq =
     (if used_ring vq = 0 then None
      else if event_idx_enabled vq \<noteq> 0
      then (if avail_ring vq = 0 then None
            else Some (st16 m (VQ_AVAIL_EVENT vq) (ld16 m (avail_idx_at (avail_ring vq)))))
      else Some (st16 m (used_flags_at (used_ring vq))
                   (ld16 m (used_flags_at (used_ring vq)) AND NOT VRING_USED_F_NO_NOTIFY)))"

definition virtqueue_set_desc_table :: "zone_mem \<Rightarrow> int \<Rightarrow> VirtQueue \<Rightarrow> VirtQueue" where
  "virtqueue_set_desc_table zm zone_id vq =
     vq\<lparr>desc_table := get_virt_addr zm (desc_table_addr vq) zone_id\<rparr>"

definition virtqueue_set_avail :: "zone_mem \<Rightarrow> int \<Rightarrow> VirtQueue \<Rightarrow> VirtQueue" where
  "virtqueue_set_avail zm zone_id vq = vq\<lparr>avail_ring := get_virt_addr zm (avail_addr vq) zone_id\<rparr>"

definition virtqueue_set_used :: "zone_mem \<Rightarrow> int \<Rightarrow> VirtQueue \<Rightarrow> VirtQueue" where
  "virtqueue_set_used zm zone_id vq = vq\<lparr>used_ring := get_virt_addr zm (used_addr vq) zone_id\<rparr>"

section \<open>Descriptor chains into caller-provided buffers\<close>

text \<open>The head of the next chain: \<open>avail_ring->ring[last_avail_idx & (num - 1)]\<close>.\<close>

definition next_head :: "VirtQueue \<Rightarrow> memory \<Rightarrow> u16" where
  "next_head vq m = ld16 m (avail_ring_at (avail_ring vq) (ucast (last_avail_idx vq) AND (vq_num vq - 1)))"

text \<open>The bytes of a buffer.\<close>

definition iov_bytes :: "iovec \<Rightarrow> u64 set" where
  "iov_bytes v = footprint (iov_base v) (unat (iov_len v))"

definition iovs_bytes :: "iovec list \<Rightarrow> u64 set" where
  "iovs_bytes vs = (\<Union>v\<in>set vs. iov_bytes v)"

lemma iovs_bytes_member: "v \<in> set vs \<Longrightarrow> iov_bytes v \<subseteq> iovs_bytes vs"
  by (auto simp: iovs_bytes_def)

text \<open>The kernel fills the buffers of a read one after the other.\<close>

fun scatter :: "iovec list \<Rightarrow> u8 list \<Rightarrow> memory \<Rightarrow> memory" where
  "scatter [] bs m = m"
| "scatter (v # vs) bs m =
     (let n = unat (iov_len v) in scatter vs (drop n bs) (st_bytes m (iov_base v) (take n bs)))"

lemma mem_within_scatter: "iovs_bytes vs \<subseteq> A \<Longrightarrow> mem_within A m (scatter vs bs m)"
proof (induction vs arbitrary: bs m)
  case (Cons v vs)
  have "footprint (iov_base v) (length (take (unat (iov_len v)) bs)) \<subseteq> A"
    using Cons.prems footprint_mono [of "length (take (unat (iov_len v)) bs)" "unat (iov_len v)" "iov_base v"]
    by (auto simp: iovs_bytes_def iov_bytes_def)
  moreover have "iovs_bytes vs \<subseteq> A" using Cons.prems by (simp add: iovs_bytes_def)
  ultimately show ?case
    unfolding scatter.simps Let_def by (rule mem_within_trans [OF mem_within_st_bytes Cons.IH])
qed simp

record VirtioBufConfig =
  max_out :: nat
  max_in :: nat

record VirtioRequest =
  out_iov :: "iovec list"
  in_iov :: "iovec list"

text \<open>The populated prefixes of the two caller-provided arrays; failure is the code -1.\<close>

type_synonym iovs = "iovec list \<times> iovec list"

definition push_descriptor :: "u16 \<Rightarrow> u64 \<Rightarrow> u32 \<Rightarrow> VirtioBufConfig \<Rightarrow> iovs \<Rightarrow> iovs cres" where
  "push_descriptor flags address len cfg acc =
     (let v = \<lparr>iov_base = address, iov_len = ucast len\<rparr> in
      if has_flag flags VRING_DESC_F_WRITE
      then (if length (snd acc) \<ge> max_in cfg then Err (-1) else Ok (fst acc, snd acc @ [v]))
      else (if length (fst acc) \<ge> max_out cfg then Err (-1) else Ok (fst acc @ [v], snd acc)))"

text \<open>
  The loop over an indirect table. The \<open>nat\<close> argument counts the iterations of the \<open>for\<close> loop
  that are left.
\<close>

fun walk_indirect :: "(u64 \<Rightarrow> u64) \<Rightarrow> memory \<Rightarrow> VirtioBufConfig \<Rightarrow> u64 \<Rightarrow> nat \<Rightarrow> nat \<Rightarrow> u16 \<Rightarrow> iovs
    \<Rightarrow> iovs cres option" where
  "walk_indirect tr m cfg tbl cnt 0 nxt acc = Some (Ok acc)"
| "walk_indirect tr m cfg tbl cnt (Suc k) nxt acc =
     (if unat nxt \<ge> cnt then Some (Err (-1))
      else if tbl = 0 then None
      else let d = ld_desc m tbl nxt; a = tr (d_addr d) in
        if a = 0 then Some (Err (-1))
        else case push_descriptor (d_flags d) a (d_len d) cfg acc of
          Err e \<Rightarrow> Some (Err (-1))
        | Ok acc' \<Rightarrow>
            if has_flag (d_flags d) VRING_DESC_F_NEXT
            then walk_indirect tr m cfg tbl cnt k (d_next d) acc'
            else Some (Ok acc'))"

text \<open>The outer loop, over the queue's own table.\<close>

fun walk_chain :: "(u64 \<Rightarrow> u64) \<Rightarrow> memory \<Rightarrow> VirtioBufConfig \<Rightarrow> u64 \<Rightarrow> nat \<Rightarrow> u16 \<Rightarrow> iovs
    \<Rightarrow> iovs cres option" where
  "walk_chain tr m cfg tbl 0 nxt acc = Some (Ok acc)"
| "walk_chain tr m cfg tbl (Suc k) nxt acc =
     (if tbl = 0 then None
      else let d = ld_desc m tbl nxt;
        r = (if has_flag (d_flags d) VRING_DESC_F_INDIRECT
             then let cnt = unat (d_len d) div 16 in
                  walk_indirect tr m cfg (tr (d_addr d)) cnt cnt 0 acc
             else let a = tr (d_addr d) in
                  if a = 0 then Some (Err (-1))
                  else case push_descriptor (d_flags d) a (d_len d) cfg acc of
                    Err e \<Rightarrow> Some (Err (-1)) | Ok acc' \<Rightarrow> Some (Ok acc'))
      in case r of
           None \<Rightarrow> None
         | Some (Err e) \<Rightarrow> Some (Err e)
         | Some (Ok acc') \<Rightarrow>
             if has_flag (d_flags d) VRING_DESC_F_NEXT
             then walk_chain tr m cfg tbl k (d_next d) acc'
             else Some (Ok acc'))"

definition process_descriptor_chain_buf ::
  "zone_mem \<Rightarrow> int \<Rightarrow> memory \<Rightarrow> VirtQueue \<Rightarrow> u16 \<Rightarrow> VirtioBufConfig \<Rightarrow> VirtioRequest
    \<Rightarrow> (int \<times> VirtQueue \<times> VirtioRequest) option" where
  "process_descriptor_chain_buf zm zone_id m vq head cfg req =
     (case walk_chain (\<lambda>ipa. get_virt_addr zm ipa zone_id) m cfg (desc_table vq)
             (unat (vq_num vq)) head ([], []) of
        None \<Rightarrow> None
      | Some (Err e) \<Rightarrow> Some (e, vq, req)
      | Some (Ok (outs, ins)) \<Rightarrow>
          Some (to_c_int (int (length outs + length ins)),
                vq\<lparr>last_avail_idx := last_avail_idx vq + 1\<rparr>,
                \<lparr>out_iov = outs, in_iov = ins\<rparr>))"

subsection \<open>The reference: flatten the chain, then split it by direction\<close>

text \<open>
  What the virtio specification says a chain means, without buffers: follow the \<open>next\<close> links of
  the table, with an indirect descriptor replaced by the chain of its own table. \<open>None\<close> is a
  malformed chain (a null table, or an indirect link past the end of its table).
\<close>

fun indirect_descs :: "memory \<Rightarrow> u64 \<Rightarrow> nat \<Rightarrow> nat \<Rightarrow> u16 \<Rightarrow> VirtqDesc list option" where
  "indirect_descs m tbl cnt 0 nxt = Some []"
| "indirect_descs m tbl cnt (Suc k) nxt =
     (if unat nxt \<ge> cnt \<or> tbl = 0 then None
      else let d = ld_desc m tbl nxt in
        if has_flag (d_flags d) VRING_DESC_F_NEXT
        then map_option (Cons d) (indirect_descs m tbl cnt k (d_next d))
        else Some [d])"

fun chain_descs :: "(u64 \<Rightarrow> u64) \<Rightarrow> memory \<Rightarrow> u64 \<Rightarrow> nat \<Rightarrow> u16 \<Rightarrow> VirtqDesc list option" where
  "chain_descs tr m tbl 0 nxt = Some []"
| "chain_descs tr m tbl (Suc k) nxt =
     (if tbl = 0 then None
      else let d = ld_desc m tbl nxt; cnt = unat (d_len d) div 16;
        here = (if has_flag (d_flags d) VRING_DESC_F_INDIRECT
                then indirect_descs m (tr (d_addr d)) cnt cnt 0 else Some [d]);
        rest = (if has_flag (d_flags d) VRING_DESC_F_NEXT
                then chain_descs tr m tbl k (d_next d) else Some [])
      in Option.bind here (\<lambda>xs. map_option ((@) xs) rest))"

definition desc_iov :: "(u64 \<Rightarrow> u64) \<Rightarrow> VirtqDesc \<Rightarrow> iovec" where
  "desc_iov tr d = \<lparr>iov_base = tr (d_addr d), iov_len = ucast (d_len d)\<rparr>"

abbreviation d_writable :: "VirtqDesc \<Rightarrow> bool" where
  "d_writable d \<equiv> has_flag (d_flags d) VRING_DESC_F_WRITE"

definition gather :: "(u64 \<Rightarrow> u64) \<Rightarrow> iovs \<Rightarrow> VirtqDesc list \<Rightarrow> iovs" where
  "gather tr acc ds = (fst acc @ map (desc_iov tr) (filter (\<lambda>d. \<not> d_writable d) ds),
                       snd acc @ map (desc_iov tr) (filter d_writable ds))"

definition iovs_fit :: "VirtioBufConfig \<Rightarrow> iovs \<Rightarrow> bool" where
  "iovs_fit cfg acc \<longleftrightarrow> length (fst acc) \<le> max_out cfg \<and> length (snd acc) \<le> max_in cfg"

lemma gather_Nil [simp]: "gather tr acc [] = acc"
  by (simp add: gather_def)

lemma gather_gather [simp]: "gather tr (gather tr acc xs) ys = gather tr acc (xs @ ys)"
  by (simp add: gather_def)

lemma iovs_fit_gather: "iovs_fit cfg (gather tr acc ds) \<Longrightarrow> iovs_fit cfg acc"
  by (simp add: gather_def iovs_fit_def)

lemma push_descriptor_Ok:
  assumes "iovs_fit cfg acc"
  shows "push_descriptor (d_flags d) (tr (d_addr d)) (d_len d) cfg acc = Ok acc'
         \<longleftrightarrow> acc' = gather tr acc [d] \<and> iovs_fit cfg acc'"
  using assms by (cases acc) (auto simp: push_descriptor_def gather_def iovs_fit_def desc_iov_def Let_def)

lemma push_descriptor_Err:
  "push_descriptor f a l cfg acc = Err e \<Longrightarrow> e = -1"
  by (auto simp: push_descriptor_def Let_def split: if_splits)

text \<open>One descriptor pushed and the rest of the chain, against the flattened list.\<close>

lemma push_then_rest:
  assumes "iovs_fit cfg acc" and "tr (d_addr d) \<noteq> 0"
    and "\<And>acc1. iovs_fit cfg acc1 \<Longrightarrow> go acc1 = Some (Ok acc') \<longleftrightarrow>
           (\<exists>ds. rest = Some ds \<and> (\<forall>d\<in>set ds. tr (d_addr d) \<noteq> 0) \<and> acc' = gather tr acc1 ds \<and> iovs_fit cfg acc')"
  shows "(case push_descriptor (d_flags d) (tr (d_addr d)) (d_len d) cfg acc of
            Err e \<Rightarrow> Some (Err (-1)) | Ok acc1 \<Rightarrow> go acc1) = Some (Ok acc') \<longleftrightarrow>
         (\<exists>ds. map_option (Cons d) rest = Some ds \<and> (\<forall>d\<in>set ds. tr (d_addr d) \<noteq> 0)
            \<and> acc' = gather tr acc ds \<and> iovs_fit cfg acc')"
proof (cases "push_descriptor (d_flags d) (tr (d_addr d)) (d_len d) cfg acc")
  case (Ok acc1)
  then have "acc1 = gather tr acc [d]" and "iovs_fit cfg acc1"
    using push_descriptor_Ok [OF assms(1), of d tr acc1] by auto
  then show ?thesis
    using assms(2,3) Ok by (cases rest) simp_all
next
  case (Err e)
  then have "\<not> iovs_fit cfg (gather tr acc [d])"
    using push_descriptor_Ok [OF assms(1), of d tr "gather tr acc [d]"] by auto
  then have "\<not> iovs_fit cfg (gather tr acc (d # ds))" for ds
    using iovs_fit_gather [of cfg tr "gather tr acc [d]" ds] by auto
  then show ?thesis using Err by (cases rest) auto
qed

lemma walk_indirect_Ok:
  "iovs_fit cfg acc \<Longrightarrow>
   walk_indirect tr m cfg tbl cnt k nxt acc = Some (Ok acc') \<longleftrightarrow>
     (\<exists>ds. indirect_descs m tbl cnt k nxt = Some ds \<and> (\<forall>d\<in>set ds. tr (d_addr d) \<noteq> 0)
        \<and> acc' = gather tr acc ds \<and> iovs_fit cfg acc')"
proof (induction k arbitrary: nxt acc)
  case (Suc k)
  define d where "d = ld_desc m tbl nxt"
  define more where "more = has_flag (d_flags d) VRING_DESC_F_NEXT"
  define go where "go acc1 = (if more then walk_indirect tr m cfg tbl cnt k (d_next d) acc1
                              else Some (Ok acc1))" for acc1
  define rest where "rest = (if more then indirect_descs m tbl cnt k (d_next d) else Some [])"
  have go: "go acc1 = Some (Ok acc') \<longleftrightarrow>
      (\<exists>ds. rest = Some ds \<and> (\<forall>d\<in>set ds. tr (d_addr d) \<noteq> 0) \<and> acc' = gather tr acc1 ds \<and> iovs_fit cfg acc')"
    if "iovs_fit cfg acc1" for acc1
    using that Suc.IH [OF that] by (auto simp: go_def rest_def)
  have walk: "walk_indirect tr m cfg tbl cnt (Suc k) nxt acc =
      (if unat nxt \<ge> cnt then Some (Err (-1)) else if tbl = 0 then None
       else if tr (d_addr d) = 0 then Some (Err (-1))
       else case push_descriptor (d_flags d) (tr (d_addr d)) (d_len d) cfg acc of
              Err e \<Rightarrow> Some (Err (-1)) | Ok acc1 \<Rightarrow> go acc1)"
    by (simp only: walk_indirect.simps Let_def d_def go_def more_def)
  have descs: "indirect_descs m tbl cnt (Suc k) nxt =
      (if unat nxt \<ge> cnt \<or> tbl = 0 then None else map_option (Cons d) rest)"
    by (simp add: Let_def d_def rest_def more_def)
  show ?case
    unfolding walk descs
    using push_then_rest [OF Suc.prems _ go, of d] by (cases rest) (auto split: if_splits)
qed auto

lemma case_cres_Ok:
  "(case r of None \<Rightarrow> None | Some (Err e) \<Rightarrow> Some (Err e) | Some (Ok a) \<Rightarrow> go a) = Some (Ok b)
   \<longleftrightarrow> (\<exists>a. r = Some (Ok a) \<and> go a = Some (Ok b))"
  by (auto split: option.splits cres.splits)

text \<open>What one descriptor of the queue's table contributes.\<close>

definition walk_here :: "(u64 \<Rightarrow> u64) \<Rightarrow> memory \<Rightarrow> VirtioBufConfig \<Rightarrow> VirtqDesc \<Rightarrow> iovs \<Rightarrow> iovs cres option" where
  "walk_here tr m cfg d acc =
     (if has_flag (d_flags d) VRING_DESC_F_INDIRECT
      then let cnt = unat (d_len d) div 16 in walk_indirect tr m cfg (tr (d_addr d)) cnt cnt 0 acc
      else let a = tr (d_addr d) in
           if a = 0 then Some (Err (-1))
           else case push_descriptor (d_flags d) a (d_len d) cfg acc of
             Err e \<Rightarrow> Some (Err (-1)) | Ok acc' \<Rightarrow> Some (Ok acc'))"

definition descs_here :: "(u64 \<Rightarrow> u64) \<Rightarrow> memory \<Rightarrow> VirtqDesc \<Rightarrow> VirtqDesc list option" where
  "descs_here tr m d =
     (let cnt = unat (d_len d) div 16 in
      if has_flag (d_flags d) VRING_DESC_F_INDIRECT
      then indirect_descs m (tr (d_addr d)) cnt cnt 0 else Some [d])"

lemma walk_here_Ok:
  assumes "iovs_fit cfg acc"
  shows "walk_here tr m cfg d acc = Some (Ok acc') \<longleftrightarrow>
     (\<exists>ds. descs_here tr m d = Some ds \<and> (\<forall>d\<in>set ds. tr (d_addr d) \<noteq> 0)
        \<and> acc' = gather tr acc ds \<and> iovs_fit cfg acc')"
proof (cases "has_flag (d_flags d) VRING_DESC_F_INDIRECT")
  case True
  then show ?thesis using walk_indirect_Ok [OF assms] by (simp add: walk_here_def descs_here_def Let_def)
next
  case False
  have "iovs_fit cfg acc1 \<Longrightarrow> Some (Ok acc1) = Some (Ok acc') \<longleftrightarrow>
      (\<exists>ds. Some [] = Some ds \<and> (\<forall>d\<in>set ds. tr (d_addr d) \<noteq> 0) \<and> acc' = gather tr acc1 ds \<and> iovs_fit cfg acc')"
    for acc1 by auto
  from push_then_rest [OF assms _ this, of d] show ?thesis
    using False by (cases "tr (d_addr d) = 0") (auto simp: walk_here_def descs_here_def Let_def)
qed

lemma walk_chain_Ok:
  "iovs_fit cfg acc \<Longrightarrow>
   walk_chain tr m cfg tbl k nxt acc = Some (Ok acc') \<longleftrightarrow>
     (\<exists>ds. chain_descs tr m tbl k nxt = Some ds \<and> (\<forall>d\<in>set ds. tr (d_addr d) \<noteq> 0)
        \<and> acc' = gather tr acc ds \<and> iovs_fit cfg acc')"
proof (induction k arbitrary: nxt acc)
  case (Suc k)
  define d where "d = ld_desc m tbl nxt"
  define more where "more = has_flag (d_flags d) VRING_DESC_F_NEXT"
  define go where "go acc1 = (if more then walk_chain tr m cfg tbl k (d_next d) acc1
                              else Some (Ok acc1))" for acc1
  define rest where "rest = (if more then chain_descs tr m tbl k (d_next d) else Some [])"
  have go: "go acc1 = Some (Ok acc') \<longleftrightarrow>
      (\<exists>ds. rest = Some ds \<and> (\<forall>d\<in>set ds. tr (d_addr d) \<noteq> 0) \<and> acc' = gather tr acc1 ds \<and> iovs_fit cfg acc')"
    if "iovs_fit cfg acc1" for acc1
    using that Suc.IH [OF that] by (auto simp: go_def rest_def)
  have walk: "walk_chain tr m cfg tbl (Suc k) nxt acc = (if tbl = 0 then None else
      case walk_here tr m cfg d acc of None \<Rightarrow> None | Some (Err e) \<Rightarrow> Some (Err e) | Some (Ok a) \<Rightarrow> go a)"
    by (simp only: walk_chain.simps Let_def d_def go_def more_def walk_here_def)
  have descs: "chain_descs tr m tbl (Suc k) nxt = (if tbl = 0 then None else
      Option.bind (descs_here tr m d) (\<lambda>xs. map_option ((@) xs) rest))"
    by (simp only: chain_descs.simps Let_def d_def rest_def more_def descs_here_def)
  show ?case
  proof (cases "descs_here tr m d")
    case None
    then have "walk_here tr m cfg d acc \<noteq> Some (Ok a)" for a
      using walk_here_Ok [OF Suc.prems] by auto
    then show ?thesis unfolding walk descs using None by (simp add: case_cres_Ok)
  next
    case (Some xs)
    have fit: "iovs_fit cfg (gather tr acc (xs @ ds)) \<Longrightarrow> iovs_fit cfg (gather tr acc xs)" for ds
      using iovs_fit_gather [of cfg tr "gather tr acc xs" ds] by simp
    show ?thesis
      unfolding walk descs
      using Some walk_here_Ok [OF Suc.prems, of tr m d] go [of "gather tr acc xs"] fit
      by (cases rest) (auto simp: case_cres_Ok)
  qed
qed auto

text \<open>Every address recorded by the walk is a translation, so it is backed.\<close>

context address_translation
begin

lemma gather_backed:
  assumes "\<forall>d\<in>set ds. translate (d_addr d) \<noteq> 0"
    and "v \<in> set (fst (gather translate ([], []) ds)) \<union> set (snd (gather translate ([], []) ds))"
  shows "backed (iov_base v) \<and> iov_base v \<noteq> 0"
  using assms by (auto simp: gather_def desc_iov_def translate_backed)

lemma walk_chain_backed:
  assumes "walk_chain translate m cfg tbl k nxt ([], []) = Some (Ok (outs, ins))"
    and "v \<in> set outs \<union> set ins"
  shows "backed (iov_base v) \<and> iov_base v \<noteq> 0"
proof -
  have "iovs_fit cfg ([], [])" by (simp add: iovs_fit_def)
  then obtain ds where "\<forall>d\<in>set ds. translate (d_addr d) \<noteq> 0" "(outs, ins) = gather translate ([], []) ds"
    using assms(1) walk_chain_Ok [of cfg "([], [])" translate] by auto
  then show ?thesis using gather_backed [of ds v] assms(2) by (metis fst_conv snd_conv)
qed

end

lemma walk_indirect_Err: "walk_indirect tr m cfg tbl cnt k nxt acc = Some (Err e) \<Longrightarrow> e = -1"
  by (induction tr m cfg tbl cnt k nxt acc rule: walk_indirect.induct)
    (auto simp: Let_def split: if_splits cres.splits)

lemma walk_chain_Err: "walk_chain tr m cfg tbl k nxt acc = Some (Err e) \<Longrightarrow> e = -1"
  by (induction tr m cfg tbl k nxt acc rule: walk_chain.induct)
    (auto simp: Let_def dest: walk_indirect_Err split: if_splits cres.splits option.splits)

text \<open>
  C5: \<open>process_descriptor_chain_buf\<close> is the flattened chain split by direction: it succeeds exactly
  when the chain that starts at the head is well formed, every buffer of it is mapped and both
  arrays are large enough, and then it returns the length of the chain, the device-readable
  buffers in chain order in one array and the device-writable ones in chain order in the other,
  and advances \<open>last_avail_idx\<close> by one.
\<close>

theorem process_descriptor_chain_buf_split:
  fixes zm zid
  defines "tr \<equiv> \<lambda>ipa. get_virt_addr zm ipa zid"
  assumes "int (max_out cfg + max_in cfg) \<le> INT_MAX"
  shows "(process_descriptor_chain_buf zm zid m vq head cfg req = Some (n, vq', req') \<and> 0 \<le> n) \<longleftrightarrow>
    (\<exists>ds. chain_descs tr m (desc_table vq) (unat (vq_num vq)) head = Some ds
       \<and> (\<forall>d\<in>set ds. tr (d_addr d) \<noteq> 0)
       \<and> length (filter (\<lambda>d. \<not> d_writable d) ds) \<le> max_out cfg \<and> length (filter d_writable ds) \<le> max_in cfg
       \<and> n = int (length ds) \<and> vq' = vq\<lparr>last_avail_idx := last_avail_idx vq + 1\<rparr>
       \<and> req' = \<lparr>out_iov = map (desc_iov tr) (filter (\<lambda>d. \<not> d_writable d) ds),
                  in_iov = map (desc_iov tr) (filter d_writable ds)\<rparr>)"
proof -
  have fit: "iovs_fit cfg ([], [])" by (simp add: iovs_fit_def)
  have len: "length (filter (\<lambda>d. \<not> d_writable d) ds) + length (filter d_writable ds) = length ds" for ds
    using sum_length_filter_compl [of d_writable ds] by simp
  let ?walk = "walk_chain tr m cfg (desc_table vq) (unat (vq_num vq)) head ([], [])"
  have "(process_descriptor_chain_buf zm zid m vq head cfg req = Some (n, vq', req') \<and> 0 \<le> n) \<longleftrightarrow>
      (\<exists>acc. ?walk = Some (Ok acc) \<and> 0 \<le> n \<and> n = to_c_int (int (length (fst acc) + length (snd acc)))
         \<and> vq' = vq\<lparr>last_avail_idx := last_avail_idx vq + 1\<rparr> \<and> req' = \<lparr>out_iov = fst acc, in_iov = snd acc\<rparr>)"
    using walk_chain_Err [of tr m cfg "desc_table vq" "unat (vq_num vq)" head "([], [])"]
    unfolding process_descriptor_chain_buf_def tr_def [symmetric]
    by (auto split: option.splits cres.splits)
  also have "\<dots> \<longleftrightarrow> (\<exists>ds. chain_descs tr m (desc_table vq) (unat (vq_num vq)) head = Some ds
       \<and> (\<forall>d\<in>set ds. tr (d_addr d) \<noteq> 0) \<and> iovs_fit cfg (gather tr ([], []) ds)
       \<and> n = int (length ds) \<and> vq' = vq\<lparr>last_avail_idx := last_avail_idx vq + 1\<rparr>
       \<and> req' = \<lparr>out_iov = fst (gather tr ([], []) ds), in_iov = snd (gather tr ([], []) ds)\<rparr>)"
  proof -
    have total: "length (fst (gather tr ([], []) ds)) + length (snd (gather tr ([], []) ds)) = length ds" for ds
      using len [of ds] by (simp add: gather_def)
    have "int (length ds) \<le> INT_MAX" if "iovs_fit cfg (gather tr ([], []) ds)" for ds
      using that total [of ds] assms(2) unfolding iovs_fit_def by linarith
    then have "to_c_int (int (length (fst (gather tr ([], []) ds)) + length (snd (gather tr ([], []) ds))))
        = int (length ds)" if "iovs_fit cfg (gather tr ([], []) ds)" for ds
      using that by (simp del: of_nat_add add: total)
    then show ?thesis unfolding walk_chain_Ok [OF fit] by (metis of_nat_0_le_iff)
  qed
  finally show ?thesis by (simp only: gather_def iovs_fit_def fst_conv snd_conv append_Nil length_map conj_assoc)
qed

lemma process_descriptor_chain_buf_cases:
  assumes "process_descriptor_chain_buf zm zid m vq head cfg req = Some (n, vq', req')"
  shows "(n = -1 \<and> vq' = vq \<and> req' = req)
    \<or> (length (out_iov req') \<le> max_out cfg \<and> length (in_iov req') \<le> max_in cfg
       \<and> n = to_c_int (int (length (out_iov req') + length (in_iov req')))
       \<and> (\<forall>v\<in>set (out_iov req') \<union> set (in_iov req'). zone_backed zm zid (iov_base v) \<and> iov_base v \<noteq> 0)
       \<and> vq' = vq\<lparr>last_avail_idx := last_avail_idx vq + 1\<rparr>)"
proof -
  let ?walk = "walk_chain (\<lambda>ipa. get_virt_addr zm ipa zid) m cfg (desc_table vq) (unat (vq_num vq)) head ([], [])"
  have fit: "iovs_fit cfg ([], [])" by (simp add: iovs_fit_def)
  show ?thesis
  proof (cases "\<exists>outs ins. ?walk = Some (Ok (outs, ins))")
    case True
    then obtain outs ins where w: "?walk = Some (Ok (outs, ins))" by blast
    then have "iovs_fit cfg (outs, ins)" using walk_chain_Ok [OF fit] by auto
    then show ?thesis
      using assms w gva.walk_chain_backed [OF w]
      by (auto simp: process_descriptor_chain_buf_def iovs_fit_def)
  next
    case False
    then show ?thesis
      using assms walk_chain_Err
      by (auto simp: process_descriptor_chain_buf_def split: option.splits cres.splits prod.splits)
  qed
qed

lemma post_process_descriptor_chain_buf [wp]:
  assumes "P (-1, vq, req)"
    and "\<And>outs ins. \<lbrakk>length outs \<le> max_out cfg; length ins \<le> max_in cfg;
           \<forall>v\<in>set outs \<union> set ins. zone_backed zm zone (iov_base v) \<and> iov_base v \<noteq> 0\<rbrakk> \<Longrightarrow>
         P (to_c_int (int (length outs + length ins)), vq\<lparr>last_avail_idx := last_avail_idx vq + 1\<rparr>,
            \<lparr>out_iov = outs, in_iov = ins\<rparr>)"
  shows "post P (process_descriptor_chain_buf zm zone m vq head cfg req)"
proof (rule postI)
  fix x assume x: "process_descriptor_chain_buf zm zone m vq head cfg req = Some x"
  obtain n vq' req' where [simp]: "x = (n, vq', req')" by (cases x) auto
  show "P x"
    using process_descriptor_chain_buf_cases [of zm zone m vq head cfg req n vq' req'] x assms
    by (cases req') auto
qed

text \<open>
  C7: Whatever the descriptors contain, a call that returns either fails with -1 and leaves the
  queue and the request as they were, or succeeds with every vector beginning inside the memory of
  the device's own zone, no more vectors than the caller's arrays hold, and a queue that differs only
  in \<open>last_avail_idx\<close>.
\<close>

theorem process_descriptor_chain_buf_safe:
  assumes "process_descriptor_chain_buf zm zid m vq head cfg req = Some (n, vq', req')"
  shows "(n = -1 \<and> vq' = vq \<and> req' = req)
    \<or> (length (out_iov req') \<le> max_out cfg \<and> length (in_iov req') \<le> max_in cfg
       \<and> n = to_c_int (int (length (out_iov req') + length (in_iov req')))
       \<and> (\<forall>v\<in>set (out_iov req') \<union> set (in_iov req'). zone_backed zm zid (iov_base v) \<and> iov_base v \<noteq> 0)
       \<and> vq' = vq\<lparr>last_avail_idx := last_avail_idx vq + 1\<rparr>)"
  using assms by (rule process_descriptor_chain_buf_cases)

text \<open>
  An indirect descriptor whose table is empty is an empty chain: the result is 0, which the callers
  take for a failure, although the queue has been advanced.
\<close>

lemma empty_indirect_chain:
  assumes "desc_table vq \<noteq> 0" and "vq_num vq \<noteq> 0"
    and "d = ld_desc m (desc_table vq) head" and "has_flag (d_flags d) VRING_DESC_F_INDIRECT"
    and "\<not> has_flag (d_flags d) VRING_DESC_F_NEXT" and "d_len d < 16"
  shows "process_descriptor_chain_buf zm zone m vq head cfg req =
    Some (0, vq\<lparr>last_avail_idx := last_avail_idx vq + 1\<rparr>, \<lparr>out_iov = [], in_iov = []\<rparr>)"
proof -
  obtain k where k: "unat (vq_num vq) = Suc k"
    using assms(2) by (metis not0_implies_Suc unat_eq_zero)
  have "unat (d_len d) div 16 = 0"
    using assms(6) by (simp add: word_less_nat_alt)
  then show ?thesis
    using assms(1,3,4,5) by (simp add: process_descriptor_chain_buf_def k Let_def)
qed

text \<open>
  A queue in the example zone: descriptor 0 is device-readable and links to descriptor 1, an
  indirect descriptor whose table holds one device-writable buffer.
\<close>

definition bytes_at :: "u64 \<Rightarrow> u8 list \<Rightarrow> memory" where
  "bytes_at base bs a = (if unat (a - base) < length bs then bs ! unat (a - base) else 0)"

definition example_mem :: memory where
  "example_mem = bytes_at 0x7f0000000000
     [0x00, 0x01, 0, 0x50, 0, 0, 0, 0,  0x10, 0, 0, 0,  1, 0,  1, 0,
      0x20, 0x00, 0, 0x50, 0, 0, 0, 0,  0x10, 0, 0, 0,  4, 0,  0, 0,
      0x00, 0x02, 0, 0x50, 0, 0, 0, 0,  0x00, 2, 0, 0,  2, 0,  0, 0]"

definition example_vq :: VirtQueue where
  "example_vq = zero_vq\<lparr>vq_num := 4, desc_table := 0x7f0000000000,
     avail_ring := 0x7f0000001000, used_ring := 0x7f0000002000\<rparr>"

lemma example_chain:
  "chain_descs (\<lambda>ipa. get_virt_addr (\<lambda>_. example_regions) ipa 1) example_mem 0x7f0000000000 4 0 =
     Some [\<lparr>d_addr = 0x50000100, d_len = 16, d_flags = 1, d_next = 1\<rparr>,
           \<lparr>d_addr = 0x50000200, d_len = 512, d_flags = 2, d_next = 0\<rparr>]"
  by code_simp

lemma process_descriptor_chain_buf_split_witness:
  "process_descriptor_chain_buf (\<lambda>_. example_regions) 1 example_mem example_vq 0
      \<lparr>max_out = 1, max_in = 1\<rparr> \<lparr>out_iov = [], in_iov = []\<rparr> =
    Some (2, example_vq\<lparr>last_avail_idx := 1\<rparr>,
      \<lparr>out_iov = [\<lparr>iov_base = 0x7f0000000100, iov_len = 16\<rparr>],
       in_iov = [\<lparr>iov_base = 0x7f0000000200, iov_len = 512\<rparr>]\<rparr>)"
  using process_descriptor_chain_buf_split [of "\<lparr>max_out = 1, max_in = 1\<rparr>" "\<lambda>_. example_regions" 1
      example_mem example_vq 0 "\<lparr>out_iov = [], in_iov = []\<rparr>" 2 "example_vq\<lparr>last_avail_idx := 1\<rparr>"
      "\<lparr>out_iov = [\<lparr>iov_base = 0x7f0000000100, iov_len = 16\<rparr>],
        in_iov = [\<lparr>iov_base = 0x7f0000000200, iov_len = 512\<rparr>]\<rparr>"] example_chain
  by (simp add: example_vq_def zero_vq_def get_virt_addr_def example_regions_def desc_iov_def has_flag_def)

lemma process_descriptor_chain_buf_safe_witness:
  "zone_backed (\<lambda>_. example_regions) 1 0x7f0000000200"
proof -
  have "process_descriptor_chain_buf (\<lambda>_. example_regions) 1 example_mem example_vq 0
      \<lparr>max_out = 1, max_in = 1\<rparr> \<lparr>out_iov = [], in_iov = []\<rparr> =
    Some (2, example_vq\<lparr>last_avail_idx := 1\<rparr>,
      \<lparr>out_iov = [\<lparr>iov_base = 0x7f0000000100, iov_len = 16\<rparr>],
       in_iov = [\<lparr>iov_base = 0x7f0000000200, iov_len = 512\<rparr>]\<rparr>)"
    by code_simp
  from process_descriptor_chain_buf_safe [OF this] show ?thesis by simp
qed

section \<open>Whole buffers\<close>

text \<open>
  The length of a descriptor is the guest's, and the translation looks at its first byte only. A
  descriptor lies inside the zone when one region holds all of it.
\<close>

definition desc_inside :: "zone_mem_region list \<Rightarrow> VirtqDesc \<Rightarrow> bool" where
  "desc_inside rs d \<longleftrightarrow> (\<exists>r\<in>set rs. d_addr d \<in> guest_span r
     \<and> unat (d_addr d) + unat (d_len d) \<le> unat (zonex_ipa r) + unat (mem_size r))"

lemma footprint_fits:
  assumes "region_ok r" and "b \<in> host_span r"
  shows "footprint b n \<subseteq> host_span r \<longleftrightarrow> unat b + n \<le> unat (virt_addr r) + unat (mem_size r)"
proof
  assume n: "unat b + n \<le> unat (virt_addr r) + unat (mem_size r)"
  have "b + of_nat i \<in> host_span r" if "i < n" for i
  proof -
    have "unat b + i < 2 ^ 64" using that n assms(1) unfolding region_ok_def by linarith
    then have "unat (b + of_nat i) = unat b + i" by (simp add: unat_word_ariths unat_of_nat)
    then show ?thesis using that n assms(2) by (simp add: addr_span_def word_le_nat_alt)
  qed
  then show "footprint b n \<subseteq> host_span r" by (auto simp: footprint_def)
next
  assume sub: "footprint b n \<subseteq> host_span r"
  define room where "room = unat (virt_addr r) + unat (mem_size r) - unat b"
  have b: "unat b < unat (virt_addr r) + unat (mem_size r)" using assms(2) by (simp add: addr_span_def)
  then have "unat b + room < 2 ^ 64" using assms(1) by (simp add: room_def region_ok_def)
  then have past: "unat (b + of_nat room) = unat (virt_addr r) + unat (mem_size r)"
    using b by (simp add: unat_word_ariths unat_of_nat room_def)
  have "\<not> room < n"
  proof
    assume "room < n"
    then have "b + of_nat room \<in> host_span r" using sub in_footprint by blast
    then show False using past by (simp add: addr_span_def)
  qed
  then show "unat b + n \<le> unat (virt_addr r) + unat (mem_size r)" using b by (simp add: room_def)
qed

lemma desc_iov_inside_iff:
  assumes ok: "regions_ok (zm z)" and z: "z < MAX_ZONES" and nz: "get_virt_addr zm (d_addr d) (int z) \<noteq> 0"
  shows "(\<exists>r\<in>set (zm z). iov_bytes (desc_iov (\<lambda>ipa. get_virt_addr zm ipa (int z)) d) \<subseteq> host_span r)
    \<longleftrightarrow> desc_inside (zm z) d"
proof -
  define b where "b = get_virt_addr zm (d_addr d) (int z)"
  have tr: "b = find_region (zm z) (d_addr d)" using z by (simp add: b_def get_virt_addr_def)
  obtain r where r: "r \<in> set (zm z)" "d_addr d \<in> guest_span r"
    using nz ok find_region_miss unfolding b_def [symmetric] tr by metis
  have rok: "region_ok r" using ok r(1) by (simp add: regions_ok_def)
  have b: "b \<in> host_span r" "unat b = unat (d_addr d) - unat (zonex_ipa r) + unat (virt_addr r)"
    using find_region_hit [OF ok r] translated_in_host [OF rok r(2)] translated_unat [OF rok r(2)] tr by simp_all
  have start: "unat (zonex_ipa r) \<le> unat (d_addr d)" "unat (d_addr d) < unat (zonex_ipa r) + unat (mem_size r)"
    using r(2) by (auto simp: addr_span_def word_le_nat_alt)
  have disj: "guest_span r \<inter> guest_span q = {} \<and> host_span r \<inter> host_span q = {}" if "q \<in> set (zm z)" "q \<noteq> r" for q
    using that ok r(1) by (auto simp: regions_ok_def)
  then have only: "q = r" if "q \<in> set (zm z)" "d_addr d \<in> guest_span q \<or> b \<in> host_span q" for q
    using that r b(1) by blast
  have bytes: "iov_bytes (desc_iov (\<lambda>ipa. get_virt_addr zm ipa (int z)) d) = footprint b (unat (d_len d))"
    by (simp add: iov_bytes_def desc_iov_def b_def unsigned_ucast_eq take_bit_nat_eq_self
        less_trans [OF unsigned_less [of "d_len d"]])
  have "(\<exists>q\<in>set (zm z). footprint b (unat (d_len d)) \<subseteq> host_span q) \<longleftrightarrow> footprint b (unat (d_len d)) \<subseteq> host_span r"
  proof (cases "unat (d_len d) = 0")
    case False
    then have "b \<in> footprint b (unat (d_len d))" using in_footprint [of 0 "unat (d_len d)" b] by simp
    then show ?thesis using only r(1) by blast
  qed (use r(1) in auto)
  also have "\<dots> \<longleftrightarrow> unat (d_addr d) + unat (d_len d) \<le> unat (zonex_ipa r) + unat (mem_size r)"
    unfolding footprint_fits [OF rok b(1)] using b(2) start by linarith
  also have "\<dots> \<longleftrightarrow> desc_inside (zm z) d" unfolding desc_inside_def using only r by blast
  finally show ?thesis unfolding bytes .
qed

lemma chain_buf_descs:
  assumes "process_descriptor_chain_buf zm zid m vq head cfg req = Some (n, vq', req')" and "n \<noteq> -1"
  obtains ds where "chain_descs (\<lambda>ipa. get_virt_addr zm ipa zid) m (desc_table vq) (unat (vq_num vq)) head = Some ds"
    and "\<forall>d\<in>set ds. get_virt_addr zm (d_addr d) zid \<noteq> 0"
    and "set (out_iov req') \<union> set (in_iov req') = desc_iov (\<lambda>ipa. get_virt_addr zm ipa zid) ` set ds"
proof -
  let ?tr = "\<lambda>ipa. get_virt_addr zm ipa zid"
  have fit: "iovs_fit cfg ([], [])" by (simp add: iovs_fit_def)
  obtain outs ins where w: "walk_chain ?tr m cfg (desc_table vq) (unat (vq_num vq)) head ([], []) = Some (Ok (outs, ins))"
      and o: "req' = \<lparr>out_iov = outs, in_iov = ins\<rparr>"
    using assms walk_chain_Err by (auto simp: process_descriptor_chain_buf_def split: option.splits cres.splits)
  obtain ds where "chain_descs ?tr m (desc_table vq) (unat (vq_num vq)) head = Some ds"
      and "\<forall>d\<in>set ds. ?tr (d_addr d) \<noteq> 0" and "(outs, ins) = gather ?tr ([], []) ds"
    using w unfolding walk_chain_Ok [OF fit] by blast
  then show thesis by (intro that) (auto simp: o gather_def)
qed

text \<open>
  C11: When a buffer stays inside its zone. In a zone whose regions are well formed and disjoint, the
  vectors of an accepted chain lie wholly in mapped memory of the zone exactly when every
  descriptor of the chain lies inside one of its regions. The lengths are not checked by the
  code: a guest whose descriptor begins in a region and runs over its end is handed a vector that
  reaches beyond the zone's memory.
\<close>

theorem chain_buffers_inside_iff:
  assumes "regions_ok (zm z)" and "z < MAX_ZONES"
    and "process_descriptor_chain_buf zm (int z) m vq head cfg req = Some (n, vq', req')" and "n \<noteq> -1"
  shows "\<exists>ds. chain_descs (\<lambda>ipa. get_virt_addr zm ipa (int z)) m (desc_table vq) (unat (vq_num vq)) head = Some ds
     \<and> ((\<forall>v\<in>set (out_iov req') \<union> set (in_iov req'). \<exists>r\<in>set (zm z). iov_bytes v \<subseteq> host_span r)
        \<longleftrightarrow> (\<forall>d\<in>set ds. desc_inside (zm z) d))"
proof -
  obtain ds where c: "chain_descs (\<lambda>ipa. get_virt_addr zm ipa (int z)) m (desc_table vq) (unat (vq_num vq)) head = Some ds"
      and mapped: "\<forall>d\<in>set ds. get_virt_addr zm (d_addr d) (int z) \<noteq> 0"
      and bufs: "set (out_iov req') \<union> set (in_iov req') = desc_iov (\<lambda>ipa. get_virt_addr zm ipa (int z)) ` set ds"
    by (rule chain_buf_descs [OF assms(3,4)])
  have "(\<exists>r\<in>set (zm z). iov_bytes (desc_iov (\<lambda>ipa. get_virt_addr zm ipa (int z)) d) \<subseteq> host_span r) \<longleftrightarrow> desc_inside (zm z) d"
    if "d \<in> set ds" for d
    using desc_iov_inside_iff [where zm = zm and z = z and d = d] assms(1,2) mapped that by simp
  then show ?thesis unfolding bufs using c by simp
qed

text \<open>A writable descriptor of 64 bytes whose first byte is the last one of the second region.\<close>

definition escape_mem :: memory where
  "escape_mem = bytes_at 0x7f0000000000 [0xff, 0x0f, 0, 0x70, 0, 0, 0, 0,  0x40, 0, 0, 0,  2, 0,  0, 0]"

lemma chain_buffers_inside_iff_witness:
  "\<exists>vq' v. process_descriptor_chain_buf (\<lambda>_. example_regions) 1 escape_mem example_vq 0 \<lparr>max_out = 1, max_in = 1\<rparr>
       \<lparr>out_iov = [], in_iov = []\<rparr> = Some (1, vq', \<lparr>out_iov = [], in_iov = [v]\<rparr>)
     \<and> \<not> (\<exists>r. r \<in> set example_regions \<and> iov_bytes v \<subseteq> host_span r)"
proof -
  let ?v = "\<lparr>iov_base = 0x7f0080000fff, iov_len = 0x40\<rparr>"
  let ?run = "process_descriptor_chain_buf (\<lambda>_. example_regions) 1 escape_mem example_vq 0 \<lparr>max_out = 1, max_in = 1\<rparr>
       \<lparr>out_iov = [], in_iov = []\<rparr>"
  have run: "?run = Some (1, example_vq\<lparr>last_avail_idx := 1\<rparr>, \<lparr>out_iov = [], in_iov = [?v]\<rparr>)" by code_simp
  have d: "chain_descs (\<lambda>ipa. get_virt_addr (\<lambda>_. example_regions) ipa 1) escape_mem (desc_table example_vq)
      (unat (vq_num example_vq)) 0 = Some [\<lparr>d_addr = 0x70000fff, d_len = 0x40, d_flags = 2, d_next = 0\<rparr>]" by code_simp
  have out: "\<not> desc_inside example_regions \<lparr>d_addr = 0x70000fff, d_len = 0x40, d_flags = 2, d_next = 0\<rparr>"
    by (simp add: desc_inside_def example_regions_def addr_span_def)
  have z: "(1 :: nat) < MAX_ZONES" and n: "(1 :: int) \<noteq> -1" and one: "int 1 = 1" by simp_all
  note iff = chain_buffers_inside_iff [where zm = "\<lambda>_. example_regions" and z = 1, unfolded one, OF example_regions_ok z run n,
      unfolded d option.inject]
  have "\<not> (\<exists>r\<in>set example_regions. iov_bytes ?v \<subseteq> host_span r)"
    using iff out by (simp only: ex_simps simp_thms list.set VirtioRequest.simps Un_empty_left ball_simps)
  then show ?thesis using run by blast
qed

end
