(* ===== verification/Used_Ring.thy ===== *)
theory Used_Ring
  imports Virtqueue
begin

text \<open>
  Publishing completions in the used ring: \<open>update_used_ring\<close> and \<open>update_used_ring_batch\<close> of
  \<^verbatim>\<open>src/tools/virtio/virtio.c\<close>, the equivalence of the two, and what the driver then reads.
\<close>

definition update_used_ring :: "VirtQueue \<Rightarrow> u16 \<Rightarrow> u32 \<Rightarrow> memory \<Rightarrow> memory option" where
  "update_used_ring vq idx iolen m =
     (if used_ring vq = 0 then None
      else let ur = used_ring vq;
               used_idx = ld16 m (used_idx_at ur);
               msk = ucast (vq_num vq - 1) :: u16;
               elem = used_elem_at ur (ucast (used_idx AND msk));
               m1 = st32 m elem (ucast idx);
               m2 = st32 m1 (elem + 4) iolen
           in Some (st16 m2 (used_idx_at ur) (used_idx + 1)))"

text \<open>The loop of the batch version; \<open>i\<close> is the loop counter.\<close>

fun used_batch_loop :: "u64 \<Rightarrow> u16 \<Rightarrow> u16 \<Rightarrow> nat \<Rightarrow> (u16 \<times> u32) list \<Rightarrow> memory \<Rightarrow> memory" where
  "used_batch_loop ur used_idx msk i [] m = m"
| "used_batch_loop ur used_idx msk i ((i_id, len) # es) m =
     (let elem = used_elem_at ur ((ucast used_idx + of_nat i) AND ucast msk);
          m1 = st32 m elem (ucast i_id);
          m2 = st32 m1 (elem + 4) len
      in used_batch_loop ur used_idx msk (Suc i) es m2)"

definition update_used_ring_batch :: "VirtQueue \<Rightarrow> (u16 \<times> u32) list \<Rightarrow> memory \<Rightarrow> memory option" where
  "update_used_ring_batch vq entries m =
     (if length entries = 0 then Some m
      else if used_ring vq = 0 then None
      else let ur = used_ring vq;
               used_idx = ld16 m (used_idx_at ur);
               msk = ucast (vq_num vq - 1) :: u16;
               m1 = used_batch_loop ur used_idx msk 0 entries m
           in Some (st16 m1 (used_idx_at ur) (used_idx + of_nat (length entries))))"

section \<open>Slots of the ring\<close>

text \<open>Writing one element, and reading one back.\<close>

definition write_elem :: "u64 \<Rightarrow> u16 \<Rightarrow> u16 \<times> u32 \<Rightarrow> memory \<Rightarrow> memory" where
  "write_elem ur s v m =
     st32 (st32 m (used_elem_at ur (ucast s)) (ucast (fst v))) (used_elem_at ur (ucast s) + 4) (snd v)"

definition used_elem :: "memory \<Rightarrow> u64 \<Rightarrow> u16 \<Rightarrow> u32 \<times> u32" where
  "used_elem m ur s = (ld32 m (used_elem_at ur (ucast s)), ld32 m (used_elem_at ur (ucast s) + 4))"

abbreviation used_slot :: "u64 \<Rightarrow> u16 \<Rightarrow> u64 set" where
  "used_slot ur s \<equiv> footprint (used_elem_at ur (ucast s)) 8"

abbreviation used_idx_bytes :: "u64 \<Rightarrow> u64 set" where
  "used_idx_bytes ur \<equiv> footprint (used_idx_at ur) 2"

lemma slot_offset:
  assumes "a \<in> used_slot ur s"
  shows "\<exists>i < 8. unat (a - ur) = 4 + 8 * unat s + i"
proof -
  obtain i where i: "i < 8" "a = used_elem_at ur (ucast s) + of_nat i"
    using assms by (auto simp: footprint_def)
  then have "a - ur = of_nat (4 + 8 * unat s + i)"
    by (simp add: used_elem_at_def)
  moreover have "4 + 8 * unat s + i < 18446744073709551616"
    using unat_lt_16 [of s] i(1) by linarith
  ultimately have "unat (a - ur) = 4 + 8 * unat s + i"
    using unat_of_nat_small [of "4 + 8 * unat s + i", where 'a = 64] by simp
  then show ?thesis using i(1) by blast
qed

lemma idx_offset:
  assumes "a \<in> used_idx_bytes ur"
  shows "unat (a - ur) < 4"
  using assms by (auto simp: footprint_2 used_idx_at_def)

lemma slot_idx_disjoint: "a \<in> used_slot ur s \<Longrightarrow> a \<notin> used_idx_bytes ur"
  using slot_offset [of a ur s] idx_offset [of a ur] by auto

lemma slots_disjoint: "a \<in> used_slot ur s \<Longrightarrow> a \<in> used_slot ur t \<Longrightarrow> s = t"
  using slot_offset [of a ur s] slot_offset [of a ur t] by (auto simp: word_unat_eq_iff)

lemma slot_split:
  "used_slot ur s = footprint (used_elem_at ur (ucast s)) 4 \<union> footprint (used_elem_at ur (ucast s) + 4) 4"
  by (rule footprint_8)

lemma write_elem_outside: "a \<notin> used_slot ur s \<Longrightarrow> write_elem ur s v m a = m a"
  by (simp add: write_elem_def slot_split st32_outside)

lemma used_elem_write:
  "used_elem (write_elem ur s v m) ur t = (if s = t then (ucast (fst v), snd v) else used_elem m ur t)"
proof (cases "s = t")
  case True
  have "apart (used_elem_at ur (ucast s)) 4 (used_elem_at ur (ucast s) + 4) 4"
    by (simp add: apart_def)
  then show ?thesis using True by (simp add: used_elem_def write_elem_def ld32_st32_apart)
next
  case False
  have "write_elem ur s v m b = m b" if "b \<in> used_slot ur t" for b
    using that False slots_disjoint write_elem_outside by blast
  then show ?thesis
    using False by (auto simp: used_elem_def slot_split intro!: ld32_cong)
qed

lemma idx_write_elem: "ld16 (write_elem ur s v m) (used_idx_at ur) = ld16 m (used_idx_at ur)"
  by (rule ld16_cong) (use slot_idx_disjoint write_elem_outside in blast)

lemma used_elem_idx: "used_elem (st16 m (used_idx_at ur) v) ur s = used_elem m ur s"
proof -
  have "st16 m (used_idx_at ur) v b = m b" if "b \<in> used_slot ur s" for b
    using that slot_idx_disjoint st16_outside by blast
  then show ?thesis by (auto simp: used_elem_def slot_split intro!: ld32_cong)
qed

section \<open>The batch version is the single version, repeated\<close>

lemma batch_slot:
  "((ucast (x :: u16) + of_nat i) AND ucast (msk :: u16) :: u64) = ucast ((x + of_nat i) AND msk)"
proof -
  have wide: "(ucast x + of_nat i :: u64) = of_nat (unat x + i)"
    and narrow: "x + of_nat i = of_nat (unat x + i)"
    by simp_all
  show ?thesis
    unfolding wide narrow
    by (rule bit_word_eqI) (auto simp: bit_and_iff bit_ucast_iff bit_of_nat_iff
        simp del: of_nat_add dest: bit_imp_le_length)
qed

lemma st16_indep: "b \<in> footprint a 2 \<Longrightarrow> st16 m a v b = st16 m' a v b"
  by (auto simp: footprint_2 st16_def)

lemma st16_st16 [simp]: "st16 (st16 m a v) a w = st16 m a w"
  by (rule ext) (auto simp: st16_def)

lemma write_elem_indep: "b \<in> used_slot ur s \<Longrightarrow> write_elem ur s v m b = write_elem ur s v m' b"
  by (auto simp: write_elem_def slot_split st32_def footprint_4 st16_def footprint_2)

lemma write_elem_idx:
  "write_elem ur s v (st16 m (used_idx_at ur) w) = st16 (write_elem ur s v m) (used_idx_at ur) w"
proof
  fix b
  show "write_elem ur s v (st16 m (used_idx_at ur) w) b = st16 (write_elem ur s v m) (used_idx_at ur) w b"
  proof (cases "b \<in> used_slot ur s")
    case True
    then show ?thesis
      using slot_idx_disjoint [of b ur s] write_elem_indep [of b ur s v "st16 m (used_idx_at ur) w" m]
      by (simp add: st16_outside)
  next
    case False
    then have "write_elem ur s v (st16 m (used_idx_at ur) w) b = st16 m (used_idx_at ur) w b"
      by (rule write_elem_outside)
    also have "\<dots> = st16 (write_elem ur s v m) (used_idx_at ur) w b"
    proof (cases "b \<in> used_idx_bytes ur")
      case True
      then show ?thesis by (rule st16_indep)
    next
      case out: False
      show ?thesis unfolding st16_outside [OF out] by (rule write_elem_outside [OF False, symmetric])
    qed
    finally show ?thesis .
  qed
qed

text \<open>Both routines in terms of the slots they write.\<close>

definition ring_mask :: "VirtQueue \<Rightarrow> u16" where
  "ring_mask vq = ucast (vq_num vq - 1)"

fun write_elems :: "u64 \<Rightarrow> u16 \<Rightarrow> u16 \<Rightarrow> (u16 \<times> u32) list \<Rightarrow> memory \<Rightarrow> memory" where
  "write_elems ur idx msk [] m = m"
| "write_elems ur idx msk (e # es) m = write_elems ur (idx + 1) msk es (write_elem ur (idx AND msk) e m)"

lemma update_used_ring_write:
  "used_ring vq \<noteq> 0 \<Longrightarrow> update_used_ring vq i l m =
     Some (st16 (write_elem (used_ring vq) (ld16 m (used_idx_at (used_ring vq)) AND ring_mask vq) (i, l) m)
             (used_idx_at (used_ring vq)) (ld16 m (used_idx_at (used_ring vq)) + 1))"
  by (simp add: update_used_ring_def Let_def write_elem_def ring_mask_def)

lemma used_batch_loop_write:
  "used_batch_loop ur idx msk i es m = write_elems ur (idx + of_nat i) msk es m"
proof (induction ur idx msk i es m rule: used_batch_loop.induct)
  case (2 ur idx msk i v len es m)
  show ?case
    using "2.IH" by (simp add: Let_def batch_slot write_elem_def add.assoc add.commute [of 1])
qed simp

lemma update_used_ring_batch_write:
  "used_ring vq \<noteq> 0 \<Longrightarrow> es \<noteq> [] \<Longrightarrow> update_used_ring_batch vq es m =
     Some (st16 (write_elems (used_ring vq) (ld16 m (used_idx_at (used_ring vq))) (ring_mask vq) es m)
             (used_idx_at (used_ring vq)) (ld16 m (used_idx_at (used_ring vq)) + of_nat (length es)))"
  by (simp add: update_used_ring_batch_def Let_def used_batch_loop_write ring_mask_def)

lemma write_elems_idx:
  "write_elems ur i msk es (st16 m (used_idx_at ur) w) = st16 (write_elems ur i msk es m) (used_idx_at ur) w"
  by (induction es arbitrary: i m) (simp_all add: write_elem_idx)

definition used_singles :: "VirtQueue \<Rightarrow> (u16 \<times> u32) list \<Rightarrow> memory \<Rightarrow> memory option" where
  "used_singles vq es m = fold (\<lambda>(i, l) r. Option.bind r (update_used_ring vq i l)) es (Some m)"

lemma used_singles_None: "fold (\<lambda>(i, l) r. Option.bind r (update_used_ring vq i l)) es None = None"
  by (induction es) auto

lemma used_singles_write:
  "used_ring vq \<noteq> 0 \<Longrightarrow> used_singles vq es m =
     (if es = [] then Some m else
      Some (st16 (write_elems (used_ring vq) (ld16 m (used_idx_at (used_ring vq))) (ring_mask vq) es m)
             (used_idx_at (used_ring vq)) (ld16 m (used_idx_at (used_ring vq)) + of_nat (length es))))"
proof (induction es arbitrary: m)
  case (Cons e es)
  show ?case
    using Cons.IH [OF Cons.prems] Cons.prems
    by (cases e, cases es)
      (simp_all add: used_singles_def update_used_ring_write write_elems_idx write_elem_idx add.assoc)
qed (simp add: used_singles_def)

text \<open>
  C10: Publishing a batch is publishing its entries one by one: \<open>update_used_ring_batch\<close> leaves the
  same memory as one call of \<open>update_used_ring\<close> per entry, and is undefined exactly when those
  calls are.
\<close>

theorem update_used_ring_batch_singles:
  "update_used_ring_batch vq es m = fold (\<lambda>(i, l) r. Option.bind r (update_used_ring vq i l)) es (Some m)"
proof (cases "used_ring vq = 0 \<and> es \<noteq> []")
  case True
  then obtain i l es' where "es = (i, l) # es'" by (cases es) auto
  then show ?thesis
    using True used_singles_None by (simp add: update_used_ring_batch_def update_used_ring_def)
next
  case False
  then show ?thesis
    using used_singles_write [of vq es m] update_used_ring_batch_write [of vq es m]
    by (cases "es = []") (auto simp: used_singles_def update_used_ring_batch_def)
qed

section \<open>What the driver reads\<close>

lemma write_elems_outside:
  "\<forall>j < length es. b \<notin> used_slot ur ((i + of_nat j) AND msk) \<Longrightarrow> write_elems ur i msk es m b = m b"
proof (induction es arbitrary: i m)
  case (Cons e es)
  have "b \<notin> used_slot ur (i AND msk)" using Cons.prems [rule_format, of 0] by simp
  moreover have "b \<notin> used_slot ur ((i + 1 + of_nat j) AND msk)" if "j < length es" for j
    using Cons.prems [rule_format, of "Suc j"] that by (simp add: add.assoc)
  ultimately show ?case using Cons.IH by (simp add: write_elem_outside)
qed simp

lemma used_elem_write_elems_other:
  "\<forall>j < length es. s \<noteq> (i + of_nat j) AND msk \<Longrightarrow> used_elem (write_elems ur i msk es m) ur s = used_elem m ur s"
proof (induction es arbitrary: i m)
  case (Cons e es)
  have "s \<noteq> i AND msk" using Cons.prems [rule_format, of 0] by simp
  moreover have "s \<noteq> (i + 1 + of_nat j) AND msk" if "j < length es" for j
    using Cons.prems [rule_format, of "Suc j"] that by (simp add: add.assoc)
  ultimately show ?case using Cons.IH by (simp add: used_elem_write)
qed simp

text \<open>In a ring of \<open>2 ^ k\<close> slots, the slots of fewer than \<open>2 ^ k\<close> consecutive indices are distinct.\<close>

lemma ring_slots_distinct:
  assumes "j < 2 ^ k" and "k \<le> 16" and "0 < j"
  shows "(i :: u16) AND mask k \<noteq> (i + of_nat j) AND mask k"
proof
  assume "i AND mask k = (i + of_nat j) AND mask k"
  then have "unat i mod 2 ^ k = unat (i + of_nat j) mod 2 ^ k"
    by (metis unat_and_mask)
  also have "\<dots> = (unat i + j) mod 2 ^ k"
    using le_imp_power_dvd [OF assms(2), of "2 :: nat"]
    by (simp add: unat_word_ariths unat_of_nat take_bit_eq_mod mod_mod_cancel mod_add_right_eq)
  finally have "2 ^ k dvd j"
    using mod_eq_dvd_iff_nat [of "unat i" "unat i + j" "2 ^ k"] by simp
  then show False using assms(1,3) by (auto dest: dvd_imp_le)
qed

lemma used_elem_write_elems:
  assumes "k \<le> 16" and "length es \<le> 2 ^ k" and "j < length es"
  shows "used_elem (write_elems ur i (mask k) es m) ur ((i + of_nat j) AND mask k)
         = (ucast (fst (es ! j)), snd (es ! j))"
  using assms(2,3)
proof (induction es arbitrary: i m j)
  case (Cons e es)
  show ?case
  proof (cases j)
    case 0
    have "i AND mask k \<noteq> (i + 1 + of_nat l) AND mask k" if "l < length es" for l
      using ring_slots_distinct [of "Suc l" k i] assms(1) Cons.prems(1) that by (simp add: add.assoc)
    then show ?thesis using 0 by (simp add: used_elem_write_elems_other used_elem_write)
  next
    case (Suc l)
    then show ?thesis
      using Cons.IH [of l "i + 1"] Cons.prems by (simp add: add.assoc)
  qed
qed simp

text \<open>A ring the driver set up: a power of two of at most 32768 slots, and a mapped used ring.\<close>

definition ring_ok :: "VirtQueue \<Rightarrow> nat \<Rightarrow> bool" where
  "ring_ok vq k \<longleftrightarrow> vq_num vq = 2 ^ k \<and> k \<le> 15 \<and> used_ring vq \<noteq> 0"

lemma ring_ok_mask: "ring_ok vq k \<Longrightarrow> ring_mask vq = mask k"
proof -
  assume "ring_ok vq k"
  then have "vq_num vq - 1 = mask k" and "k \<le> 15" by (auto simp: ring_ok_def mask_eq_decr_exp)
  then show ?thesis
    by (auto simp: ring_mask_def bit_ucast_iff bit_mask_iff intro!: bit_word_eqI)
qed

text \<open>
  C12: After a batch of at most as many entries as the ring has slots, the driver reads an index
  advanced by the number of entries, and at each of the new positions the identifier and the
  length of the corresponding entry in order. No other byte of memory has changed.
\<close>

theorem update_used_ring_batch_visible:
  assumes "ring_ok vq k" and "length es \<le> 2 ^ k"
  shows "\<exists>m'. update_used_ring_batch vq es m = Some m'
    \<and> ld16 m' (used_idx_at (used_ring vq)) = ld16 m (used_idx_at (used_ring vq)) + of_nat (length es)
    \<and> (\<forall>j < length es. used_elem m' (used_ring vq) ((ld16 m (used_idx_at (used_ring vq)) + of_nat j) AND mask k)
         = (ucast (fst (es ! j)), snd (es ! j)))
    \<and> (\<forall>b. b \<notin> used_idx_bytes (used_ring vq)
         \<and> (\<forall>j < length es. b \<notin> used_slot (used_ring vq) ((ld16 m (used_idx_at (used_ring vq)) + of_nat j) AND mask k))
         \<longrightarrow> m' b = m b)"
proof (cases "es = []")
  case True
  then show ?thesis by (simp add: update_used_ring_batch_def)
next
  case False
  have ur: "used_ring vq \<noteq> 0" and k: "k \<le> 16" using assms(1) by (auto simp: ring_ok_def)
  show ?thesis
    unfolding update_used_ring_batch_write [OF ur False] ring_ok_mask [OF assms(1)]
    using used_elem_write_elems [OF k assms(2)]
    by (auto simp: used_elem_idx st16_outside write_elems_outside)
qed

lemma update_used_ring_batch_visible_witness:
  "\<exists>m'. update_used_ring_batch example_vq [(0, 512), (1, 0)] (\<lambda>_. 0) = Some m'
     \<and> ld16 m' 0x7f0000002002 = 2 \<and> used_elem m' 0x7f0000002000 0 = (0, 512)
     \<and> used_elem m' 0x7f0000002000 1 = (1, 0) \<and> m' 0x7f0000000000 = 0"
proof -
  have ok: "ring_ok example_vq 2" by (simp add: ring_ok_def example_vq_def)
  have idx: "ld16 (\<lambda>_. 0) a = 0" for a by code_simp
  have "0x7f0000000000 \<notin> used_slot 0x7f0000002000 s" for s
  proof
    assume "0x7f0000000000 \<in> used_slot 0x7f0000002000 s"
    then obtain i where "i < 8" "8 * unat s + i = 18446744073709543420"
      using slot_offset [of "0x7f0000000000" "0x7f0000002000" s] by auto
    then show False using unat_lt_16 [of s] by linarith
  qed
  then have out: "0x7f0000000000 \<notin> used_slot 0x7f0000002000 s" "0x7f0000000000 \<notin> used_idx_bytes 0x7f0000002000" for s
    by (auto simp: footprint_2 used_idx_at_def)
  obtain m' where m': "update_used_ring_batch example_vq [(0, 512), (1, 0)] (\<lambda>_. 0) = Some m'"
      "ld16 m' 0x7f0000002002 = 2"
      "\<forall>j < 2. used_elem m' 0x7f0000002000 (of_nat j AND 3)
         = (ucast (fst ([(0 :: u16, 512 :: u32), (1, 0)] ! j)), snd ([(0 :: u16, 512 :: u32), (1, 0)] ! j))"
      "m' 0x7f0000000000 = 0"
    using update_used_ring_batch_visible [OF ok, of "[(0, 512), (1, 0)]" "\<lambda>_. 0"] out
    by (auto simp: idx example_vq_def zero_vq_def used_idx_at_def mask_eq_decr_exp)
  have "used_elem m' 0x7f0000002000 0 = (0, 512)" and "used_elem m' 0x7f0000002000 1 = (1, 0)"
    using m'(3) [THEN spec, of 0] m'(3) [THEN spec, of 1] by simp_all
  then show ?thesis using m' by blast
qed

end
