(* ===== verification/Desc_Chain.thy ===== *)
theory Desc_Chain
  imports Virtqueue
begin

text \<open>
  \<open>process_descriptor_chain\<close> of \<^verbatim>\<open>src/tools/virtio/virtio.c\<close>, the allocating variant the console and
  GPU devices use: a first pass measures the chain, a second pass fills an array of I/O vectors
  allocated for that length. The array is a list of slots, \<open>None\<close> where nothing was written; a
  write past its end is undefined behaviour. Allocation is assumed to succeed, as the code does.
\<close>

section \<open>The code\<close>

type_synonym iov_slot = "iovec \<times> u16 option"

definition descriptor2iov :: "(u64 \<Rightarrow> u64) \<Rightarrow> bool \<Rightarrow> VirtqDesc \<Rightarrow> iov_slot" where
  "descriptor2iov tr copy_flags vd =
     (\<lparr>iov_base = tr (d_addr vd), iov_len = ucast (d_len vd)\<rparr>,
      if copy_flags then Some (d_flags vd) else None)"

text \<open>
  The measuring loop. An indirect descriptor adds its entries and takes back the loop counter, so
  a circular chain of indirect descriptors is never left: the value is then \<open>None\<close>.
\<close>

partial_function (option) count_chain :: "memory \<Rightarrow> u64 \<Rightarrow> int \<Rightarrow> int \<Rightarrow> int \<Rightarrow> u16 \<Rightarrow> (int \<times> int) option" where
  "count_chain m tbl num i chain_len nxt =
     (if i \<ge> num then Some (chain_len, i)
      else if tbl = 0 then None
      else let vdesc = ld_desc m tbl nxt;
               ind = has_flag (d_flags vdesc) VRING_DESC_F_INDIRECT;
               chain_len' = (if ind then to_c_int (chain_len + uint (d_len vdesc) div 16) else chain_len);
               i' = (if ind then i - 1 else i)
           in if has_flag (d_flags vdesc) VRING_DESC_F_NEXT
              then count_chain m tbl num (i' + 1) chain_len' (d_next vdesc)
              else Some (chain_len', i'))"

declare count_chain.simps [code]

text \<open>The endless \<open>for (;;)\<close> over an indirect table: it ends at a descriptor without a link.\<close>

function fill_indirect :: "(u64 \<Rightarrow> u64) \<Rightarrow> memory \<Rightarrow> bool \<Rightarrow> u64 \<Rightarrow> iov_slot option list \<Rightarrow> nat \<Rightarrow> int \<Rightarrow> u16
    \<Rightarrow> (iov_slot option list \<times> nat \<times> int) option" where
  "fill_indirect tr m cf ind_table slots i table_len nxt =
     (if ind_table = 0 \<or> length slots \<le> i then None
      else let ind_desc = ld_desc m ind_table nxt;
               slots' = slots[i := Some (descriptor2iov tr cf ind_desc)]
           in if has_flag (d_flags ind_desc) VRING_DESC_F_NEXT
              then fill_indirect tr m cf ind_table slots' (i + 1) (table_len - 1) (d_next ind_desc)
              else Some (slots', i + 1, table_len - 1))"
  by pat_completeness auto
termination
  by (relation "measure (\<lambda>(tr, m, cf, t, slots, i, n, nxt). length slots - i)") auto

lemma fill_indirect_progress:
  "fill_indirect tr m cf t slots i n nxt = Some (slots', i', n') \<Longrightarrow> i < i' \<and> length slots' = length slots"
proof (induction tr m cf t slots i n nxt rule: fill_indirect.induct)
  case (1 tr m cf t slots i n nxt)
  then show ?case
    by (subst (asm) fill_indirect.simps) (fastforce simp: Let_def split: if_splits)
qed

declare fill_indirect.simps [simp del]

function fill_chain :: "(u64 \<Rightarrow> u64) \<Rightarrow> memory \<Rightarrow> bool \<Rightarrow> u64 \<Rightarrow> nat \<Rightarrow> iov_slot option list \<Rightarrow> nat \<Rightarrow> u16
    \<Rightarrow> iov_slot option list option" where
  "fill_chain tr m cf tbl chain_len slots i nxt =
     (if i \<ge> chain_len then Some slots
      else if tbl = 0 then None
      else let vdesc = ld_desc m tbl nxt in
        if has_flag (d_flags vdesc) VRING_DESC_F_INDIRECT
        then (case fill_indirect tr m cf (tr (d_addr vdesc)) slots i (int (unat (d_len vdesc) div 16)) 0 of
                None \<Rightarrow> None
              | Some (slots', i', table_len) \<Rightarrow>
                  if table_len \<noteq> 0 then Some slots'
                  else fill_chain tr m cf tbl chain_len slots' (i' + 1) (d_next vdesc))
        else if length slots \<le> i then None
        else fill_chain tr m cf tbl chain_len (slots[i := Some (descriptor2iov tr cf vdesc)]) (i + 1) (d_next vdesc))"
  by pat_completeness auto
termination
  by (relation "measure (\<lambda>(tr, m, cf, t, chain_len, slots, i, nxt). chain_len - i)")
    (auto dest!: fill_indirect_progress)

declare fill_chain.simps [simp del]

text \<open>
  The results are the returned length, \<open>*desc_idx\<close> if it was written, the slots, and the queue.
\<close>

definition process_descriptor_chain ::
  "zone_mem \<Rightarrow> int \<Rightarrow> memory \<Rightarrow> VirtQueue \<Rightarrow> int \<Rightarrow> bool \<Rightarrow> (int \<times> u16 option \<times> iov_slot option list \<times> VirtQueue) option" where
  "process_descriptor_chain zm zone_id m vq append_len copy_flags =
     (if avail_ring vq = 0 then None
      else if last_avail_idx vq = ld16 m (avail_idx_at (avail_ring vq)) then Some (0, None, [], vq)
      else let last = last_avail_idx vq;
               vq' = vq\<lparr>last_avail_idx := last + 1\<rparr>;
               desc_idx = ld16 m (avail_ring_at (avail_ring vq) (ucast last AND (vq_num vq - 1)))
           in case count_chain m (desc_table vq) (to_c_int (uint (vq_num vq))) 0 0 desc_idx of
                None \<Rightarrow> None
              | Some (cl, i) \<Rightarrow>
                  let chain_len = cl + (i + 1) in
                  if chain_len > INT_MAX \<or> chain_len + append_len > INT_MAX then None
                  else case fill_chain (\<lambda>ipa. get_virt_addr zm ipa zone_id) m copy_flags (desc_table vq)
                              (nat chain_len) (replicate (nat (chain_len + append_len)) None) 0 desc_idx of
                         None \<Rightarrow> None
                       | Some slots \<Rightarrow> Some (chain_len, Some desc_idx, slots, vq'))"

section \<open>Correctness on well-formed chains\<close>

text \<open>
  The chains the virtio specification allows: direct descriptors, the last of which may be an
  indirect one without a link of its own, whose table is one chain over all its entries.
\<close>

fun table_chain :: "memory \<Rightarrow> u64 \<Rightarrow> nat \<Rightarrow> u16 \<Rightarrow> VirtqDesc list option" where
  "table_chain m tbl 0 nxt = None"
| "table_chain m tbl (Suc k) nxt =
     (if tbl = 0 then None
      else let d = ld_desc m tbl nxt in
        if has_flag (d_flags d) VRING_DESC_F_NEXT
        then map_option (Cons d) (table_chain m tbl k (d_next d)) else Some [d])"

fun wf_chain :: "(u64 \<Rightarrow> u64) \<Rightarrow> memory \<Rightarrow> u64 \<Rightarrow> nat \<Rightarrow> u16 \<Rightarrow> VirtqDesc list option" where
  "wf_chain tr m tbl 0 nxt = None"
| "wf_chain tr m tbl (Suc k) nxt =
     (if tbl = 0 then None
      else let d = ld_desc m tbl nxt; cnt = unat (d_len d) div 16;
               more = has_flag (d_flags d) VRING_DESC_F_NEXT in
        if has_flag (d_flags d) VRING_DESC_F_INDIRECT
        then (case table_chain m (tr (d_addr d)) cnt 0 of
                None \<Rightarrow> None | Some xs \<Rightarrow> if length xs = cnt \<and> \<not> more then Some xs else None)
        else if more then map_option (Cons d) (wf_chain tr m tbl k (d_next d)) else Some [d])"

definition put :: "'a list \<Rightarrow> nat \<Rightarrow> 'a list \<Rightarrow> 'a list" where
  "put slots i xs = take i slots @ xs @ drop (i + length xs) slots"

lemma put_Nil [simp]: "put slots i [] = slots"
  by (simp add: put_def)

lemma put_update: "i < length slots \<Longrightarrow> put (slots[i := x]) (Suc i) xs = put slots i (x # xs)"
  by (simp add: put_def take_Suc_conv_app_nth)

lemma fill_indirect_table:
  assumes "table_chain m t k nxt = Some xs" and "i + length xs \<le> length slots"
  shows "fill_indirect tr m cf t slots i n nxt =
     Some (put slots i (map (\<lambda>d. Some (descriptor2iov tr cf d)) xs), i + length xs, n - int (length xs))"
  using assms
proof (induction m t k nxt arbitrary: xs slots i n rule: table_chain.induct)
  case (2 m t k nxt)
  let ?d = "ld_desc m t nxt"
  have t: "t \<noteq> 0" using "2.prems"(1) by (auto split: if_splits)
  show ?case
  proof (cases "has_flag (d_flags ?d) VRING_DESC_F_NEXT")
    case True
    then obtain ys where ys: "xs = ?d # ys" "table_chain m t k (d_next ?d) = Some ys"
      using "2.prems"(1) t by (auto simp: Let_def)
    then show ?thesis
      using "2.IH" [OF t refl True ys(2), of "Suc i" "slots[i := Some (descriptor2iov tr cf ?d)]" "n - 1"]
        "2.prems"(2) t True
      by (simp add: fill_indirect.simps [of tr m cf t slots] put_update)
  next
    case False
    then have "xs = [?d]" using "2.prems"(1) t by (simp add: Let_def)
    then show ?thesis
      using "2.prems"(2) t False put_update [of i slots "Some (descriptor2iov tr cf ?d)" "[]"]
      by (simp add: fill_indirect.simps [of tr m cf t slots])
  qed
qed simp

lemma wf_chain_indirect:
  assumes "wf_chain tr m tbl (Suc k) nxt = Some ds"
    and "has_flag (d_flags (ld_desc m tbl nxt)) VRING_DESC_F_INDIRECT"
  shows "table_chain m (tr (d_addr (ld_desc m tbl nxt))) (unat (d_len (ld_desc m tbl nxt)) div 16) 0 = Some ds"
    and "length ds = unat (d_len (ld_desc m tbl nxt)) div 16"
    and "\<not> has_flag (d_flags (ld_desc m tbl nxt)) VRING_DESC_F_NEXT"
  using assms by (auto simp: Let_def split: if_splits option.splits)

lemma fill_chain_done: "chain_len \<le> i \<Longrightarrow> fill_chain tr m cf tbl chain_len slots i nxt = Some slots"
  by (simp add: fill_chain.simps)

lemma fill_chain_wf:
  assumes "wf_chain tr m tbl k nxt = Some ds" and "i + length ds \<le> length slots"
  shows "fill_chain tr m cf tbl (i + length ds) slots i nxt = Some (put slots i (map (\<lambda>d. Some (descriptor2iov tr cf d)) ds))"
  using assms
proof (induction tr m tbl k nxt arbitrary: ds slots i rule: wf_chain.induct)
  case (2 tr m tbl k nxt)
  let ?d = "ld_desc m tbl nxt"
  have t: "tbl \<noteq> 0" using "2.prems"(1) by (auto split: if_splits)
  consider (ind) "has_flag (d_flags ?d) VRING_DESC_F_INDIRECT"
    | (link) ys where "\<not> has_flag (d_flags ?d) VRING_DESC_F_INDIRECT" "has_flag (d_flags ?d) VRING_DESC_F_NEXT"
        "ds = ?d # ys" "wf_chain tr m tbl k (d_next ?d) = Some ys"
    | (fin) "\<not> has_flag (d_flags ?d) VRING_DESC_F_INDIRECT" "ds = [?d]"
    using "2.prems"(1) t by (auto simp: Let_def split: if_splits)
  then show ?case
  proof cases
    case ind
    note w = wf_chain_indirect [OF "2.prems"(1) ind]
    have "ds \<noteq> []" using w(1) by (cases "unat (d_len ?d) div 16") (auto simp: Let_def split: if_splits)
    then have "0 < unat (d_len ?d) div 16" using w(2) by (metis length_greater_0_conv)
    then show ?thesis
      using fill_indirect_table [OF w(1) "2.prems"(2), of tr cf "int (unat (d_len ?d) div 16)"] w(2) t ind
      by (subst fill_chain.simps) (simp add: fill_chain_done)
  next
    case link
    then show ?thesis
      using "2.IH" [OF t refl refl refl link(1,2,4), of "Suc i" "slots[i := Some (descriptor2iov tr cf ?d)]"]
        "2.prems"(2) t
      by (subst fill_chain.simps) (simp add: put_update)
  next
    case fin
    then show ?thesis
      using "2.prems"(2) t put_update [of i slots "Some (descriptor2iov tr cf ?d)" "[]"]
      by (subst fill_chain.simps) (simp add: fill_chain_done)
  qed
qed simp

lemma count_chain_wf:
  assumes "wf_chain tr m tbl k nxt = Some ds" and "0 \<le> i" and "i + int k \<le> num"
  shows "\<exists>cl i'. count_chain m tbl num i 0 nxt = Some (cl, i') \<and> cl + (i' + 1) = i + int (length ds)"
  using assms
proof (induction tr m tbl k nxt arbitrary: ds i rule: wf_chain.induct)
  case (2 tr m tbl k nxt)
  let ?d = "ld_desc m tbl nxt"
  have t: "tbl \<noteq> 0" using "2.prems"(1) by (auto split: if_splits)
  have i: "\<not> num \<le> i" using "2.prems"(3) by simp
  show ?case
  proof (cases "has_flag (d_flags ?d) VRING_DESC_F_INDIRECT")
    case True
    note w = wf_chain_indirect [OF "2.prems"(1) True]
    have "uint (d_len ?d) div 16 = int (length ds)"
      using w(2) by (simp add: zdiv_int)
    moreover have "length ds < 268435456"
      using w(2) by (simp add: less_mult_imp_div_less)
    ultimately show ?thesis
      using True w(3) t i by (subst count_chain.simps) (simp add: Let_def)
  next
    case False
    then show ?thesis
      using "2.IH" [OF t refl refl refl False, of _ "i + 1"] "2.prems" t i
      by (subst count_chain.simps) (auto simp: Let_def split: if_splits)
  qed
qed simp

lemma chain_on_wf:
  fixes zm zid vq m
  defines "tr \<equiv> \<lambda>ipa. get_virt_addr zm ipa zid"
    and "head \<equiv> ld16 m (avail_ring_at (avail_ring vq) (ucast (last_avail_idx vq) AND (vq_num vq - 1)))"
  assumes "avail_ring vq \<noteq> 0" and "\<not> vq_is_empty m vq" and "uint (vq_num vq) \<le> INT_MAX"
    and "wf_chain tr m (desc_table vq) (unat (vq_num vq)) head = Some ds"
    and "0 \<le> app" and "int (length ds) + app \<le> INT_MAX"
  shows "process_descriptor_chain zm zid m vq app cf =
    Some (int (length ds), Some head,
          map (\<lambda>d. Some (descriptor2iov tr cf d)) ds @ replicate (nat app) None,
          vq\<lparr>last_avail_idx := last_avail_idx vq + 1\<rparr>)"
proof -
  have num: "to_c_int (uint (vq_num vq)) = int (unat (vq_num vq))"
    using assms(5) by simp
  obtain cl i where c: "count_chain m (desc_table vq) (int (unat (vq_num vq))) 0 0 head = Some (cl, i)"
      "cl + (i + 1) = int (length ds)"
    using count_chain_wf [OF assms(6), of 0 "int (unat (vq_num vq))"] by auto
  have "fill_chain tr m cf (desc_table vq) (length ds) (replicate (length ds + nat app) None) 0 head
      = Some (map (\<lambda>d. Some (descriptor2iov tr cf d)) ds @ replicate (nat app) None)"
    using fill_chain_wf [OF assms(6), of 0 "replicate (length ds + nat app) None" cf] by (simp add: put_def)
  then show ?thesis
    using assms(3,4,7,8) c num
    by (simp add: process_descriptor_chain_def vq_is_empty_def Let_def nat_add_distrib
        head_def [symmetric] tr_def [symmetric] eq_commute [of "last_avail_idx vq"])
qed

text \<open>
  C32: On every chain the virtio specification allows, of at most as many descriptors as the queue
  has, \<open>process_descriptor_chain\<close> terminates without undefined behaviour and fills one slot per
  descriptor in chain order, with the entries of a final indirect table in place of it; it
  returns the head and the length of the chain, leaves the appended slots unwritten and advances
  \<open>last_avail_idx\<close> by one.
\<close>

theorem process_descriptor_chain_wf:
  fixes zm zid vq m
  defines "tr \<equiv> \<lambda>ipa. get_virt_addr zm ipa zid"
    and "head \<equiv> ld16 m (avail_ring_at (avail_ring vq) (ucast (last_avail_idx vq) AND (vq_num vq - 1)))"
  assumes "avail_ring vq \<noteq> 0" and "\<not> vq_is_empty m vq" and "uint (vq_num vq) \<le> INT_MAX"
    and "wf_chain tr m (desc_table vq) (unat (vq_num vq)) head = Some ds"
    and "0 \<le> app" and "int (length ds) + app \<le> INT_MAX"
  shows "process_descriptor_chain zm zid m vq app cf =
    Some (int (length ds), Some head,
          map (\<lambda>d. Some (descriptor2iov tr cf d)) ds @ replicate (nat app) None,
          vq\<lparr>last_avail_idx := last_avail_idx vq + 1\<rparr>)"
  using chain_on_wf [of vq m zm zid ds app cf] assms(3-8) unfolding tr_def head_def by blast

text \<open>The example queue with its head 0 published at the first position of the available ring.\<close>

definition example_avail_mem :: memory where
  "example_avail_mem a = (if a = 0x7f0000001002 then 1 else example_mem a)"

lemma process_descriptor_chain_wf_witness:
  "process_descriptor_chain (\<lambda>_. example_regions) 1 example_avail_mem example_vq 0 False =
    Some (2, Some 0, [Some (\<lparr>iov_base = 0x7f0000000100, iov_len = 16\<rparr>, None),
                      Some (\<lparr>iov_base = 0x7f0000000200, iov_len = 512\<rparr>, None)],
          example_vq\<lparr>last_avail_idx := 1\<rparr>)"
proof -
  let ?ds = "[\<lparr>d_addr = 0x50000100, d_len = 16, d_flags = 1, d_next = 1\<rparr>,
              \<lparr>d_addr = 0x50000200, d_len = 512, d_flags = 2, d_next = 0\<rparr>]"
  have head: "ld16 example_avail_mem (avail_ring_at (avail_ring example_vq)
      (ucast (last_avail_idx example_vq) AND (vq_num example_vq - 1))) = 0" by code_simp
  have chain: "wf_chain (\<lambda>ipa. get_virt_addr (\<lambda>_. example_regions) ipa 1) example_avail_mem
      (desc_table example_vq) (unat (vq_num example_vq)) 0 = Some ?ds" by code_simp
  have "\<not> vq_is_empty example_avail_mem example_vq" by code_simp
  then show ?thesis
    using process_descriptor_chain_wf [of example_vq example_avail_mem "\<lambda>_. example_regions" 1 ?ds 0 False]
      head chain
    by (simp add: example_vq_def zero_vq_def descriptor2iov_def get_virt_addr_def example_regions_def)
qed

section \<open>A chain the measuring pass never leaves\<close>

definition self_linked :: "memory \<Rightarrow> u64 \<Rightarrow> u16 \<Rightarrow> bool" where
  "self_linked m tbl nxt \<longleftrightarrow> has_flag (d_flags (ld_desc m tbl nxt)) VRING_DESC_F_INDIRECT
     \<and> has_flag (d_flags (ld_desc m tbl nxt)) VRING_DESC_F_NEXT \<and> d_next (ld_desc m tbl nxt) = nxt"

lemma count_chain_circular:
  assumes "count_chain m tbl num i cl nxt = Some r"
  shows "\<not> (i < num \<and> self_linked m tbl nxt)"
proof (rule count_chain.raw_induct [OF _ assms, of "\<lambda>m tbl num i cl nxt r. \<not> (i < num \<and> self_linked m tbl nxt)"])
  fix rec m tbl nxt ma and num i chain_len :: int
  assume IH: "\<And>tbl num i chain_len nxt b y. rec tbl num i chain_len nxt b = Some y \<Longrightarrow>
      \<not> (chain_len < i \<and> self_linked tbl num b)"
    and body: "(if num \<le> i then Some (chain_len, i) else if tbl = 0 then None
      else let vdesc = ld_desc m tbl nxt; ind = has_flag (d_flags vdesc) VRING_DESC_F_INDIRECT;
               chain_len' = (if ind then to_c_int (chain_len + uint (d_len vdesc) div 16) else chain_len);
               i' = (if ind then i - 1 else i)
           in if has_flag (d_flags vdesc) VRING_DESC_F_NEXT
              then rec m tbl num (i' + 1) chain_len' (d_next vdesc) else Some (chain_len', i')) = Some ma"
  show "\<not> (i < num \<and> self_linked m tbl nxt)"
  proof
    assume l: "i < num \<and> self_linked m tbl nxt"
    then have "\<exists>cl. rec m tbl num i cl nxt = Some ma"
      using body by (auto simp: self_linked_def Let_def split: if_splits)
    then show False using IH l by blast
  qed
qed

text \<open>
  C40: A driver can publish an indirect descriptor that links to itself. The loop counter that
  guards against circular chains is taken back at every indirect descriptor, so the measuring
  pass of \<open>process_descriptor_chain\<close> never ends and the function does not return.
\<close>

theorem process_descriptor_chain_circular:
  fixes vq m
  defines "head \<equiv> ld16 m (avail_ring_at (avail_ring vq) (ucast (last_avail_idx vq) AND (vq_num vq - 1)))"
  assumes "\<not> vq_is_empty m vq" and "0 < uint (vq_num vq)" and "uint (vq_num vq) \<le> INT_MAX"
    and "self_linked m (desc_table vq) head"
  shows "process_descriptor_chain zm zid m vq app cf = None"
proof -
  have "count_chain m (desc_table vq) (uint (vq_num vq)) 0 0 head = None"
    using count_chain_circular [of m "desc_table vq" "uint (vq_num vq)" 0 0 head] assms(3,5)
    by (cases "count_chain m (desc_table vq) (uint (vq_num vq)) 0 0 head") auto
  then show ?thesis
    using assms(2,4)
    by (auto simp: process_descriptor_chain_def Let_def vq_is_empty_def head_def split: if_splits)
qed

text \<open>Descriptor 0 with the flags \<open>NEXT\<close> and \<open>INDIRECT\<close>, and a link to itself.\<close>

definition circular_mem :: memory where
  "circular_mem a = (if a = 0x7f0000001002 then 1 else if a = 0x7f000000000c then 5 else 0)"

lemma process_descriptor_chain_circular_witness:
  "process_descriptor_chain (\<lambda>_. example_regions) 1 circular_mem example_vq 0 False = None"
proof -
  let ?head = "ld16 circular_mem (avail_ring_at (avail_ring example_vq)
      (ucast (last_avail_idx example_vq) AND (vq_num example_vq - 1)))"
  have h: "?head = 0" by code_simp
  have d: "ld_desc circular_mem (desc_table example_vq) 0 = \<lparr>d_addr = 0, d_len = 0, d_flags = 5, d_next = 0\<rparr>"
    by code_simp
  have "\<not> vq_is_empty circular_mem example_vq" by code_simp
  moreover have "vq_num example_vq = 4" by code_simp
  ultimately show ?thesis
    using process_descriptor_chain_circular [of circular_mem example_vq "\<lambda>_. example_regions" 1 0 False] h d
    by (simp add: self_linked_def has_flag_def)
qed

end
