(* ===== verification/Zone_Types.thy ===== *)
theory Zone_Types
  imports Guest_Memory
begin

text \<open>
  The description of a zone that the tool hands to the hypervisor: the structures of
  \<^verbatim>\<open>src/include/zone_config.h\<close>. A fixed-size array is a list of that length. The architecture part
  has one constructor per variant of the conditional compilation; the architecture a build is made
  for is an argument of the definitions that depend on it.
\<close>

section \<open>Limits\<close>

definition MEM_TYPE_RAM :: u32 where [simp]: "MEM_TYPE_RAM = 0"
definition MEM_TYPE_IO :: u32 where [simp]: "MEM_TYPE_IO = 1"
definition MEM_TYPE_VIRTIO :: u32 where [simp]: "MEM_TYPE_VIRTIO = 2"
definition CONFIG_MAX_INTERRUPTS :: nat where [simp]: "CONFIG_MAX_INTERRUPTS = 1024"
definition CONFIG_INTERRUPTS_BITMAP_BITS_PER_WORD :: nat where [simp]: "CONFIG_INTERRUPTS_BITMAP_BITS_PER_WORD = 32"
definition CONFIG_MAX_ZONES :: nat where [simp]: "CONFIG_MAX_ZONES = 32"
definition CONFIG_NAME_MAXLEN :: nat where [simp]: "CONFIG_NAME_MAXLEN = 32"
definition CONFIG_MAX_PCI_DEV :: nat where [simp]: "CONFIG_MAX_PCI_DEV = 32"
definition CONFIG_PCI_BUS_MAXNUM :: nat where [simp]: "CONFIG_PCI_BUS_MAXNUM = 4"
definition CONFIG_MAX_IVC_CONFIGS :: nat where [simp]: "CONFIG_MAX_IVC_CONFIGS = 2"
definition CONFIG_MAGIC_VERSION :: u64 where [simp]: "CONFIG_MAGIC_VERSION = 6"

section \<open>Structures\<close>

record memory_region =
  mr_type :: u32
  mr_physical_start :: u64
  mr_virtual_start :: u64
  mr_size :: u64

record hv_pci_dev_config =
  pd_domain :: u8
  pd_bus :: u8
  pd_device :: u8
  pd_function :: u8
  pd_v_bus :: u8
  pd_v_device :: u8
  pd_v_function :: u8
  pd_dev_type :: u32

record pci_config =
  pc_ecam_base :: u64
  pc_ecam_size :: u64
  pc_io_base :: u64
  pc_io_size :: u64
  pc_pci_io_base :: u64
  pc_mem32_base :: u64
  pc_mem32_size :: u64
  pc_pci_mem32_base :: u64
  pc_mem64_base :: u64
  pc_mem64_size :: u64
  pc_pci_mem64_base :: u64
  pc_bus_range_begin :: u32
  pc_bus_range_end :: u32
  pc_domain :: u8

record Gicv2Config =
  g2_gicd_base :: u64
  g2_gicd_size :: u64
  g2_gicc_base :: u64
  g2_gicc_size :: u64
  g2_gicc_offset :: u64
  g2_gich_base :: u64
  g2_gich_size :: u64
  g2_gicv_base :: u64
  g2_gicv_size :: u64

record Gicv3Config =
  g3_gicd_base :: u64
  g3_gicd_size :: u64
  g3_gicr_base :: u64
  g3_gicr_size :: u64
  g3_gits_base :: u64
  g3_gits_size :: u64

text \<open>The unions are told apart by the tag at their start.\<close>

datatype GicConfig = Gicv2 Gicv2Config | Gicv3 Gicv3Config

record Uefi =
  ue_memory_map_addr :: u64
  ue_memory_map_size :: u64
  ue_sys_map_addr :: u64

datatype UefiConfig = Uefi_Payload Uefi | No_Uefi

record arm64_arch =
  is_aarch32 :: u8
  gic_config :: GicConfig
  uefi_config :: UefiConfig

record riscv64_arch =
  plic_base :: u64
  plic_size :: u64
  aplic_base :: u64
  aplic_size :: u64

record x86_64_arch =
  ioapic_base :: u64
  ioapic_size :: u64
  kernel_entry_gpa :: u64
  cmdline_load_gpa :: u64
  setup_load_gpa :: u64
  initrd_load_gpa :: u64
  initrd_size :: u64
  rsdp_memory_region_id :: u64
  acpi_memory_region_id :: u64
  uefi_memory_region_id :: u64
  screen_base :: u64

datatype arch_zone_config = Arm64_Config arm64_arch | Riscv64_Config riscv64_arch | Loongarch64_Config u64 | X86_64_Config x86_64_arch

record ivc_config =
  ic_ivc_id :: u32
  ic_peer_id :: u32
  ic_control_table_ipa :: u64
  ic_shared_mem_ipa :: u64
  ic_rw_sec_size :: u32
  ic_out_sec_size :: u32
  ic_interrupt_num :: u32
  ic_max_peers :: u32

record zone_config =
  zn_zone_id :: u32
  zn_cpus :: u64
  zn_num_memory_regions :: u32
  zn_memory_regions :: "memory_region list"
  zn_interrupts_bitmap :: "u32 list"
  zn_num_ivc_configs :: u32
  zn_ivc_configs :: "ivc_config list"
  zn_entry_point :: u64
  zn_kernel_load_paddr :: u64
  zn_kernel_size :: u64
  zn_dtb_load_paddr :: u64
  zn_dtb_size :: u64
  zn_name :: "u8 list"
  zn_arch_config :: arch_zone_config
  zn_num_pci_bus :: u64
  zn_pci_config :: "pci_config list"
  zn_num_pci_devs :: u64
  zn_alloc_pci_devs :: "hv_pci_dev_config list"

record zone_info =
  zi_zone_id :: u32
  zi_cpus :: u64
  zi_name :: "u8 list"
  zi_is_err :: u8

section \<open>The zeroed structure\<close>

datatype arch = ARM64 | RISCV64 | LOONGARCH64 | X86_64

definition zero_region :: memory_region where
  "zero_region = \<lparr>mr_type = 0, mr_physical_start = 0, mr_virtual_start = 0, mr_size = 0\<rparr>"

definition zero_ivc :: ivc_config where
  "zero_ivc = \<lparr>ic_ivc_id = 0, ic_peer_id = 0, ic_control_table_ipa = 0, ic_shared_mem_ipa = 0, ic_rw_sec_size = 0,
     ic_out_sec_size = 0, ic_interrupt_num = 0, ic_max_peers = 0\<rparr>"

definition zero_pci :: pci_config where
  "zero_pci = \<lparr>pc_ecam_base = 0, pc_ecam_size = 0, pc_io_base = 0, pc_io_size = 0, pc_pci_io_base = 0, pc_mem32_base = 0,
     pc_mem32_size = 0, pc_pci_mem32_base = 0, pc_mem64_base = 0, pc_mem64_size = 0, pc_pci_mem64_base = 0,
     pc_bus_range_begin = 0, pc_bus_range_end = 0, pc_domain = 0\<rparr>"

definition zero_pci_dev :: hv_pci_dev_config where
  "zero_pci_dev = \<lparr>pd_domain = 0, pd_bus = 0, pd_device = 0, pd_function = 0, pd_v_bus = 0, pd_v_device = 0,
     pd_v_function = 0, pd_dev_type = 0\<rparr>"

fun zero_arch :: "arch \<Rightarrow> arch_zone_config" where
  "zero_arch ARM64 = Arm64_Config \<lparr>is_aarch32 = 0,
     gic_config = Gicv2 \<lparr>g2_gicd_base = 0, g2_gicd_size = 0, g2_gicc_base = 0, g2_gicc_size = 0, g2_gicc_offset = 0,
       g2_gich_base = 0, g2_gich_size = 0, g2_gicv_base = 0, g2_gicv_size = 0\<rparr>,
     uefi_config = Uefi_Payload \<lparr>ue_memory_map_addr = 0, ue_memory_map_size = 0, ue_sys_map_addr = 0\<rparr>\<rparr>"
| "zero_arch RISCV64 = Riscv64_Config \<lparr>plic_base = 0, plic_size = 0, aplic_base = 0, aplic_size = 0\<rparr>"
| "zero_arch LOONGARCH64 = Loongarch64_Config 0"
| "zero_arch X86_64 = X86_64_Config \<lparr>ioapic_base = 0, ioapic_size = 0, kernel_entry_gpa = 0, cmdline_load_gpa = 0,
     setup_load_gpa = 0, initrd_load_gpa = 0, initrd_size = 0, rsdp_memory_region_id = 0, acpi_memory_region_id = 0,
     uefi_memory_region_id = 0, screen_base = 0\<rparr>"

definition zeroed_config :: "arch \<Rightarrow> zone_config" where
  "zeroed_config a = \<lparr>zn_zone_id = 0, zn_cpus = 0, zn_num_memory_regions = 0,
     zn_memory_regions = replicate CONFIG_MAX_MEMORY_REGIONS zero_region,
     zn_interrupts_bitmap = replicate (CONFIG_MAX_INTERRUPTS div CONFIG_INTERRUPTS_BITMAP_BITS_PER_WORD) 0,
     zn_num_ivc_configs = 0, zn_ivc_configs = replicate CONFIG_MAX_IVC_CONFIGS zero_ivc,
     zn_entry_point = 0, zn_kernel_load_paddr = 0, zn_kernel_size = 0, zn_dtb_load_paddr = 0, zn_dtb_size = 0,
     zn_name = replicate CONFIG_NAME_MAXLEN 0, zn_arch_config = zero_arch a,
     zn_num_pci_bus = 0, zn_pci_config = replicate CONFIG_PCI_BUS_MAXNUM zero_pci,
     zn_num_pci_devs = 0, zn_alloc_pci_devs = replicate CONFIG_MAX_PCI_DEV zero_pci_dev\<rparr>"

text \<open>Every count is within its array, and the arrays have their sizes.\<close>

definition zone_config_ok :: "zone_config \<Rightarrow> bool" where
  "zone_config_ok c \<longleftrightarrow> length (zn_memory_regions c) = 64 \<and> length (zn_interrupts_bitmap c) = 32
     \<and> length (zn_ivc_configs c) = 2 \<and> length (zn_name c) = 32 \<and> length (zn_pci_config c) = 4
     \<and> length (zn_alloc_pci_devs c) = 32
     \<and> unat (zn_num_memory_regions c) \<le> 64 \<and> unat (zn_num_ivc_configs c) \<le> 2 \<and> unat (zn_num_pci_bus c) \<le> 4
     \<and> unat (zn_num_pci_devs c) \<le> 32"

lemma zeroed_config_ok: "zone_config_ok (zeroed_config a)"
  by (simp add: zone_config_ok_def zeroed_config_def)

end
