(* ===== verification/World.thy ===== *)
theory World
  imports Virtqueue Zone_Types
begin

text \<open>
  What the daemon shares with its surroundings: the page shared with the hypervisor
  (\<open>struct virtio_bridge\<close> of \<^verbatim>\<open>src/include/hvisor.h\<close>), guest memory, the zone memory table, and the
  system calls. The kernel is not part of the sources: the results of system calls are a tape
  that the calls consume in order, and every call is recorded in a trace.
\<close>

section \<open>The bridge page\<close>

definition MAX_REQ :: u32 where [simp]: "MAX_REQ = 32"
definition MAX_DEVS :: nat where [simp]: "MAX_DEVS = 8"
definition MAX_CPUS :: nat where [simp]: "MAX_CPUS = 32"

record device_req =
  src_cpu :: u64
  req_address :: u64
  req_size :: u64
  req_value :: u64
  src_zone :: u32
  is_write :: u8
  need_interrupt :: u8

record device_res =
  target_zone :: u32
  res_irq_id :: u32

record virtio_bridge =
  req_front :: u32
  req_rear :: u32
  res_front :: u32
  res_rear :: u32
  req_list :: "device_req list"
  res_list :: "device_res list"
  cfg_flags :: "u64 list"
  cfg_values :: "u64 list"
  mmio_addrs :: "u64 list"
  mmio_avail :: u8
  need_wakeup :: u8

definition is_queue_full :: "u32 \<Rightarrow> u32 \<Rightarrow> u32 \<Rightarrow> bool" where
  "is_queue_full front rear sz \<longleftrightarrow> (rear + 1) AND (sz - 1) = front"

definition bridge_ok :: "virtio_bridge \<Rightarrow> bool" where
  "bridge_ok b \<longleftrightarrow> length (req_list b) = 32 \<and> length (res_list b) = 32
     \<and> length (cfg_flags b) = 32 \<and> length (cfg_values b) = 32 \<and> length (mmio_addrs b) = 8
     \<and> unat (req_front b) < 32 \<and> unat (req_rear b) < 32 \<and> unat (res_front b) < 32 \<and> unat (res_rear b) < 32"

section \<open>System calls\<close>

definition EINTR :: int where [simp]: "EINTR = 4"
definition EIO :: int where [simp]: "EIO = 5"
definition EWOULDBLOCK :: int where [simp]: "EWOULDBLOCK = 11"

text \<open>
  The calls the modelled components make, with the arguments the properties refer to. Allocation
  and thread creation are calls too: a result of 0 is a null pointer for \<open>Calloc\<close> and success for
  the others. The three SCMI calls carry the subcommand, the physical identifier and the other
  fields the caller sets in the argument structure. \<open>Ioctl_Load_Image\<close> carries the bytes to load and the
  physical address they go to, \<open>Ioctl_Zone_Start\<close> the whole description of the zone. \<open>Other_Call\<close> is a call no property refers to, by
  name and descriptor arguments.
\<close>

datatype syscall =
    Ioctl_Deassert u32 u32
  | Ioctl_Finish
  | Preadv int "iovec list" u64
  | Pwritev int "iovec list" u64
  | Fdatasync int
  | Readv int "iovec list"
  | Writev int "iovec list"
  | Read_Discard int
  | Ioctl_Scmi_Clock u32 u32 "u64 list"
  | Ioctl_Scmi_Reset u32 u32 "u64 list"
  | Ioctl_Scmi_Power u32 u32 "u64 list"
  | Mmap u64 u64
  | Munmap u64 u64
  | Close_Fd int
  | Open_Path string
  | Fstat int
  | Ioctl_Blksize int
  | Calloc
  | Mutex_Init
  | Cond_Init
  | Thread_Create
  | Ioctl_Load_Image "u8 list" u64
  | Ioctl_Zone_Start zone_config
  | Ioctl_Set_Boot_Mode u32 u64
  | Ioctl_Get_Ecam_Base
  | Ioctl_Config_Check
  | Ioctl_Zone_Shutdown u64
  | Ioctl_Zone_List u64
  | Access_Path string
  | Other_Call string "int list"

text \<open>
  One result: the return value, \<open>errno\<close>, the values the kernel stored in the argument structure
  and the bytes it stored in the caller's buffers.
\<close>

record sysret =
  s_ret :: int
  s_errno :: int
  s_vals :: "u64 list"
  s_bytes :: "u8 list"

text \<open>
  The table of the event monitor (\<^verbatim>\<open>src/tools/virtio/event_monitor.c\<close>). A registered event is its
  descriptor, its \<open>epoll\<close> type, and the handler with its argument: which device's receive handler
  it is, by the device's zone and window. The \<open>events\<close> array never moves an entry, so a pointer to
  an event is its slot.
\<close>

datatype event_handler = Console_Event u32 u64 | Net_Event u32 u64

record hvisor_event =
  ev_handler :: event_handler
  ev_fd :: int
  ev_epoll_type :: u32

record event_monitor =
  em_epoll_fd :: int
  em_events :: "hvisor_event option list"
  em_events_num :: nat

record world =
  w_mem :: memory
  w_zm :: zone_mem
  w_bridge :: virtio_bridge
  w_tape :: "sysret list"
  w_trace :: "syscall list"
  w_deassert :: bool
  irq_trace_seq :: u64
  w_events :: event_monitor

text \<open>The values a call stores in its argument structure, by position.\<close>

definition s_val :: "sysret \<Rightarrow> nat \<Rightarrow> u64" where
  "s_val r i = (if i < length (s_vals r) then s_vals r ! i else 0)"

text \<open>A call on an exhausted tape never returns.\<close>

definition sys_call :: "syscall \<Rightarrow> world \<Rightarrow> (sysret \<times> world) option" where
  "sys_call c w =
     (case w_tape w of [] \<Rightarrow> None
      | r # rs \<Rightarrow> Some (r, w\<lparr>w_tape := rs, w_trace := w_trace w @ [c]\<rparr>))"

lemma post_sys_call [wp]: "(\<And>r w'. sys_call c w = Some (r, w') \<Longrightarrow> P (r, w')) \<Longrightarrow> post P (sys_call c w)"
  by (auto simp: post_def)

text \<open>The idiom \<open>do ret = call(); while (ret < 0 && errno == EINTR);\<close>\<close>

function sys_retry :: "syscall \<Rightarrow> world \<Rightarrow> (sysret \<times> world) option" where
  "sys_retry c w =
     (case sys_call c w of None \<Rightarrow> None
      | Some (r, w') \<Rightarrow> if s_ret r < 0 \<and> s_errno r = EINTR then sys_retry c w' else Some (r, w'))"
  by pat_completeness auto
termination
  by (relation "measure (\<lambda>(c, w). length (w_tape w))") (auto simp: sys_call_def split: list.splits)

declare sys_retry.simps [simp del]

text \<open>A system call only consumes the tape and extends the trace.\<close>

definition same_but_calls :: "world \<Rightarrow> world \<Rightarrow> bool" where
  "same_but_calls w w' \<longleftrightarrow> w' = w\<lparr>w_tape := w_tape w', w_trace := w_trace w'\<rparr>"

lemma sys_call_frame: "sys_call c w = Some (r, w') \<Longrightarrow> same_but_calls w w'"
  by (auto simp: sys_call_def same_but_calls_def split: list.splits)

lemma same_but_calls_refl [simp]: "same_but_calls w w"
  by (simp add: same_but_calls_def)

lemma same_but_calls_trans: "same_but_calls u v \<Longrightarrow> same_but_calls v w \<Longrightarrow> same_but_calls u w"
  by (cases u; cases v; cases w) (auto simp: same_but_calls_def)

lemma same_but_calls_fields [simp]:
  assumes "same_but_calls w w'"
  shows "w_mem w' = w_mem w" "w_zm w' = w_zm w" "w_bridge w' = w_bridge w" "w_deassert w' = w_deassert w"
    "irq_trace_seq w' = irq_trace_seq w" "w_events w' = w_events w"
  using assms by (simp_all add: same_but_calls_def) (metis world.select_convs world.update_convs world.surjective)+

lemma sys_retry_frame: "sys_retry c w = Some (r, w') \<Longrightarrow> same_but_calls w w'"
proof (induction c w rule: sys_retry.induct)
  case (1 c w)
  then show ?case
    by (subst (asm) sys_retry.simps)
      (auto split: option.splits if_splits dest!: sys_call_frame intro: same_but_calls_trans)
qed

text \<open>The retry loop returns exactly when the kernel eventually answers with something but \<open>EINTR\<close>.\<close>

abbreviation interrupted :: "sysret \<Rightarrow> bool" where
  "interrupted r \<equiv> s_ret r < 0 \<and> s_errno r = EINTR"

lemma sys_retry_returns:
  "sys_retry c w = (case dropWhile interrupted (w_tape w) of [] \<Rightarrow> None
     | r # rs \<Rightarrow> Some (r, w\<lparr>w_tape := rs,
         w_trace := w_trace w @ replicate (Suc (length (takeWhile interrupted (w_tape w)))) c\<rparr>))"
proof (induction "w_tape w" arbitrary: w)
  case Nil
  then show ?case by (subst sys_retry.simps) (simp add: sys_call_def)
next
  case (Cons r rs)
  show ?case
    using Cons.hyps(1) [of "w\<lparr>w_tape := rs, w_trace := w_trace w @ [c]\<rparr>"] Cons.hyps(2) [symmetric]
    by (subst sys_retry.simps, cases "dropWhile interrupted rs")
      (simp_all add: sys_call_def del: dropWhile_eq_Nil_conv)
qed

lemma sys_call_trace: "sys_call c w = Some (r, w') \<Longrightarrow> w_trace w' = w_trace w @ [c]"
  by (auto simp: sys_call_def split: list.splits)

lemma sys_call_mem: "sys_call c w = Some (r, w') \<Longrightarrow> w_mem w' = w_mem w"
  using sys_call_frame same_but_calls_fields(1) by blast

section \<open>A world for concrete runs\<close>

text \<open>An idle bridge and a kernel that answers four calls with 0.\<close>

definition example_bridge :: virtio_bridge where
  "example_bridge = \<lparr>req_front = 0, req_rear = 0, res_front = 0, res_rear = 0,
     req_list = replicate 32 \<lparr>src_cpu = 0, req_address = 0, req_size = 0, req_value = 0, src_zone = 0, is_write = 0, need_interrupt = 0\<rparr>,
     res_list = replicate 32 \<lparr>target_zone = 0, res_irq_id = 0\<rparr>,
     cfg_flags = replicate 32 0, cfg_values = replicate 32 0,
     mmio_addrs = replicate 8 0, mmio_avail = 0, need_wakeup = 0\<rparr>"

definition ok_ret :: sysret where
  "ok_ret = \<lparr>s_ret = 0, s_errno = 0, s_vals = [], s_bytes = []\<rparr>"

definition example_world :: world where
  "example_world = \<lparr>w_mem = example_mem, w_zm = \<lambda>_. example_regions, w_bridge = example_bridge,
     w_tape = [ok_ret, ok_ret, ok_ret, ok_ret], w_trace = [], w_deassert = True, irq_trace_seq = 0,
     w_events = \<lparr>em_epoll_fd = 5, em_events = replicate 16 None, em_events_num = 0\<rparr>\<rparr>"

end
