(* ===== verification/Device.thy ===== *)
theory Device
  imports World
begin

text \<open>
  The virtio device of \<^verbatim>\<open>src/tools/virtio/include/virtio.h\<close> and the operations of
  \<^verbatim>\<open>src/tools/virtio/virtio.c\<close> on one device: initialisation of its queues and registers, reset,
  the interrupt line, and the injection of an interrupt into the guest through the response ring
  of the bridge page. The device-specific part \<open>dev\<close> has the type parameter \<open>'d\<close>; the function
  pointers of \<open>struct virtio_device_ops\<close> are functions on the device and the world.
\<close>

section \<open>Registers, devices and their operation tables\<close>

record VirtMmioRegs =
  device_id :: u32
  dev_feature_sel :: u32
  drv_feature_sel :: u32
  queue_sel :: u32
  interrupt_status :: u32
  reg_status :: u32
  generation :: u32
  dev_feature :: u64
  drv_feature :: u64

datatype VirtioDeviceType =
  VirtioTNone | VirtioTNet | VirtioTBlock | VirtioTConsole | VirtioTGPU | VirtioTSCMI

fun type_id :: "VirtioDeviceType \<Rightarrow> u32" where
  "type_id VirtioTNone = 0"
| "type_id VirtioTNet = 1"
| "type_id VirtioTBlock = 2"
| "type_id VirtioTConsole = 3"
| "type_id VirtioTGPU = 16"
| "type_id VirtioTSCMI = 32"

text \<open>
  The fields \<open>virtio_close\<close> and \<open>status_changed\<close> of the C structure are copies of the pointers of
  the operation table of the device's type; here they say whether the pointer is set.
\<close>

record 'd VirtIODevice =
  vqs_len :: u32
  zone_id :: u32
  irq_id :: u32
  base_addr :: u64
  mmio_len :: u64
  dev_type :: VirtioDeviceType
  regs :: VirtMmioRegs
  vqs :: "VirtQueue list"
  dev :: 'd
  virtio_close_set :: bool
  status_changed_set :: bool
  activated :: bool
  interrupt_line_asserted :: bool

record ('d, 'p) virtio_device_ops =
  op_features :: u64
  num_queues :: u32
  queue_max_size :: u32
  op_init :: "'d VirtIODevice \<Rightarrow> 'p \<Rightarrow> world \<Rightarrow> (int \<times> 'd VirtIODevice \<times> world) option"
  op_close :: "'d VirtIODevice \<Rightarrow> world \<Rightarrow> world option"
  op_reset :: "('d VirtIODevice \<Rightarrow> world \<Rightarrow> ('d VirtIODevice \<times> world) option) option"
  op_status_changed :: "('d VirtIODevice \<Rightarrow> u32 \<Rightarrow> world \<Rightarrow> ('d VirtIODevice \<times> world) option) option"
  notify_handlers :: "('d VirtIODevice \<Rightarrow> nat \<Rightarrow> world \<Rightarrow> (int \<times> 'd VirtIODevice \<times> world) option) option list"

text \<open>
  What the generic code is linked against: the table of operation tables, the bytes of the
  structure behind \<open>dev\<close> (whose first member is the configuration space), and the value of \<open>dev\<close>
  before the device is initialised. The function \<open>vring_need_event\<close> of \<^verbatim>\<open>linux/virtio_ring.h\<close> is an
  argument of the operations that inject interrupts.
\<close>

record ('d, 'p) devenv =
  lookup_ops :: "VirtioDeviceType \<Rightarrow> ('d, 'p) virtio_device_ops option"
  dev_bytes :: "'d \<Rightarrow> u8 list"
  null_dev :: 'd

type_synonym need_event = "u16 \<Rightarrow> u16 \<Rightarrow> u16 \<Rightarrow> bool"

definition VIRTIO_MAX_VQUEUES :: u32 where [simp]: "VIRTIO_MAX_VQUEUES = 4"
definition VIRTIO_RING_F_EVENT_IDX :: nat where [simp]: "VIRTIO_RING_F_EVENT_IDX = 29"
definition VIRTIO_MMIO_INT_VRING :: u32 where [simp]: "VIRTIO_MMIO_INT_VRING = 1"
definition VIRTIO_MMIO_INT_CONFIG :: u32 where [simp]: "VIRTIO_MMIO_INT_CONFIG = 2"
definition EINVAL :: int where [simp]: "EINVAL = 22"
definition ENOMEM :: int where [simp]: "ENOMEM = 12"

section \<open>Initialisation\<close>

definition init_mmio_regs :: "VirtMmioRegs \<Rightarrow> VirtioDeviceType \<Rightarrow> VirtMmioRegs" where
  "init_mmio_regs r t = r\<lparr>device_id := type_id t, queue_sel := 0\<rparr>"

definition init_vq :: "('d, 'p) virtio_device_ops \<Rightarrow> nat \<Rightarrow> VirtQueue" where
  "init_vq ops i =
     (let vq = (virtqueue_reset zero_vq (of_nat i))\<lparr>queue_num_max := queue_max_size ops\<rparr> in
      if i < length (notify_handlers ops) \<and> notify_handlers ops ! i \<noteq> None
      then vq\<lparr>notify_handler := Some i\<rparr> else vq)"

text \<open>The argument \<open>mem_ok\<close> says whether \<open>calloc\<close> succeeds.\<close>

definition init_virtio_queue :: "bool \<Rightarrow> 'd VirtIODevice \<Rightarrow> ('d, 'p) virtio_device_ops \<Rightarrow> int \<times> 'd VirtIODevice" where
  "init_virtio_queue mem_ok vdev ops =
     (if num_queues ops = 0 \<or> num_queues ops > VIRTIO_MAX_VQUEUES then (- EINVAL, vdev)
      else let vdev1 = vdev\<lparr>vqs_len := num_queues ops\<rparr> in
        if \<not> mem_ok then (- ENOMEM, vdev1)
        else (0, vdev1\<lparr>vqs := map (init_vq ops) [0..<unat (num_queues ops)]\<rparr>))"

section \<open>The interrupt line\<close>

definition virtio_deassert_line_locked :: "'d VirtIODevice \<Rightarrow> world \<Rightarrow> (int \<times> world) option" where
  "virtio_deassert_line_locked vdev w =
     (if w_deassert w
      then do { (r, w') \<leftarrow> sys_retry (Ioctl_Deassert (zone_id vdev) (irq_id vdev)) w; Some (s_ret r, w') }
      else Some (0, w))"

definition upd_vq :: "nat \<Rightarrow> (VirtQueue \<Rightarrow> VirtQueue) \<Rightarrow> 'd VirtIODevice \<Rightarrow> 'd VirtIODevice option" where
  "upd_vq i f vdev =
     (if i < length (vqs vdev) then Some (vdev\<lparr>vqs := (vqs vdev)[i := f (vqs vdev ! i)]\<rparr>) else None)"

text \<open>The loop \<open>for (i = 0; i < n; i++) virtqueue_reset(&vqs[i], i)\<close>.\<close>

definition reset_vqs :: "nat \<Rightarrow> VirtQueue list \<Rightarrow> VirtQueue list option" where
  "reset_vqs n qs =
     (if n \<le> length qs
      then Some (map (\<lambda>i. virtqueue_reset (qs ! i) (of_nat i)) [0..<n] @ drop n qs) else None)"

definition virtio_dev_reset ::
  "('d, 'p) devenv \<Rightarrow> 'd VirtIODevice \<Rightarrow> world \<Rightarrow> ('d VirtIODevice \<times> world) option" where
  "virtio_dev_reset env vdev w = do {
     (vdev1, w1) \<leftarrow> (if interrupt_line_asserted vdev
        then do { (ret, w') \<leftarrow> virtio_deassert_line_locked vdev w;
                  Some (if ret = 0 then vdev\<lparr>interrupt_line_asserted := False\<rparr> else vdev, w') }
        else Some (vdev, w));
     let vdev2 = (if \<not> interrupt_line_asserted vdev1
                  then vdev1\<lparr>regs := (regs vdev1)\<lparr>interrupt_status := 0\<rparr>\<rparr> else vdev1);
     let vdev3 = vdev2\<lparr>regs := (regs vdev2)\<lparr>reg_status := 0\<rparr>\<rparr>;
     vdev4 \<leftarrow> upd_vq (unat (queue_sel (regs vdev3))) (\<lambda>q. q\<lparr>vq_ready := 0\<rparr>) vdev3;
     (vdev5, w2) \<leftarrow> (case lookup_ops env (dev_type vdev4) of
         None \<Rightarrow> Some (vdev4, w1)
       | Some ops \<Rightarrow> (case op_reset ops of None \<Rightarrow> Some (vdev4, w1) | Some f \<Rightarrow> f vdev4 w1));
     qs \<leftarrow> reset_vqs (unat (vqs_len vdev5)) (vqs vdev5);
     Some (vdev5\<lparr>vqs := qs, activated := False\<rparr>, w2)
   }"

section \<open>Injecting an interrupt\<close>

text \<open>
  Putting one response in the ring of the bridge page. The C code spins while the ring is full;
  only the hypervisor empties it, so a full ring is \<open>None\<close> here.
\<close>

definition push_res :: "device_res \<Rightarrow> virtio_bridge \<Rightarrow> virtio_bridge option" where
  "push_res res b =
     (if is_queue_full (res_front b) (res_rear b) MAX_REQ then None
      else do {
        l \<leftarrow> upd_ub (res_list b) (unat (res_rear b)) res;
        Some (b\<lparr>res_list := l, res_rear := (res_rear b + 1) AND (MAX_REQ - 1)\<rparr>)
      })"

definition assert_line :: "'d VirtIODevice \<Rightarrow> world \<Rightarrow> ('d VirtIODevice \<times> world) option" where
  "assert_line vdev w = do {
     b \<leftarrow> push_res \<lparr>target_zone = zone_id vdev, res_irq_id = irq_id vdev\<rparr> (w_bridge w);
     (r, w') \<leftarrow> sys_retry Ioctl_Finish (w\<lparr>w_bridge := b\<rparr>);
     let vdev' = (if s_ret r = 0 then vdev\<lparr>interrupt_line_asserted := True\<rparr> else vdev);
     Some (vdev', w'\<lparr>irq_trace_seq := irq_trace_seq w' + 1\<rparr>)
   }"

text \<open>Whether the driver wants to hear about the completions since the last interrupt.\<close>

definition driver_wants_irq :: "need_event \<Rightarrow> VirtQueue \<Rightarrow> memory \<Rightarrow> u16 \<Rightarrow> u16 \<Rightarrow> bool option" where
  "driver_wants_irq need vq m idx last_used =
     (if avail_ring vq = 0 then None
      else if event_idx_enabled vq = 0
      then Some (\<not> has_flag (ld16 m (avail_flags_at (avail_ring vq))) VRING_AVAIL_F_NO_INTERRUPT)
      else Some (need (VQ_USED_EVENT m vq) idx last_used))"

definition virtio_inject_irq ::
  "need_event \<Rightarrow> nat \<Rightarrow> 'd VirtIODevice \<Rightarrow> world \<Rightarrow> ('d VirtIODevice \<times> world) option" where
  "virtio_inject_irq need i vdev w = do {
     vq \<leftarrow> nth_ub (vqs vdev) i;
     if used_ring vq = 0 then None else do {
       let last_used = last_used_idx vq;
       let idx = ld16 (w_mem w) (used_idx_at (used_ring vq));
       vdev1 \<leftarrow> upd_vq i (\<lambda>q. q\<lparr>last_used_idx := idx\<rparr>) vdev;
       if idx = last_used then Some (vdev1, w)
       else do {
         wants \<leftarrow> driver_wants_irq need vq (w_mem w) idx last_used;
         if \<not> wants then Some (vdev1, w)
         else do {
           let vdev2 = vdev1\<lparr>regs := (regs vdev1)\<lparr>interrupt_status :=
                         interrupt_status (regs vdev1) OR VIRTIO_MMIO_INT_VRING\<rparr>\<rparr>;
           if interrupt_line_asserted vdev2
           then Some (vdev2, w\<lparr>irq_trace_seq := irq_trace_seq w + 1\<rparr>)
           else assert_line vdev2 w
         }
       }
     }
   }"

section \<open>What every operation keeps\<close>

text \<open>
  A device is consistent when its queue array has the length it records and the guest's interrupt
  line is only held while an interrupt is pending, so that an acknowledgement will release it.
\<close>

definition dev_ok :: "'d VirtIODevice \<Rightarrow> bool" where
  "dev_ok v \<longleftrightarrow> length (vqs v) = unat (vqs_len v)
     \<and> (interrupt_line_asserted v \<longrightarrow> interrupt_status (regs v) \<noteq> 0)"

definition same_identity :: "'d VirtIODevice \<Rightarrow> 'd VirtIODevice \<Rightarrow> bool" where
  "same_identity v v' \<longleftrightarrow> vqs_len v' = vqs_len v \<and> zone_id v' = zone_id v \<and> irq_id v' = irq_id v
     \<and> base_addr v' = base_addr v \<and> mmio_len v' = mmio_len v \<and> dev_type v' = dev_type v"

text \<open>One operation keeps the identity of the device and its consistency.\<close>

definition keeps :: "'d VirtIODevice \<Rightarrow> 'd VirtIODevice \<Rightarrow> bool" where
  "keeps v v' \<longleftrightarrow> same_identity v v' \<and> (dev_ok v \<longrightarrow> dev_ok v')"

lemma keeps_refl [simp, intro]: "keeps v v"
  by (simp add: keeps_def same_identity_def)

lemma keeps_trans: "keeps u v \<Longrightarrow> keeps v w \<Longrightarrow> keeps u w"
  by (simp add: keeps_def same_identity_def)

lemma keeps_upd_vq: "upd_vq i f v = Some v' \<Longrightarrow> keeps v v'"
  by (auto simp: upd_vq_def keeps_def same_identity_def dev_ok_def split: if_splits)

lemma keeps_regs:
  "interrupt_status r \<noteq> 0 \<or> interrupt_status r = interrupt_status (regs v) \<or> \<not> interrupt_line_asserted v
   \<Longrightarrow> keeps v (v\<lparr>regs := r\<rparr>)"
  by (auto simp: keeps_def same_identity_def dev_ok_def)

lemma keeps_line_down: "keeps v (v\<lparr>interrupt_line_asserted := False\<rparr>)"
  by (simp add: keeps_def same_identity_def dev_ok_def)

lemma keeps_activated: "keeps v (v\<lparr>activated := b\<rparr>)"
  by (simp add: keeps_def same_identity_def dev_ok_def)

lemma keeps_dev: "keeps v (v\<lparr>dev := d\<rparr>)"
  by (simp add: keeps_def same_identity_def dev_ok_def)

lemma keeps_vqs: "length qs = length (vqs v) \<Longrightarrow> keeps v (v\<lparr>vqs := qs\<rparr>)"
  by (simp add: keeps_def same_identity_def dev_ok_def)

lemma keeps_line_up: "interrupt_status (regs v) \<noteq> 0 \<Longrightarrow> keeps v (v\<lparr>interrupt_line_asserted := True\<rparr>)"
  by (simp add: keeps_def same_identity_def dev_ok_def)

lemma reset_vqs_length: "reset_vqs n qs = Some qs' \<Longrightarrow> length qs' = length qs"
  by (auto simp: reset_vqs_def split: if_splits)

text \<open>
  What an operation on a device may do to the world: it never touches the zone memory table, the
  request ring, or the configuration-request answers, and it keeps the bridge page well formed.
\<close>

definition wkeeps :: "world \<Rightarrow> world \<Rightarrow> bool" where
  "wkeeps w w' \<longleftrightarrow> w_zm w' = w_zm w \<and> req_front (w_bridge w') = req_front (w_bridge w)
     \<and> req_rear (w_bridge w') = req_rear (w_bridge w) \<and> req_list (w_bridge w') = req_list (w_bridge w)
     \<and> cfg_flags (w_bridge w') = cfg_flags (w_bridge w) \<and> cfg_values (w_bridge w') = cfg_values (w_bridge w)
     \<and> need_wakeup (w_bridge w') = need_wakeup (w_bridge w) \<and> (bridge_ok (w_bridge w) \<longrightarrow> bridge_ok (w_bridge w'))"

lemma wkeeps_refl [simp, intro]: "wkeeps w w"
  by (simp add: wkeeps_def)

lemma wkeeps_trans: "wkeeps u v \<Longrightarrow> wkeeps v w \<Longrightarrow> wkeeps u w"
  by (simp add: wkeeps_def)

lemma wkeeps_calls: "same_but_calls w w' \<Longrightarrow> wkeeps w w'"
  by (simp add: wkeeps_def)

lemma wkeeps_seq [simp]: "wkeeps w (w'\<lparr>irq_trace_seq := n\<rparr>) \<longleftrightarrow> wkeeps w w'"
  by (simp add: wkeeps_def)

lemma wkeeps_mem [simp]: "wkeeps w (w'\<lparr>w_mem := m\<rparr>) \<longleftrightarrow> wkeeps w w'"
  by (simp add: wkeeps_def)

lemma push_res_wkeeps:
  assumes "push_res res (w_bridge w) = Some b"
  shows "wkeeps w (w\<lparr>w_bridge := b\<rparr>)"
proof -
  have "unat ((r + 1) AND (MAX_REQ - 1)) < 32" for r :: u32
  proof -
    have "MAX_REQ - 1 = mask 5" by (simp add: mask_eq_decr_exp)
    then show ?thesis by (simp only: unat_and_mask) simp
  qed
  then show ?thesis
    using assms by (auto simp: push_res_def bind_Some_iff upd_ub_Some wkeeps_def bridge_ok_def split: if_splits)
qed

lemma deassert_wkeeps: "virtio_deassert_line_locked v w = Some (r, w') \<Longrightarrow> wkeeps w w'"
  by (auto simp: virtio_deassert_line_locked_def bind_Some_iff split: if_splits
      dest!: sys_retry_frame wkeeps_calls)

text \<open>
  The contract between the generic code and a device backend: the reset, status and notification
  operations of its table keep the device and what they must not touch of the world.
\<close>

locale device_backend =
  fixes env :: "('d, 'p) devenv"
  assumes reset_keeps:
      "\<lbrakk>lookup_ops env t = Some ops; op_reset ops = Some f; f v w = Some (v', w')\<rbrakk>
       \<Longrightarrow> keeps v v' \<and> wkeeps w w'"
    and status_keeps:
      "\<lbrakk>lookup_ops env t = Some ops; op_status_changed ops = Some g; g v s w = Some (v', w')\<rbrakk>
       \<Longrightarrow> keeps v v' \<and> wkeeps w w'"
    and notify_keeps:
      "\<lbrakk>lookup_ops env t = Some ops; Some h \<in> set (notify_handlers ops); h v i w = Some (r, v', w')\<rbrakk>
       \<Longrightarrow> keeps v v' \<and> wkeeps w w'"
begin

lemma virtio_dev_reset_keeps:
  assumes "virtio_dev_reset env v w = Some (v', w')"
  shows "keeps v v' \<and> wkeeps w w'"
proof -
  obtain v1 w1 where line: "(if interrupt_line_asserted v
        then do { (ret, w') \<leftarrow> virtio_deassert_line_locked v w;
                  Some (if ret = 0 then v\<lparr>interrupt_line_asserted := False\<rparr> else v, w') }
        else Some (v, w)) = Some (v1, w1)"
    using assms by (auto simp: virtio_dev_reset_def bind_Some_iff)
  then have k1: "keeps v v1" and w1: "wkeeps w w1"
    by (auto simp: bind_Some_iff keeps_line_down split: if_splits dest: deassert_wkeeps)
  define v2 where "v2 = (if \<not> interrupt_line_asserted v1
      then v1\<lparr>regs := (regs v1)\<lparr>interrupt_status := 0\<rparr>\<rparr> else v1)"
  define v3 where "v3 = v2\<lparr>regs := (regs v2)\<lparr>reg_status := 0\<rparr>\<rparr>"
  have k3: "keeps v1 v3"
    unfolding v3_def v2_def by (auto intro!: keeps_regs intro: keeps_trans)
  obtain v4 v5 w2 qs where rest: "upd_vq (unat (queue_sel (regs v3))) (\<lambda>q. q\<lparr>vq_ready := 0\<rparr>) v3 = Some v4"
      "(case lookup_ops env (dev_type v4) of None \<Rightarrow> Some (v4, w1)
         | Some ops \<Rightarrow> (case op_reset ops of None \<Rightarrow> Some (v4, w1) | Some f \<Rightarrow> f v4 w1)) = Some (v5, w2)"
      "reset_vqs (unat (vqs_len v5)) (vqs v5) = Some qs" "v' = v5\<lparr>vqs := qs, activated := False\<rparr>"
    and w2: "w' = w2"
    using assms line unfolding virtio_dev_reset_def v3_def v2_def
    by (auto simp: bind_Some_iff Let_def)
  have "keeps v4 v5" and "wkeeps w1 w2"
    using rest(2) by (auto split: option.splits dest: reset_keeps)
  moreover have "keeps v5 v'"
    using keeps_trans [OF keeps_vqs [OF reset_vqs_length [OF rest(3)]] keeps_activated] rest(4) by simp
  ultimately show ?thesis
    using k1 k3 w1 w2 keeps_upd_vq [OF rest(1)] by (blast intro: keeps_trans wkeeps_trans)
qed

end

lemma assert_line_wkeeps: "assert_line v w = Some (v', w') \<Longrightarrow> wkeeps w w'"
  by (auto simp: assert_line_def bind_Some_iff Let_def
      dest!: push_res_wkeeps sys_retry_frame wkeeps_calls intro: wkeeps_trans)

lemma virtio_inject_irq_wkeeps: "virtio_inject_irq need i v w = Some (v', w') \<Longrightarrow> wkeeps w w'"
  by (auto simp: virtio_inject_irq_def bind_Some_iff Let_def split: if_splits dest: assert_line_wkeeps)

lemma virtio_inject_irq_keeps:
  assumes "virtio_inject_irq need i v w = Some (v', w')"
  shows "keeps v v'"
proof -
  obtain v1 where v1: "upd_vq i (\<lambda>q. q\<lparr>last_used_idx := ld16 (w_mem w) (used_idx_at (used_ring (vqs v ! i)))\<rparr>) v = Some v1"
    using assms by (auto simp: virtio_inject_irq_def bind_Some_iff Let_def nth_ub_Some split: if_splits)
  define v2 where "v2 = v1\<lparr>regs := (regs v1)\<lparr>interrupt_status := interrupt_status (regs v1) OR 1\<rparr>\<rparr>"
  have ne: "interrupt_status (regs v1) OR 1 \<noteq> 0"
    by (metis bit.disj_conj_distrib2 bit.disj_zero_right or_eq_0_iff zero_neq_one)
  then have k2: "keeps v1 v2" unfolding v2_def by (intro keeps_regs) simp
  have "v' = v1 \<or> v' = v2 \<or> v' = v2\<lparr>interrupt_line_asserted := True\<rparr>"
    using assms v1
    by (auto simp: virtio_inject_irq_def bind_Some_iff Let_def nth_ub_Some assert_line_def v2_def split: if_splits)
  moreover have "keeps v2 (v2\<lparr>interrupt_line_asserted := True\<rparr>)"
    using ne by (intro keeps_line_up) (simp add: v2_def)
  ultimately show ?thesis
    using keeps_upd_vq [OF v1] k2 by (auto intro: keeps_trans)
qed

end
