(* ===== verification/Mmio.thy ===== *)
theory Mmio
  imports Device
begin

text \<open>
  The MMIO register interface of a device: \<open>virtio_mmio_read\<close>, \<open>virtio_mmio_write\<close> and
  \<open>virtio_mmio_reg_name\<close> of \<^verbatim>\<open>src/tools/virtio/virtio.c\<close>, with the register offsets of
  \<^verbatim>\<open>src/tools/include/linux/virtio_mmio.h\<close>. The device argument is a device, not a pointer: the
  only caller passes one it has found in the device table.
\<close>

section \<open>Register offsets\<close>

text \<open>The case labels of the three \<open>switch\<close> statements.\<close>

datatype mmio_reg =
    MAGIC_VALUE | VERSION | DEVICE_ID | VENDOR_ID | DEVICE_FEATURES | DEVICE_FEATURES_SEL
  | DRIVER_FEATURES | DRIVER_FEATURES_SEL | GUEST_PAGE_SIZE | QUEUE_SEL | QUEUE_NUM_MAX | QUEUE_NUM
  | QUEUE_ALIGN | QUEUE_PFN | QUEUE_READY | QUEUE_NOTIFY | INTERRUPT_STATUS | INTERRUPT_ACK | STATUS
  | QUEUE_DESC_LOW | QUEUE_DESC_HIGH | QUEUE_AVAIL_LOW | QUEUE_AVAIL_HIGH | QUEUE_USED_LOW
  | QUEUE_USED_HIGH | CONFIG_GENERATION | CONFIG | UNKNOWN

fun reg_offset :: "mmio_reg \<Rightarrow> u64" where
  "reg_offset MAGIC_VALUE = 0x000"
| "reg_offset VERSION = 0x004"
| "reg_offset DEVICE_ID = 0x008"
| "reg_offset VENDOR_ID = 0x00c"
| "reg_offset DEVICE_FEATURES = 0x010"
| "reg_offset DEVICE_FEATURES_SEL = 0x014"
| "reg_offset DRIVER_FEATURES = 0x020"
| "reg_offset DRIVER_FEATURES_SEL = 0x024"
| "reg_offset GUEST_PAGE_SIZE = 0x028"
| "reg_offset QUEUE_SEL = 0x030"
| "reg_offset QUEUE_NUM_MAX = 0x034"
| "reg_offset QUEUE_NUM = 0x038"
| "reg_offset QUEUE_ALIGN = 0x03c"
| "reg_offset QUEUE_PFN = 0x040"
| "reg_offset QUEUE_READY = 0x044"
| "reg_offset QUEUE_NOTIFY = 0x050"
| "reg_offset INTERRUPT_STATUS = 0x060"
| "reg_offset INTERRUPT_ACK = 0x064"
| "reg_offset STATUS = 0x070"
| "reg_offset QUEUE_DESC_LOW = 0x080"
| "reg_offset QUEUE_DESC_HIGH = 0x084"
| "reg_offset QUEUE_AVAIL_LOW = 0x090"
| "reg_offset QUEUE_AVAIL_HIGH = 0x094"
| "reg_offset QUEUE_USED_LOW = 0x0a0"
| "reg_offset QUEUE_USED_HIGH = 0x0a4"
| "reg_offset CONFIG_GENERATION = 0x0fc"
| "reg_offset CONFIG = 0x100"
| "reg_offset UNKNOWN = 0xffffffffffffffff"

definition all_regs :: "mmio_reg list" where
  "all_regs = [MAGIC_VALUE, VERSION, DEVICE_ID, VENDOR_ID, DEVICE_FEATURES, DEVICE_FEATURES_SEL,
     DRIVER_FEATURES, DRIVER_FEATURES_SEL, GUEST_PAGE_SIZE, QUEUE_SEL, QUEUE_NUM_MAX, QUEUE_NUM,
     QUEUE_ALIGN, QUEUE_PFN, QUEUE_READY, QUEUE_NOTIFY, INTERRUPT_STATUS, INTERRUPT_ACK, STATUS,
     QUEUE_DESC_LOW, QUEUE_DESC_HIGH, QUEUE_AVAIL_LOW, QUEUE_AVAIL_HIGH, QUEUE_USED_LOW,
     QUEUE_USED_HIGH, CONFIG_GENERATION, CONFIG]"

text \<open>Which label an offset is; \<open>UNKNOWN\<close> is the \<open>default\<close> label.\<close>

definition mmio_reg_name :: "u64 \<Rightarrow> mmio_reg" where
  "mmio_reg_name offs =
     (case filter (\<lambda>r. reg_offset r = offs) all_regs of [] \<Rightarrow> UNKNOWN | r # _ \<Rightarrow> r)"

lemma mmio_reg_name_offset: "r \<noteq> UNKNOWN \<Longrightarrow> mmio_reg_name (reg_offset r) = r"
  by (cases r) (simp_all add: mmio_reg_name_def all_regs_def)

definition VIRT_MAGIC :: u64 where [simp]: "VIRT_MAGIC = 0x74726976"
definition VIRT_VERSION :: u64 where [simp]: "VIRT_VERSION = 2"
definition VIRT_VENDOR :: u64 where [simp]: "VIRT_VENDOR = 0x48564953"
definition VIRTIO_MMIO_CONFIG :: u64 where [simp]: "VIRTIO_MMIO_CONFIG = 0x100"

section \<open>Reads\<close>

text \<open>An eight-byte little-endian load from the structure behind \<open>dev\<close>.\<close>

definition ld64_list :: "u8 list \<Rightarrow> nat \<Rightarrow> u64 option" where
  "ld64_list bs off =
     (if off + 8 \<le> length bs then Some (ld64 (\<lambda>a. bs ! (off + unat a)) 0) else None)"

text \<open>The second component is the new value of the trace counter.\<close>

definition virtio_mmio_read ::
  "('d, 'p) devenv \<Rightarrow> 'd VirtIODevice \<Rightarrow> u64 \<Rightarrow> u32 \<Rightarrow> u64 \<Rightarrow> (u64 \<times> u64) option" where
  "virtio_mmio_read env vdev offs sz seq =
     (if offs \<ge> VIRTIO_MMIO_CONFIG
      then map_option (\<lambda>v. (v, seq)) (ld64_list (dev_bytes env (dev vdev)) (unat (offs - VIRTIO_MMIO_CONFIG)))
      else if sz \<noteq> 4 then Some (0, seq)
      else case mmio_reg_name offs of
        MAGIC_VALUE \<Rightarrow> Some (VIRT_MAGIC, seq)
      | VERSION \<Rightarrow> Some (VIRT_VERSION, seq)
      | DEVICE_ID \<Rightarrow> Some (ucast (device_id (regs vdev)), seq)
      | VENDOR_ID \<Rightarrow> Some (VIRT_VENDOR, seq)
      | DEVICE_FEATURES \<Rightarrow>
          Some (if dev_feature_sel (regs vdev) \<noteq> 0 then drop_bit 32 (dev_feature (regs vdev))
                else dev_feature (regs vdev), seq)
      | QUEUE_NUM_MAX \<Rightarrow>
          if queue_sel (regs vdev) \<ge> vqs_len vdev then Some (0, seq)
          else map_option (\<lambda>q. (ucast (queue_num_max q), seq)) (nth_ub (vqs vdev) (unat (queue_sel (regs vdev))))
      | QUEUE_READY \<Rightarrow>
          map_option (\<lambda>q. (ucast (vq_ready q), seq)) (nth_ub (vqs vdev) (unat (queue_sel (regs vdev))))
      | INTERRUPT_STATUS \<Rightarrow> Some (ucast (interrupt_status (regs vdev)), seq + 1)
      | STATUS \<Rightarrow> Some (ucast (reg_status (regs vdev)), seq)
      | CONFIG_GENERATION \<Rightarrow> Some (ucast (generation (regs vdev)), seq)
      | _ \<Rightarrow> Some (0, seq))"

section \<open>Writes\<close>

text \<open>The loop that enables event indices on all queues.\<close>

definition enable_event_idx :: "'d VirtIODevice \<Rightarrow> 'd VirtIODevice option" where
  "enable_event_idx vdev =
     (let n = nat (to_c_int (uint (vqs_len vdev))) in
      if n \<le> length (vqs vdev)
      then Some (vdev\<lparr>vqs := map (\<lambda>q. q\<lparr>event_idx_enabled := 1\<rparr>) (take n (vqs vdev)) @ drop n (vqs vdev)\<rparr>)
      else None)"

definition write_driver_features :: "'d VirtIODevice \<Rightarrow> u64 \<Rightarrow> 'd VirtIODevice option" where
  "write_driver_features vdev value =
     (let r = regs vdev;
          f = (if drv_feature_sel r \<noteq> 0 then drv_feature r OR push_bit 32 value else drv_feature r OR value);
          vdev' = vdev\<lparr>regs := r\<lparr>drv_feature := f\<rparr>\<rparr>
      in if has_flag f (push_bit VIRTIO_RING_F_EVENT_IDX 1) then enable_event_idx vdev' else Some vdev')"

definition write_queue_notify ::
  "('d, 'p) devenv \<Rightarrow> 'd VirtIODevice \<Rightarrow> u64 \<Rightarrow> world \<Rightarrow> ('d VirtIODevice \<times> world) option" where
  "write_queue_notify env vdev value w =
     (if value < ucast (vqs_len vdev)
      then do {
        vq \<leftarrow> nth_ub (vqs vdev) (unat value);
        (case notify_handler vq of
           None \<Rightarrow> Some (vdev, w)
         | Some s \<Rightarrow> do {
             ops \<leftarrow> lookup_ops env (dev_type vdev);
             h \<leftarrow> nth_ub (notify_handlers ops) s;
             handler \<leftarrow> h;
             (ret, vdev', w') \<leftarrow> handler vdev (unat value) w;
             Some (vdev', w')
           })
      }
      else Some (vdev, w))"

definition write_interrupt_ack :: "'d VirtIODevice \<Rightarrow> u64 \<Rightarrow> world \<Rightarrow> ('d VirtIODevice \<times> world) option" where
  "write_interrupt_ack vdev value w = do {
     let status_before = interrupt_status (regs vdev);
     let ack = ucast value AND (VIRTIO_MMIO_INT_VRING OR VIRTIO_MMIO_INT_CONFIG);
     let status_after = status_before AND NOT ack;
     (deassert_ret, w1) \<leftarrow> (if status_before \<noteq> 0 \<and> status_after = 0 \<and> interrupt_line_asserted vdev
        then virtio_deassert_line_locked vdev w else Some (0, w));
     let vdev' = (if deassert_ret = 0
        then let v = vdev\<lparr>regs := (regs vdev)\<lparr>interrupt_status := status_after\<rparr>\<rparr> in
             if status_after = 0 then v\<lparr>interrupt_line_asserted := False\<rparr> else v
        else vdev);
     Some (vdev', w1\<lparr>irq_trace_seq := irq_trace_seq w1 + 1\<rparr>)
   }"

definition write_status ::
  "('d, 'p) devenv \<Rightarrow> 'd VirtIODevice \<Rightarrow> u64 \<Rightarrow> world \<Rightarrow> ('d VirtIODevice \<times> world) option" where
  "write_status env vdev value w = do {
     let vdev1 = vdev\<lparr>regs := (regs vdev)\<lparr>reg_status := ucast value\<rparr>\<rparr>;
     (vdev2, w1) \<leftarrow> (if reg_status (regs vdev1) = 0 then virtio_dev_reset env vdev1 w else Some (vdev1, w));
     if status_changed_set vdev2
     then do {
       ops \<leftarrow> lookup_ops env (dev_type vdev2);
       f \<leftarrow> op_status_changed ops;
       f vdev2 (ucast value) w1
     }
     else Some (vdev2, w1)
   }"

definition upd_sel_vq :: "(VirtQueue \<Rightarrow> VirtQueue) \<Rightarrow> 'd VirtIODevice \<Rightarrow> world \<Rightarrow> ('d VirtIODevice \<times> world) option" where
  "upd_sel_vq f vdev w = map_option (\<lambda>v. (v, w)) (upd_vq (unat (queue_sel (regs vdev))) f vdev)"

definition virtio_mmio_write ::
  "('d, 'p) devenv \<Rightarrow> 'd VirtIODevice \<Rightarrow> u64 \<Rightarrow> u64 \<Rightarrow> u32 \<Rightarrow> world \<Rightarrow> ('d VirtIODevice \<times> world) option" where
  "virtio_mmio_write env vdev offs value sz w =
     (let r = regs vdev; zone = sint (zone_id vdev); zm = w_zm w in
      if offs \<ge> VIRTIO_MMIO_CONFIG then Some (vdev, w)
      else if sz \<noteq> 4 then Some (vdev, w)
      else case mmio_reg_name offs of
        DEVICE_FEATURES_SEL \<Rightarrow> Some (vdev\<lparr>regs := r\<lparr>dev_feature_sel := (if value \<noteq> 0 then 1 else 0)\<rparr>\<rparr>, w)
      | DRIVER_FEATURES \<Rightarrow> map_option (\<lambda>v. (v, w)) (write_driver_features vdev value)
      | DRIVER_FEATURES_SEL \<Rightarrow> Some (vdev\<lparr>regs := r\<lparr>drv_feature_sel := (if value \<noteq> 0 then 1 else 0)\<rparr>\<rparr>, w)
      | QUEUE_SEL \<Rightarrow> Some (vdev\<lparr>regs := r\<lparr>queue_sel := ucast value\<rparr>\<rparr>, w)
      | QUEUE_NUM \<Rightarrow> upd_sel_vq (\<lambda>q. q\<lparr>vq_num := value\<rparr>) vdev w
      | QUEUE_READY \<Rightarrow> upd_sel_vq (\<lambda>q. q\<lparr>vq_ready := ucast value\<rparr>) vdev w
      | QUEUE_NOTIFY \<Rightarrow> write_queue_notify env vdev value w
      | INTERRUPT_ACK \<Rightarrow> write_interrupt_ack vdev value w
      | STATUS \<Rightarrow> write_status env vdev value w
      | QUEUE_DESC_LOW \<Rightarrow>
          upd_sel_vq (\<lambda>q. q\<lparr>desc_table_addr := desc_table_addr q OR (value AND 0xffffffff)\<rparr>) vdev w
      | QUEUE_DESC_HIGH \<Rightarrow>
          upd_sel_vq (\<lambda>q. virtqueue_set_desc_table zm zone (q\<lparr>desc_table_addr := desc_table_addr q OR push_bit 32 value\<rparr>)) vdev w
      | QUEUE_AVAIL_LOW \<Rightarrow>
          upd_sel_vq (\<lambda>q. q\<lparr>avail_addr := avail_addr q OR (value AND 0xffffffff)\<rparr>) vdev w
      | QUEUE_AVAIL_HIGH \<Rightarrow>
          upd_sel_vq (\<lambda>q. virtqueue_set_avail zm zone (q\<lparr>avail_addr := avail_addr q OR push_bit 32 value\<rparr>)) vdev w
      | QUEUE_USED_LOW \<Rightarrow>
          upd_sel_vq (\<lambda>q. q\<lparr>used_addr := used_addr q OR (value AND 0xffffffff)\<rparr>) vdev w
      | QUEUE_USED_HIGH \<Rightarrow>
          upd_sel_vq (\<lambda>q. virtqueue_set_used zm zone (q\<lparr>used_addr := used_addr q OR push_bit 32 value\<rparr>)) vdev w
      | _ \<Rightarrow> Some (vdev, w))"

section \<open>Every write keeps the device\<close>

lemma enable_event_idx_keeps: "enable_event_idx v = Some v' \<Longrightarrow> keeps v v'"
  by (auto simp: enable_event_idx_def Let_def intro!: keeps_vqs split: if_splits)

lemma write_driver_features_keeps:
  assumes "write_driver_features v x = Some v'"
  shows "keeps v v'"
proof -
  define f where "f = (if drv_feature_sel (regs v) \<noteq> 0 then drv_feature (regs v) OR push_bit 32 x
                       else drv_feature (regs v) OR x)"
  define v1 where "v1 = v\<lparr>regs := (regs v)\<lparr>drv_feature := f\<rparr>\<rparr>"
  have "keeps v v1" unfolding v1_def by (rule keeps_regs) simp
  moreover have "enable_event_idx v1 = Some v' \<or> v' = v1"
    using assms unfolding write_driver_features_def Let_def v1_def f_def by (auto split: if_splits)
  ultimately show ?thesis by (auto dest: enable_event_idx_keeps intro: keeps_trans)
qed

lemma write_interrupt_ack_keeps:
  "write_interrupt_ack v x w = Some (v', w') \<Longrightarrow> keeps v v' \<and> wkeeps w w'"
  by (auto simp: write_interrupt_ack_def bind_Some_iff Let_def keeps_def same_identity_def dev_ok_def
      split: if_splits dest: deassert_wkeeps)

context device_backend
begin

lemma write_status_keeps:
  assumes "write_status env v x w = Some (v', w')"
  shows "keeps v v' \<and> wkeeps w w'"
proof -
  define v1 where "v1 = v\<lparr>regs := (regs v)\<lparr>reg_status := ucast x\<rparr>\<rparr>"
  have k1: "keeps v v1" unfolding v1_def by (rule keeps_regs) simp
  obtain v2 w1 where
      v2: "(if reg_status (regs v1) = 0 then virtio_dev_reset env v1 w else Some (v1, w)) = Some (v2, w1)"
    and rest: "(if status_changed_set v2
        then do { ops \<leftarrow> lookup_ops env (dev_type v2); f \<leftarrow> op_status_changed ops; f v2 (ucast x) w1 }
        else Some (v2, w1)) = Some (v', w')"
    using assms unfolding write_status_def v1_def [symmetric] by (auto simp: bind_Some_iff)
  have "keeps v1 v2 \<and> wkeeps w w1" using v2 by (auto split: if_splits dest: virtio_dev_reset_keeps)
  moreover have "keeps v2 v' \<and> wkeeps w1 w'"
    using rest by (auto simp: bind_Some_iff split: if_splits dest: status_keeps)
  ultimately show ?thesis using k1 by (blast intro: keeps_trans wkeeps_trans)
qed

lemma write_queue_notify_keeps:
  assumes "write_queue_notify env v x w = Some (v', w')"
  shows "keeps v v' \<and> wkeeps w w'"
proof (cases "v' = v \<and> w' = w")
  case False
  then obtain ops h s ret where "lookup_ops env (dev_type v) = Some ops" "s < length (notify_handlers ops)"
      "Some h = notify_handlers ops ! s" "h v (unat x) w = Some (ret, v', w')"
    using assms by (auto simp: write_queue_notify_def bind_Some_iff nth_ub_Some split: if_splits option.splits)
  then show ?thesis using notify_keeps by (metis nth_mem)
qed simp

lemma virtio_mmio_write_keeps:
  assumes "virtio_mmio_write env v offs x sz w = Some (v', w')"
  shows "keeps v v' \<and> wkeeps w w'"
proof -
  have sel: "keeps v v' \<and> wkeeps w w'" if "upd_sel_vq f v w = Some (v', w')" for f
    using that keeps_upd_vq by (auto simp: upd_sel_vq_def)
  show ?thesis
    using assms unfolding virtio_mmio_write_def Let_def
    by (auto split: if_splits mmio_reg.splits dest: sel intro!: keeps_regs
        dest: write_status_keeps write_queue_notify_keeps write_driver_features_keeps write_interrupt_ack_keeps)
qed

end

section \<open>Register protocols\<close>

text \<open>
  A driver that writes the feature selector and reads the feature register, once with selector
  0 and once with selector 1, gets the two halves of the 64 feature bits the device offers.
\<close>

theorem device_features_read_back:
  "\<exists>v0 v1 lo hi. virtio_mmio_write env v 0x014 0 4 w = Some (v0, w)
     \<and> virtio_mmio_read env v0 0x010 4 s = Some (lo, s)
     \<and> virtio_mmio_write env v0 0x014 1 4 w = Some (v1, w)
     \<and> virtio_mmio_read env v1 0x010 4 s = Some (hi, s)
     \<and> word_cat (ucast hi :: u32) (ucast lo :: u32) = dev_feature (regs v)"
proof -
  have name: "mmio_reg_name 0x014 = DEVICE_FEATURES_SEL" "mmio_reg_name 0x010 = DEVICE_FEATURES"
    using mmio_reg_name_offset [of DEVICE_FEATURES_SEL] mmio_reg_name_offset [of DEVICE_FEATURES] by simp_all
  have "word_cat (ucast (drop_bit 32 f) :: u32) (ucast f :: u32) = f" for f :: u64
    by (rule bit_word_eqI) (auto simp: bit_word_cat_iff bit_ucast_iff bit_drop_bit_eq)
  then show ?thesis by (simp add: virtio_mmio_write_def virtio_mmio_read_def Let_def name)
qed

lemma halves: "(ucast (lo :: u32) AND 0xffffffff) OR push_bit 32 (ucast (hi :: u32)) = (word_cat hi lo :: u64)"
proof (rule bit_word_eqI)
  fix n assume "n < LENGTH(64)"
  have low: "(0xffffffff :: u64) = mask 32" by (simp add: mask_eq_decr_exp)
  show "bit ((ucast lo AND 0xffffffff) OR push_bit 32 (ucast hi) :: u64) n = bit (word_cat hi lo :: u64) n"
    using \<open>n < LENGTH(64)\<close> unfolding low
    by (auto simp: bit_word_cat_iff bit_ucast_iff bit_push_bit_iff bit_and_iff bit_or_iff bit_mask_iff
        dest: bit_imp_le_length)
qed

text \<open>The two writes that program one ring address of the selected queue.\<close>

definition program_address ::
  "('d, 'p) devenv \<Rightarrow> u64 \<Rightarrow> u64 \<Rightarrow> u32 \<Rightarrow> u32 \<Rightarrow> 'd VirtIODevice \<Rightarrow> world \<Rightarrow> ('d VirtIODevice \<times> world) option" where
  "program_address env low_offs high_offs lo hi v w = do {
     (v1, w1) \<leftarrow> virtio_mmio_write env v low_offs (ucast lo) 4 w;
     virtio_mmio_write env v1 high_offs (ucast hi) 4 w1
   }"

lemma upd_sel_vq_in:
  "unat (queue_sel (regs v)) < length (vqs v) \<Longrightarrow> upd_sel_vq f v w =
     Some (v\<lparr>vqs := (vqs v)[unat (queue_sel (regs v)) := f (vqs v ! unat (queue_sel (regs v)))]\<rparr>, w)"
  by (simp add: upd_sel_vq_def upd_vq_def)

text \<open>
  C28: Programming a ring address through its low and high registers, on a selected queue that
  exists and whose address registers are clear (as after a reset), stores the 64-bit address the
  driver meant and its translation for the device's zone, and changes nothing else, for each of
  the descriptor table, the available ring and the used ring.
\<close>

theorem queue_address_programming:
  fixes v :: "'d VirtIODevice"
  defines "i \<equiv> unat (queue_sel (regs v))"
  defines "q \<equiv> vqs v ! i"
  assumes "i < length (vqs v)" and "desc_table_addr q = 0" and "avail_addr q = 0" and "used_addr q = 0"
  shows "program_address env 0x080 0x084 lo hi v w = Some (v\<lparr>vqs := (vqs v)[i := q\<lparr>desc_table_addr := word_cat hi lo,
             desc_table := get_virt_addr (w_zm w) (word_cat hi lo) (sint (zone_id v))\<rparr>]\<rparr>, w)
       \<and> program_address env 0x090 0x094 lo hi v w = Some (v\<lparr>vqs := (vqs v)[i := q\<lparr>avail_addr := word_cat hi lo,
             avail_ring := get_virt_addr (w_zm w) (word_cat hi lo) (sint (zone_id v))\<rparr>]\<rparr>, w)
       \<and> program_address env 0x0a0 0x0a4 lo hi v w = Some (v\<lparr>vqs := (vqs v)[i := q\<lparr>used_addr := word_cat hi lo,
             used_ring := get_virt_addr (w_zm w) (word_cat hi lo) (sint (zone_id v))\<rparr>]\<rparr>, w)"
proof -
  have name: "mmio_reg_name 0x080 = QUEUE_DESC_LOW" "mmio_reg_name 0x084 = QUEUE_DESC_HIGH"
    "mmio_reg_name 0x090 = QUEUE_AVAIL_LOW" "mmio_reg_name 0x094 = QUEUE_AVAIL_HIGH"
    "mmio_reg_name 0x0a0 = QUEUE_USED_LOW" "mmio_reg_name 0x0a4 = QUEUE_USED_HIGH"
    by (simp_all add: mmio_reg_name_def all_regs_def)
  show ?thesis
    using assms(3-6) unfolding i_def q_def
    by (simp add: program_address_def virtio_mmio_write_def Let_def name upd_sel_vq_in halves
        virtqueue_set_desc_table_def virtqueue_set_avail_def virtqueue_set_used_def)
qed

text \<open>
  A minimal device for concrete runs: no operation table, one queue, in the example zone.
\<close>

definition example_env :: "(unit, unit) devenv" where
  "example_env = \<lparr>lookup_ops = \<lambda>_. None, dev_bytes = \<lambda>_. [], null_dev = ()\<rparr>"

definition zero_regs :: VirtMmioRegs where
  "zero_regs = \<lparr>device_id = 0, dev_feature_sel = 0, drv_feature_sel = 0, queue_sel = 0, interrupt_status = 0,
     reg_status = 0, generation = 0, dev_feature = 0, drv_feature = 0\<rparr>"

definition example_dev :: "unit VirtIODevice" where
  "example_dev = \<lparr>vqs_len = 1, zone_id = 1, irq_id = 76, base_addr = 0xa003c00, mmio_len = 0x200,
     dev_type = VirtioTBlock, regs = zero_regs, vqs = [example_vq], dev = (), virtio_close_set = False,
     status_changed_set = False, activated = False, interrupt_line_asserted = False\<rparr>"

lemma queue_address_programming_witness:
  "program_address example_env 0x0a0 0x0a4 0x50003000 0 example_dev example_world =
     Some (example_dev\<lparr>vqs := [example_vq\<lparr>used_addr := 0x50003000, used_ring := 0x7f0000003000\<rparr>]\<rparr>, example_world)"
  using queue_address_programming [of example_dev example_env "0x50003000" 0 example_world]
  by (simp add: example_dev_def example_vq_def zero_vq_def zero_regs_def example_world_def
      get_virt_addr_def example_regions_def word_cat_eq)

section \<open>Reset\<close>

text \<open>
  What the reset operations of the devices leave alone: the registers and the queue array.
\<close>

definition reset_quiet :: "('d, 'p) devenv \<Rightarrow> bool" where
  "reset_quiet env \<longleftrightarrow> (\<forall>t ops f v w v' w'. lookup_ops env t = Some ops \<longrightarrow> op_reset ops = Some f
     \<longrightarrow> f v w = Some (v', w') \<longrightarrow> regs v' = regs v \<and> vqs_len v' = vqs_len v
          \<and> interrupt_line_asserted v' = interrupt_line_asserted v \<and> map queue_num_max (vqs v') = map queue_num_max (vqs v)
          \<and> map notify_handler (vqs v') = map notify_handler (vqs v))"

text \<open>The registers after a reset, given whether the line could be released.\<close>

definition reset_regs :: "bool \<Rightarrow> VirtMmioRegs \<Rightarrow> VirtMmioRegs" where
  "reset_regs released r = (if released then r\<lparr>interrupt_status := 0, reg_status := 0\<rparr> else r\<lparr>reg_status := 0\<rparr>)"

definition fresh_vq :: "u32 \<Rightarrow> nat option \<Rightarrow> nat \<Rightarrow> VirtQueue" where
  "fresh_vq n h i = zero_vq\<lparr>vq_idx := of_nat i, notify_handler := h, queue_num_max := n\<rparr>"

lemma virtio_dev_reset_result:
  assumes "virtio_dev_reset env v w = Some (v', w')" and "reset_quiet env" and "dev_ok v"
  shows "regs v' = reset_regs (\<not> interrupt_line_asserted v') (regs v)" and "\<not> activated v'"
    and "interrupt_line_asserted v' \<longrightarrow> interrupt_line_asserted v"
    and "vqs v' = map (\<lambda>i. fresh_vq (queue_num_max (vqs v ! i)) (notify_handler (vqs v ! i)) i) [0..<unat (vqs_len v)]"
    and "vqs_len v' = vqs_len v"
proof -
  obtain v1 w1 where line: "(if interrupt_line_asserted v
        then do { (ret, w') \<leftarrow> virtio_deassert_line_locked v w;
                  Some (if ret = 0 then v\<lparr>interrupt_line_asserted := False\<rparr> else v, w') }
        else Some (v, w)) = Some (v1, w1)"
    using assms by (auto simp: virtio_dev_reset_def bind_Some_iff)
  then have v1: "regs v1 = regs v" "vqs v1 = vqs v" "vqs_len v1 = vqs_len v"
      "interrupt_line_asserted v1 \<longrightarrow> interrupt_line_asserted v"
    by (auto simp: bind_Some_iff split: if_splits)
  define v3 where "v3 = v1\<lparr>regs := reset_regs (\<not> interrupt_line_asserted v1) (regs v1)\<rparr>"
  have v3: "regs v3 = reset_regs (\<not> interrupt_line_asserted v3) (regs v)" "vqs v3 = vqs v" "vqs_len v3 = vqs_len v"
      "interrupt_line_asserted v3 \<longrightarrow> interrupt_line_asserted v"
    using v1 by (auto simp: v3_def)
  have v3': "v3 = (let v2 = (if \<not> interrupt_line_asserted v1 then v1\<lparr>regs := (regs v1)\<lparr>interrupt_status := 0\<rparr>\<rparr> else v1)
                in v2\<lparr>regs := (regs v2)\<lparr>reg_status := 0\<rparr>\<rparr>)"
    by (simp add: v3_def reset_regs_def)
  obtain v4 v5 w2 qs where rest: "upd_vq (unat (queue_sel (regs v3))) (\<lambda>q. q\<lparr>vq_ready := 0\<rparr>) v3 = Some v4"
      "(case lookup_ops env (dev_type v4) of None \<Rightarrow> Some (v4, w1)
         | Some ops \<Rightarrow> (case op_reset ops of None \<Rightarrow> Some (v4, w1) | Some f \<Rightarrow> f v4 w1)) = Some (v5, w2)"
      "reset_vqs (unat (vqs_len v5)) (vqs v5) = Some qs" "v' = v5\<lparr>vqs := qs, activated := False\<rparr>"
    using assms(1) line unfolding virtio_dev_reset_def v3' by (auto simp: bind_Some_iff Let_def)
  have v4: "regs v4 = regs v3" "vqs_len v4 = vqs_len v" "interrupt_line_asserted v4 = interrupt_line_asserted v3"
      "map queue_num_max (vqs v4) = map queue_num_max (vqs v)" "map notify_handler (vqs v4) = map notify_handler (vqs v)"
    using rest(1) v3 by (auto simp: upd_vq_def map_update split: if_splits)
      (metis list_update_id map_update nth_map)+
  have v5: "regs v5 = regs v3" "vqs_len v5 = vqs_len v" "interrupt_line_asserted v5 = interrupt_line_asserted v3"
      "map queue_num_max (vqs v5) = map queue_num_max (vqs v)" "map notify_handler (vqs v5) = map notify_handler (vqs v)"
    using rest(2) v4 assms(2) unfolding reset_quiet_def by (auto split: option.splits) metis+
  show "regs v' = reset_regs (\<not> interrupt_line_asserted v') (regs v)" "\<not> activated v'" "vqs_len v' = vqs_len v"
    "interrupt_line_asserted v' \<longrightarrow> interrupt_line_asserted v"
    using rest(4) v5 v3 by simp_all
  have len: "length (vqs v5) = unat (vqs_len v)"
    using v5(4) assms(3) by (metis dev_ok_def length_map)
  have "virtqueue_reset (vqs v5 ! i) (of_nat i) = fresh_vq (queue_num_max (vqs v ! i)) (notify_handler (vqs v ! i)) i"
    if "i < unat (vqs_len v)" for i
    using that len v5(4,5) assms(3) unfolding virtqueue_reset_def fresh_vq_def dev_ok_def by (metis nth_map)
  then show "vqs v' = map (\<lambda>i. fresh_vq (queue_num_max (vqs v ! i)) (notify_handler (vqs v ! i)) i) [0..<unat (vqs_len v)]"
    using rest(3,4) v5(2) len by (auto simp: reset_vqs_def)
qed

text \<open>The line is held after a reset exactly when it was held and could not be released.\<close>

lemma virtio_dev_reset_line:
  assumes "virtio_dev_reset env v w = Some (v', w')" and "reset_quiet env"
  shows "\<exists>ret w1. (if interrupt_line_asserted v then virtio_deassert_line_locked v w = Some (ret, w1) else ret = 0)
    \<and> (interrupt_line_asserted v' \<longleftrightarrow> ret \<noteq> 0)"
proof -
  define line where "line = (if interrupt_line_asserted v
        then do { (ret, w') \<leftarrow> virtio_deassert_line_locked v w;
                  Some (if ret = 0 then v\<lparr>interrupt_line_asserted := False\<rparr> else v, w') }
        else Some (v, w))"
  have keep: "interrupt_line_asserted u' = interrupt_line_asserted u" if "upd_vq i f u = Some u'" for i f u u'
    using that by (auto simp: upd_vq_def split: if_splits)
  have later: "post (\<lambda>(v', w'). interrupt_line_asserted v' = interrupt_line_asserted v1)
      (case lookup_ops env (dev_type u) of None \<Rightarrow> Some (u, x)
         | Some ops \<Rightarrow> (case op_reset ops of None \<Rightarrow> Some (u, x) | Some f \<Rightarrow> f u x))"
    if "interrupt_line_asserted u = interrupt_line_asserted v1" for u x v1
    using that assms(2) by (auto simp: post_def reset_quiet_def split: option.splits)
  obtain v1 w1 where l: "line = Some (v1, w1)" and same: "interrupt_line_asserted v' = interrupt_line_asserted v1"
  proof -
    obtain v1 w1 where l: "line = Some (v1, w1)"
      using assms(1) by (auto simp: virtio_dev_reset_def line_def bind_Some_iff)
    let ?v3 = "let v2 = (if \<not> interrupt_line_asserted v1 then v1\<lparr>regs := (regs v1)\<lparr>interrupt_status := 0\<rparr>\<rparr> else v1)
                in v2\<lparr>regs := (regs v2)\<lparr>reg_status := 0\<rparr>\<rparr>"
    obtain v4 v5 w2 qs where u: "upd_vq (unat (queue_sel (regs ?v3))) (\<lambda>q. q\<lparr>vq_ready := 0\<rparr>) ?v3 = Some v4"
        and c: "(case lookup_ops env (dev_type v4) of None \<Rightarrow> Some (v4, w1)
         | Some ops \<Rightarrow> (case op_reset ops of None \<Rightarrow> Some (v4, w1) | Some f \<Rightarrow> f v4 w1)) = Some (v5, w2)"
        and v': "v' = v5\<lparr>vqs := qs, activated := False\<rparr>"
      using assms(1) l unfolding virtio_dev_reset_def line_def by (auto simp: bind_Some_iff Let_def)
    have "interrupt_line_asserted v4 = interrupt_line_asserted v1" using keep [OF u] by (simp add: Let_def)
    from postD [OF later [OF this] c] show thesis using that l v' by simp
  qed
  show ?thesis
  proof (cases "interrupt_line_asserted v")
    case True
    then obtain ret where d: "virtio_deassert_line_locked v w = Some (ret, w1)"
        and v1: "v1 = (if ret = 0 then v\<lparr>interrupt_line_asserted := False\<rparr> else v)"
      using l unfolding line_def by (simp add: bind_Some_iff) blast
    have "interrupt_line_asserted v1 \<longleftrightarrow> ret \<noteq> 0" using True by (simp add: v1)
    then show ?thesis using True same d by auto
  qed (use l same in \<open>auto simp: line_def\<close>)
qed

lemma reset_quiet_example [simp]: "reset_quiet example_env"
  by (simp add: reset_quiet_def example_env_def)

definition running_dev :: "unit VirtIODevice" where
  "running_dev = example_dev\<lparr>regs := zero_regs\<lparr>interrupt_status := 1, reg_status := 15, drv_feature := 0x20000000\<rparr>,
     interrupt_line_asserted := True, activated := True\<rparr>"

lemma running_dev_reset:
  "virtio_dev_reset example_env running_dev example_world =
     Some (running_dev\<lparr>regs := zero_regs\<lparr>drv_feature := 0x20000000\<rparr>, interrupt_line_asserted := False,
             activated := False, vqs := [fresh_vq 0 None 0]\<rparr>,
           example_world\<lparr>w_tape := [ok_ret, ok_ret, ok_ret], w_trace := [Ioctl_Deassert 1 76]\<rparr>)"
  by (simp add: virtio_dev_reset_def running_dev_def example_dev_def zero_regs_def virtio_deassert_line_locked_def
      example_world_def sys_retry_returns ok_ret_def upd_vq_def example_env_def reset_vqs_def
      virtqueue_reset_def fresh_vq_def example_vq_def zero_vq_def)

lemma running_dev_ok: "dev_ok running_dev"
  by (simp add: dev_ok_def running_dev_def example_dev_def zero_regs_def)

text \<open>
  A reset does not clear the feature bits a driver accepted. If the driver before the reset
  accepted event indices and the next driver accepts no feature at all, every queue still has
  event indices enabled after the next driver's feature write.
\<close>

theorem event_idx_survives_reset:
  assumes "virtio_dev_reset env v w = Some (v1, w1)" and "reset_quiet env" and "dev_ok v"
    and "unat (vqs_len v) \<le> 4" and "drv_feature_sel (regs v) = 0"
    and "has_flag (drv_feature (regs v)) (push_bit VIRTIO_RING_F_EVENT_IDX 1)"
  shows "\<exists>v2. virtio_mmio_write env v1 0x020 0 4 w1 = Some (v2, w1)
           \<and> length (vqs v2) = unat (vqs_len v) \<and> (\<forall>q\<in>set (vqs v2). event_idx_enabled q = 1)"
proof -
  note r = virtio_dev_reset_result [OF assms(1-3)]
  have "mmio_reg_name 0x020 = DRIVER_FEATURES"
    using mmio_reg_name_offset [of DRIVER_FEATURES] by simp
  moreover have "drv_feature (regs v1) = drv_feature (regs v)" "drv_feature_sel (regs v1) = 0"
    using r(1) assms(5) by (simp_all add: reset_regs_def split: if_splits)
  moreover have "nat (to_c_int (uint (vqs_len v1))) = unat (vqs_len v)"
  proof -
    have "int (unat (vqs_len v)) \<le> 4" using assms(4) by linarith
    then show ?thesis using r(5) by simp
  qed
  ultimately show ?thesis
    using r(4) assms(6)
    by (auto simp: virtio_mmio_write_def write_driver_features_def enable_event_idx_def Let_def)
qed

lemma event_idx_survives_reset_witness:
  "\<exists>v1 v2 w1. virtio_dev_reset example_env running_dev example_world = Some (v1, w1)
     \<and> virtio_mmio_write example_env v1 0x020 0 4 w1 = Some (v2, w1)
     \<and> length (vqs v2) = 1 \<and> map event_idx_enabled (vqs v2) = [1]"
proof -
  have "unat (vqs_len running_dev) = 1" "drv_feature_sel (regs running_dev) = 0"
    "has_flag (drv_feature (regs running_dev)) (push_bit VIRTIO_RING_F_EVENT_IDX 1)"
    by (simp_all add: running_dev_def example_dev_def zero_regs_def has_flag_def)
  then show ?thesis
    using event_idx_survives_reset [OF running_dev_reset reset_quiet_example running_dev_ok] running_dev_reset
    by (auto simp: length_Suc_conv)
qed

end
