(* ===== verification/Bridge_Ring.thy ===== *)
theory Bridge_Ring
  imports Mmio
begin

text \<open>
  The rings of the bridge page (\<open>req_list\<close> and \<open>res_list\<close> of \<open>struct virtio_bridge\<close>) as bounded
  queues. A ring of \<open>MAX_REQ\<close> slots with a front and a rear index holds the slots from the front
  up to, but without, the rear, so that at most \<open>MAX_REQ - 1\<close> are in use.
\<close>

section \<open>The interface of a bounded queue\<close>

locale bounded_queue =
  fixes items :: "'s \<Rightarrow> 'a list"
    and ok :: "'s \<Rightarrow> bool"
    and capacity :: nat
    and enq :: "'a \<Rightarrow> 's \<Rightarrow> 's option"
  assumes items_bound: "ok s \<Longrightarrow> length (items s) \<le> capacity"
    and enq_room: "ok s \<Longrightarrow> length (items s) < capacity \<Longrightarrow>
          \<exists>s'. enq x s = Some s' \<and> ok s' \<and> items s' = items s @ [x]"
    and enq_full: "ok s \<Longrightarrow> length (items s) = capacity \<Longrightarrow> enq x s = None"
begin

lemma enq_Some:
  assumes "ok s" and "enq x s = Some s'"
  shows "ok s' \<and> items s' = items s @ [x] \<and> length (items s) < capacity"
  using assms items_bound [of s] enq_room [of s x] enq_full [of s x]
  by (cases "length (items s) = capacity") auto

fun enq_all :: "'a list \<Rightarrow> 's \<Rightarrow> 's option" where
  "enq_all [] s = Some s"
| "enq_all (x # xs) s = Option.bind (enq x s) (enq_all xs)"

lemma enq_all_iff:
  "ok s \<Longrightarrow> enq_all xs s \<noteq> None \<longleftrightarrow> length (items s) + length xs \<le> capacity"
proof (induction xs arbitrary: s)
  case Nil
  then show ?case using items_bound by simp
next
  case (Cons x xs)
  show ?case
  proof (cases "enq x s")
    case None
    then have "length (items s) = capacity"
      using Cons.prems enq_room [of s x] items_bound [of s] by fastforce
    then show ?thesis using None by simp
  next
    case (Some s')
    then show ?thesis using Cons.IH [of s'] enq_Some [OF Cons.prems Some] by simp
  qed
qed

lemma enq_all_items:
  "ok s \<Longrightarrow> enq_all xs s = Some s' \<Longrightarrow> ok s' \<and> items s' = items s @ xs"
proof (induction xs arbitrary: s)
  case (Cons x xs)
  then obtain t where t: "enq x s = Some t" "enq_all xs t = Some s'" by (auto simp: bind_Some_iff)
  then show ?case using Cons.IH [of t] enq_Some [OF Cons.prems(1) t(1)] by simp
qed simp

end

section \<open>The ring\<close>

definition ring_items :: "u32 \<Rightarrow> u32 \<Rightarrow> 'a list \<Rightarrow> 'a list" where
  "ring_items front rear slots =
     map (\<lambda>i. slots ! ((unat front + i) mod 32)) [0..<(unat rear + 32 - unat front) mod 32]"

lemma next_index: "unat ((r + 1) AND (MAX_REQ - 1)) = (unat r + 1) mod 32"
proof -
  have "MAX_REQ - 1 = mask 5" by (simp add: mask_eq_decr_exp)
  then have "unat ((r + 1) AND (MAX_REQ - 1)) = unat (r + 1) mod 32" by (simp only: unat_and_mask) simp
  also have "\<dots> = (unat r + 1) mod 4294967296 mod 32" by (simp add: unat_word_ariths)
  also have "\<dots> = (unat r + 1) mod 32" by (rule mod_mod_cancel) simp
  finally show ?thesis .
qed

lemma wrap32: "a < 32 \<Longrightarrow> b \<le> 32 \<Longrightarrow> (a + b) mod (32 :: nat) = (if a + b < 32 then a + b else a + b - 32)"
  by (auto simp: mod_if)

lemma ring_count:
  assumes "unat f < 32" and "unat r < 32"
  shows "length (ring_items f r slots) = (if unat f \<le> unat r then unat r - unat f else unat r + 32 - unat f)"
  using assms by (auto simp: ring_items_def mod_if)

lemma ring_empty_iff:
  "unat f < 32 \<Longrightarrow> unat r < 32 \<Longrightarrow> ring_items f r slots = [] \<longleftrightarrow> f = r"
  using ring_count [of f r slots] by (auto simp: word_unat_eq_iff split: if_splits)

lemma ring_full_iff:
  assumes "unat f < 32" and "unat r < 32"
  shows "is_queue_full f r MAX_REQ \<longleftrightarrow> length (ring_items f r slots) = 31"
proof -
  have "is_queue_full f r MAX_REQ \<longleftrightarrow> (unat r + 1) mod 32 = unat f"
    unfolding is_queue_full_def word_unat_eq_iff next_index ..
  then show ?thesis using assms ring_count [OF assms, of slots] by (auto simp: mod_if)
qed

lemma ring_push:
  assumes "unat f < 32" and "unat r < 32" and "length slots = 32" and "\<not> is_queue_full f r MAX_REQ"
  shows "ring_items f ((r + 1) AND (MAX_REQ - 1)) (slots[unat r := x]) = ring_items f r slots @ [x]"
proof -
  let ?c = "length (ring_items f r slots)"
  let ?r' = "(r + 1) AND (MAX_REQ - 1)"
  have c: "?c < 31" using ring_full_iff [OF assms(1,2), of slots] assms(4) ring_count [OF assms(1,2), of slots] assms(1,2)
    by (auto split: if_splits)
  have r': "unat ?r' < 32" unfolding next_index by simp
  have "length (ring_items f ?r' (slots[unat r := x])) = ?c + 1"
    unfolding ring_count [OF assms(1) r'] ring_count [OF assms(1,2)] next_index
    using assms(1,2) c ring_count [OF assms(1,2), of slots] by (auto simp: mod_if split: if_splits)
  then have len: "(unat ?r' + 32 - unat f) mod 32 = Suc ?c" "(unat r + 32 - unat f) mod 32 = ?c"
    by (simp_all add: ring_items_def)
  have idx: "(unat f + ?c) mod 32 = unat r"
    using assms(1,2) ring_count [OF assms(1,2), of slots] by (auto simp: mod_if)
  have other: "unat r \<noteq> (unat f + i) mod 32" if "i < ?c" for i
    using that assms(1,2) c ring_count [OF assms(1,2), of slots]
    by (auto simp: wrap32 [of "unat f" i] split: if_splits)
  have "ring_items f ?r' (slots[unat r := x])
      = map (\<lambda>i. slots[unat r := x] ! ((unat f + i) mod 32)) ([0..<?c] @ [?c])"
    unfolding ring_items_def len(1) by simp
  also have "\<dots> = map (\<lambda>i. slots ! ((unat f + i) mod 32)) [0..<?c] @ [x]"
    using idx other assms(2,3) by auto
  also have "\<dots> = ring_items f r slots @ [x]"
    by (simp add: ring_items_def)
  finally show ?thesis .
qed

lemma ring_pop:
  assumes "unat f < 32" and "unat r < 32" and "f \<noteq> r"
  shows "ring_items f r slots = slots ! unat f # ring_items ((f + 1) AND (MAX_REQ - 1)) r slots"
proof -
  let ?f' = "(f + 1) AND (MAX_REQ - 1)"
  have f': "unat ?f' = (unat f + 1) mod 32" "unat ?f' < 32" unfolding next_index by simp_all
  have "unat f \<noteq> unat r" using assms(3) by (simp add: word_unat_eq_iff)
  then have n: "(unat r + 32 - unat f) mod 32 = Suc ((unat r + 32 - unat ?f') mod 32)"
    unfolding f'(1) using assms(1,2) by (auto simp: mod_if)
  have "(unat f + Suc i) mod 32 = (unat ?f' + i) mod 32" for i
    unfolding f'(1) by (simp add: mod_simps)
  then show ?thesis
    unfolding ring_items_def n upt_conv_Cons [OF zero_less_Suc] list.map
    using assms(1) by (simp add: map_Suc_upt [symmetric] del: upt_Suc)
qed

section \<open>The response ring is a bounded queue\<close>

definition res_items :: "virtio_bridge \<Rightarrow> device_res list" where
  "res_items b = ring_items (res_front b) (res_rear b) (res_list b)"

interpretation resq: bounded_queue res_items bridge_ok 31 push_res
proof
  fix b :: virtio_bridge and x
  assume ok: "bridge_ok b"
  then have idx: "unat (res_front b) < 32" "unat (res_rear b) < 32" "length (res_list b) = 32"
    by (simp_all add: bridge_ok_def)
  show "length (res_items b) \<le> 31"
    using ring_count [OF idx(1,2), of "res_list b"] idx by (auto simp: res_items_def)
  show "\<exists>b'. push_res x b = Some b' \<and> bridge_ok b' \<and> res_items b' = res_items b @ [x]"
    if "length (res_items b) < 31"
  proof -
    have nf: "\<not> is_queue_full (res_front b) (res_rear b) MAX_REQ"
      using that ring_full_iff [OF idx(1,2), of "res_list b"] by (simp add: res_items_def)
    have "unat ((res_rear b + 1) AND (MAX_REQ - 1)) < 32" unfolding next_index by simp
    then show ?thesis
      using nf idx ok ring_push [OF idx nf, of x]
      by (auto simp: push_res_def res_items_def bridge_ok_def upd_ub_def)
  qed
  show "push_res x b = None" if "length (res_items b) = 31"
    using that ring_full_iff [OF idx(1,2), of "res_list b"] by (simp add: res_items_def push_res_def)
qed

text \<open>
  C21: The response ring is a queue of capacity 31: while fewer than 31 responses are unread, a new
  one is appended behind them and none is lost or reordered; with 31 unread the daemon waits
  rather than overwrite one.
\<close>

theorem push_res_fifo:
  assumes "bridge_ok b"
  shows "(length (res_items b) < 31 \<longrightarrow> (\<exists>b'. push_res x b = Some b' \<and> bridge_ok b' \<and> res_items b' = res_items b @ [x]))
       \<and> (length (res_items b) = 31 \<longrightarrow> push_res x b = None) \<and> length (res_items b) \<le> 31"
  using resq.enq_room [OF assms] resq.enq_full [OF assms] resq.items_bound [OF assms] by blast

lemma push_res_fifo_witness:
  "\<exists>b'. push_res \<lparr>target_zone = 1, res_irq_id = 76\<rparr> example_bridge = Some b'
     \<and> res_items b' = [\<lparr>target_zone = 1, res_irq_id = 76\<rparr>]"
proof -
  have "bridge_ok example_bridge" and "res_items example_bridge = []"
    by (simp_all add: bridge_ok_def example_bridge_def res_items_def ring_items_def)
  then show ?thesis using push_res_fifo [of example_bridge "\<lparr>target_zone = 1, res_irq_id = 76\<rparr>"] by auto
qed

end
