(* ===== verification/Wakeup.thy ===== *)
theory Wakeup
  imports Bridge_Ring
begin

text \<open>
  The sleep and wake-up handshake between the daemon and the hypervisor, as a step relation. The
  daemon's side is \<open>consume_pending_requests\<close> and the event loop of \<open>handle_virtio_requests\<close> in
  \<^verbatim>\<open>src/tools/virtio/virtio.c\<close>, one step per access to the shared page. The hypervisor is not part of
  the sources; its steps are what the comments of that function say of the producer: it adds a
  request, then checks \<open>need_wakeup\<close> and only if it is set signals the event descriptor. Any
  number of hypervisor CPUs may be between the two. The fences of the code make the accesses
  sequentially consistent, which is what an interleaving of steps says.
\<close>

section \<open>Steps\<close>

text \<open>
  Where the daemon is: asleep in \<open>epoll_wait\<close>; at the start of \<open>consume_pending_requests\<close>; at the
  head of its loop; handling a request; about to set \<open>need_wakeup\<close>; at the final re-check; about
  to clear \<open>need_wakeup\<close> again after a race. \<open>Boot\<close> is the initial store of \<open>need_wakeup\<close> on the
  architectures that do not drain the ring first.
\<close>

datatype daemon_pc = Boot | Asleep | Start | Loop | Handle | Announce | Recheck | Retract

record handshake =
  h_front :: u32
  h_rear :: u32
  h_flag :: bool
  h_efd :: nat
  h_checking :: nat
  h_pc :: daemon_pc

definition next_slot :: "u32 \<Rightarrow> u32" where
  "next_slot i = (i + 1) AND (MAX_REQ - 1)"

inductive hstep :: "handshake \<Rightarrow> handshake \<Rightarrow> bool" where
  boot: "h_pc s = Boot \<Longrightarrow> hstep s (s\<lparr>h_flag := True, h_pc := Asleep\<rparr>)"
| wake: "h_pc s = Asleep \<Longrightarrow> h_efd s > 0 \<Longrightarrow> hstep s (s\<lparr>h_efd := 0, h_pc := Start\<rparr>)"
| start: "h_pc s = Start \<Longrightarrow> hstep s (s\<lparr>h_flag := False, h_pc := Loop\<rparr>)"
| see_work: "h_pc s = Loop \<Longrightarrow> h_front s \<noteq> h_rear s \<Longrightarrow> hstep s (s\<lparr>h_pc := Handle\<rparr>)"
| poll: "h_pc s = Loop \<Longrightarrow> h_front s = h_rear s \<Longrightarrow> hstep s s"
| give_up: "h_pc s = Loop \<Longrightarrow> h_front s = h_rear s \<Longrightarrow> hstep s (s\<lparr>h_pc := Announce\<rparr>)"
| handle: "h_pc s = Handle \<Longrightarrow> hstep s (s\<lparr>h_front := next_slot (h_front s), h_pc := Loop\<rparr>)"
| announce: "h_pc s = Announce \<Longrightarrow> hstep s (s\<lparr>h_flag := True, h_pc := Recheck\<rparr>)"
| confirm: "h_pc s = Recheck \<Longrightarrow> h_front s = h_rear s \<Longrightarrow> hstep s (s\<lparr>h_pc := Asleep\<rparr>)"
| race: "h_pc s = Recheck \<Longrightarrow> h_front s \<noteq> h_rear s \<Longrightarrow> hstep s (s\<lparr>h_pc := Retract\<rparr>)"
| retract: "h_pc s = Retract \<Longrightarrow> hstep s (s\<lparr>h_flag := False, h_pc := Loop\<rparr>)"
| publish: "\<not> is_queue_full (h_front s) (h_rear s) MAX_REQ \<Longrightarrow>
     hstep s (s\<lparr>h_rear := next_slot (h_rear s), h_checking := Suc (h_checking s)\<rparr>)"
| kick: "h_checking s > 0 \<Longrightarrow> h_flag s \<Longrightarrow>
     hstep s (s\<lparr>h_efd := Suc (h_efd s), h_checking := h_checking s - 1\<rparr>)"
| no_kick: "h_checking s > 0 \<Longrightarrow> \<not> h_flag s \<Longrightarrow> hstep s (s\<lparr>h_checking := h_checking s - 1\<rparr>)"

inductive_cases hstep_cases: "hstep s t"

inductive hreach :: "handshake \<Rightarrow> handshake \<Rightarrow> bool" where
  refl: "hreach s s"
| more: "hreach s t \<Longrightarrow> hstep t u \<Longrightarrow> hreach s u"

lemma hreach_trans: "hreach t u \<Longrightarrow> hreach s t \<Longrightarrow> hreach s u"
  by (induction rule: hreach.induct) (auto intro: hreach.intros)

section \<open>No request is left behind\<close>

text \<open>
  The daemon only sleeps with \<open>need_wakeup\<close> set, and while it sleeps on a non-empty ring the event
  descriptor is signalled or some hypervisor CPU is still about to check the flag.
\<close>

definition handshake_inv :: "handshake \<Rightarrow> bool" where
  "handshake_inv s \<longleftrightarrow> h_pc s \<noteq> Boot \<and> (h_pc s \<in> {Asleep, Recheck} \<longrightarrow> h_flag s)
     \<and> (h_pc s = Asleep \<and> h_front s \<noteq> h_rear s \<longrightarrow> h_efd s > 0 \<or> h_checking s > 0)"

lemma hstep_inv: "hstep s t \<Longrightarrow> handshake_inv s \<Longrightarrow> handshake_inv t"
  by (induction rule: hstep.induct) (auto simp: handshake_inv_def)

lemma hreach_inv: "hreach s t \<Longrightarrow> handshake_inv s \<Longrightarrow> handshake_inv t"
  by (induction rule: hreach.induct) (auto intro: hstep_inv)

text \<open>
  C9: On the architecture that drains the ring before its first sleep, no wake-up is ever lost.
  Whatever the ring, the flag and the hypervisor CPUs were when the daemon entered its event
  loop, in every state reached later in which the daemon sleeps although requests are pending,
  the daemon can be brought back to serving them by at most one check of a hypervisor CPU
  that is already under way followed by its own wake-up.
\<close>

theorem no_lost_wakeup:
  assumes "h_pc s = Start" and "hreach s t" and "h_pc t = Asleep" and "h_front t \<noteq> h_rear t"
  shows "(h_efd t > 0 \<and> hstep t (t\<lparr>h_efd := 0, h_pc := Start\<rparr>))
       \<or> (h_checking t > 0 \<and> (\<exists>u. hstep t u \<and> h_efd u = 1 \<and> hstep u (u\<lparr>h_efd := 0, h_pc := Start\<rparr>)))"
proof -
  have "handshake_inv t"
    using hreach_inv [OF assms(2)] assms(1) by (simp add: handshake_inv_def)
  then have inv: "h_flag t" "h_efd t > 0 \<or> h_checking t > 0"
    using assms(3,4) by (auto simp: handshake_inv_def)
  show ?thesis
  proof (cases "h_efd t > 0")
    case True
    then show ?thesis using assms(3) hstep.wake by blast
  next
    case False
    let ?u = "t\<lparr>h_efd := Suc (h_efd t), h_checking := h_checking t - 1\<rparr>"
    have "hstep t ?u" using inv False hstep.kick [of t] by simp
    moreover have "hstep ?u (?u\<lparr>h_efd := 0, h_pc := Start\<rparr>)"
      using hstep.wake [of ?u] assms(3) by simp
    moreover have "h_efd ?u = 1" using False by simp
    ultimately show ?thesis using inv False by blast
  qed
qed

text \<open>A run in which a request arrives just after the daemon has gone to sleep.\<close>

definition idle_start :: handshake where
  "idle_start = \<lparr>h_front = 0, h_rear = 0, h_flag = False, h_efd = 0, h_checking = 0, h_pc = Start\<rparr>"

definition late_request :: handshake where
  "late_request = \<lparr>h_front = 0, h_rear = 1, h_flag = True, h_efd = 0, h_checking = 1, h_pc = Asleep\<rparr>"

lemma late_request_reached: "hreach idle_start late_request"
proof -
  have "hstep idle_start (idle_start\<lparr>h_pc := Loop\<rparr>)"
    using hstep.start [of idle_start] by (simp add: idle_start_def)
  moreover have "hstep (idle_start\<lparr>h_pc := Loop\<rparr>) (idle_start\<lparr>h_pc := Announce\<rparr>)"
    using hstep.give_up [of "idle_start\<lparr>h_pc := Loop\<rparr>"] by (simp add: idle_start_def)
  moreover have "hstep (idle_start\<lparr>h_pc := Announce\<rparr>) (idle_start\<lparr>h_flag := True, h_pc := Recheck\<rparr>)"
    using hstep.announce [of "idle_start\<lparr>h_pc := Announce\<rparr>"] by (simp add: idle_start_def)
  moreover have "hstep (idle_start\<lparr>h_flag := True, h_pc := Recheck\<rparr>) (idle_start\<lparr>h_flag := True, h_pc := Asleep\<rparr>)"
    using hstep.confirm [of "idle_start\<lparr>h_flag := True, h_pc := Recheck\<rparr>"] by (simp add: idle_start_def)
  moreover have "hstep (idle_start\<lparr>h_flag := True, h_pc := Asleep\<rparr>) late_request"
    using hstep.publish [of "idle_start\<lparr>h_flag := True, h_pc := Asleep\<rparr>"]
    by (simp add: idle_start_def late_request_def is_queue_full_def next_slot_def)
  ultimately show ?thesis by (meson hreach.intros)
qed

lemma no_lost_wakeup_witness:
  "\<exists>u. hstep late_request u \<and> h_efd u = 1 \<and> hstep u (u\<lparr>h_efd := 0, h_pc := Start\<rparr>)"
  using no_lost_wakeup [OF _ late_request_reached] by (simp add: idle_start_def late_request_def)

section \<open>The start-up of the other architectures\<close>

text \<open>A state is stranded when the daemon sleeps on pending requests and nobody will wake it.\<close>

definition stranded :: "handshake \<Rightarrow> bool" where
  "stranded s \<longleftrightarrow> h_pc s = Asleep \<and> h_front s \<noteq> h_rear s \<and> h_efd s = 0 \<and> h_checking s = 0"

text \<open>
  The other architectures set the flag and go to sleep without looking at the ring. Every request
  that the hypervisor added and checked the flag for before that store is then stranded: from every
  such state the store leads into a state in which the daemon sleeps on pending requests with no
  signal outstanding, where the only step left is the arrival of a further request.
\<close>

theorem startup_strands_requests:
  assumes "h_pc s = Boot" and "h_front s \<noteq> h_rear s" and "h_efd s = 0" and "h_checking s = 0"
  defines "t \<equiv> s\<lparr>h_flag := True, h_pc := Asleep\<rparr>"
  shows "hstep s t \<and> stranded t
     \<and> (\<forall>u. hstep t u \<longleftrightarrow> \<not> is_queue_full (h_front t) (h_rear t) MAX_REQ
            \<and> u = t\<lparr>h_rear := next_slot (h_rear t), h_checking := 1\<rparr>)"
proof -
  have "hstep t u \<longleftrightarrow> \<not> is_queue_full (h_front t) (h_rear t) MAX_REQ
      \<and> u = t\<lparr>h_rear := next_slot (h_rear t), h_checking := 1\<rparr>" for u
    using hstep.publish [of t] assms(2-4) by (auto simp: t_def elim!: hstep_cases)
  then show ?thesis using hstep.boot [OF assms(1)] assms(2-4) by (simp add: t_def stranded_def)
qed

text \<open>Such a state is reached from an empty ring: a request arrives and the flag is not yet set.\<close>

lemma startup_strands_requests_witness:
  "\<exists>s t. hreach (idle_start\<lparr>h_pc := Boot\<rparr>) s \<and> hstep s t \<and> stranded t"
proof -
  define s where "s = idle_start\<lparr>h_pc := Boot\<rparr>"
  have "hstep s (s\<lparr>h_rear := 1, h_checking := 1\<rparr>)"
    using hstep.publish [of s] by (simp add: s_def idle_start_def is_queue_full_def next_slot_def)
  moreover have "hstep (s\<lparr>h_rear := 1, h_checking := 1\<rparr>) (s\<lparr>h_rear := 1\<rparr>)"
    using hstep.no_kick [of "s\<lparr>h_rear := 1, h_checking := 1\<rparr>"] by (simp add: s_def idle_start_def)
  ultimately have "hreach s (s\<lparr>h_rear := 1\<rparr>)" by (meson hreach.intros)
  then show ?thesis
    using startup_strands_requests [of "s\<lparr>h_rear := 1\<rparr>"] unfolding s_def by (auto simp: idle_start_def)
qed

end
