(* ===== verification/Blk_Worker.thy ===== *)
theory Blk_Worker
  imports Prelude
begin

text \<open>
  The handshake between the worker thread of a block device and the main thread
  (\<open>blkproc_thread\<close>, \<open>virtio_blk_notify_handler\<close>, \<open>virtio_blk_reset\<close> and \<open>virtio_blk_close\<close> of
  \<^verbatim>\<open>src/tools/virtio/devices/blk/virtio_blk.c\<close>), as a step relation. Everything a thread does while it
  holds the mutex is one step; the queue is whatever the guest makes of it, so the test for an
  empty queue may go either way. A thread in \<open>pthread_cond_wait\<close> goes on when it has been signalled,
  or spuriously.
\<close>

section \<open>Steps\<close>

text \<open>
  The worker: at the head of its loop; in the wait for work; past the mutex with its copies of the
  two flags (\<open>closing\<close>, \<open>resetting\<close>); at the head of the loop of the reset wait; in that wait;
  draining the queue (with its copy of \<open>closing\<close>); gone.
\<close>

datatype worker_pc = Check | Sleep | Branch bool bool | Pause | Pause_Sleep | Drain bool | Exit

text \<open>
  The main thread: outside the device; waiting in \<open>virtio_blk_reset\<close> for the worker; past it, where
  \<open>virtio_dev_reset\<close> re-initialises the queues; in \<open>pthread_join\<close>; done.
\<close>

datatype main_pc = Idle | Reset_Wait | Requeue | Joining | Closed

record blk_sync =
  b_worker :: worker_pc
  b_main :: main_pc
  b_reset :: bool
  b_close :: bool
  b_paused :: bool
  b_worker_sig :: bool
  b_main_sig :: bool

definition blk_start :: blk_sync where
  "blk_start = \<lparr>b_worker = Check, b_main = Idle, b_reset = False, b_close = False, b_paused = False,
     b_worker_sig = False, b_main_sig = False\<rparr>"

inductive worker_step :: "blk_sync \<Rightarrow> blk_sync \<Rightarrow> bool" where
  wait_work: "b_worker s = Check \<Longrightarrow> \<not> b_close s \<Longrightarrow> \<not> b_reset s \<Longrightarrow>
     worker_step s (s\<lparr>b_worker := Sleep, b_worker_sig := False\<rparr>)"
| go: "b_worker s = Check \<Longrightarrow> worker_step s (s\<lparr>b_worker := Branch (b_close s) (b_reset s)\<rparr>)"
| woken: "b_worker s = Sleep \<Longrightarrow> b_worker_sig s \<Longrightarrow> worker_step s (s\<lparr>b_worker := Check\<rparr>)"
| to_pause: "b_worker s = Branch False True \<Longrightarrow> worker_step s (s\<lparr>b_worker := Pause\<rparr>)"
| to_drain: "b_worker s = Branch c r \<Longrightarrow> \<not> (r \<and> \<not> c) \<Longrightarrow> worker_step s (s\<lparr>b_worker := Drain c\<rparr>)"
| pause: "b_worker s = Pause \<Longrightarrow> b_reset s \<Longrightarrow> \<not> b_close s \<Longrightarrow>
     worker_step s (s\<lparr>b_paused := True, b_main_sig := True, b_worker := Pause_Sleep, b_worker_sig := False\<rparr>)"
| resume: "b_worker s = Pause \<Longrightarrow> \<not> (b_reset s \<and> \<not> b_close s) \<Longrightarrow>
     worker_step s (s\<lparr>b_paused := False, b_worker := Check\<rparr>)"
| pause_woken: "b_worker s = Pause_Sleep \<Longrightarrow> b_worker_sig s \<Longrightarrow> worker_step s (s\<lparr>b_worker := Pause\<rparr>)"
| drain_on: "b_worker s = Drain c \<Longrightarrow> worker_step s s"
| drained: "b_worker s = Drain False \<Longrightarrow> worker_step s (s\<lparr>b_worker := Check\<rparr>)"
| leave: "b_worker s = Drain True \<Longrightarrow> worker_step s (s\<lparr>b_worker := Exit\<rparr>)"

inductive main_step :: "blk_sync \<Rightarrow> blk_sync \<Rightarrow> bool" where
  kick: "b_main s = Idle \<Longrightarrow> main_step s (s\<lparr>b_reset := False, b_worker_sig := True\<rparr>)"
| reset: "b_main s = Idle \<Longrightarrow>
     main_step s (s\<lparr>b_reset := True, b_worker_sig := True,
                     b_main := (if b_paused s then Requeue else Reset_Wait), b_main_sig := False\<rparr>)"
| reset_woken: "b_main s = Reset_Wait \<Longrightarrow> b_main_sig s \<Longrightarrow>
     main_step s (s\<lparr>b_main := (if b_paused s then Requeue else Reset_Wait), b_main_sig := False\<rparr>)"
| requeued: "b_main s = Requeue \<Longrightarrow> main_step s (s\<lparr>b_main := Idle\<rparr>)"
| close: "b_main s = Idle \<Longrightarrow> main_step s (s\<lparr>b_close := True, b_worker_sig := True, b_main := Joining\<rparr>)"
| join: "b_main s = Joining \<Longrightarrow> b_worker s = Exit \<Longrightarrow> main_step s (s\<lparr>b_main := Closed\<rparr>)"

text \<open>Waits may also end without a signal.\<close>

inductive spurious_step :: "blk_sync \<Rightarrow> blk_sync \<Rightarrow> bool" where
  worker: "b_worker s = Sleep \<Longrightarrow> spurious_step s (s\<lparr>b_worker := Check\<rparr>)"
| paused: "b_worker s = Pause_Sleep \<Longrightarrow> spurious_step s (s\<lparr>b_worker := Pause\<rparr>)"
| main: "b_main s = Reset_Wait \<Longrightarrow>
     spurious_step s (s\<lparr>b_main := (if b_paused s then Requeue else Reset_Wait), b_main_sig := False\<rparr>)"

inductive_cases worker_step_cases: "worker_step s t"
inductive_cases main_step_cases: "main_step s t"
inductive_cases spurious_step_cases: "spurious_step s t"

inductive blk_reach :: "blk_sync \<Rightarrow> bool" where
  start: "blk_reach blk_start"
| worker: "blk_reach s \<Longrightarrow> worker_step s t \<Longrightarrow> blk_reach t"
| main: "blk_reach s \<Longrightarrow> main_step s t \<Longrightarrow> blk_reach t"
| spurious: "blk_reach s \<Longrightarrow> spurious_step s t \<Longrightarrow> blk_reach t"

section \<open>The invariant\<close>

text \<open>
  The worker is parked whenever \<open>worker_paused\<close> is set, and the main thread re-initialises the queues
  only while it is. A thread that the other one waits for is never asleep without a signal.
\<close>

definition sync_inv :: "blk_sync \<Rightarrow> bool" where
  "sync_inv s \<longleftrightarrow> (b_paused s \<longrightarrow> b_worker s \<in> {Pause, Pause_Sleep})
     \<and> (b_worker s = Pause_Sleep \<longrightarrow> b_paused s)
     \<and> (b_main s \<in> {Reset_Wait, Requeue} \<longrightarrow> b_reset s)
     \<and> (b_main s = Requeue \<longrightarrow> b_paused s)
     \<and> (b_main s \<in> {Joining, Closed} \<longleftrightarrow> b_close s)
     \<and> (b_main s = Reset_Wait \<longrightarrow> (b_worker s = Sleep \<longrightarrow> b_worker_sig s))
     \<and> (b_main s = Reset_Wait \<longrightarrow> b_paused s \<longrightarrow> b_main_sig s)
     \<and> (b_main s = Joining \<longrightarrow> b_worker s \<in> {Sleep, Pause_Sleep} \<longrightarrow> b_worker_sig s)
     \<and> (b_worker s \<in> {Branch True True, Branch True False, Drain True, Exit} \<longrightarrow> b_close s)"

lemma sync_inv_start: "sync_inv blk_start"
  by (simp add: sync_inv_def blk_start_def)

lemma sync_inv_worker: "worker_step s t \<Longrightarrow> sync_inv s \<Longrightarrow> sync_inv t"
  by (induction rule: worker_step.induct) (auto simp: sync_inv_def)

lemma sync_inv_main: "main_step s t \<Longrightarrow> sync_inv s \<Longrightarrow> sync_inv t"
  by (induction rule: main_step.induct) (auto simp: sync_inv_def)

lemma sync_inv_spurious: "spurious_step s t \<Longrightarrow> sync_inv s \<Longrightarrow> sync_inv t"
  by (induction rule: spurious_step.induct) (auto simp: sync_inv_def)

lemma blk_reach_inv: "blk_reach s \<Longrightarrow> sync_inv s"
  by (induction rule: blk_reach.induct)
    (auto intro: sync_inv_start sync_inv_worker sync_inv_main sync_inv_spurious)

section \<open>A reset never meets a draining worker\<close>

text \<open>
  C16: While the main thread re-initialises the virtqueues after \<open>virtio_blk_reset\<close> has returned, the
  worker is parked in its reset wait, in every reachable state and whatever the guest does: it is
  not draining the queue, and no step of its own takes it out of that wait.
\<close>

theorem blk_reset_excludes_drain:
  assumes "blk_reach s" and "b_main s = Requeue"
  shows "b_worker s \<in> {Pause, Pause_Sleep}
       \<and> (\<forall>t. worker_step s t \<longrightarrow> b_worker t \<in> {Pause, Pause_Sleep} \<and> b_paused t)"
proof -
  have inv: "sync_inv s" using assms(1) by (rule blk_reach_inv)
  then show ?thesis
    using assms(2) by (auto simp: sync_inv_def elim!: worker_step_cases)
qed

text \<open>
  A run: the worker sleeps, the guest resets the device, the worker pauses, the main thread goes on.
\<close>

definition reset_asked :: blk_sync where
  "reset_asked = blk_start\<lparr>b_worker := Sleep, b_reset := True, b_worker_sig := True, b_main := Reset_Wait\<rparr>"

definition requeueing :: blk_sync where
  "requeueing = reset_asked\<lparr>b_worker := Pause_Sleep, b_paused := True, b_worker_sig := False, b_main := Requeue\<rparr>"

lemma reset_asked_reach: "blk_reach reset_asked"
proof -
  have "worker_step blk_start (blk_start\<lparr>b_worker := Sleep\<rparr>)"
    using worker_step.wait_work [of blk_start] by (simp add: blk_start_def)
  moreover have "main_step (blk_start\<lparr>b_worker := Sleep\<rparr>) reset_asked"
    using main_step.reset [of "blk_start\<lparr>b_worker := Sleep\<rparr>"] by (simp add: blk_start_def reset_asked_def)
  ultimately show ?thesis by (meson blk_reach.intros)
qed

lemma requeueing_reach: "blk_reach requeueing"
proof -
  let ?p = "reset_asked\<lparr>b_worker := Pause_Sleep, b_paused := True, b_worker_sig := False, b_main_sig := True\<rparr>"
  have "worker_step reset_asked (reset_asked\<lparr>b_worker := Check\<rparr>)"
    using worker_step.woken [of reset_asked] by (simp add: reset_asked_def)
  moreover have "worker_step (reset_asked\<lparr>b_worker := Check\<rparr>) (reset_asked\<lparr>b_worker := Branch False True\<rparr>)"
    using worker_step.go [of "reset_asked\<lparr>b_worker := Check\<rparr>"] by (simp add: reset_asked_def blk_start_def)
  moreover have "worker_step (reset_asked\<lparr>b_worker := Branch False True\<rparr>) (reset_asked\<lparr>b_worker := Pause\<rparr>)"
    using worker_step.to_pause [of "reset_asked\<lparr>b_worker := Branch False True\<rparr>"] by simp
  moreover have "worker_step (reset_asked\<lparr>b_worker := Pause\<rparr>) ?p"
    using worker_step.pause [of "reset_asked\<lparr>b_worker := Pause\<rparr>"] by (simp add: reset_asked_def blk_start_def)
  moreover have "main_step ?p requeueing"
    using main_step.reset_woken [of ?p] by (simp add: reset_asked_def requeueing_def blk_start_def)
  ultimately show ?thesis using reset_asked_reach by (meson blk_reach.intros)
qed

lemma blk_reset_excludes_drain_witness:
  "b_main requeueing = Requeue \<and> b_worker requeueing \<in> {Pause, Pause_Sleep}"
  using blk_reset_excludes_drain [OF requeueing_reach] by (simp add: requeueing_def)

section \<open>Resetting and closing return\<close>

text \<open>Where the worker is on its way into the pause, with the reset requested.\<close>

definition resetting :: "blk_sync \<Rightarrow> bool" where
  "resetting s \<longleftrightarrow> b_main s = Reset_Wait \<and> b_reset s \<and> \<not> b_close s"

definition pausable :: "blk_sync \<Rightarrow> bool" where
  "pausable s \<longleftrightarrow> (\<exists>t. worker_step\<^sup>*\<^sup>* s t \<and> b_main t = Reset_Wait \<and> b_paused t \<and> b_main_sig t)"

lemma pausable_step: "worker_step s t \<Longrightarrow> pausable t \<Longrightarrow> pausable s"
  unfolding pausable_def by (meson converse_rtranclp_into_rtranclp)

lemma pausable_Pause: "resetting s \<Longrightarrow> b_worker s = Pause \<Longrightarrow> pausable s"
  by (rule pausable_step [OF worker_step.pause]) (auto simp: resetting_def pausable_def)

lemma pausable_Branch: "resetting s \<Longrightarrow> b_worker s = Branch False True \<Longrightarrow> pausable s"
  by (rule pausable_step [OF worker_step.to_pause]) (auto intro!: pausable_Pause simp: resetting_def)

lemma pausable_Check: "resetting s \<Longrightarrow> b_worker s = Check \<Longrightarrow> pausable s"
  by (rule pausable_step [OF worker_step.go]) (auto intro!: pausable_Branch simp: resetting_def)

lemma pausable_Drain: "resetting s \<Longrightarrow> b_worker s = Drain False \<Longrightarrow> pausable s"
  by (rule pausable_step [OF worker_step.drained]) (auto intro!: pausable_Check simp: resetting_def)

lemma pausable_Branch_Drain: "resetting s \<Longrightarrow> b_worker s = Branch False False \<Longrightarrow> pausable s"
  by (rule pausable_step [OF worker_step.to_drain]) (auto intro!: pausable_Drain simp: resetting_def)

lemma pausable_Sleep: "resetting s \<Longrightarrow> b_worker s = Sleep \<Longrightarrow> b_worker_sig s \<Longrightarrow> pausable s"
  by (rule pausable_step [OF worker_step.woken]) (auto intro!: pausable_Check simp: resetting_def)

text \<open>
  C30: A reset never deadlocks: from every reachable state in which the main thread waits in
  \<open>virtio_blk_reset\<close>, the worker alone can run on, without spurious wake-ups, to a state in which the
  main thread has been signalled and leaves its wait. The worker's current batch is assumed to end
  when it can.
\<close>

theorem blk_reset_returns:
  assumes "blk_reach s" and "b_main s = Reset_Wait"
  shows "\<exists>t u. worker_step\<^sup>*\<^sup>* s t \<and> main_step t u \<and> b_main u = Requeue"
proof -
  have inv: "sync_inv s" using assms(1) by (rule blk_reach_inv)
  then have r: "resetting s" using assms(2) by (auto simp: sync_inv_def resetting_def)
  have "pausable s"
  proof (cases "b_worker s")
    case (Branch c d)
    then have "\<not> c" using inv r by (cases d) (auto simp: sync_inv_def resetting_def)
    then show ?thesis using Branch r pausable_Branch pausable_Branch_Drain by (cases d) auto
  next
    case (Drain c)
    then have "\<not> c" using inv r by (auto simp: sync_inv_def resetting_def)
    then show ?thesis using Drain r pausable_Drain by auto
  next
    case Sleep
    then show ?thesis using inv r pausable_Sleep by (auto simp: sync_inv_def resetting_def)
  next
    case Pause_Sleep
    then show ?thesis using inv r by (auto simp: sync_inv_def resetting_def pausable_def)
  next
    case Exit
    then show ?thesis using inv r by (auto simp: sync_inv_def resetting_def)
  qed (use r pausable_Check pausable_Pause in auto)
  then obtain t where t: "worker_step\<^sup>*\<^sup>* s t" "b_main t = Reset_Wait" "b_paused t" "b_main_sig t"
    by (auto simp: pausable_def)
  then show ?thesis using main_step.reset_woken [of t] by force
qed

lemma blk_reset_returns_witness:
  "\<exists>t u. worker_step\<^sup>*\<^sup>* reset_asked t \<and> main_step t u \<and> b_main u = Requeue"
  using blk_reset_returns [OF reset_asked_reach] by (simp add: reset_asked_def)

text \<open>Where the worker is on its way out, with the close requested.\<close>

definition leavable :: "blk_sync \<Rightarrow> bool" where
  "leavable s \<longleftrightarrow> (\<exists>t. worker_step\<^sup>*\<^sup>* s t \<and> b_worker t = Exit \<and> b_main t = b_main s)"

lemma leavable_step: "worker_step s t \<Longrightarrow> b_main t = b_main s \<Longrightarrow> leavable t \<Longrightarrow> leavable s"
  unfolding leavable_def by (metis converse_rtranclp_into_rtranclp)

lemma leavable_Drain_True: "b_worker s = Drain True \<Longrightarrow> leavable s"
  by (rule leavable_step [OF worker_step.leave]) (auto simp: leavable_def)

lemma leavable_Branch_True: "b_worker s = Branch True r \<Longrightarrow> leavable s"
  by (rule leavable_step [OF worker_step.to_drain]) (auto intro: leavable_Drain_True)

lemma leavable_Check: "b_close s \<Longrightarrow> b_worker s = Check \<Longrightarrow> leavable s"
  by (rule leavable_step [OF worker_step.go]) (auto intro: leavable_Branch_True)

lemma leavable_Pause: "b_close s \<Longrightarrow> b_worker s = Pause \<Longrightarrow> leavable s"
  by (rule leavable_step [OF worker_step.resume]) (auto intro: leavable_Check)

lemma leavable_Pause_Sleep: "b_close s \<Longrightarrow> b_worker s = Pause_Sleep \<Longrightarrow> b_worker_sig s \<Longrightarrow> leavable s"
  by (rule leavable_step [OF worker_step.pause_woken]) (auto intro: leavable_Pause)

lemma leavable_Sleep: "b_close s \<Longrightarrow> b_worker s = Sleep \<Longrightarrow> b_worker_sig s \<Longrightarrow> leavable s"
  by (rule leavable_step [OF worker_step.woken]) (auto intro: leavable_Check)

lemma leavable_Drain_False: "b_close s \<Longrightarrow> b_worker s = Drain False \<Longrightarrow> leavable s"
  by (rule leavable_step [OF worker_step.drained]) (auto intro: leavable_Check)

lemma leavable_Branch_False_True: "b_close s \<Longrightarrow> b_worker s = Branch False True \<Longrightarrow> leavable s"
  by (rule leavable_step [OF worker_step.to_pause]) (auto intro: leavable_Pause)

lemma leavable_Branch_False_False: "b_close s \<Longrightarrow> b_worker s = Branch False False \<Longrightarrow> leavable s"
  by (rule leavable_step [OF worker_step.to_drain]) (auto intro: leavable_Drain_False)

text \<open>
  C31: Closing a device never deadlocks: from every reachable state in which the main thread joins the
  worker, the worker alone can run to its exit, also when a reset was never ended by a kick.
\<close>

theorem blk_close_returns:
  assumes "blk_reach s" and "b_main s = Joining"
  shows "\<exists>t u. worker_step\<^sup>*\<^sup>* s t \<and> main_step t u \<and> b_main u = Closed"
proof -
  have inv: "sync_inv s" using assms(1) by (rule blk_reach_inv)
  then have c: "b_close s" using assms(2) by (auto simp: sync_inv_def)
  have "leavable s"
  proof (cases "b_worker s")
    case (Branch a r)
    then show ?thesis
      using c leavable_Branch_True leavable_Branch_False_True leavable_Branch_False_False
      by (cases a; cases r) auto
  next
    case (Drain a)
    then show ?thesis using c leavable_Drain_True leavable_Drain_False by (cases a) auto
  next
    case Sleep
    then show ?thesis using inv c assms(2) leavable_Sleep by (auto simp: sync_inv_def)
  next
    case Pause_Sleep
    then show ?thesis using inv c assms(2) leavable_Pause_Sleep by (auto simp: sync_inv_def)
  next
    case Exit
    then show ?thesis by (auto simp: leavable_def)
  qed (use c leavable_Check leavable_Pause in auto)
  then obtain t where t: "worker_step\<^sup>*\<^sup>* s t" "b_worker t = Exit" "b_main t = Joining"
    using assms(2) by (auto simp: leavable_def)
  then show ?thesis using main_step.join [of t] by force
qed

text \<open>Closing the device while the worker is paused by a reset.\<close>

lemma blk_close_returns_witness:
  "\<exists>s t u. b_worker s = Pause_Sleep \<and> b_main s = Joining \<and> worker_step\<^sup>*\<^sup>* s t \<and> main_step t u \<and> b_main u = Closed"
proof -
  define i where "i = requeueing\<lparr>b_main := Idle\<rparr>"
  define j where "j = i\<lparr>b_close := True, b_worker_sig := True, b_main := Joining\<rparr>"
  have "main_step requeueing i"
    using main_step.requeued [of requeueing] by (simp add: requeueing_def i_def)
  moreover have "main_step i j"
    using main_step.close [of i] by (simp add: i_def j_def)
  ultimately have "blk_reach j" using requeueing_reach by (meson blk_reach.intros)
  moreover have "b_worker j = Pause_Sleep" "b_main j = Joining" by (simp_all add: j_def i_def requeueing_def)
  ultimately show ?thesis using blk_close_returns [of j] by blast
qed

end
