(* ===== verification/Requests.thy ===== *)
theory Requests
  imports Bridge_Ring
begin

text \<open>
  Serving one request of the hypervisor: \<open>in_range\<close>, \<open>virtio_finish_cfg_req\<close> and
  \<open>virtio_handle_req\<close> of \<^verbatim>\<open>src/tools/virtio/virtio.c\<close>. The device
  table \<open>vdevs\<close> with its count is the list of the devices that are published.
\<close>

section \<open>One request\<close>

definition in_range :: "u64 \<Rightarrow> u64 \<Rightarrow> u64 \<Rightarrow> bool" where
  "in_range val lower len \<longleftrightarrow> val \<ge> lower \<and> val < lower + len"

definition virtio_finish_cfg_req :: "u32 \<Rightarrow> u64 \<Rightarrow> world \<Rightarrow> world option" where
  "virtio_finish_cfg_req target_cpu val w = do {
     let b = w_bridge w;
     vals \<leftarrow> upd_ub (cfg_values b) (unat target_cpu) val;
     flag \<leftarrow> nth_ub (cfg_flags b) (unat target_cpu);
     flags \<leftarrow> upd_ub (cfg_flags b) (unat target_cpu) (flag + 1);
     Some (w\<lparr>w_bridge := b\<lparr>cfg_values := vals, cfg_flags := flags\<rparr>\<rparr>)
   }"

text \<open>The loop over the device table: the index of the first device that claims the address.\<close>

fun find_vdev :: "u32 \<Rightarrow> u64 \<Rightarrow> nat \<Rightarrow> 'd VirtIODevice list \<Rightarrow> nat option" where
  "find_vdev zone addr i [] = None"
| "find_vdev zone addr i (v # vs) =
     (if zone = zone_id v \<and> in_range addr (base_addr v) (mmio_len v) then Some i
      else find_vdev zone addr (Suc i) vs)"

definition virtio_handle_req ::
  "('d, 'p) devenv \<Rightarrow> device_req \<Rightarrow> 'd VirtIODevice list \<Rightarrow> world \<Rightarrow> (int \<times> 'd VirtIODevice list \<times> world) option" where
  "virtio_handle_req env req vdevs w =
     (case find_vdev (src_zone req) (req_address req) 0 vdevs of
        None \<Rightarrow> do { w' \<leftarrow> virtio_finish_cfg_req (ucast (src_cpu req)) 0 w; Some (-1, vdevs, w') }
      | Some i \<Rightarrow> do {
          let vdev = vdevs ! i;
          let offs = req_address req - base_addr vdev;
          (val, vdev', w1) \<leftarrow> (if is_write req \<noteq> 0
             then do { (v, w') \<leftarrow> virtio_mmio_write env vdev offs (req_value req) (ucast (req_size req)) w; Some (0, v, w') }
             else do { (x, seq) \<leftarrow> virtio_mmio_read env vdev offs (ucast (req_size req)) (irq_trace_seq w);
                       Some (x, vdev, w\<lparr>irq_trace_seq := seq\<rparr>) });
          w2 \<leftarrow> (if need_interrupt req = 0 then virtio_finish_cfg_req (ucast (src_cpu req)) val w1 else Some w1);
          Some (0, vdevs[i := vdev'], w2)
        })"

section \<open>Which device a request reaches\<close>

text \<open>
  Device tables as the configuration checks leave them: at most \<open>MAX_DEVS\<close> devices, and no address
  is claimed by two devices of one zone.
\<close>

definition window :: "'d VirtIODevice \<Rightarrow> u64 set" where
  "window v = {a. in_range a (base_addr v) (mmio_len v)}"

definition table_ok :: "'d VirtIODevice list \<Rightarrow> bool" where
  "table_ok vs \<longleftrightarrow> length vs \<le> MAX_DEVS
     \<and> (\<forall>i < length vs. \<forall>j < length vs. i \<noteq> j \<and> zone_id (vs ! i) = zone_id (vs ! j)
          \<longrightarrow> window (vs ! i) \<inter> window (vs ! j) = {})"

lemma in_window: "a \<in> window v \<longleftrightarrow> in_range a (base_addr v) (mmio_len v)"
  by (simp add: window_def)

lemma find_vdev_Some:
  "find_vdev zone a k vs = Some i \<Longrightarrow> k \<le> i \<and> i < k + length vs \<and> zone_id (vs ! (i - k)) = zone
     \<and> in_range a (base_addr (vs ! (i - k))) (mmio_len (vs ! (i - k)))"
proof (induction zone a k vs rule: find_vdev.induct)
  case (2 zone a k v vs)
  show ?case
  proof (cases "zone = zone_id v \<and> in_range a (base_addr v) (mmio_len v)")
    case True
    then show ?thesis using "2.prems" by simp
  next
    case False
    then have "Suc k \<le> i \<and> i < Suc k + length vs \<and> zone_id (vs ! (i - Suc k)) = zone
        \<and> in_range a (base_addr (vs ! (i - Suc k))) (mmio_len (vs ! (i - Suc k)))"
      using "2.IH" "2.prems" by auto
    moreover have "(v # vs) ! (i - k) = vs ! (i - Suc k)" if "Suc k \<le> i"
      using that by (metis Suc_diff_Suc Suc_le_lessD nth_Cons_Suc)
    ultimately show ?thesis by simp
  qed
qed simp

lemma find_vdev_None:
  "find_vdev zone a k vs = None \<longleftrightarrow> (\<forall>v\<in>set vs. \<not> (zone_id v = zone \<and> in_range a (base_addr v) (mmio_len v)))"
  by (induction zone a k vs rule: find_vdev.induct) auto

lemma find_vdev_unique:
  assumes "table_ok vs" and "i < length vs" and "a \<in> window (vs ! i)"
  shows "find_vdev (zone_id (vs ! i)) a 0 vs = Some i"
proof (cases "find_vdev (zone_id (vs ! i)) a 0 vs")
  case None
  then show ?thesis
    using assms by (auto simp: find_vdev_None in_window)
next
  case (Some j)
  then have j: "j < length vs" "zone_id (vs ! j) = zone_id (vs ! i)" "a \<in> window (vs ! j)"
    using find_vdev_Some [OF Some] by (auto simp: in_window)
  have "j = i"
  proof (rule ccontr)
    assume "j \<noteq> i"
    then have "window (vs ! j) \<inter> window (vs ! i) = {}"
      using assms(1,2) j(1,2) by (auto simp: table_ok_def)
    then show False using j(3) assms(3) by blast
  qed
  then show ?thesis using Some by simp
qed

text \<open>
  C3: A request reaches at most one device, and only one of the zone it came from: either no
  published device of that zone has the address in its MMIO window, and then the table is
  unchanged and the result is -1; or exactly one has, and then the result is 0 and no other entry
  of the table changes.
\<close>

theorem virtio_handle_req_isolated:
  assumes "table_ok vs" and "virtio_handle_req env req vs w = Some (r, vs', w')"
  shows "(r = -1 \<and> vs' = vs \<and> (\<forall>v\<in>set vs. \<not> (zone_id v = src_zone req \<and> req_address req \<in> window v)))
    \<or> (r = 0 \<and> (\<exists>i < length vs. vs' = vs[i := vs' ! i]
          \<and> (\<forall>j < length vs. zone_id (vs ! j) = src_zone req \<and> req_address req \<in> window (vs ! j) \<longleftrightarrow> j = i)))"
proof (cases "find_vdev (src_zone req) (req_address req) 0 vs")
  case None
  then have "\<forall>v\<in>set vs. \<not> (zone_id v = src_zone req \<and> req_address req \<in> window v)"
    by (auto simp: find_vdev_None in_window)
  then show ?thesis using assms(2) None by (auto simp: virtio_handle_req_def bind_Some_iff)
next
  case (Some i)
  then have i: "i < length vs" "zone_id (vs ! i) = src_zone req" "req_address req \<in> window (vs ! i)"
    using find_vdev_Some [OF Some] by (auto simp: in_window)
  have "j = i" if "j < length vs" "zone_id (vs ! j) = src_zone req" "req_address req \<in> window (vs ! j)" for j
    using find_vdev_unique [OF assms(1) that(1,3)] that(2) Some by simp
  then have unique: "\<forall>j < length vs. zone_id (vs ! j) = src_zone req \<and> req_address req \<in> window (vs ! j) \<longleftrightarrow> j = i"
    using i by blast
  obtain v' where "r = 0" "vs' = vs[i := v']"
    using assms(2) Some by (auto simp: virtio_handle_req_def bind_Some_iff Let_def)
  then have "r = 0" "vs' = vs[i := vs' ! i]" using i(1) by simp_all
  then show ?thesis using i(1) unique by blast
qed

definition example_req :: device_req where
  "example_req = \<lparr>src_cpu = 3, req_address = 0xa003c00, req_size = 4, req_value = 0, src_zone = 1,
     is_write = 0, need_interrupt = 0\<rparr>"

lemma example_table_ok: "table_ok [example_dev]"
  by (simp add: table_ok_def example_dev_def)

lemma example_read:
  "virtio_handle_req example_env example_req [example_dev] example_world =
     Some (0, [example_dev], example_world\<lparr>w_bridge :=
       example_bridge\<lparr>cfg_values := (replicate 32 0)[3 := 0x74726976], cfg_flags := (replicate 32 0)[3 := 1]\<rparr>\<rparr>)"
proof -
  have "mmio_reg_name 0 = MAGIC_VALUE" using mmio_reg_name_offset [of MAGIC_VALUE] by simp
  then show ?thesis
    by (simp add: virtio_handle_req_def example_req_def example_dev_def example_world_def example_bridge_def
        in_range_def virtio_mmio_read_def virtio_finish_cfg_req_def Let_def)
qed

lemma virtio_handle_req_isolated_witness:
  "zone_id example_dev = src_zone example_req \<and> req_address example_req \<in> window example_dev"
  using virtio_handle_req_isolated [OF example_table_ok example_read] by simp

section \<open>Answers to requests\<close>

lemma finish_frame:
  "virtio_finish_cfg_req cpu x w = Some w' \<longleftrightarrow> unat cpu < length (cfg_values (w_bridge w))
     \<and> unat cpu < length (cfg_flags (w_bridge w))
     \<and> w' = w\<lparr>w_bridge := (w_bridge w)\<lparr>cfg_values := (cfg_values (w_bridge w))[unat cpu := x],
                cfg_flags := (cfg_flags (w_bridge w))[unat cpu := cfg_flags (w_bridge w) ! unat cpu + 1]\<rparr>\<rparr>"
  by (auto simp: virtio_finish_cfg_req_def Let_def bind_Some_iff upd_ub_Some nth_ub_Some)

text \<open>The answer page after a request: one more completion for the CPU that waits, or none.\<close>

definition answered :: "device_req \<Rightarrow> bool \<Rightarrow> world \<Rightarrow> world \<Rightarrow> bool" where
  "answered req found w w' \<longleftrightarrow>
     (let cpu = unat (ucast (src_cpu req) :: u32); flags = cfg_flags (w_bridge w) in
      if found \<and> need_interrupt req \<noteq> 0
      then cfg_flags (w_bridge w') = flags \<and> cfg_values (w_bridge w') = cfg_values (w_bridge w)
      else cpu < length flags \<and> cfg_flags (w_bridge w') = flags[cpu := flags ! cpu + 1]
           \<and> (\<exists>x. cfg_values (w_bridge w') = (cfg_values (w_bridge w))[cpu := x]))"

definition ring_untouched :: "world \<Rightarrow> world \<Rightarrow> bool" where
  "ring_untouched w w' \<longleftrightarrow> req_front (w_bridge w') = req_front (w_bridge w) \<and> req_rear (w_bridge w') = req_rear (w_bridge w)
     \<and> req_list (w_bridge w') = req_list (w_bridge w) \<and> need_wakeup (w_bridge w') = need_wakeup (w_bridge w)
     \<and> (bridge_ok (w_bridge w) \<longrightarrow> bridge_ok (w_bridge w'))"

lemma table_ok_update:
  assumes "table_ok vs" and "same_identity (vs ! i) v'"
  shows "table_ok (vs[i := v'])"
proof (cases "i < length vs")
  case True
  have same: "zone_id (vs[i := v'] ! j) = zone_id (vs ! j)" "window (vs[i := v'] ! j) = window (vs ! j)" for j
    using assms(2) True by (cases "j = i"; simp add: same_identity_def window_def)+
  show ?thesis using assms(1) by (simp add: table_ok_def same)
qed (use assms(1) in \<open>simp add: list_update_beyond\<close>)

context device_backend
begin

lemma virtio_handle_req_keeps:
  assumes "virtio_handle_req env req vs w = Some (r, vs', w')"
  shows "ring_untouched w w' \<and> (table_ok vs \<longrightarrow> table_ok vs')
    \<and> ((\<forall>v\<in>set vs. dev_ok v) \<longrightarrow> (\<forall>v\<in>set vs'. dev_ok v))
    \<and> answered req (find_vdev (src_zone req) (req_address req) 0 vs \<noteq> None) w w'"
proof (cases "find_vdev (src_zone req) (req_address req) 0 vs")
  case None
  then show ?thesis
    using assms by (auto simp: virtio_handle_req_def bind_Some_iff finish_frame answered_def Let_def
        ring_untouched_def bridge_ok_def)
next
  case (Some i)
  obtain x v' w1 w2 where op: "(if is_write req \<noteq> 0
         then do { (v, w') \<leftarrow> virtio_mmio_write env (vs ! i) (req_address req - base_addr (vs ! i)) (req_value req) (ucast (req_size req)) w; Some (0, v, w') }
         else do { (x, seq) \<leftarrow> virtio_mmio_read env (vs ! i) (req_address req - base_addr (vs ! i)) (ucast (req_size req)) (irq_trace_seq w);
                   Some (x, vs ! i, w\<lparr>irq_trace_seq := seq\<rparr>) }) = Some (x, v', w1)"
      and fin: "(if need_interrupt req = 0 then virtio_finish_cfg_req (ucast (src_cpu req)) x w1 else Some w1) = Some w2"
      and res: "vs' = vs[i := v']" "w' = w2"
    using assms Some by (auto simp: virtio_handle_req_def bind_Some_iff Let_def)
  have k: "keeps (vs ! i) v' \<and> wkeeps w w1"
    using op virtio_mmio_write_keeps by (auto simp: bind_Some_iff split: if_splits)
  have "ring_untouched w w' \<and> answered req True w w'"
    using k fin res(2)
    by (auto simp: wkeeps_def ring_untouched_def answered_def finish_frame Let_def bridge_ok_def split: if_splits)
  moreover have "table_ok vs \<longrightarrow> table_ok vs'"
    using k res(1) table_ok_update [of vs i v'] by (simp add: keeps_def)
  moreover have "(\<forall>v\<in>set vs. dev_ok v) \<longrightarrow> (\<forall>v\<in>set vs'. dev_ok v)"
    using k res(1) find_vdev_Some [OF Some] set_update_subset_insert [of vs i v'] by (auto simp: keeps_def)
  ultimately show ?thesis using Some by simp
qed

end

end
