(* ===== verification/Consume.thy ===== *)
theory Consume
  imports Requests
begin

text \<open>
  \<open>consume_pending_requests\<close> of \<^verbatim>\<open>src/tools/virtio/virtio.c\<close> as the daemon executes it while the
  hypervisor adds nothing: every poll of the rear index sees the same value, so the busy-polling
  iterations change nothing and the final re-check succeeds. The interleaving with a hypervisor
  that adds requests at any moment is the subject of the theory on wake-ups.
\<close>

definition set_req_front :: "u32 \<Rightarrow> world \<Rightarrow> world" where
  "set_req_front f w = w\<lparr>w_bridge := (w_bridge w)\<lparr>req_front := f\<rparr>\<rparr>"

definition set_need_wakeup :: "u8 \<Rightarrow> world \<Rightarrow> world" where
  "set_need_wakeup x w = w\<lparr>w_bridge := (w_bridge w)\<lparr>need_wakeup := x\<rparr>\<rparr>"

partial_function (option) consume_loop ::
  "('d, 'p) devenv \<Rightarrow> u32 \<Rightarrow> int \<Rightarrow> 'd VirtIODevice list \<Rightarrow> world \<Rightarrow> (int \<times> 'd VirtIODevice list \<times> world) option" where
  "consume_loop env front proc_count vs w =
     (if front \<noteq> req_rear (w_bridge w)
      then Option.bind (nth_ub (req_list (w_bridge w)) (unat front)) (\<lambda>req.
           Option.bind (virtio_handle_req env req vs w) (\<lambda>(r, vs', w1).
           let front' = (front + 1) AND (MAX_REQ - 1) in
           consume_loop env front' (proc_count + 1) vs' (set_req_front front' w1)))
      else Some (proc_count, vs, set_need_wakeup 1 w))"

definition consume_pending_requests ::
  "('d, 'p) devenv \<Rightarrow> 'd VirtIODevice list \<Rightarrow> world \<Rightarrow> (int \<times> 'd VirtIODevice list \<times> world) option" where
  "consume_pending_requests env vs w =
     consume_loop env (req_front (w_bridge w)) 0 vs (set_need_wakeup 0 w)"

section \<open>Draining serves the queue in order\<close>

definition req_items :: "virtio_bridge \<Rightarrow> device_req list" where
  "req_items b = ring_items (req_front b) (req_rear b) (req_list b)"

text \<open>The specification: serve the requests of a list one after the other.\<close>

fun serve :: "('d, 'p) devenv \<Rightarrow> device_req list \<Rightarrow> 'd VirtIODevice list \<Rightarrow> world \<Rightarrow> ('d VirtIODevice list \<times> world) option" where
  "serve env [] vs w = Some (vs, w)"
| "serve env (q # qs) vs w = do {
     (r, vs', w1) \<leftarrow> virtio_handle_req env q vs w;
     serve env qs vs' (set_req_front ((req_front (w_bridge w1) + 1) AND (MAX_REQ - 1)) w1)
   }"

lemma set_req_front_bridge [simp]: "w_bridge (set_req_front f w) = (w_bridge w)\<lparr>req_front := f\<rparr>"
  by (simp add: set_req_front_def)

lemma set_need_wakeup_bridge [simp]: "w_bridge (set_need_wakeup x w) = (w_bridge w)\<lparr>need_wakeup := x\<rparr>"
  by (simp add: set_need_wakeup_def)

lemma next_index_bound: "unat ((f + 1) AND (MAX_REQ - 1)) < 32"
  unfolding next_index by simp

context device_backend
begin

lemma handle_req_ring:
  assumes "virtio_handle_req env req vs w = Some (r, vs', w')"
  shows "req_front (w_bridge w') = req_front (w_bridge w)" "req_rear (w_bridge w') = req_rear (w_bridge w)"
    "req_list (w_bridge w') = req_list (w_bridge w)" "bridge_ok (w_bridge w) \<longrightarrow> bridge_ok (w_bridge w')"
    "need_wakeup (w_bridge w') = need_wakeup (w_bridge w)"
  using virtio_handle_req_keeps [OF assms] by (simp_all add: ring_untouched_def)

lemma consume_loop_serve:
  assumes "bridge_ok (w_bridge w)"
  shows "consume_loop env (req_front (w_bridge w)) n vs w =
    map_option (\<lambda>(vs', w'). (n + int (length (req_items (w_bridge w))), vs', set_need_wakeup 1 w'))
      (serve env (req_items (w_bridge w)) vs w)"
  using assms
proof (induction "req_items (w_bridge w)" arbitrary: n vs w)
  case Nil
  then have "req_front (w_bridge w) = req_rear (w_bridge w)"
    using ring_empty_iff by (metis bridge_ok_def req_items_def)
  then show ?case using Nil.hyps by (subst consume_loop.simps) (simp flip: Nil.hyps)
next
  case (Cons q qs)
  let ?b = "w_bridge w" and ?f' = "(req_front (w_bridge w) + 1) AND (MAX_REQ - 1)"
  have idx: "unat (req_front ?b) < 32" "unat (req_rear ?b) < 32" "length (req_list ?b) = 32"
    using Cons.prems by (simp_all add: bridge_ok_def)
  have ne: "req_front ?b \<noteq> req_rear ?b"
    using Cons.hyps(2) ring_empty_iff [OF idx(1,2), of "req_list ?b"] by (auto simp: req_items_def)
  have q: "q = req_list ?b ! unat (req_front ?b)" "qs = ring_items ?f' (req_rear ?b) (req_list ?b)"
    using Cons.hyps(2) ring_pop [OF idx(1,2) ne, of "req_list ?b"] by (simp_all add: req_items_def)
  show ?case
  proof (cases "virtio_handle_req env q vs w")
    case None
    then show ?thesis
      using ne idx q(1) by (subst consume_loop.simps) (simp flip: Cons.hyps(2))
  next
    case (Some res)
    obtain r vs1 w1 where r: "res = (r, vs1, w1)" by (cases res)
    note ring = handle_req_ring [OF Some [unfolded r]]
    let ?w2 = "set_req_front ?f' w1"
    have "qs = req_items (w_bridge ?w2)" and "bridge_ok (w_bridge ?w2)"
      using q(2) ring Cons.prems next_index_bound [of "req_front ?b"] by (simp_all add: req_items_def bridge_ok_def)
    from Cons.hyps(1) [OF this, of "n + 1" vs1] show ?thesis
      using ne idx q(1) Some r ring \<open>qs = req_items (w_bridge ?w2)\<close>
      by (subst consume_loop.simps) (simp add: Let_def add.assoc flip: Cons.hyps(2))
  qed
qed

lemma serve_ring:
  assumes "bridge_ok (w_bridge w)" and "qs = req_items (w_bridge w)" and "serve env qs vs w = Some (vs', w')"
  shows "req_items (w_bridge w') = [] \<and> bridge_ok (w_bridge w') \<and> req_rear (w_bridge w') = req_rear (w_bridge w)"
  using assms
proof (induction qs arbitrary: vs w)
  case (Cons q qs)
  let ?b = "w_bridge w"
  obtain r vs1 w1 where r: "virtio_handle_req env q vs w = Some (r, vs1, w1)"
    using Cons.prems(3) by (auto simp: bind_Some_iff)
  let ?f' = "(req_front (w_bridge w1) + 1) AND (MAX_REQ - 1)"
  note ring = handle_req_ring [OF r]
  have idx: "unat (req_front ?b) < 32" "unat (req_rear ?b) < 32"
    using Cons.prems(1) by (simp_all add: bridge_ok_def)
  have ne: "req_front ?b \<noteq> req_rear ?b"
    using Cons.prems(2) ring_empty_iff [OF idx, of "req_list ?b"] by (auto simp: req_items_def)
  then have "qs = req_items (w_bridge (set_req_front ?f' w1))" "bridge_ok (w_bridge (set_req_front ?f' w1))"
    using Cons.prems(1,2) ring ring_pop [OF idx ne, of "req_list ?b"] next_index_bound [of "req_front ?b"]
    by (simp_all add: req_items_def bridge_ok_def)
  then show ?case
    using Cons.IH [of "set_req_front ?f' w1" vs1] Cons.prems(3) r ring by simp
qed simp

lemma consume_pending_requests_serves:
  assumes "bridge_ok (w_bridge w)"
  shows "consume_pending_requests env vs w =
    map_option (\<lambda>(vs', w'). (int (length (req_items (w_bridge w))), vs', set_need_wakeup 1 w'))
      (serve env (req_items (w_bridge w)) vs (set_need_wakeup 0 w))"
  using consume_loop_serve [of "set_need_wakeup 0 w" 0 vs] assms
  by (simp add: consume_pending_requests_def bridge_ok_def req_items_def)

end

end
