(* ===== verification/Json.thy ===== *)
theory Json
  imports Prelude
begin

text \<open>
  Reading numbers from configuration files: \<^verbatim>\<open>src/tools/json_parse.c\<close> and \<^verbatim>\<open>src/tools/safe_cjson.c\<close>.
  The JSON library itself is a submodule: the functions of it the code calls are the fields of a
  record over an abstract type of nodes, which every definition takes as an argument. \<open>strtoumax\<close>
  of the C library, with automatic detection of the base, is modelled here.
\<close>

section \<open>The JSON library\<close>

record 'j cjson =
  cj_is_string :: "'j \<Rightarrow> bool"
  cj_is_number :: "'j \<Rightarrow> bool"
  cj_is_array :: "'j \<Rightarrow> bool"
  cj_is_bool :: "'j \<Rightarrow> bool"
  cj_is_true :: "'j \<Rightarrow> bool"
  cj_valuestring :: "'j \<Rightarrow> string option"
  cj_valueint :: "'j \<Rightarrow> int"
  cj_get_item :: "'j \<Rightarrow> string \<Rightarrow> 'j option"
  cj_get_item_cs :: "'j \<Rightarrow> string \<Rightarrow> 'j option"
  cj_array_size :: "'j \<Rightarrow> int"
  cj_array_item :: "'j \<Rightarrow> int \<Rightarrow> 'j option"
  cj_parse :: "string \<Rightarrow> 'j option"

text \<open>Type tests on a null pointer are false.\<close>

definition is_string :: "'j cjson \<Rightarrow> 'j option \<Rightarrow> bool" where
  "is_string J n = (case n of None \<Rightarrow> False | Some j \<Rightarrow> cj_is_string J j)"

definition safe_get_item :: "'j cjson \<Rightarrow> 'j option \<Rightarrow> string \<Rightarrow> 'j option" where
  "safe_get_item J obj key = (case obj of None \<Rightarrow> None | Some j \<Rightarrow> cj_get_item J j key)"

definition safe_array_size :: "'j cjson \<Rightarrow> 'j option \<Rightarrow> int" where
  "safe_array_size J arr = (case arr of None \<Rightarrow> 0 | Some j \<Rightarrow> cj_array_size J j)"

definition safe_array_item :: "'j cjson \<Rightarrow> 'j option \<Rightarrow> int \<Rightarrow> 'j option" where
  "safe_array_item J arr i =
     (case arr of None \<Rightarrow> None
      | Some j \<Rightarrow> if i < 0 \<or> i \<ge> cj_array_size J j then None else cj_array_item J j i)"

definition safe_parse :: "'j cjson \<Rightarrow> string \<Rightarrow> 'j option" where
  "safe_parse J s = cj_parse J s"

section \<open>\<open>strtoumax\<close> with base 0\<close>

definition isspace :: "char \<Rightarrow> bool" where
  "isspace c \<longleftrightarrow> of_char c = (32 :: nat) \<or> (9 \<le> (of_char c :: nat) \<and> of_char c \<le> (13 :: nat))"

definition digit_val :: "char \<Rightarrow> nat option" where
  "digit_val c = (let n = of_char c :: nat in
     if 48 \<le> n \<and> n \<le> 57 then Some (n - 48)
     else if 97 \<le> n \<and> n \<le> 122 then Some (n - 87)
     else if 65 \<le> n \<and> n \<le> 90 then Some (n - 55)
     else None)"

definition is_digit :: "nat \<Rightarrow> char \<Rightarrow> bool" where
  "is_digit b c = (case digit_val c of None \<Rightarrow> False | Some d \<Rightarrow> d < b)"

text \<open>The value of the longest prefix of digits, and what follows it.\<close>

fun scan_digits :: "nat \<Rightarrow> nat \<Rightarrow> string \<Rightarrow> nat \<times> string" where
  "scan_digits b acc [] = (acc, [])"
| "scan_digits b acc (c # cs) =
     (if is_digit b c then scan_digits b (acc * b + the (digit_val c)) cs else (acc, c # cs))"

text \<open>
  The base a number starts with and the digits that follow its prefix. A prefix \<open>0x\<close> counts only
  before a hexadecimal digit; otherwise the leading zero is an octal number of its own.
\<close>

fun detect_base :: "string \<Rightarrow> nat \<times> string" where
  "detect_base (z # x # c # cs) =
     (if z = CHR ''0'' then (if (x = CHR ''x'' \<or> x = CHR ''X'') \<and> is_digit 16 c then (16, c # cs)
                             else (8, z # x # c # cs))
      else (10, z # x # c # cs))"
| "detect_base cs = (if take 1 cs = ''0'' then 8 else 10, cs)"

record strto =
  st_val :: u64
  st_rest :: string
  st_erange :: bool

definition UINTMAX :: nat where [simp]: "UINTMAX = 18446744073709551615"

text \<open>With no digits at all, \<open>endptr\<close> is the start of the string.\<close>

definition strtoumax :: "string \<Rightarrow> strto" where
  "strtoumax s =
     (let s1 = dropWhile isspace s;
          neg = (take 1 s1 = ''-'');
          s2 = (if take 1 s1 = ''-'' \<or> take 1 s1 = ''+'' then drop 1 s1 else s1);
          (b, s3) = detect_base s2;
          (n, rest) = scan_digits b 0 s3
      in if rest = s3 then \<lparr>st_val = 0, st_rest = s, st_erange = False\<rparr>
         else if n > UINTMAX then \<lparr>st_val = of_nat UINTMAX, st_rest = rest, st_erange = True\<rparr>
         else \<lparr>st_val = (if neg then - of_nat n else of_nat n), st_rest = rest, st_erange = False\<rparr>)"

section \<open>Numbers\<close>

text \<open>\<open>None\<close> is the code's return value -1.\<close>

definition parse_json_number_string :: "'j cjson \<Rightarrow> 'j \<Rightarrow> u64 option" where
  "parse_json_number_string J j =
     (if \<not> cj_is_string J j then None
      else case cj_valuestring J j of None \<Rightarrow> None
      | Some s \<Rightarrow> (let r = strtoumax s in
          if st_erange r then None
          else if st_rest r = s then None
          else if st_rest r \<noteq> [] then None
          else Some (st_val r)))"

definition parse_json_number :: "'j cjson \<Rightarrow> 'j option \<Rightarrow> u64 option" where
  "parse_json_number J item =
     (case item of None \<Rightarrow> None
      | Some j \<Rightarrow>
          if cj_is_number J j
          then (if cj_valueint J j < 0 then None else Some (of_int (cj_valueint J j)))
          else if cj_is_string J j then parse_json_number_string J j
          else None)"

definition parse_json_u64 :: "'j cjson \<Rightarrow> 'j option \<Rightarrow> u64 option" where
  "parse_json_u64 J item =
     (case parse_json_number J item of None \<Rightarrow> None | Some v \<Rightarrow> if v > -1 then None else Some v)"

definition parse_json_u32 :: "'j cjson \<Rightarrow> 'j option \<Rightarrow> u32 option" where
  "parse_json_u32 J item =
     (case parse_json_number J item of None \<Rightarrow> None
      | Some v \<Rightarrow> if v > 0xffffffff then None else Some (ucast v))"

definition parse_json_u8 :: "'j cjson \<Rightarrow> 'j option \<Rightarrow> u8 option" where
  "parse_json_u8 J item =
     (case parse_json_number J item of None \<Rightarrow> None
      | Some v \<Rightarrow> if v > 0xff then None else Some (ucast v))"

section \<open>Printing and parsing numbers\<close>

definition digit_char :: "nat \<Rightarrow> char" where
  "digit_char d = char_of (if d < 10 then 48 + d else 87 + d)"

function to_digits :: "nat \<Rightarrow> nat \<Rightarrow> string" where
  "to_digits b n = (if n < b \<or> b < 2 then [digit_char n] else to_digits b (n div b) @ [digit_char (n mod b)])"
  by pat_completeness auto
termination
  by (relation "measure snd") (auto intro: div_less_dividend)

declare to_digits.simps [simp del]

lemma digit_val_char: "d < 16 \<Longrightarrow> digit_val (digit_char d) = Some d"
  by (auto simp: digit_val_def digit_char_def Let_def of_char_of)

lemma is_digit_char: "d < b \<Longrightarrow> b \<le> 16 \<Longrightarrow> is_digit b (digit_char d)"
  by (simp add: is_digit_def digit_val_char)

lemma to_digits_digits: "2 \<le> b \<Longrightarrow> b \<le> 16 \<Longrightarrow> c \<in> set (to_digits b n) \<Longrightarrow> is_digit b c"
proof (induction b n rule: to_digits.induct)
  case (1 b n)
  then show ?case
    by (subst (asm) (2) to_digits.simps) (auto simp: is_digit_char split: if_splits)
qed

lemma scan_digits_all:
  "\<forall>c\<in>set s. is_digit b c \<Longrightarrow> scan_digits b acc s = (foldl (\<lambda>a c. a * b + the (digit_val c)) acc s, [])"
  by (induction s arbitrary: acc) auto

lemma to_digits_value:
  "2 \<le> b \<Longrightarrow> b \<le> 16 \<Longrightarrow> foldl (\<lambda>a c. a * b + the (digit_val c)) 0 (to_digits b n) = n"
proof (induction b n rule: to_digits.induct)
  case (1 b n)
  show ?case
  proof (cases "n < b")
    case True
    then show ?thesis using 1 by (simp add: to_digits.simps [of b n] digit_val_char)
  next
    case False
    moreover have "n mod b < 16" using 1 by (meson less_le_trans mod_less_divisor zero_less_numeral le_trans less_le)
    ultimately show ?thesis using 1 by (simp add: to_digits.simps [of b n] digit_val_char)
  qed
qed

lemma scan_to_digits: "2 \<le> b \<Longrightarrow> b \<le> 16 \<Longrightarrow> scan_digits b 0 (to_digits b n) = (n, [])"
  using scan_digits_all [of "to_digits b n" b 0] to_digits_digits to_digits_value by simp

lemma to_digits_not_Nil: "to_digits b n \<noteq> []"
  by (subst to_digits.simps) simp

lemma to_digits_head:
  "2 \<le> b \<Longrightarrow> b \<le> 16 \<Longrightarrow> 0 < n \<Longrightarrow> \<exists>d cs. to_digits b n = digit_char d # cs \<and> 0 < d \<and> d < b"
proof (induction b n rule: to_digits.induct)
  case (1 b n)
  show ?case
  proof (cases "n < b")
    case True
    then show ?thesis using 1 by (subst to_digits.simps) auto
  next
    case False
    then have "0 < n div b" using 1 by (simp add: div_greater_zero_iff)
    then show ?thesis using 1 False by (subst to_digits.simps) fastforce
  qed
qed

lemma detect_base_decimal: "c \<noteq> CHR ''0'' \<Longrightarrow> detect_base (c # cs) = (10, c # cs)"
  by (cases "c # cs" rule: detect_base.cases) auto

lemma digit_char_plain:
  assumes "0 < d" and "d < 16"
  shows "digit_char d \<noteq> CHR ''0''" "digit_char d \<noteq> CHR ''-''" "digit_char d \<noteq> CHR ''+''" "\<not> isspace (digit_char d)"
proof -
  have "(of_char (digit_char d) :: nat) = (if d < 10 then 48 + d else 87 + d)"
    using assms by (simp add: digit_char_def of_char_of)
  then show "digit_char d \<noteq> CHR ''0''" "digit_char d \<noteq> CHR ''-''" "digit_char d \<noteq> CHR ''+''" "\<not> isspace (digit_char d)"
    using assms by (auto simp: isspace_def split: if_splits)
qed

lemma strtoumax_decimal:
  "strtoumax (to_digits 10 n) =
     (if n > UINTMAX then \<lparr>st_val = of_nat UINTMAX, st_rest = [], st_erange = True\<rparr>
      else \<lparr>st_val = of_nat n, st_rest = [], st_erange = False\<rparr>)"
proof (cases "n = 0")
  case True
  have "strtoumax ''0'' = \<lparr>st_val = 0, st_rest = [], st_erange = False\<rparr>"
    by (simp add: strtoumax_def isspace_def is_digit_def digit_val_def)
  moreover have "digit_char 0 = CHR ''0''" by code_simp
  then have "to_digits 10 0 = ''0''" by (simp add: to_digits.simps)
  ultimately show ?thesis using True by simp
next
  case False
  then obtain d cs where d: "to_digits 10 n = digit_char d # cs" "0 < d" "d < 10"
    using to_digits_head [of 10 n] by auto
  note plain = digit_char_plain [of d]
  have "detect_base (to_digits 10 n) = (10, to_digits 10 n)"
    using d plain(1) by (simp add: detect_base_decimal)
  moreover have "scan_digits 10 0 (to_digits 10 n) = (n, [])" by (simp add: scan_to_digits)
  ultimately show ?thesis
    using d(2,3) plain unfolding strtoumax_def d(1) by (auto simp: Let_def)
qed

lemma strtoumax_hex:
  "strtoumax (''0x'' @ to_digits 16 n) =
     (if n > UINTMAX then \<lparr>st_val = of_nat UINTMAX, st_rest = [], st_erange = True\<rparr>
      else \<lparr>st_val = of_nat n, st_rest = [], st_erange = False\<rparr>)"
proof -
  obtain c cs where c: "to_digits 16 n = c # cs" "is_digit 16 c"
    using to_digits_not_Nil [of 16 n] to_digits_digits [of 16 _ n] by (cases "to_digits 16 n") auto
  have "detect_base (''0x'' @ to_digits 16 n) = (16, to_digits 16 n)" using c by simp
  moreover have "scan_digits 16 0 (to_digits 16 n) = (n, [])" by (simp add: scan_to_digits)
  moreover have "\<not> isspace (CHR ''0'')" by code_simp
  ultimately show ?thesis using c unfolding strtoumax_def by (auto simp: Let_def)
qed

text \<open>
  C34: A string node whose text is a number in decimal notation, or in hexadecimal notation with the
  prefix \<open>0x\<close>, is read as exactly that number by the 64-bit and by the 32-bit reader, and is
  rejected exactly when the number does not fit the type.
\<close>

theorem parse_json_printed:
  assumes "cj_is_string J j" and "\<not> cj_is_number J j"
    and "cj_valuestring J j = Some (to_digits 10 n) \<or> cj_valuestring J j = Some (''0x'' @ to_digits 16 n)"
  shows "parse_json_u64 J (Some j) = (if n \<le> 18446744073709551615 then Some (of_nat n) else None)
       \<and> parse_json_u32 J (Some j) = (if n \<le> 4294967295 then Some (of_nat n) else None)"
proof -
  have num: "parse_json_number J (Some j) = (if n \<le> UINTMAX then Some (of_nat n) else None)"
    using assms
    by (auto simp: parse_json_number_def parse_json_number_string_def strtoumax_decimal Let_def
        to_digits_not_Nil [symmetric] strtoumax_hex [unfolded append_Cons append_Nil])
  have big: "\<not> (-1 :: u64) < x" for x by (simp add: not_less)
  have narrow: "ucast (of_nat n :: u64) = (of_nat n :: u32)"
    by (rule bit_word_eqI) (auto simp: bit_ucast_iff bit_of_nat_iff)
  have "(of_nat n :: u64) > 0xffffffff \<longleftrightarrow> n > 4294967295" if "n \<le> UINTMAX"
    using that by (simp add: word_less_nat_alt unat_of_nat_small)
  then show ?thesis
    using num by (auto simp: parse_json_u64_def parse_json_u32_def big narrow)
qed

text \<open>A concrete tree of JSON values with the behaviour of the library functions.\<close>

datatype json = JNull | JBool bool | JNum int | JStr string | JArr "json list" | JObj "(string \<times> json) list"

definition tree_cjson :: "json cjson" where
  "tree_cjson = \<lparr>
     cj_is_string = (\<lambda>j. case j of JStr _ \<Rightarrow> True | _ \<Rightarrow> False),
     cj_is_number = (\<lambda>j. case j of JNum _ \<Rightarrow> True | _ \<Rightarrow> False),
     cj_is_array = (\<lambda>j. case j of JArr _ \<Rightarrow> True | _ \<Rightarrow> False),
     cj_is_bool = (\<lambda>j. case j of JBool _ \<Rightarrow> True | _ \<Rightarrow> False),
     cj_is_true = (\<lambda>j. case j of JBool b \<Rightarrow> b | _ \<Rightarrow> False),
     cj_valuestring = (\<lambda>j. case j of JStr s \<Rightarrow> Some s | _ \<Rightarrow> None),
     cj_valueint = (\<lambda>j. case j of JNum i \<Rightarrow> i | _ \<Rightarrow> 0),
     cj_get_item = (\<lambda>j k. case j of JObj kvs \<Rightarrow> map_of kvs k | _ \<Rightarrow> None),
     cj_get_item_cs = (\<lambda>j k. case j of JObj kvs \<Rightarrow> map_of kvs k | _ \<Rightarrow> None),
     cj_array_size = (\<lambda>j. case j of JArr xs \<Rightarrow> int (length xs) | JObj xs \<Rightarrow> int (length xs) | _ \<Rightarrow> 0),
     cj_array_item = (\<lambda>j i. case j of JArr xs \<Rightarrow> if 0 \<le> i \<and> nat i < length xs then Some (xs ! nat i) else None | _ \<Rightarrow> None),
     cj_parse = (\<lambda>_. None)\<rparr>"

lemma parse_json_printed_witness:
  "parse_json_u32 tree_cjson (Some (JStr (''0x'' @ to_digits 16 4096))) = Some 4096
   \<and> parse_json_u32 tree_cjson (Some (JStr (to_digits 10 4294967296))) = None"
  using parse_json_printed [of tree_cjson "JStr (''0x'' @ to_digits 16 4096)" 4096]
    parse_json_printed [of tree_cjson "JStr (to_digits 10 4294967296)" 4294967296]
  by (simp add: tree_cjson_def)

text \<open>
  A negative number is rejected when it is written as a JSON number, but accepted and wrapped
  around when it is written as a string: the 64-bit reader turns \<open>"-1"\<close> into the largest value.
\<close>

theorem parse_json_negative:
  "parse_json_u64 tree_cjson (Some (JNum (- 1))) = None
   \<and> parse_json_u64 tree_cjson (Some (JStr ''-1'')) = Some 0xffffffffffffffff"
  by (simp add: parse_json_u64_def parse_json_number_def parse_json_number_string_def tree_cjson_def
      strtoumax_def isspace_def is_digit_def digit_val_def)

end
