(* ===== verification/Virtio_Config.thy ===== *)
theory Virtio_Config
  imports Requests Json
begin

text \<open>
  From a configuration file to published devices: the configuration structures, their parser, the
  validation of MMIO ranges, the mapping of zone memory, the creation and the publication of
  devices, and \<open>virtio_start_from_json\<close>, of \<^verbatim>\<open>src/tools/virtio/virtio.c\<close>. Parsers return \<open>None\<close> for
  the code's -1; the caller then frees and discards what was parsed.
\<close>

section \<open>The configuration\<close>

record VirtioMemoryRegionConfig =
  mc_zone0_ipa :: u64
  mc_zonex_ipa :: u64
  mc_size :: u64

record 'p VirtioDeviceConfig =
  dc_type :: VirtioDeviceType
  dc_zone_id :: u32
  dc_addr :: u64
  dc_len :: u64
  dc_irq :: u32
  dc_enabled :: bool
  dc_params :: "'p option"

record 'p VirtioZoneConfig =
  zc_zone_id :: u32
  zc_memory_regions :: "VirtioMemoryRegionConfig list"
  zc_devices :: "'p VirtioDeviceConfig list"

type_synonym 'p VirtioConfig = "'p VirtioZoneConfig list"

definition parse_virtio_device_type :: "string \<Rightarrow> VirtioDeviceType option" where
  "parse_virtio_device_type s =
     (if s = ''blk'' then Some VirtioTBlock
      else if s = ''net'' then Some VirtioTNet
      else if s = ''console'' then Some VirtioTConsole
      else if s = ''gpu'' then Some VirtioTGPU
      else if s = ''scmi'' then Some VirtioTSCMI
      else None)"

text \<open>The text of a string node.\<close>

definition node_text :: "'j cjson \<Rightarrow> 'j option \<Rightarrow> string option" where
  "node_text J n = (if is_string J n then Option.bind n (cj_valuestring J) else None)"

text \<open>
  The table of configuration parsers, per device type; a parser yields the parameters or fails.
\<close>

type_synonym ('j, 'p) config_ops_table = "VirtioDeviceType \<Rightarrow> ('j option \<Rightarrow> 'p option) option"

definition parse_virtio_device_config ::
  "'j cjson \<Rightarrow> ('j, 'p) config_ops_table \<Rightarrow> 'j option \<Rightarrow> u32 \<Rightarrow> 'p VirtioDeviceConfig option" where
  "parse_virtio_device_config J lookup_config_ops device_json zone = do {
     status \<leftarrow> node_text J (safe_get_item J device_json ''status'');
     if status = ''disable''
     then Some \<lparr>dc_type = VirtioTNone, dc_zone_id = zone, dc_addr = 0, dc_len = 0, dc_irq = 0,
                dc_enabled = False, dc_params = None\<rparr>
     else if status \<noteq> ''enable'' then None
     else do {
       type \<leftarrow> node_text J (safe_get_item J device_json ''type'');
       t \<leftarrow> parse_virtio_device_type type;
       addr \<leftarrow> parse_json_u64 J (safe_get_item J device_json ''addr'');
       len \<leftarrow> parse_json_u64 J (safe_get_item J device_json ''len'');
       irq \<leftarrow> parse_json_u32 J (safe_get_item J device_json ''irq'');
       if addr = 0 \<or> len = 0 \<or> irq = 0 then None
       else do {
         parse \<leftarrow> lookup_config_ops t;
         params \<leftarrow> parse device_json;
         Some \<lparr>dc_type = t, dc_zone_id = zone, dc_addr = addr, dc_len = len, dc_irq = irq,
               dc_enabled = True, dc_params = Some params\<rparr>
       }
     }
   }"

definition parse_virtio_memory_region_config :: "'j cjson \<Rightarrow> 'j option \<Rightarrow> VirtioMemoryRegionConfig option" where
  "parse_virtio_memory_region_config J mem_json = do {
     z0 \<leftarrow> parse_json_u64 J (safe_get_item J mem_json ''zone0_ipa'');
     zx \<leftarrow> parse_json_u64 J (safe_get_item J mem_json ''zonex_ipa'');
     sz \<leftarrow> parse_json_u64 J (safe_get_item J mem_json ''size'');
     Some \<lparr>mc_zone0_ipa = z0, mc_zonex_ipa = zx, mc_size = sz\<rparr>
   }"

text \<open>The loops over a JSON array of bounded size.\<close>

definition parse_array :: "'j cjson \<Rightarrow> int \<Rightarrow> ('j option \<Rightarrow> 'a option) \<Rightarrow> 'j option \<Rightarrow> 'a list option" where
  "parse_array J bound parse arr =
     (let n = safe_array_size J arr in
      if n < 0 \<or> n > bound then None
      else those (map (\<lambda>i. parse (safe_array_item J arr (int i))) [0..<nat n]))"

definition parse_virtio_zone_config ::
  "'j cjson \<Rightarrow> ('j, 'p) config_ops_table \<Rightarrow> 'j option \<Rightarrow> 'p VirtioZoneConfig option" where
  "parse_virtio_zone_config J ops zone_json = do {
     let id0 = safe_get_item J zone_json ''id'';
     let id1 = (if id0 = None then safe_get_item J zone_json ''zone_id'' else id0);
     zid \<leftarrow> parse_json_u32 J id1;
     if unat zid \<ge> MAX_ZONES then None
     else do {
       regions \<leftarrow> parse_array J (int CONFIG_MAX_MEMORY_REGIONS) (parse_virtio_memory_region_config J)
                   (safe_get_item J zone_json ''memory_region'');
       devices \<leftarrow> parse_array J (int MAX_DEVS) (\<lambda>d. parse_virtio_device_config J ops d zid)
                   (safe_get_item J zone_json ''devices'');
       Some \<lparr>zc_zone_id = zid, zc_memory_regions = regions, zc_devices = devices\<rparr>
     }
   }"

definition parse_virtio_config :: "'j cjson \<Rightarrow> ('j, 'p) config_ops_table \<Rightarrow> 'j \<Rightarrow> 'p VirtioConfig option" where
  "parse_virtio_config J ops root =
     (case cj_get_item_cs J root ''zones'' of
        None \<Rightarrow> map_option (\<lambda>z. [z]) (parse_virtio_zone_config J ops (Some root))
      | Some zones \<Rightarrow> parse_array J (int MAX_ZONES) (parse_virtio_zone_config J ops) (Some zones))"

section \<open>Address ranges\<close>

definition range_end :: "u64 \<Rightarrow> u64 \<Rightarrow> u64" where
  "range_end base len = (if -1 - base < len then -1 else base + len)"

definition ranges_overlap :: "u64 \<Rightarrow> u64 \<Rightarrow> u64 \<Rightarrow> u64 \<Rightarrow> bool" where
  "ranges_overlap base_a len_a base_b len_b =
     (if len_a = 0 \<or> len_b = 0 then False
      else base_a < range_end base_b len_b \<and> base_b < range_end base_a len_a)"

definition same_memory_region :: "VirtioMemoryRegionConfig \<Rightarrow> VirtioMemoryRegionConfig \<Rightarrow> bool" where
  "same_memory_region a b \<longleftrightarrow> mc_zone0_ipa a = mc_zone0_ipa b \<and> mc_zonex_ipa a = mc_zonex_ipa b \<and> mc_size a = mc_size b"

fun find_zone_memory_region_locked :: "int \<Rightarrow> zone_mem_region list \<Rightarrow> VirtioMemoryRegionConfig \<Rightarrow> int" where
  "find_zone_memory_region_locked i [] mem = -1"
| "find_zone_memory_region_locked i (e # es) mem =
     (let current = \<lparr>mc_zone0_ipa = zone0_ipa e, mc_zonex_ipa = zonex_ipa e, mc_size = mem_size e\<rparr> in
      if same_memory_region current mem then i
      else if ranges_overlap (mc_zone0_ipa mem) (mc_size mem) (mc_zone0_ipa current) (mc_size current)
            \<or> ranges_overlap (mc_zonex_ipa mem) (mc_size mem) (mc_zonex_ipa current) (mc_size current)
      then -2
      else find_zone_memory_region_locked (i + 1) es mem)"

text \<open>
  Checking the devices of a configuration. The nested loops visit the devices of all zones in
  order; \<open>prev\<close> holds the ones visited before.
\<close>

definition cfg_overlaps_dev :: "'p VirtioDeviceConfig \<Rightarrow> 'd VirtIODevice \<Rightarrow> bool" where
  "cfg_overlaps_dev d v \<longleftrightarrow> zone_id v = dc_zone_id d \<and> ranges_overlap (dc_addr d) (dc_len d) (base_addr v) (mmio_len v)"

definition cfg_overlaps_cfg :: "'p VirtioDeviceConfig \<Rightarrow> 'p VirtioDeviceConfig \<Rightarrow> bool" where
  "cfg_overlaps_cfg d p \<longleftrightarrow> dc_enabled p \<and> dc_zone_id p = dc_zone_id d
     \<and> ranges_overlap (dc_addr d) (dc_len d) (dc_addr p) (dc_len p)"

fun validate_loop :: "'d VirtIODevice list \<Rightarrow> nat \<Rightarrow> 'p VirtioDeviceConfig list \<Rightarrow> 'p VirtioDeviceConfig list \<Rightarrow> int" where
  "validate_loop vdevs tot prev [] = 0"
| "validate_loop vdevs tot prev (d # ds) =
     (if \<not> dc_enabled d then validate_loop vdevs tot (prev @ [d]) ds
      else if tot + 1 > MAX_DEVS then -1
      else if \<exists>v\<in>set vdevs. cfg_overlaps_dev d v then -1
      else if \<exists>p\<in>set prev. cfg_overlaps_cfg d p then -1
      else validate_loop vdevs (tot + 1) (prev @ [d]) ds)"

definition validate_virtio_config_devices :: "'d VirtIODevice list \<Rightarrow> 'p VirtioConfig \<Rightarrow> int" where
  "validate_virtio_config_devices vdevs cfg =
     validate_loop vdevs (length vdevs) [] (concat (map zc_devices cfg))"

section \<open>Mapping zone memory\<close>

definition MAP_FAILED :: int where [simp]: "MAP_FAILED = -1"

text \<open>
  The recheck of the slot after \<open>mmap\<close> can only fail when another thread adds a region in between.
\<close>

fun mmap_regions :: "nat \<Rightarrow> VirtioMemoryRegionConfig list \<Rightarrow> world \<Rightarrow> (int \<times> world) option" where
  "mmap_regions z [] w = Some (0, w)"
| "mmap_regions z (mem # mems) w =
     (let found = find_zone_memory_region_locked 0 (w_zm w z) mem in
      if found \<ge> 0 then mmap_regions z mems w
      else if found = -2 \<or> mc_size mem = 0 \<or> length (w_zm w z) \<ge> CONFIG_MAX_MEMORY_REGIONS then Some (-1, w)
      else let slot = length (w_zm w z) in do {
        (r, w1) \<leftarrow> sys_call (Mmap (mc_size mem) (mc_zone0_ipa mem)) w;
        if s_ret r = MAP_FAILED then Some (-1, w1)
        else if slot \<noteq> length (w_zm w1 z)
        then do { (r2, w2) \<leftarrow> sys_call (Munmap (of_int (s_ret r)) (mc_size mem)) w1; Some (-1, w2) }
        else mmap_regions z mems (w1\<lparr>w_zm := (w_zm w1)(z := w_zm w1 z @
               [\<lparr>virt_addr = of_int (s_ret r), zone0_ipa = mc_zone0_ipa mem, zonex_ipa = mc_zonex_ipa mem,
                 mem_size = mc_size mem\<rparr>])\<rparr>)
      })"

definition mmap_virtio_zone_memory :: "'p VirtioZoneConfig \<Rightarrow> world \<Rightarrow> (int \<times> world) option" where
  "mmap_virtio_zone_memory cfg w =
     (if unat (zc_zone_id cfg) \<ge> MAX_ZONES \<and> zc_memory_regions cfg \<noteq> [] then None
      else mmap_regions (unat (zc_zone_id cfg)) (zc_memory_regions cfg) w)"

section \<open>Creating devices\<close>

definition zeroed_regs :: VirtMmioRegs where
  "zeroed_regs = \<lparr>device_id = 0, dev_feature_sel = 0, drv_feature_sel = 0, queue_sel = 0, interrupt_status = 0,
     reg_status = 0, generation = 0, dev_feature = 0, drv_feature = 0\<rparr>"

text \<open>The device between \<open>calloc\<close> and the initialisation of its queues.\<close>

definition blank_device ::
  "('d, 'p) devenv \<Rightarrow> ('d, 'p) virtio_device_ops \<Rightarrow> VirtioDeviceType \<Rightarrow> u32 \<Rightarrow> u64 \<Rightarrow> u64 \<Rightarrow> u32 \<Rightarrow> 'd VirtIODevice" where
  "blank_device env ops t zone base len irq =
     \<lparr>vqs_len = 0, zone_id = zone, irq_id = irq, base_addr = base, mmio_len = len, dev_type = t,
      regs = (init_mmio_regs zeroed_regs t)\<lparr>dev_feature := op_features ops\<rparr>, vqs = [], dev = null_dev env,
      virtio_close_set = True, status_changed_set = (op_status_changed ops \<noteq> None), activated = False,
      interrupt_line_asserted = False\<rparr>"

text \<open>The two flags say whether the two allocations succeed.\<close>

definition create_virtio_device_unpublished ::
  "('d, 'p) devenv \<Rightarrow> bool \<times> bool \<Rightarrow> VirtioDeviceType \<Rightarrow> u32 \<Rightarrow> u64 \<Rightarrow> u64 \<Rightarrow> u32 \<Rightarrow> 'p \<Rightarrow> world
    \<Rightarrow> ('d VirtIODevice option \<times> world) option" where
  "create_virtio_device_unpublished env mem_ok t zone base len irq params w =
     (case lookup_ops env t of
        None \<Rightarrow> Some (None, w)
      | Some ops \<Rightarrow>
          if \<not> fst mem_ok then Some (None, w)
          else case init_virtio_queue (snd mem_ok) (blank_device env ops t zone base len irq) ops of
            (e, v1) \<Rightarrow>
              if e \<noteq> 0 then do { w' \<leftarrow> op_close ops v1 w; Some (None, w') }
              else do {
                (e2, v2, w1) \<leftarrow> op_init ops v1 params w;
                if e2 \<noteq> 0 then do { w' \<leftarrow> op_close ops v2 w1; Some (None, w') }
                else Some (Some v2, w1)
              })"

definition destroy_unpublished_virtio_device :: "('d, 'p) devenv \<Rightarrow> 'd VirtIODevice \<Rightarrow> world \<Rightarrow> world option" where
  "destroy_unpublished_virtio_device env v w =
     (if virtio_close_set v
      then (case lookup_ops env (dev_type v) of None \<Rightarrow> None | Some ops \<Rightarrow> op_close ops v w)
      else Some w)"

definition publish_virtio_devices :: "'d VirtIODevice list \<Rightarrow> 'd VirtIODevice list \<Rightarrow> int \<times> 'd VirtIODevice list" where
  "publish_virtio_devices new_devs vdevs =
     (if new_devs = [] then (0, vdevs)
      else if length new_devs > MAX_DEVS - length vdevs then (-1, vdevs)
      else (0, vdevs @ new_devs))"

definition create_virtio_device ::
  "('d, 'p) devenv \<Rightarrow> bool \<times> bool \<Rightarrow> VirtioDeviceType \<Rightarrow> u32 \<Rightarrow> u64 \<Rightarrow> u64 \<Rightarrow> u32 \<Rightarrow> 'p \<Rightarrow> 'd VirtIODevice list \<Rightarrow> world
    \<Rightarrow> ('d VirtIODevice option \<times> 'd VirtIODevice list \<times> world) option" where
  "create_virtio_device env mem_ok t zone base len irq params vdevs w = do {
     (r, w1) \<leftarrow> create_virtio_device_unpublished env mem_ok t zone base len irq params w;
     (case r of
        None \<Rightarrow> Some (None, vdevs, w1)
      | Some v \<Rightarrow>
          if fst (publish_virtio_devices [v] vdevs) \<noteq> 0
          then do { w2 \<leftarrow> destroy_unpublished_virtio_device env v w1; Some (None, vdevs, w2) }
          else Some (Some v, snd (publish_virtio_devices [v] vdevs), w1))
   }"

fun destroy_all :: "('d, 'p) devenv \<Rightarrow> 'd VirtIODevice list \<Rightarrow> world \<Rightarrow> world option" where
  "destroy_all env [] w = Some w"
| "destroy_all env (v # vs) w = Option.bind (destroy_unpublished_virtio_device env v w) (destroy_all env vs)"

text \<open>
  The loop that creates the enabled devices; \<open>new_devs\<close> are the ones created so far. Parameters of
  an enabled device are present after parsing.
\<close>

fun create_loop :: "('d, 'p) devenv \<Rightarrow> bool \<times> bool \<Rightarrow> 'd VirtIODevice list \<Rightarrow> 'p VirtioDeviceConfig list \<Rightarrow> world
    \<Rightarrow> ('d VirtIODevice list cres \<times> world) option" where
  "create_loop env mem_ok new_devs [] w = Some (Ok new_devs, w)"
| "create_loop env mem_ok new_devs (d # ds) w =
     (if \<not> dc_enabled d then create_loop env mem_ok new_devs ds w
      else do {
        params \<leftarrow> dc_params d;
        (r, w1) \<leftarrow> create_virtio_device_unpublished env mem_ok (dc_type d) (dc_zone_id d) (dc_addr d) (dc_len d)
                    (dc_irq d) params w;
        (case r of
           None \<Rightarrow> do { w2 \<leftarrow> destroy_all env new_devs w1; Some (Err (-1), w2) }
         | Some v \<Rightarrow>
             if length new_devs = MAX_DEVS
             then do { w2 \<leftarrow> destroy_unpublished_virtio_device env v w1;
                       w3 \<leftarrow> destroy_all env new_devs w2; Some (Err (-1), w3) }
             else create_loop env mem_ok (new_devs @ [v]) ds w1)
      })"

definition create_virtio_config_devices ::
  "('d, 'p) devenv \<Rightarrow> bool \<times> bool \<Rightarrow> 'p VirtioConfig \<Rightarrow> 'd VirtIODevice list \<Rightarrow> world
    \<Rightarrow> (int \<times> 'd VirtIODevice list \<times> world) option" where
  "create_virtio_config_devices env mem_ok cfg vdevs w = do {
     (r, w1) \<leftarrow> create_loop env mem_ok [] (concat (map zc_devices cfg)) w;
     (case r of
        Err e \<Rightarrow> Some (-1, vdevs, w1)
      | Ok new_devs \<Rightarrow>
          if fst (publish_virtio_devices new_devs vdevs) \<noteq> 0
          then do { w2 \<leftarrow> destroy_all env new_devs w1; Some (-1, vdevs, w2) }
          else Some (0, snd (publish_virtio_devices new_devs vdevs), w1))
   }"

fun mmap_zones :: "'p VirtioConfig \<Rightarrow> world \<Rightarrow> (int \<times> world) option" where
  "mmap_zones [] w = Some (0, w)"
| "mmap_zones (z # zs) w = do {
     (r, w1) \<leftarrow> mmap_virtio_zone_memory z w;
     if r \<noteq> 0 then Some (r, w1) else mmap_zones zs w1
   }"

text \<open>
  \<open>virtio_start_from_json\<close>. The argument is what \<open>read_file\<close> returns: the text of the file, or
  \<open>None\<close> for a null buffer.
\<close>

definition virtio_start_from_json ::
  "'j cjson \<Rightarrow> ('j, 'p) config_ops_table \<Rightarrow> ('d, 'p) devenv \<Rightarrow> bool \<times> bool \<Rightarrow> string option \<Rightarrow> 'd VirtIODevice list \<Rightarrow> world
    \<Rightarrow> (int \<times> 'd VirtIODevice list \<times> world) option" where
  "virtio_start_from_json J ops env mem_ok buffer vdevs w =
     (case buffer of None \<Rightarrow> Some (-1, vdevs, w)
      | Some str \<Rightarrow> (case safe_parse J str of None \<Rightarrow> Some (-1, vdevs, w)
          | Some root \<Rightarrow> (case parse_virtio_config J ops root of None \<Rightarrow> Some (-1, vdevs, w)
              | Some cfg \<Rightarrow>
                  if validate_virtio_config_devices vdevs cfg \<noteq> 0 then Some (-1, vdevs, w)
                  else do {
                    (e, w1) \<leftarrow> mmap_zones cfg w;
                    if e \<noteq> 0 then Some (-1, vdevs, w1)
                    else do {
                      (e2, vdevs', w2) \<leftarrow> create_virtio_config_devices env mem_ok cfg vdevs w1;
                      if e2 \<noteq> 0 then Some (-1, vdevs', w2) else Some (0, vdevs', w2)
                    }
                  })))"

text \<open>Writing the MMIO addresses of all devices into the bridge page.\<close>

fun write_mmio_addrs :: "nat \<Rightarrow> 'd VirtIODevice list \<Rightarrow> u64 list \<Rightarrow> u64 list option" where
  "write_mmio_addrs i [] addrs = Some addrs"
| "write_mmio_addrs i (v # vs) addrs = Option.bind (upd_ub addrs i (base_addr v)) (write_mmio_addrs (Suc i) vs)"

definition virtio_add_from_json ::
  "'j cjson \<Rightarrow> ('j, 'p) config_ops_table \<Rightarrow> ('d, 'p) devenv \<Rightarrow> bool \<times> bool \<Rightarrow> string option \<Rightarrow> 'd VirtIODevice list \<Rightarrow> world
    \<Rightarrow> (int \<times> 'd VirtIODevice list \<times> world) option" where
  "virtio_add_from_json J ops env mem_ok buffer vdevs w = do {
     (err, vdevs', w1) \<leftarrow> virtio_start_from_json J ops env mem_ok buffer vdevs w;
     if err \<noteq> 0 then Some (err, vdevs', w1)
     else do {
       addrs \<leftarrow> write_mmio_addrs 0 vdevs' (mmio_addrs (w_bridge w1));
       Some (0, vdevs', w1\<lparr>w_bridge := (w_bridge w1)\<lparr>mmio_addrs := addrs, mmio_avail := 1\<rparr>\<rparr>)
     }
   }"

end
