(* ===== verification/Config_Safety.thy ===== *)
theory Config_Safety
  imports Virtio_Config
begin

text \<open>
  What the checks of a configuration guarantee: the overlap test agrees with sets of addresses, a
  validated configuration leaves a device table in which no address has two owners, mapped zone
  memory never covers a guest address twice, and a configuration that fails leaves the published
  devices as they were.
\<close>

section \<open>The overlap test\<close>

lemma unat_max64 [simp]: "unat (- 1 :: u64) = 18446744073709551615"
  by (simp add: unsigned_minus_1_eq_mask mask_eq_exp_minus_1)

lemma in_range_no_wrap:
  assumes "in_range a b l"
  shows "range_end b l = b + l" and "unat (b + l) = unat b + unat l" and "l \<noteq> 0"
proof -
  have *: "unat b \<le> unat a" "unat a < unat (b + l)"
    using assms by (auto simp: in_range_def word_le_nat_alt word_less_nat_alt)
  have sum: "unat (b + l) = (unat b + unat l) mod 18446744073709551616"
    by (simp add: unat_word_ariths)
  have "unat b + unat l < 18446744073709551616"
  proof (rule ccontr)
    assume "\<not> unat b + unat l < 18446744073709551616"
    moreover have "unat b + unat l - 18446744073709551616 < 18446744073709551616"
      using unat_lt_64 [of b] unat_lt_64 [of l] by linarith
    ultimately have "unat (b + l) = unat b + unat l - 18446744073709551616"
      unfolding sum by (simp add: le_mod_geq)
    then show False using * unat_lt_64 [of l] by linarith
  qed
  then show eq: "unat (b + l) = unat b + unat l" unfolding sum by simp
  have "unat (-1 - b) = 18446744073709551615 - unat b"
    by (simp add: unat_sub)
  then have "\<not> -1 - b < l" using \<open>unat b + unat l < 18446744073709551616\<close> by (simp add: word_less_nat_alt)
  then show "range_end b l = b + l" by (simp add: range_end_def)
  show "l \<noteq> 0" using * eq by auto
qed

lemma ranges_overlap_sound:
  assumes "in_range a b l" and "in_range a c k"
  shows "ranges_overlap b l c k"
  using assms in_range_no_wrap [OF assms(1)] in_range_no_wrap [OF assms(2)]
  by (auto simp: ranges_overlap_def in_range_def)

lemma ranges_overlap_sym: "ranges_overlap b l c k = ranges_overlap c k b l"
  by (auto simp: ranges_overlap_def)

text \<open>
  For ranges that end within the address space, \<open>ranges_overlap\<close> holds exactly when some
  address is in both; in particular an empty range overlaps nothing and adjacent ranges do not
  overlap.
\<close>

theorem ranges_overlap_exact:
  assumes "unat b + unat l < 2 ^ 64" and "unat c + unat k < 2 ^ 64"
  shows "ranges_overlap b l c k \<longleftrightarrow> (\<exists>a. in_range a b l \<and> in_range a c k)"
proof
  assume "\<exists>a. in_range a b l \<and> in_range a c k"
  then show "ranges_overlap b l c k" using ranges_overlap_sound by blast
next
  assume o: "ranges_overlap b l c k"
  have sums: "unat (b + l) = unat b + unat l" "unat (c + k) = unat c + unat k"
    using assms by (simp_all add: unat_word_ariths)
  have "\<not> -1 - b < l" "\<not> -1 - c < k"
    using assms by (simp_all add: word_less_nat_alt unat_sub)
  then have "b < c + k" "c < b + l" "l \<noteq> 0" "k \<noteq> 0"
    using o by (auto simp: ranges_overlap_def range_end_def split: if_splits)
  then have "in_range (max b c) b l \<and> in_range (max b c) c k"
    using sums by (auto simp: in_range_def max_def word_less_nat_alt word_le_nat_alt unat_eq_0 [symmetric])
  then show "\<exists>a. in_range a b l \<and> in_range a c k" by blast
qed

lemma ranges_overlap_exact_witness:
  "\<not> ranges_overlap 0xa003c00 0x200 0xa003e00 0x200 \<and> ranges_overlap 0xa003c00 0x201 0xa003e00 0x200"
proof -
  have "in_range 0xa003e00 0xa003c00 0x201 \<and> in_range 0xa003e00 0xa003e00 0x200"
    by (simp add: in_range_def)
  moreover have "\<not> (in_range a 0xa003c00 0x200 \<and> in_range a 0xa003e00 0x200)" for a
    by (auto simp: in_range_def)
  ultimately show ?thesis
    using ranges_overlap_exact [of "0xa003c00" "0x200" "0xa003e00" "0x200"]
      ranges_overlap_exact [of "0xa003c00" "0x201" "0xa003e00" "0x200"] by auto
qed

section \<open>Validation\<close>

abbreviation enabled_devs :: "'p VirtioDeviceConfig list \<Rightarrow> 'p VirtioDeviceConfig list" where
  "enabled_devs \<equiv> filter dc_enabled"

lemma validate_loop_iff:
  "validate_loop vdevs n prev ds = 0 \<longleftrightarrow>
     (enabled_devs ds = [] \<or> n + length (enabled_devs ds) \<le> MAX_DEVS)
     \<and> (\<forall>d\<in>set (enabled_devs ds). (\<forall>v\<in>set vdevs. \<not> cfg_overlaps_dev d v) \<and> (\<forall>p\<in>set prev. \<not> cfg_overlaps_cfg d p))
     \<and> sorted_wrt (\<lambda>p d. \<not> cfg_overlaps_cfg d p) (enabled_devs ds)"
proof (induction vdevs n prev ds rule: validate_loop.induct)
  case (2 vdevs n prev d ds)
  show ?case
  proof (cases "dc_enabled d")
    case False
    have "\<not> cfg_overlaps_cfg e d" for e using False by (simp add: cfg_overlaps_cfg_def)
    then show ?thesis using "2.IH"(1) [OF False] False by simp
  next
    case True
    show ?thesis
    proof (cases "n + 1 > MAX_DEVS \<or> (\<exists>v\<in>set vdevs. cfg_overlaps_dev d v) \<or> (\<exists>p\<in>set prev. cfg_overlaps_cfg d p)")
      case bad: True
      then show ?thesis using True by auto
    next
      case False
      then have "validate_loop vdevs n prev (d # ds) = validate_loop vdevs (n + 1) (prev @ [d]) ds"
        using True by simp
      then show ?thesis using "2.IH"(2) True False by auto
    qed
  qed
qed simp

text \<open>The addresses a window has in a zone, for windows that end within the address space.\<close>

definition no_wrap :: "u64 \<Rightarrow> u64 \<Rightarrow> bool" where
  "no_wrap start len \<longleftrightarrow> unat start + unat len < 2 ^ 64"

abbreviation cfg_window :: "'p VirtioDeviceConfig \<Rightarrow> u64 set" where
  "cfg_window d \<equiv> addr_span (dc_addr d) (dc_len d)"

abbreviation dev_window :: "'d VirtIODevice \<Rightarrow> u64 set" where
  "dev_window v \<equiv> addr_span (base_addr v) (mmio_len v)"

lemma ranges_overlap_span:
  assumes "no_wrap b l" and "no_wrap c k"
  shows "ranges_overlap b l c k \<longleftrightarrow> addr_span b l \<inter> addr_span c k \<noteq> {}"
proof -
  have "in_range a s n \<longleftrightarrow> a \<in> addr_span s n" if "no_wrap s n" for a s n
  proof -
    have "unat (s + n) = unat s + unat n" using that by (simp add: no_wrap_def unat_word_ariths)
    then show ?thesis by (simp add: in_range_def addr_span_def word_less_nat_alt)
  qed
  then show ?thesis using ranges_overlap_exact [of b l c k] assms by (auto simp: no_wrap_def)
qed

lemma sorted_symmetric:
  assumes "\<And>x y. x \<in> set xs \<Longrightarrow> y \<in> set xs \<Longrightarrow> P x y = P y x"
  shows "sorted_wrt (\<lambda>x y. P y x) xs \<longleftrightarrow> (\<forall>i < length xs. \<forall>j < length xs. i \<noteq> j \<longrightarrow> P (xs ! i) (xs ! j))"
  unfolding sorted_wrt_iff_nth_less
proof (intro iffI allI impI)
  fix i j assume ordered: "\<forall>i j. i < j \<longrightarrow> j < length xs \<longrightarrow> P (xs ! j) (xs ! i)" and ij: "i < length xs" "j < length xs" "i \<noteq> j"
  have "P (xs ! i) (xs ! j) = P (xs ! j) (xs ! i)" using ij(1,2) by (intro assms nth_mem)
  moreover from ij(3) have "i < j \<or> j < i" by linarith
  ultimately show "P (xs ! i) (xs ! j)" using ordered ij by blast
next
  fix i j assume "\<forall>i < length xs. \<forall>j < length xs. i \<noteq> j \<longrightarrow> P (xs ! i) (xs ! j)" and "i < j" "j < length xs"
  then show "P (xs ! j) (xs ! i)" by simp
qed

lemma validate_accepts:
  fixes cfg :: "'p VirtioConfig" and vdevs :: "'d VirtIODevice list"
  defines "new \<equiv> enabled_devs (concat (map zc_devices cfg))"
  shows "validate_virtio_config_devices vdevs cfg = 0 \<longleftrightarrow> (new = [] \<or> length vdevs + length new \<le> 8)
     \<and> (\<forall>d\<in>set new. \<forall>v\<in>set vdevs. \<not> cfg_overlaps_dev d v)
     \<and> (\<forall>i < length new. \<forall>j < length new. i \<noteq> j \<longrightarrow> \<not> cfg_overlaps_cfg (new ! i) (new ! j))"
proof -
  have "cfg_overlaps_cfg x y = cfg_overlaps_cfg y x" if "x \<in> set new" "y \<in> set new" for x y
    using that ranges_overlap_sym by (auto simp: cfg_overlaps_cfg_def new_def)
  then have "sorted_wrt (\<lambda>p d. \<not> cfg_overlaps_cfg d p) new \<longleftrightarrow>
      (\<forall>i < length new. \<forall>j < length new. i \<noteq> j \<longrightarrow> \<not> cfg_overlaps_cfg (new ! i) (new ! j))"
    by (intro sorted_symmetric) blast
  then show ?thesis
    unfolding validate_virtio_config_devices_def validate_loop_iff new_def by auto
qed

text \<open>
  C23: Validation accepts a configuration exactly when the published devices and the enabled devices
  of the configuration together stay within the eight slots of the table, and in every zone the
  window of an enabled device has no address in common with the window of a published device or
  with that of another enabled device. The windows are taken to end within the address space.
\<close>

theorem validate_virtio_config_devices_iff:
  fixes cfg :: "'p VirtioConfig" and vdevs :: "'d VirtIODevice list"
  defines "new \<equiv> enabled_devs (concat (map zc_devices cfg))"
  assumes "\<forall>d\<in>set new. no_wrap (dc_addr d) (dc_len d)" and "\<forall>v\<in>set vdevs. no_wrap (base_addr v) (mmio_len v)"
  shows "validate_virtio_config_devices vdevs cfg = 0 \<longleftrightarrow>
     (new = [] \<or> length vdevs + length new \<le> 8)
     \<and> (\<forall>d\<in>set new. \<forall>v\<in>set vdevs. dc_zone_id d = zone_id v \<longrightarrow> cfg_window d \<inter> dev_window v = {})
     \<and> (\<forall>i < length new. \<forall>j < length new. i \<noteq> j \<longrightarrow> dc_zone_id (new ! i) = dc_zone_id (new ! j) \<longrightarrow>
          cfg_window (new ! i) \<inter> cfg_window (new ! j) = {})"
proof -
  have dv: "\<not> cfg_overlaps_dev d v \<longleftrightarrow> (dc_zone_id d = zone_id v \<longrightarrow> cfg_window d \<inter> dev_window v = {})"
    if "d \<in> set new" "v \<in> set vdevs" for d v
    using that assms(2,3) ranges_overlap_span [of "dc_addr d" "dc_len d" "base_addr v" "mmio_len v"]
    by (auto simp: cfg_overlaps_dev_def)
  have dd: "\<not> cfg_overlaps_cfg (new ! i) (new ! j) \<longleftrightarrow>
      (dc_zone_id (new ! i) = dc_zone_id (new ! j) \<longrightarrow> cfg_window (new ! i) \<inter> cfg_window (new ! j) = {})"
    if "i < length new" "j < length new" for i j
  proof -
    have m: "new ! i \<in> set new" "new ! j \<in> set new" using that by simp_all
    have en: "dc_enabled (new ! j)" using m(2) by (simp add: new_def)
    have "ranges_overlap (dc_addr (new ! i)) (dc_len (new ! i)) (dc_addr (new ! j)) (dc_len (new ! j))
        \<longleftrightarrow> cfg_window (new ! i) \<inter> cfg_window (new ! j) \<noteq> {}"
      using m assms(2) by (intro ranges_overlap_span) blast+
    then show ?thesis using en by (auto simp: cfg_overlaps_cfg_def)
  qed
  have "(\<forall>d\<in>set new. \<forall>v\<in>set vdevs. \<not> cfg_overlaps_dev d v) \<longleftrightarrow>
      (\<forall>d\<in>set new. \<forall>v\<in>set vdevs. dc_zone_id d = zone_id v \<longrightarrow> cfg_window d \<inter> dev_window v = {})"
    by (intro ball_cong refl dv)
  moreover have "(\<forall>i < length new. \<forall>j < length new. i \<noteq> j \<longrightarrow> \<not> cfg_overlaps_cfg (new ! i) (new ! j)) \<longleftrightarrow>
      (\<forall>i < length new. \<forall>j < length new. i \<noteq> j \<longrightarrow> dc_zone_id (new ! i) = dc_zone_id (new ! j) \<longrightarrow>
          cfg_window (new ! i) \<inter> cfg_window (new ! j) = {})"
    by (intro all_cong imp_cong refl dd)
  ultimately show ?thesis unfolding validate_accepts new_def [symmetric] by argo
qed

definition example_cfg :: "unit VirtioConfig" where
  "example_cfg = [\<lparr>zc_zone_id = 1, zc_memory_regions = [\<lparr>mc_zone0_ipa = 0x60000000, mc_zonex_ipa = 0x60000000, mc_size = 0x1000\<rparr>],
     zc_devices = [\<lparr>dc_type = VirtioTBlock, dc_zone_id = 1, dc_addr = 0xa003e00, dc_len = 0x200, dc_irq = 77,
                    dc_enabled = True, dc_params = Some ()\<rparr>]\<rparr>]"

lemma validate_virtio_config_devices_iff_witness:
  "validate_virtio_config_devices [example_dev] example_cfg = 0"
  by (subst validate_virtio_config_devices_iff)
    (auto simp: example_cfg_def example_dev_def no_wrap_def addr_span_def word_le_nat_alt)

section \<open>Zone memory\<close>

definition covers :: "zone_mem_region \<Rightarrow> u64 \<Rightarrow> bool" where
  "covers r ipa \<longleftrightarrow> in_range ipa (zonex_ipa r) (mem_size r)"

text \<open>No guest address lies in two regions of the list.\<close>

definition unambiguous :: "zone_mem_region list \<Rightarrow> bool" where
  "unambiguous rs \<longleftrightarrow> (\<forall>i < length rs. \<forall>j < length rs. \<forall>ipa. covers (rs ! i) ipa \<and> covers (rs ! j) ipa \<longrightarrow> i = j)"

lemma find_zone_memory_region_new:
  assumes "find_zone_memory_region_locked i rs mem < 0" and "find_zone_memory_region_locked i rs mem \<noteq> -2" and "0 \<le> i"
    and "r \<in> set rs" and "covers r ipa"
  shows "\<not> in_range ipa (mc_zonex_ipa mem) (mc_size mem)"
  using assms
proof (induction i rs mem rule: find_zone_memory_region_locked.induct)
  case (2 i e es mem)
  show ?case
  proof (cases "r = e")
    case True
    have "\<not> ranges_overlap (mc_zonex_ipa mem) (mc_size mem) (zonex_ipa e) (mem_size e)"
      using "2.prems"(1-3) by (auto simp: Let_def split: if_splits)
    then show ?thesis using "2.prems"(5) True ranges_overlap_sound by (auto simp: covers_def)
  next
    case False
    then show ?thesis
      using "2.IH" [OF refl] "2.prems" by (auto simp: Let_def split: if_splits)
  qed
qed simp

lemma unambiguous_append:
  assumes "unambiguous rs" and "\<And>r' ipa. r' \<in> set rs \<Longrightarrow> covers r' ipa \<Longrightarrow> \<not> covers r ipa"
  shows "unambiguous (rs @ [r])"
  unfolding unambiguous_def
proof (intro allI impI)
  fix i j ipa assume *: "i < length (rs @ [r])" "j < length (rs @ [r])" "covers ((rs @ [r]) ! i) ipa \<and> covers ((rs @ [r]) ! j) ipa"
  then show "i = j"
    using assms(1) assms(2) [OF nth_mem] unfolding unambiguous_def
    by (cases "i < length rs"; cases "j < length rs") (auto simp: nth_append split: if_splits)
qed

lemma mmap_regions_unambiguous:
  assumes "mmap_regions z mems w = Some (e, w')" and "unambiguous (w_zm w z)" and "length (w_zm w z) \<le> CONFIG_MAX_MEMORY_REGIONS"
  shows "unambiguous (w_zm w' z) \<and> length (w_zm w' z) \<le> CONFIG_MAX_MEMORY_REGIONS \<and> (\<forall>y. y \<noteq> z \<longrightarrow> w_zm w' y = w_zm w y)
     \<and> (\<exists>new. w_zm w' z = w_zm w z @ new)"
  using assms
proof (induction mems arbitrary: w)
  case (Cons mem mems)
  let ?found = "find_zone_memory_region_locked 0 (w_zm w z) mem"
  let ?grown = "\<lambda>(r :: sysret) w1. w1\<lparr>w_zm := (w_zm w)(z := w_zm w z @
      [\<lparr>virt_addr = of_int (s_ret r), zone0_ipa = mc_zone0_ipa mem, zonex_ipa = mc_zonex_ipa mem, mem_size = mc_size mem\<rparr>])\<rparr>"
  consider (known) "mmap_regions z mems w = Some (e, w')"
    | (stop) "w_zm w' = w_zm w"
    | (new) r w1 where "?found < 0" "?found \<noteq> -2" "length (w_zm w z) < CONFIG_MAX_MEMORY_REGIONS"
        "mmap_regions z mems (?grown r w1) = Some (e, w')"
  proof (cases "?found \<ge> 0 \<or> ?found = -2 \<or> mc_size mem = 0 \<or> length (w_zm w z) \<ge> CONFIG_MAX_MEMORY_REGIONS")
    case True
    then show ?thesis using Cons.prems(1) known stop by (auto simp: Let_def split: if_splits)
  next
    case False
    then obtain r w1 where r: "sys_call (Mmap (mc_size mem) (mc_zone0_ipa mem)) w = Some (r, w1)"
      using Cons.prems(1) by (auto simp: Let_def bind_Some_iff)
    then have zm: "w_zm w1 = w_zm w" using sys_call_frame by fastforce
    show ?thesis
    proof (cases "s_ret r = MAP_FAILED")
      case True
      then show ?thesis using Cons.prems(1) False r zm stop by (auto simp: Let_def)
    next
      case ok: False
      then have "mmap_regions z mems (?grown r w1) = Some (e, w')"
        using Cons.prems(1) False r zm by (simp add: Let_def)
      then show ?thesis using new [of r w1] False by simp
    qed
  qed
  then show ?case
  proof cases
    case known
    then show ?thesis using Cons.IH Cons.prems by blast
  next
    case stop
    then show ?thesis using Cons.prems(2,3) by simp
  next
    case new
    have "unambiguous (w_zm (?grown r w1) z)"
      using Cons.prems(2) find_zone_memory_region_new [OF new(1,2)]
      by (auto intro!: unambiguous_append simp: covers_def)
    moreover have "length (w_zm (?grown r w1) z) \<le> CONFIG_MAX_MEMORY_REGIONS" using new(3) by simp
    ultimately show ?thesis using Cons.IH [OF new(4)] by auto
  qed
qed auto

lemma mmap_zones_unambiguous:
  assumes "mmap_zones cfg w = Some (e, w')"
    and "\<And>z. unambiguous (w_zm w z) \<and> length (w_zm w z) \<le> CONFIG_MAX_MEMORY_REGIONS"
  shows "unambiguous (w_zm w' z) \<and> length (w_zm w' z) \<le> CONFIG_MAX_MEMORY_REGIONS \<and> (\<exists>new. w_zm w' z = w_zm w z @ new)"
  using assms
proof (induction cfg arbitrary: w)
  case (Cons zc cfg)
  obtain r w1 where m: "mmap_virtio_zone_memory zc w = Some (r, w1)"
      "(if r \<noteq> 0 then Some (r, w1) else mmap_zones cfg w1) = Some (e, w')"
    using Cons.prems(1) by (auto simp: bind_Some_iff)
  let ?y = "unat (zc_zone_id zc)"
  have "mmap_regions ?y (zc_memory_regions zc) w = Some (r, w1)"
    using m(1) by (auto simp: mmap_virtio_zone_memory_def split: if_splits)
  note one = mmap_regions_unambiguous [OF this]
  have w1: "unambiguous (w_zm w1 x) \<and> length (w_zm w1 x) \<le> CONFIG_MAX_MEMORY_REGIONS \<and> (\<exists>new. w_zm w1 x = w_zm w x @ new)" for x
    using one Cons.prems(2) by (cases "x = ?y") auto
  show ?case
  proof (cases "r = 0")
    case True
    then show ?thesis using Cons.IH [of w1] m(2) w1 by (metis append.assoc)
  next
    case False
    then show ?thesis using m(2) w1 by auto
  qed
qed auto

section \<open>Publishing\<close>

text \<open>The devices created for a list of configurations.\<close>

definition made_from :: "'p VirtioDeviceConfig \<Rightarrow> 'd VirtIODevice \<Rightarrow> bool" where
  "made_from d v \<longleftrightarrow> zone_id v = dc_zone_id d \<and> base_addr v = dc_addr d \<and> mmio_len v = dc_len d
     \<and> irq_id v = dc_irq d \<and> dev_type v = dc_type d \<and> dev_ok v"

text \<open>
  A backend whose initialisation keeps the device, and whose creation and destruction of devices
  touch nothing of the world they must not touch.
\<close>

locale device_creator = device_backend +
  assumes init_keeps:
      "\<lbrakk>lookup_ops env t = Some ops; op_init ops v p w = Some (e, v', w')\<rbrakk> \<Longrightarrow> keeps v v' \<and> wkeeps w w'"
    and close_keeps: "\<lbrakk>lookup_ops env t = Some ops; op_close ops v w = Some w'\<rbrakk> \<Longrightarrow> wkeeps w w'"
begin

lemma post_close:
  assumes "lookup_ops env t = Some ops" and "wkeeps u w" and "\<And>w'. wkeeps u w' \<Longrightarrow> P w'"
  shows "post P (op_close ops v w)"
  using close_keeps [OF assms(1)] wkeeps_trans [OF assms(2)] assms(3) by (blast intro: postI)

lemma post_init:
  assumes "lookup_ops env t = Some ops" and "wkeeps u w" and "\<And>e v' w'. wkeeps u w' \<Longrightarrow> P (e, v', w')"
  shows "post P (op_init ops v p w)"
  using init_keeps [OF assms(1)] wkeeps_trans [OF assms(2)] assms(3) by (fastforce intro: postI)

lemma post_destroy:
  assumes "wkeeps u w" and "\<And>w'. wkeeps u w' \<Longrightarrow> P w'"
  shows "post P (destroy_unpublished_virtio_device env v w)"
  unfolding destroy_unpublished_virtio_device_def by (intro wp post_close) (use assms in auto)

lemma post_destroy_all:
  assumes "wkeeps u w" and "\<And>w'. wkeeps u w' \<Longrightarrow> P w'"
  shows "post P (destroy_all env vs w)"
  using assms(1)
proof (induction vs arbitrary: w)
  case (Cons v vs)
  show ?case unfolding destroy_all.simps by (intro wp post_destroy) (use Cons in auto)
qed (simp add: assms(2) post_Some)

lemma post_create_unpublished:
  assumes "wkeeps u w" and "\<And>r w'. wkeeps u w' \<Longrightarrow> P (r, w')"
  shows "post P (create_virtio_device_unpublished env mem_ok t zone base len irq params w)"
  unfolding create_virtio_device_unpublished_def
  by (intro wp post_close post_init) (use assms in auto)

lemma post_create_loop:
  assumes "wkeeps u w" and "\<And>r w'. wkeeps u w' \<Longrightarrow> P (r, w')"
  shows "post P (create_loop env mem_ok new ds w)"
  using assms(1)
proof (induction ds arbitrary: new w)
  case (Cons d ds)
  show ?case
  proof (cases "dc_params d")
    case (Some p)
    show ?thesis
      unfolding create_loop.simps Some bind.simps
      by (intro wp post_create_unpublished post_destroy post_destroy_all Cons.IH) (use Cons.prems assms(2) in auto)
  qed (use Cons in \<open>auto simp: post_None\<close>)
qed (simp add: assms(2) post_Some)

lemma create_config_devices_wkeeps:
  "post (\<lambda>(e, vs', w'). wkeeps w w') (create_virtio_config_devices env mem_ok cfg vs w)"
  unfolding create_virtio_config_devices_def
  by (intro wp post_create_loop post_destroy_all) auto

lemma create_unpublished_made:
  assumes "create_virtio_device_unpublished env mem_ok t zone base len irq params w = Some (Some v, w')"
  shows "zone_id v = zone \<and> base_addr v = base \<and> mmio_len v = len \<and> irq_id v = irq \<and> dev_type v = t \<and> dev_ok v"
proof -
  obtain ops where ops: "lookup_ops env t = Some ops" "fst mem_ok"
    using assms by (auto simp: create_virtio_device_unpublished_def split: option.splits if_splits)
  define v1 where "v1 = snd (init_virtio_queue (snd mem_ok) (blank_device env ops t zone base len irq) ops)"
  have q: "fst (init_virtio_queue (snd mem_ok) (blank_device env ops t zone base len irq) ops) = 0"
    and i: "op_init ops v1 params w = Some (0, v, w')"
    using assms ops unfolding v1_def
    by (auto simp: create_virtio_device_unpublished_def bind_Some_iff split: prod.splits if_splits)
  have "zone_id v1 = zone \<and> base_addr v1 = base \<and> mmio_len v1 = len \<and> irq_id v1 = irq \<and> dev_type v1 = t \<and> dev_ok v1"
    using q unfolding v1_def
    by (auto simp: init_virtio_queue_def blank_device_def dev_ok_def Let_def split: if_splits)
  then show ?thesis using init_keeps [OF ops(1) i] by (auto simp: keeps_def same_identity_def)
qed

lemma create_loop_made:
  assumes "create_loop env mem_ok new ds w = Some (Ok news, w')"
  shows "\<exists>made. news = new @ made \<and> list_all2 made_from (enabled_devs ds) made"
  using assms
proof (induction ds arbitrary: new w)
  case (Cons d ds)
  show ?case
  proof (cases "dc_enabled d")
    case False
    then show ?thesis using Cons by simp
  next
    case True
    obtain params v w1 where c: "create_virtio_device_unpublished env mem_ok (dc_type d) (dc_zone_id d) (dc_addr d) (dc_len d)
          (dc_irq d) params w = Some (Some v, w1)" "create_loop env mem_ok (new @ [v]) ds w1 = Some (Ok news, w')"
      using Cons.prems True by (auto simp: bind_Some_iff split: option.splits if_splits)
    then have "made_from d v" using create_unpublished_made [OF c(1)] by (simp add: made_from_def)
    then show ?thesis using Cons.IH [OF c(2)] True by fastforce
  qed
qed simp

end

lemma made_table_ok:
  assumes "table_ok vs" and "list_all2 made_from ds made" and "length vs + length made \<le> MAX_DEVS"
    and "\<forall>d\<in>set ds. dc_enabled d" and "\<forall>d\<in>set ds. \<forall>v\<in>set vs. \<not> cfg_overlaps_dev d v"
    and "sorted_wrt (\<lambda>p d. \<not> cfg_overlaps_cfg d p) ds"
  shows "table_ok (vs @ made)"
proof -
  have len: "length ds = length made" using assms(2) by (rule list_all2_lengthD)
  have m: "made_from (ds ! i) (made ! i)" if "i < length made" for i
    using assms(2) that len by (simp add: list_all2_conv_all_nth)
  have old_new: "window (vs ! i) \<inter> window (made ! j) = {}"
    if "i < length vs" "j < length made" "zone_id (vs ! i) = zone_id (made ! j)" for i j
    using assms(5) m [OF that(2)] that len ranges_overlap_sound
    by (fastforce simp: made_from_def cfg_overlaps_dev_def window_def)
  have new_new: "window (made ! i) \<inter> window (made ! j) = {}"
    if "i < j" "j < length made" "zone_id (made ! i) = zone_id (made ! j)" for i j
  proof -
    have "\<not> cfg_overlaps_cfg (ds ! j) (ds ! i)" using assms(6) that len by (simp add: sorted_wrt_iff_nth_less)
    then show ?thesis
      using m [of i] m [of j] that len assms(4) ranges_overlap_sound
      by (fastforce simp: made_from_def cfg_overlaps_cfg_def window_def)
  qed
  show ?thesis
    unfolding table_ok_def
  proof (intro conjI allI impI)
    show "length (vs @ made) \<le> MAX_DEVS" using assms(3) by simp
    fix i j assume *: "i < length (vs @ made)" "j < length (vs @ made)"
      "i \<noteq> j \<and> zone_id ((vs @ made) ! i) = zone_id ((vs @ made) ! j)"
    consider "i < length vs" "j < length vs" | "i < length vs" "j \<ge> length vs" | "i \<ge> length vs" "j < length vs"
      | "i \<ge> length vs" "j \<ge> length vs" "i < j" | "i \<ge> length vs" "j \<ge> length vs" "j < i"
      using *(3) by linarith
    then show "window ((vs @ made) ! i) \<inter> window ((vs @ made) ! j) = {}"
      using * assms(1) old_new [of i "j - length vs"] old_new [of j "i - length vs"]
        new_new [of "i - length vs" "j - length vs"] new_new [of "j - length vs" "i - length vs"]
      by cases (auto simp: nth_append table_ok_def Int_commute diff_less_mono less_diff_conv2)
  qed
qed

lemma list_all2_dev_ok: "list_all2 made_from ds made \<Longrightarrow> v \<in> set made \<Longrightarrow> dev_ok v"
  by (auto simp: made_from_def list_all2_conv_all_nth in_set_conv_nth)

lemma validate_zero:
  assumes "validate_virtio_config_devices vs cfg = 0"
  defines "new \<equiv> enabled_devs (concat (map zc_devices cfg))"
  shows "(new = [] \<or> length vs + length new \<le> MAX_DEVS) \<and> (\<forall>d\<in>set new. \<forall>v\<in>set vs. \<not> cfg_overlaps_dev d v)
     \<and> sorted_wrt (\<lambda>p d. \<not> cfg_overlaps_cfg d p) new"
  using assms(1) unfolding validate_virtio_config_devices_def validate_loop_iff new_def by auto

context device_creator
begin

lemma create_config_devices_published:
  assumes "create_virtio_config_devices env mem_ok cfg vs w = Some (e, vs', w')"
    and "validate_virtio_config_devices vs cfg = 0" and "table_ok vs" and "\<forall>v\<in>set vs. dev_ok v"
  shows "(e \<noteq> 0 \<and> vs' = vs)
    \<or> (e = 0 \<and> table_ok vs' \<and> (\<forall>v\<in>set vs'. dev_ok v)
       \<and> (\<exists>made. vs' = vs @ made \<and> list_all2 made_from (enabled_devs (concat (map zc_devices cfg))) made))"
proof (cases "e = 0")
  case False
  obtain r w1 where "create_loop env mem_ok [] (concat (map zc_devices cfg)) w = Some (r, w1)"
    using assms(1) by (auto simp: create_virtio_config_devices_def bind_Some_iff)
  then show ?thesis
    using assms(1) False by (cases r) (auto simp: create_virtio_config_devices_def bind_Some_iff split: if_splits)
next
  case True
  let ?new = "enabled_devs (concat (map zc_devices cfg))"
  obtain r w1 where r: "create_loop env mem_ok [] (concat (map zc_devices cfg)) w = Some (r, w1)"
    using assms(1) by (auto simp: create_virtio_config_devices_def bind_Some_iff)
  then obtain news where n: "create_loop env mem_ok [] (concat (map zc_devices cfg)) w = Some (Ok news, w1)"
      "vs' = snd (publish_virtio_devices news vs)" "fst (publish_virtio_devices news vs) = 0"
    using assms(1) True
    by (cases r) (auto simp: create_virtio_config_devices_def bind_Some_iff split: if_splits)
  then have made: "list_all2 made_from ?new news" using create_loop_made [OF n(1)] by simp
  have vs': "vs' = vs @ news" using n(2,3) by (auto simp: publish_virtio_devices_def split: if_splits)
  note val = validate_zero [OF assms(2)]
  have "length vs + length news \<le> MAX_DEVS"
    using val list_all2_lengthD [OF made] assms(3) by (auto simp: table_ok_def)
  then have "table_ok vs'" unfolding vs' using made_table_ok [OF assms(3) made] val by simp
  moreover have "\<forall>v\<in>set vs'. dev_ok v" using assms(4) list_all2_dev_ok [OF made] vs' by auto
  ultimately show ?thesis using True made vs' by blast
qed

lemma start_from_json_published:
  assumes "virtio_start_from_json J ops env mem_ok buffer vs w = Some (e, vs', w')"
    and "table_ok vs" and "\<forall>v\<in>set vs. dev_ok v"
  shows "(e = -1 \<and> vs' = vs)
    \<or> (e = 0 \<and> table_ok vs' \<and> (\<forall>v\<in>set vs'. dev_ok v)
       \<and> (\<exists>str root cfg made. buffer = Some str \<and> safe_parse J str = Some root
            \<and> parse_virtio_config J ops root = Some cfg \<and> vs' = vs @ made
            \<and> list_all2 made_from (enabled_devs (concat (map zc_devices cfg))) made))"
proof (cases "e = -1 \<and> vs' = vs")
  case False
  then obtain str root cfg where c: "buffer = Some str" "safe_parse J str = Some root"
      "parse_virtio_config J ops root = Some cfg" "validate_virtio_config_devices vs cfg = 0"
    using assms(1) by (auto simp: virtio_start_from_json_def split: option.splits if_splits)
  obtain w1 e2 w2 where m: "create_virtio_config_devices env mem_ok cfg vs w1 = Some (e2, vs', w2)"
      "e = (if e2 \<noteq> 0 then -1 else 0)"
    using assms(1) c False by (auto simp: virtio_start_from_json_def bind_Some_iff split: if_splits)
  from create_config_devices_published [OF m(1) c(4) assms(2,3)] show ?thesis
    using m(2) c False by auto
qed simp

end

lemma find_region_append: "find_region rs ipa \<noteq> 0 \<Longrightarrow> find_region (rs @ qs) ipa = find_region rs ipa"
  by (induction rs) auto

text \<open>
  C25: Mapping the memory of a configuration, whatever the configuration and whatever \<open>mmap\<close> answers,
  never changes the translation of a guest address that was mapped before, in any zone. And if no
  guest address of a zone was covered by two regions and no zone had more than 64 regions, the
  same holds afterwards, so every newly mapped address has one translation too.
\<close>

theorem mmap_zones_keep_translation:
  assumes "mmap_zones cfg w = Some (e, w')"
    and "\<forall>z. unambiguous (w_zm w z) \<and> length (w_zm w z) \<le> CONFIG_MAX_MEMORY_REGIONS"
  shows "(get_virt_addr (w_zm w) ipa zid \<noteq> 0 \<longrightarrow> get_virt_addr (w_zm w') ipa zid = get_virt_addr (w_zm w) ipa zid)
     \<and> unambiguous (w_zm w' z) \<and> length (w_zm w' z) \<le> CONFIG_MAX_MEMORY_REGIONS"
proof -
  have grown: "unambiguous (w_zm w' y) \<and> length (w_zm w' y) \<le> CONFIG_MAX_MEMORY_REGIONS \<and> (\<exists>new. w_zm w' y = w_zm w y @ new)" for y
    using mmap_zones_unambiguous [OF assms(1), of y] assms(2) by blast
  then obtain new where "w_zm w' (nat zid) = w_zm w (nat zid) @ new" by blast
  then have "get_virt_addr (w_zm w) ipa zid \<noteq> 0 \<Longrightarrow> get_virt_addr (w_zm w') ipa zid = get_virt_addr (w_zm w) ipa zid"
    using find_region_append by (auto simp: get_virt_addr_def)
  then show ?thesis using grown by blast
qed

definition growing_world :: world where
  "growing_world = example_world\<lparr>w_zm := (\<lambda>_. [])(1 := [hd example_regions]),
     w_tape := [\<lparr>s_ret = 0x7f8000000000, s_errno = 0, s_vals = [], s_bytes = []\<rparr>]\<rparr>"

definition growing_cfg :: "unit VirtioConfig" where
  "growing_cfg = [\<lparr>zc_zone_id = 1, zc_memory_regions = [\<lparr>mc_zone0_ipa = 0x80000000, mc_zonex_ipa = 0x80000000, mc_size = 0x1000\<rparr>],
     zc_devices = []\<rparr>]"

lemma mmap_zones_keep_translation_witness:
  "\<exists>w'. mmap_zones growing_cfg growing_world = Some (0, w') \<and> unambiguous (w_zm w' 1)
     \<and> get_virt_addr (w_zm w') 0x50000010 1 = 0x7f0000000010 \<and> get_virt_addr (w_zm w') 0x80000010 1 = 0x7f8000000010"
proof -
  have "map_option (\<lambda>(e, w'). (e, get_virt_addr (w_zm w') 0x80000010 1)) (mmap_zones growing_cfg growing_world)
      = Some (0, 0x7f8000000010)" by code_simp
  then obtain w' where run: "mmap_zones growing_cfg growing_world = Some (0, w')"
      and new: "get_virt_addr (w_zm w') 0x80000010 1 = 0x7f8000000010" by auto
  have old: "get_virt_addr (w_zm growing_world) 0x50000010 1 = 0x7f0000000010" by code_simp
  have ok: "\<forall>z. unambiguous (w_zm growing_world z) \<and> length (w_zm growing_world z) \<le> CONFIG_MAX_MEMORY_REGIONS"
    by (simp add: growing_world_def unambiguous_def)
  show ?thesis using mmap_zones_keep_translation [OF run ok, of "0x50000010" 1 1] run new old by auto
qed

end
