(* ===== verification/Queue_IO.thy ===== *)
theory Queue_IO
  imports Device Used_Ring
begin

text \<open>
  What the device models share when they complete requests: publishing an entry of the used ring
  and switching the guest's notifications, as operations on the world.
\<close>

definition put_used :: "VirtQueue \<Rightarrow> u16 \<Rightarrow> u32 \<Rightarrow> world \<Rightarrow> world option" where
  "put_used vq idx len w = do { m \<leftarrow> update_used_ring vq idx len (w_mem w); Some (w\<lparr>w_mem := m\<rparr>) }"

definition notify_off :: "VirtQueue \<Rightarrow> world \<Rightarrow> world option" where
  "notify_off vq w = do { m \<leftarrow> virtqueue_disable_notify (w_mem w) vq; Some (w\<lparr>w_mem := m\<rparr>) }"

definition notify_on :: "VirtQueue \<Rightarrow> world \<Rightarrow> world option" where
  "notify_on vq w = do { m \<leftarrow> virtqueue_enable_notify (w_mem w) vq; Some (w\<lparr>w_mem := m\<rparr>) }"

definition O_NONBLOCK :: int where [simp]: "O_NONBLOCK = 2048"

definition set_nonblocking :: "int \<Rightarrow> world \<Rightarrow> (int \<times> world) option" where
  "set_nonblocking fd w = do {
     (r, w1) \<leftarrow> sys_call (Other_Call ''fcntl F_GETFL'' [fd]) w;
     if s_ret r = -1 then Some (-1, w1)
     else do {
       (r2, w2) \<leftarrow> sys_call (Other_Call ''fcntl F_SETFL'' [fd, s_ret r OR O_NONBLOCK]) w1;
       Some (if s_ret r2 = -1 then -1 else 0, w2)
     }
   }"

lemma post_set_nonblocking [wp]:
  assumes "\<And>e w'. same_but_calls w w' \<Longrightarrow> P (e, w')"
  shows "post P (set_nonblocking fd w)"
  unfolding set_nonblocking_def
  by (intro wp) (auto dest!: sys_call_frame intro!: assms intro: same_but_calls_trans)

text \<open>Each of them changes nothing but memory.\<close>

lemma post_put_used [wp]:
  "(\<And>m. update_used_ring vq idx len (w_mem w) = Some m \<Longrightarrow> P (w\<lparr>w_mem := m\<rparr>)) \<Longrightarrow> post P (put_used vq idx len w)"
  by (auto simp: put_used_def post_def bind_Some_iff)

lemma post_notify_off [wp]: "(\<And>m. P (w\<lparr>w_mem := m\<rparr>)) \<Longrightarrow> post P (notify_off vq w)"
  by (auto simp: notify_off_def post_def bind_Some_iff)

lemma post_notify_on [wp]: "(\<And>m. P (w\<lparr>w_mem := m\<rparr>)) \<Longrightarrow> post P (notify_on vq w)"
  by (auto simp: notify_on_def post_def bind_Some_iff)

text \<open>
  The loop the handlers share: while the queue is not empty, serve one request; a negative result
  leaves the loop. It need not end, because the guest may keep filling the queue.
\<close>

partial_function (option) serve_queue ::
  "(VirtQueue \<Rightarrow> world \<Rightarrow> (int \<times> VirtQueue \<times> world) option) \<Rightarrow> VirtQueue \<Rightarrow> world \<Rightarrow> (VirtQueue \<times> world) option" where
  "serve_queue one vq w =
     (if virtqueue_is_empty (w_mem w) vq then Some (vq, w)
      else Option.bind (one vq w) (\<lambda>(r, vq1, w1). if r < 0 then Some (vq1, w1) else serve_queue one vq1 w1))"

text \<open>The loop around it, with the guest's notifications off while requests are served.\<close>

partial_function (option) serve_batches ::
  "(VirtQueue \<Rightarrow> world \<Rightarrow> (int \<times> VirtQueue \<times> world) option) \<Rightarrow> VirtQueue \<Rightarrow> world \<Rightarrow> (VirtQueue \<times> world) option" where
  "serve_batches one vq w =
     (if virtqueue_is_empty (w_mem w) vq then Some (vq, w)
      else Option.bind (notify_off vq w) (\<lambda>w1.
           Option.bind (serve_queue one vq w1) (\<lambda>(vq2, w2).
           Option.bind (notify_on vq2 w2) (\<lambda>w3. serve_batches one vq2 w3))))"

declare serve_queue.simps [code] and serve_batches.simps [code]

section \<open>The contract of a request handler\<close>

text \<open>
  What one request may do to the queue and the world carries over to the loops, for every relation
  that is reflexive, transitive and does not look at memory.
\<close>

locale request_server =
  fixes one :: "VirtQueue \<Rightarrow> world \<Rightarrow> (int \<times> VirtQueue \<times> world) option"
    and R :: "world \<Rightarrow> world \<Rightarrow> bool"
  assumes one_step: "one vq w = Some (r, vq', w') \<Longrightarrow> R w w'"
    and R_memory: "R w (w\<lparr>w_mem := m\<rparr>)"
    and R_refl: "R w w"
    and R_trans: "R u v \<Longrightarrow> R v w \<Longrightarrow> R u w"
begin

lemma serve_queue_rel:
  assumes "serve_queue one vq w = Some y"
  shows "R w (snd y)"
proof -
  have "one = one \<longrightarrow> R w (snd y)"
  proof (rule serve_queue.raw_induct [OF _ assms, of "\<lambda>one' vq w y. one' = one \<longrightarrow> R w (snd y)"], rule impI)
    fix rec one' vq w y
    assume IH: "\<And>one' vq w y. rec one' vq w = Some y \<Longrightarrow> one' = one \<longrightarrow> R w (snd y)"
      and body: "(if virtqueue_is_empty (w_mem w) vq then Some (vq, w)
        else Option.bind (one' vq w) (\<lambda>(r, vq1, w1). if r < 0 then Some (vq1, w1) else rec one' vq1 w1)) = Some y"
      and [simp]: "one' = one"
    show "R w (snd y)"
    proof (cases "virtqueue_is_empty (w_mem w) vq")
      case False
      then obtain r vq1 w1 where one: "one vq w = Some (r, vq1, w1)"
          and rest: "y = (vq1, w1) \<or> rec one vq1 w1 = Some y"
        using body by (auto simp: bind_Some_iff split: if_splits)
      from rest show ?thesis
      proof
        assume "rec one vq1 w1 = Some y"
        then have "R w1 (snd y)" using IH by simp
        then show ?thesis by (rule R_trans [OF one_step [OF one]])
      qed (use one_step [OF one] in simp)
    qed (use body R_refl in auto)
  qed
  then show ?thesis by simp
qed

lemma serve_batches_rel:
  assumes "serve_batches one vq w = Some y"
  shows "R w (snd y)"
proof -
  have off: "R w w1" if "notify_off vq w = Some w1" for vq w w1
    using that R_memory by (auto simp: notify_off_def bind_Some_iff)
  have on: "R w w1" if "notify_on vq w = Some w1" for vq w w1
    using that R_memory by (auto simp: notify_on_def bind_Some_iff)
  have "one = one \<longrightarrow> R w (snd y)"
  proof (rule serve_batches.raw_induct [OF _ assms, of "\<lambda>one' vq w y. one' = one \<longrightarrow> R w (snd y)"], rule impI)
    fix rec one' vq w y
    assume IH: "\<And>one' vq w y. rec one' vq w = Some y \<Longrightarrow> one' = one \<longrightarrow> R w (snd y)"
      and body: "(if virtqueue_is_empty (w_mem w) vq then Some (vq, w)
      else Option.bind (notify_off vq w) (\<lambda>w1.
           Option.bind (serve_queue one' vq w1) (\<lambda>(vq2, w2).
           Option.bind (notify_on vq2 w2) (\<lambda>w3. rec one' vq2 w3)))) = Some y"
      and [simp]: "one' = one"
    show "R w (snd y)"
    proof (cases "virtqueue_is_empty (w_mem w) vq")
      case False
      then obtain w1 vq2 w2 w3 where "notify_off vq w = Some w1" "serve_queue one vq w1 = Some (vq2, w2)"
          "notify_on vq2 w2 = Some w3" "rec one vq2 w3 = Some y"
        using body by (auto simp: bind_Some_iff)
      then have "R w w1" and "R w1 w2" and "R w2 w3" and "R w3 (snd y)"
        using off serve_queue_rel [of vq w1 "(vq2, w2)"] on IH by simp_all
      from R_trans [OF R_trans [OF R_trans [OF this(1,2)] this(3)] this(4)] show ?thesis .
    qed (use body R_refl in auto)
  qed
  then show ?thesis by simp
qed

end

text \<open>A queue that was served and whose device then interrupts the guest.\<close>

lemma served_then_injected:
  assumes "upd_vq i (\<lambda>_. vq1) v = Some v1" and "virtio_inject_irq need i v1 w1 = Some (v', w')" and "wkeeps w w1"
  shows "keeps v v' \<and> wkeeps w w'"
  using keeps_trans [OF keeps_upd_vq [OF assms(1)] virtio_inject_irq_keeps [OF assms(2)]]
    wkeeps_trans [OF assms(3) virtio_inject_irq_wkeeps [OF assms(2)]] by simp

end
