(* ===== verification/Blk.thy ===== *)
theory Blk
  imports Queue_IO Config_Safety
begin

text \<open>
  The block device of \<^verbatim>\<open>src/tools/virtio/devices/blk/virtio_blk.c\<close>: the translation of a descriptor
  chain into one operation on the backing file, its completion, the draining of a queue by the
  worker, and the operation table. The handshake between the worker thread and a device reset is
  in the theory on the block worker.
\<close>

section \<open>State\<close>

definition VIRTQUEUE_BLK_MAX_SIZE :: nat where [simp]: "VIRTQUEUE_BLK_MAX_SIZE = 512"
definition BLK_SEG_MAX :: u32 where [simp]: "BLK_SEG_MAX = 510"
definition SECTOR_BSIZE :: u64 where [simp]: "SECTOR_BSIZE = 512"
definition BLK_SUPPORTED_FEATURES :: u64 where
  [simp]: "BLK_SUPPORTED_FEATURES = push_bit 2 1 OR push_bit 1 1 OR push_bit 9 1 OR push_bit 32 1 OR push_bit 28 1"

record BlkDev =
  blk_capacity :: u64
  blk_size_max :: u32
  blk_seg_max :: u32
  blk_blk_size :: u32
  img_fd :: int
  blk_close :: bool
  thread_started :: bool
  mutex_initialized :: bool
  cond_initialized :: bool
  blk_reset :: bool
  worker_paused :: bool

type_synonym blk_device = "BlkDev option VirtIODevice"

definition EOPNOTSUPP :: int where [simp]: "EOPNOTSUPP = 95"

definition VIRTIO_BLK_T_IN :: u32 where [simp]: "VIRTIO_BLK_T_IN = 0"
definition VIRTIO_BLK_T_OUT :: u32 where [simp]: "VIRTIO_BLK_T_OUT = 1"
definition VIRTIO_BLK_T_FLUSH :: u32 where [simp]: "VIRTIO_BLK_T_FLUSH = 4"
definition VIRTIO_BLK_T_GET_ID :: u32 where [simp]: "VIRTIO_BLK_T_GET_ID = 8"
definition VIRTIO_BLK_S_OK :: u8 where [simp]: "VIRTIO_BLK_S_OK = 0"
definition VIRTIO_BLK_S_IOERR :: u8 where [simp]: "VIRTIO_BLK_S_IOERR = 1"
definition VIRTIO_BLK_S_UNSUPP :: u8 where [simp]: "VIRTIO_BLK_S_UNSUPP = 2"

section \<open>Operations on the backing file\<close>

text \<open>Each returns the error number, the number of bytes for the guest, and the world.\<close>

definition blk_do_read :: "int \<Rightarrow> iovec list \<Rightarrow> u64 \<Rightarrow> world \<Rightarrow> (int \<times> int \<times> world) option" where
  "blk_do_read fd iov off w = do {
     (r, w1) \<leftarrow> sys_call (Preadv fd iov off) w;
     if s_ret r < 0 then Some (s_errno r, 0, w1)
     else Some (0, s_ret r, w1\<lparr>w_mem := scatter iov (s_bytes r) (w_mem w1)\<rparr>)
   }"

definition blk_do_write :: "int \<Rightarrow> iovec list \<Rightarrow> u64 \<Rightarrow> world \<Rightarrow> (int \<times> world) option" where
  "blk_do_write fd iov off w = do {
     (r, w1) \<leftarrow> sys_call (Pwritev fd iov off) w;
     Some (if s_ret r < 0 then s_errno r else 0, w1)
   }"

definition blk_do_flush :: "int \<Rightarrow> world \<Rightarrow> (int \<times> world) option" where
  "blk_do_flush fd w = do {
     (r, w1) \<leftarrow> sys_call (Fdatasync fd) w;
     Some (if s_ret r < 0 then s_errno r else 0, w1)
   }"

definition blk_id :: "u8 list" where
  "blk_id = map (\<lambda>c. of_char c) ''hvisor-virblk''"

text \<open>\<open>snprintf\<close> writes at most \<open>iov_len - 1\<close> characters and a terminating zero.\<close>

definition blk_do_get_id :: "iovec \<Rightarrow> memory \<Rightarrow> int \<times> memory" where
  "blk_do_get_id v m =
     (let n = unat (iov_len v) in
      (min (int (length blk_id) + 1) (int n),
       if n = 0 then m else st_bytes m (iov_base v) (take (n - 1) blk_id @ [0])))"

definition blk_complete :: "VirtQueue \<Rightarrow> u16 \<Rightarrow> u64 \<Rightarrow> int \<Rightarrow> int \<Rightarrow> world \<Rightarrow> world option" where
  "blk_complete vq idx st err wlen w =
     (let code = (if err = 0 then VIRTIO_BLK_S_OK else if err = EOPNOTSUPP then VIRTIO_BLK_S_UNSUPP
                  else VIRTIO_BLK_S_IOERR);
          m1 = (if st \<noteq> 0 then st8 (w_mem w) st code else w_mem w)
      in do { m2 \<leftarrow> update_used_ring vq idx (of_int (wlen + 1)) m1; Some (w\<lparr>w_mem := m2\<rparr>) })"

section \<open>One request\<close>

text \<open>The request header: type, a reserved word, and the sector.\<close>

definition hdr_type :: "memory \<Rightarrow> u64 \<Rightarrow> u32" where "hdr_type m a = ld32 m a"
definition hdr_sector :: "memory \<Rightarrow> u64 \<Rightarrow> u64" where "hdr_sector m a = ld64 m (a + 8)"

definition blk_layout_ok :: "VirtioRequest \<Rightarrow> int \<Rightarrow> memory \<Rightarrow> bool" where
  "blk_layout_ok vreq ret m \<longleftrightarrow>
     \<not> (ret < 2 \<or> ret > int VIRTQUEUE_BLK_MAX_SIZE)
     \<and> \<not> (length (out_iov vreq) < 1 \<or> iov_len (out_iov vreq ! 0) \<noteq> 16)
     \<and> \<not> (length (in_iov vreq) < 1 \<or> iov_len (in_iov vreq ! (length (in_iov vreq) - 1)) \<noteq> 1)
     \<and> (if hdr_type m (iov_base (out_iov vreq ! 0)) = VIRTIO_BLK_T_OUT
        then length (in_iov vreq) = 1 else length (out_iov vreq) = 1)"

text \<open>The \<open>switch\<close> on the request type: error number, length, and the new world.\<close>

definition blk_operation :: "int \<Rightarrow> VirtioRequest \<Rightarrow> world \<Rightarrow> (int \<times> int \<times> world) option" where
  "blk_operation fd vreq w =
     (let hdr = iov_base (out_iov vreq ! 0); t = hdr_type (w_mem w) hdr;
          off = hdr_sector (w_mem w) hdr * SECTOR_BSIZE
      in if t = VIRTIO_BLK_T_IN then blk_do_read fd (butlast (in_iov vreq)) off w
         else if t = VIRTIO_BLK_T_OUT
         then do { (e, w1) \<leftarrow> blk_do_write fd (tl (out_iov vreq)) off w; Some (e, 0, w1) }
         else if t = VIRTIO_BLK_T_FLUSH then do { (e, w1) \<leftarrow> blk_do_flush fd w; Some (e, 0, w1) }
         else if t = VIRTIO_BLK_T_GET_ID
         then (let (n, m) = blk_do_get_id (in_iov vreq ! 0) (w_mem w) in Some (0, n, w\<lparr>w_mem := m\<rparr>))
         else Some (EOPNOTSUPP, 0, w))"

definition virtq_blk_handle_one_request :: "int \<Rightarrow> int \<Rightarrow> VirtQueue \<Rightarrow> world \<Rightarrow> (VirtQueue \<times> world) option" where
  "virtq_blk_handle_one_request fd zone vq w =
     (if avail_ring vq = 0 then None
      else let cfg = \<lparr>max_out = VIRTQUEUE_BLK_MAX_SIZE, max_in = VIRTQUEUE_BLK_MAX_SIZE\<rparr>;
               desc_idx = next_head vq (w_mem w)
      in do {
        (ret, vq1, vreq) \<leftarrow> process_descriptor_chain_buf (w_zm w) zone (w_mem w) vq desc_idx cfg \<lparr>out_iov = [], in_iov = []\<rparr>;
        if ret \<le> 0
        then do {
          let vq2 = vq1\<lparr>last_avail_idx := last_avail_idx vq1 + 1\<rparr>;
          w1 \<leftarrow> blk_complete vq2 desc_idx 0 EIO 0 w;
          Some (vq2, w1)
        }
        else if \<not> blk_layout_ok vreq ret (w_mem w)
        then do { w1 \<leftarrow> blk_complete vq1 desc_idx 0 EIO 0 w; Some (vq1, w1) }
        else do {
          let vstatus = iov_base (in_iov vreq ! (length (in_iov vreq) - 1));
          (err, wlen, w1) \<leftarrow> blk_operation fd vreq w;
          w2 \<leftarrow> blk_complete vq1 desc_idx vstatus err wlen w1;
          Some (vq1, w2)
        }
      })"

section \<open>Draining the queue\<close>

text \<open>
  The inner loop of the worker and the loop around it. A guest that keeps the queue non-empty
  keeps the worker here, so neither loop need end.
\<close>

partial_function (option) blk_drain :: "int \<Rightarrow> int \<Rightarrow> VirtQueue \<Rightarrow> world \<Rightarrow> (VirtQueue \<times> world) option" where
  "blk_drain fd zone vq w =
     (if vq_is_empty (w_mem w) vq then Some (vq, w)
      else Option.bind (virtq_blk_handle_one_request fd zone vq w) (\<lambda>(vq', w'). blk_drain fd zone vq' w'))"

partial_function (option) blk_drain_batches :: "int \<Rightarrow> int \<Rightarrow> VirtQueue \<Rightarrow> world \<Rightarrow> (VirtQueue \<times> world) option" where
  "blk_drain_batches fd zone vq w =
     Option.bind (virtqueue_disable_notify (w_mem w) vq) (\<lambda>m1.
     Option.bind (blk_drain fd zone vq (w\<lparr>w_mem := m1\<rparr>)) (\<lambda>(vq1, w1).
     Option.bind (virtqueue_enable_notify (w_mem w1) vq1) (\<lambda>m2.
     (let w2 = w1\<lparr>w_mem := m2\<rparr> in
      if vq_is_empty (w_mem w2) vq1 then Some (vq1, w2) else blk_drain_batches fd zone vq1 w2))))"

declare blk_drain.simps [code] and blk_drain_batches.simps [code]

text \<open>One round of \<open>blkproc_thread\<close> outside its waits: drain queue 0 and tell the guest.\<close>

definition blk_worker_round :: "need_event \<Rightarrow> blk_device \<Rightarrow> world \<Rightarrow> (blk_device \<times> world) option" where
  "blk_worker_round need vdev w = do {
     vq \<leftarrow> nth_ub (vqs vdev) 0;
     d \<leftarrow> dev vdev;
     if vq_is_empty (w_mem w) vq then Some (vdev, w)
     else do {
       (vq1, w1) \<leftarrow> blk_drain_batches (img_fd d) (sint (zone_id vdev)) vq w;
       vdev1 \<leftarrow> upd_vq 0 (\<lambda>_. vq1) vdev;
       virtio_inject_irq need 0 vdev1 w1
     }
   }"

text \<open>
  The worker runs beside the main thread, so between two of its accesses to the queue the rest of
  the daemon may act. These are the pieces a round is made of, each on the device as it then is:
  switching the guest's notifications off, serving one request, switching them on, interrupting.
\<close>

datatype worker_action = Worker_Quiet | Worker_Serve | Worker_Arm | Worker_Inject

definition blk_worker_action :: "need_event \<Rightarrow> worker_action \<Rightarrow> blk_device \<Rightarrow> world \<Rightarrow> (blk_device \<times> world) option" where
  "blk_worker_action need a vdev w = do {
     vq \<leftarrow> nth_ub (vqs vdev) 0;
     d \<leftarrow> dev vdev;
     (case a of
        Worker_Quiet \<Rightarrow> do { w1 \<leftarrow> notify_off vq w; Some (vdev, w1) }
      | Worker_Serve \<Rightarrow> do {
          (vq1, w1) \<leftarrow> virtq_blk_handle_one_request (img_fd d) (sint (zone_id vdev)) vq w;
          vdev1 \<leftarrow> upd_vq 0 (\<lambda>_. vq1) vdev;
          Some (vdev1, w1)
        }
      | Worker_Arm \<Rightarrow> do { w1 \<leftarrow> notify_on vq w; Some (vdev, w1) }
      | Worker_Inject \<Rightarrow> virtio_inject_irq need 0 vdev w)
   }"

section \<open>The operation table\<close>

record virtio_blk_init_params =
  img_path :: string

definition ENAMETOOLONG :: int where [simp]: "ENAMETOOLONG = 36"
definition PATH_MAX :: nat where [simp]: "PATH_MAX = 4096"

definition fresh_blk :: BlkDev where
  "fresh_blk = \<lparr>blk_capacity = -1, blk_size_max = -1, blk_seg_max = BLK_SEG_MAX, blk_blk_size = ucast SECTOR_BSIZE,
     img_fd = -1, blk_close = False, thread_started = False, mutex_initialized = False, cond_initialized = False,
     blk_reset = False, worker_paused = False\<rparr>"

text \<open>The Boolean result says whether the returned pointer is not null.\<close>

definition init_blk_dev :: "blk_device \<Rightarrow> world \<Rightarrow> (bool \<times> blk_device \<times> world) option" where
  "init_blk_dev vdev w = do {
     (r, w1) \<leftarrow> sys_call Calloc w;
     if s_ret r = 0 then Some (False, vdev, w1)
     else do {
       (r2, w2) \<leftarrow> sys_call Mutex_Init w1;
       if s_ret r2 \<noteq> 0 then Some (False, vdev\<lparr>dev := None\<rparr>, w2)
       else do {
         (r3, w3) \<leftarrow> sys_call Cond_Init w2;
         if s_ret r3 \<noteq> 0 then Some (False, vdev\<lparr>dev := None\<rparr>, w3)
         else Some (True, vdev\<lparr>dev := Some (fresh_blk\<lparr>mutex_initialized := True, cond_initialized := True\<rparr>)\<rparr>, w3)
       }
     }
   }"

definition start_blk_worker :: "blk_device \<Rightarrow> world \<Rightarrow> (int \<times> blk_device \<times> world) option" where
  "start_blk_worker vdev w = do {
     d \<leftarrow> dev vdev;
     if thread_started d then Some (0, vdev, w)
     else do {
       (r, w1) \<leftarrow> sys_call Thread_Create w;
       if s_ret r \<noteq> 0 then Some (-1, vdev, w1)
       else Some (0, vdev\<lparr>dev := Some (d\<lparr>thread_started := True\<rparr>)\<rparr>, w1)
     }
   }"

definition virtio_blk_init :: "blk_device \<Rightarrow> string \<Rightarrow> world \<Rightarrow> (int \<times> blk_device \<times> world) option" where
  "virtio_blk_init vdev path w =
     (case dev vdev of None \<Rightarrow> Some (-1, vdev, w)
      | Some d \<Rightarrow> do {
          (r, w1) \<leftarrow> sys_call (Open_Path path) w;
          let v1 = vdev\<lparr>dev := Some (d\<lparr>img_fd := s_ret r\<rparr>)\<rparr>;
          if s_ret r = -1 then Some (-1, v1, w1)
          else do {
            (st, w2) \<leftarrow> sys_call (Fstat (s_ret r)) w1;
            if s_ret st = -1 then Some (-1, v1, w2)
            else do {
              let n = s_val st 0 div SECTOR_BSIZE;
              let done = (\<lambda>size w'. Some (0, vdev\<lparr>dev := Some (d\<lparr>img_fd := s_ret r, blk_capacity := size,
                                                blk_size_max := ucast size\<rparr>)\<rparr>, w'));
              if n \<noteq> 0 then done n w2
              else do {
                (b, w3) \<leftarrow> sys_call (Ioctl_Blksize (s_ret r)) w2;
                if s_ret b = 0 then done (s_val b 0 div SECTOR_BSIZE) w3 else Some (-1, v1, w3)
              }
            }
          }
        })"

definition virtio_blk_notify_handler :: "blk_device \<Rightarrow> nat \<Rightarrow> world \<Rightarrow> (int \<times> blk_device \<times> world) option" where
  "virtio_blk_notify_handler vdev i w = do {
     d \<leftarrow> dev vdev;
     Some (0, vdev\<lparr>dev := Some (d\<lparr>blk_reset := False\<rparr>)\<rparr>, w)
   }"

text \<open>
  The reset sets its flag and waits for the worker to announce that it has paused; the theory on
  the worker shows that it does, and that it stays paused. The state here is the one at the end
  of the wait.
\<close>

definition virtio_blk_reset :: "blk_device \<Rightarrow> world \<Rightarrow> (blk_device \<times> world) option" where
  "virtio_blk_reset vdev w =
     (case dev vdev of None \<Rightarrow> Some (vdev, w)
      | Some d \<Rightarrow>
          if \<not> thread_started d then Some (vdev, w)
          else Some (vdev\<lparr>dev := Some (d\<lparr>blk_reset := True, worker_paused := True\<rparr>)\<rparr>, w))"

text \<open>Closing joins the worker, closes the backing file and frees the device.\<close>

definition virtio_blk_close :: "blk_device \<Rightarrow> world \<Rightarrow> world option" where
  "virtio_blk_close vdev w =
     (case dev vdev of None \<Rightarrow> Some w
      | Some d \<Rightarrow>
          if img_fd d \<ge> 0 then map_option snd (sys_call (Close_Fd (img_fd d)) w) else Some w)"

definition virtio_blk_do_init ::
  "blk_device \<Rightarrow> virtio_blk_init_params option \<Rightarrow> world \<Rightarrow> (int \<times> blk_device \<times> world) option" where
  "virtio_blk_do_init vdev params w =
     (case params of None \<Rightarrow> Some (- EINVAL, vdev, w)
      | Some p \<Rightarrow> do {
          (ok, v1, w1) \<leftarrow> init_blk_dev vdev w;
          if \<not> ok then Some (- ENOMEM, v1, w1)
          else do {
            (e, v2, w2) \<leftarrow> virtio_blk_init v1 (img_path p) w1;
            if e \<noteq> 0 then Some (- EIO, v2, w2)
            else do {
              (e2, v3, w3) \<leftarrow> start_blk_worker v2 w2;
              if e2 \<noteq> 0 then Some (- EIO, v3, w3) else Some (0, v3, w3)
            }
          }
        })"

definition virtio_blk_ops :: "(BlkDev option, virtio_blk_init_params option) virtio_device_ops" where
  "virtio_blk_ops = \<lparr>op_features = BLK_SUPPORTED_FEATURES, num_queues = 1, queue_max_size = 512,
     op_init = virtio_blk_do_init, op_close = virtio_blk_close, op_reset = Some virtio_blk_reset,
     op_status_changed = None, notify_handlers = [Some virtio_blk_notify_handler]\<rparr>"

text \<open>
  The parameters in the configuration; the caller only tests whether parsing failed, so the error
  code is kept and the allocation is taken to succeed.
\<close>

definition virtio_blk_parse_params :: "'j cjson \<Rightarrow> 'j option \<Rightarrow> virtio_blk_init_params cres" where
  "virtio_blk_parse_params J json =
     (let img = Option.bind json (\<lambda>j. cj_get_item J j ''img'') in
      case node_text J img of None \<Rightarrow> Err (- EINVAL)
      | Some s \<Rightarrow> if s = [] then Err (- EINVAL)
                 else if length s \<ge> PATH_MAX then Err (- ENAMETOOLONG)
                 else Ok \<lparr>img_path = s\<rparr>)"

section \<open>What the table promises the generic code\<close>

lemma virtio_blk_reset_keeps: "virtio_blk_reset v w = Some (v', w') \<Longrightarrow> keeps v v' \<and> wkeeps w w'"
  by (auto simp: virtio_blk_reset_def keeps_dev split: option.splits if_splits)

lemma virtio_blk_notify_keeps:
  "virtio_blk_notify_handler v i w = Some (r, v', w') \<Longrightarrow> keeps v v' \<and> wkeeps w w'"
  by (auto simp: virtio_blk_notify_handler_def bind_Some_iff keeps_dev)

lemma post_init_blk_dev [wp]:
  "(\<And>ok v' w'. keeps v v' \<Longrightarrow> P (ok, v', w')) \<Longrightarrow> post P (init_blk_dev v w)"
  unfolding init_blk_dev_def by (intro wp) (auto simp: keeps_dev)

lemma post_virtio_blk_init [wp]:
  "(\<And>e v' w'. keeps v v' \<Longrightarrow> P (e, v', w')) \<Longrightarrow> post P (virtio_blk_init v p w)"
  unfolding virtio_blk_init_def by (intro wp) (auto simp: keeps_dev intro: wp)

lemma post_start_blk_worker [wp]:
  "(\<And>e v' w'. keeps v v' \<Longrightarrow> P (e, v', w')) \<Longrightarrow> post P (start_blk_worker v w)"
  unfolding start_blk_worker_def by (intro wp postI) (auto simp: keeps_dev intro!: wp)

lemma virtio_blk_do_init_keeps: "post (\<lambda>(r, v', w'). keeps v v') (virtio_blk_do_init v p w)"
  unfolding virtio_blk_do_init_def by (intro wp) (auto intro: keeps_trans)

section \<open>A request stays inside its buffers and its file\<close>

text \<open>
  The chain a request is served from: the next one of the available ring. Its vectors are those of
  the guest's descriptors (\<open>process_descriptor_chain_buf_split\<close>): each begins in mapped memory of
  the zone, and its length is the guest's.
\<close>

definition blk_chain :: "int \<Rightarrow> VirtQueue \<Rightarrow> world \<Rightarrow> (int \<times> VirtQueue \<times> VirtioRequest) option" where
  "blk_chain zone vq w = process_descriptor_chain_buf (w_zm w) zone (w_mem w) vq (next_head vq (w_mem w))
     \<lparr>max_out = VIRTQUEUE_BLK_MAX_SIZE, max_in = VIRTQUEUE_BLK_MAX_SIZE\<rparr> \<lparr>out_iov = [], in_iov = []\<rparr>"

text \<open>The calls a well-formed request makes.\<close>

definition blk_calls :: "int \<Rightarrow> VirtioRequest \<Rightarrow> memory \<Rightarrow> syscall list" where
  "blk_calls fd vreq m =
     (let hdr = iov_base (out_iov vreq ! 0); t = hdr_type m hdr; off = hdr_sector m hdr * SECTOR_BSIZE
      in if t = VIRTIO_BLK_T_IN then [Preadv fd (butlast (in_iov vreq)) off]
         else if t = VIRTIO_BLK_T_OUT then [Pwritev fd (tl (out_iov vreq)) off]
         else if t = VIRTIO_BLK_T_FLUSH then [Fdatasync fd] else [])"

lemma blk_get_id_within:
  assumes "blk_do_get_id v m = (n, m')" and "iov_bytes v \<subseteq> A"
  shows "mem_within A m m'"
proof (cases "unat (iov_len v) = 0")
  case False
  then have "length (take (unat (iov_len v) - 1) blk_id @ [0]) \<le> unat (iov_len v)" by simp
  then have "footprint (iov_base v) (length (take (unat (iov_len v) - 1) blk_id @ [0])) \<subseteq> A"
    using footprint_mono assms(2) unfolding iov_bytes_def by blast
  then show ?thesis
    using assms(1) False mem_within_st_bytes [of "iov_base v" "take (unat (iov_len v) - 1) blk_id @ [0]" A m]
    by (simp add: blk_do_get_id_def Let_def)
qed (use assms(1) in \<open>simp add: blk_do_get_id_def\<close>)

lemma blk_do_read_confined:
  assumes "blk_do_read fd iov off w = Some (e, n, w')"
  shows "w_trace w' = w_trace w @ [Preadv fd iov off] \<and> mem_within (iovs_bytes iov) (w_mem w) (w_mem w')"
proof -
  obtain r w1 where c: "sys_call (Preadv fd iov off) w = Some (r, w1)"
    and w': "w' = w1 \<or> w' = w1\<lparr>w_mem := scatter iov (s_bytes r) (w_mem w1)\<rparr>"
    using assms by (auto simp: blk_do_read_def bind_Some_iff split: if_splits)
  show ?thesis
    using w' sys_call_trace [OF c] sys_call_mem [OF c] by (auto intro: mem_within_scatter)
qed

lemma blk_do_write_confined:
  "blk_do_write fd iov off w = Some (e, w') \<Longrightarrow> w_trace w' = w_trace w @ [Pwritev fd iov off] \<and> w_mem w' = w_mem w"
  by (auto simp: blk_do_write_def bind_Some_iff dest: sys_call_trace sys_call_mem)

lemma blk_do_flush_confined:
  "blk_do_flush fd w = Some (e, w') \<Longrightarrow> w_trace w' = w_trace w @ [Fdatasync fd] \<and> w_mem w' = w_mem w"
  by (auto simp: blk_do_flush_def bind_Some_iff dest: sys_call_trace sys_call_mem)

text \<open>
  The \<open>switch\<close>: exactly the calls above; memory only changes in the device-writable buffers.
\<close>

definition blk_confined :: "syscall list \<Rightarrow> iovec list \<Rightarrow> world \<Rightarrow> world \<Rightarrow> bool" where
  "blk_confined calls ins w w' \<longleftrightarrow> w_trace w' = w_trace w @ calls
     \<and> mem_within (iovs_bytes ins) (w_mem w) (w_mem w') \<and> w_zm w' = w_zm w \<and> w_bridge w' = w_bridge w"

lemma blk_operation_frame:
  "post (\<lambda>(err, wlen, w'). w_zm w' = w_zm w \<and> w_bridge w' = w_bridge w) (blk_operation fd vreq w)"
  unfolding blk_operation_def blk_do_read_def blk_do_write_def blk_do_flush_def
  by (intro wp) (auto dest!: sys_call_frame)

lemma blk_operation_confined:
  assumes op: "blk_operation fd vreq w = Some (err, wlen, w')" and ne: "in_iov vreq \<noteq> []"
  shows "blk_confined (blk_calls fd vreq (w_mem w)) (in_iov vreq) w w'"
proof -
  define t where "t = hdr_type (w_mem w) (iov_base (out_iov vreq ! 0))"
  define off where "off = hdr_sector (w_mem w) (iov_base (out_iov vreq ! 0)) * SECTOR_BSIZE"
  have frame: "w_zm w' = w_zm w" "w_bridge w' = w_bridge w" using postD [OF blk_operation_frame op] by simp_all
  note op = op [unfolded blk_operation_def Let_def, folded t_def off_def]
  have first: "iov_bytes (in_iov vreq ! 0) \<subseteq> iovs_bytes (in_iov vreq)"
    using ne by (intro iovs_bytes_member) simp
  have data: "iovs_bytes (butlast (in_iov vreq)) \<subseteq> iovs_bytes (in_iov vreq)"
    by (auto simp: iovs_bytes_def dest: in_set_butlastD)
  consider "t = VIRTIO_BLK_T_IN" | "t = VIRTIO_BLK_T_OUT" | "t = VIRTIO_BLK_T_FLUSH" | "t = VIRTIO_BLK_T_GET_ID"
    | "t \<noteq> VIRTIO_BLK_T_IN" "t \<noteq> VIRTIO_BLK_T_OUT" "t \<noteq> VIRTIO_BLK_T_FLUSH" "t \<noteq> VIRTIO_BLK_T_GET_ID"
    by blast
  then have "w_trace w' = w_trace w @ blk_calls fd vreq (w_mem w)
      \<and> mem_within (iovs_bytes (in_iov vreq)) (w_mem w) (w_mem w')"
    unfolding blk_calls_def Let_def t_def [symmetric] off_def [symmetric]
  proof cases
    case 1
    then have "blk_do_read fd (butlast (in_iov vreq)) off w = Some (err, wlen, w')" using op by simp
    from blk_do_read_confined [OF this] 1 mem_within_mono [OF _ data]
    show "w_trace w' = w_trace w @ (if t = VIRTIO_BLK_T_IN then [Preadv fd (butlast (in_iov vreq)) off]
          else if t = VIRTIO_BLK_T_OUT then [Pwritev fd (tl (out_iov vreq)) off]
          else if t = VIRTIO_BLK_T_FLUSH then [Fdatasync fd] else [])
      \<and> mem_within (iovs_bytes (in_iov vreq)) (w_mem w) (w_mem w')" by simp
  next
    case 4
    obtain n m where g: "blk_do_get_id (in_iov vreq ! 0) (w_mem w) = (n, m)" by fastforce
    then have "w' = w\<lparr>w_mem := m\<rparr>" using op 4 by simp
    then show "w_trace w' = w_trace w @ (if t = VIRTIO_BLK_T_IN then [Preadv fd (butlast (in_iov vreq)) off]
          else if t = VIRTIO_BLK_T_OUT then [Pwritev fd (tl (out_iov vreq)) off]
          else if t = VIRTIO_BLK_T_FLUSH then [Fdatasync fd] else [])
      \<and> mem_within (iovs_bytes (in_iov vreq)) (w_mem w) (w_mem w')"
      using blk_get_id_within [OF g first] 4 by simp
  qed (use op in \<open>auto simp: bind_Some_iff dest!: blk_do_write_confined blk_do_flush_confined\<close>)
  then show ?thesis using frame by (simp add: blk_confined_def)
qed

text \<open>The completion: an optional status byte inside the buffers, then one entry of the used ring.\<close>

lemma blk_complete_status:
  assumes "blk_complete vq idx st err wlen w = Some w'"
  obtains w1 m where "update_used_ring vq idx (of_int (wlen + 1)) (w_mem w1) = Some m" and "w' = w1\<lparr>w_mem := m\<rparr>"
    and "st = 0 \<and> w1 = w \<or> st \<noteq> 0 \<and> (\<exists>c. w1 = w\<lparr>w_mem := st8 (w_mem w) st c\<rparr>)"
proof -
  define code where "code = (if err = 0 then VIRTIO_BLK_S_OK else if err = EOPNOTSUPP then VIRTIO_BLK_S_UNSUPP
                  else VIRTIO_BLK_S_IOERR)"
  define w1 where "w1 = (if st \<noteq> 0 then w\<lparr>w_mem := st8 (w_mem w) st code\<rparr> else w)"
  have "w_mem w1 = (if st \<noteq> 0 then st8 (w_mem w) st code else w_mem w)" by (simp add: w1_def)
  then obtain m where "update_used_ring vq idx (of_int (wlen + 1)) (w_mem w1) = Some m" "w' = w\<lparr>w_mem := m\<rparr>"
    using assms unfolding blk_complete_def Let_def code_def [symmetric] by (auto simp: bind_Some_iff)
  then show thesis by (intro that [of w1 m]) (auto simp: w1_def)
qed

text \<open>
  What serving one request amounts to: the calls \<open>calls\<close>, changes of memory inside the vectors
  \<open>ins\<close>, and one entry of length \<open>len\<close> of the used ring.
\<close>

definition blk_completed ::
  "syscall list \<Rightarrow> iovec list \<Rightarrow> u16 \<Rightarrow> u32 \<Rightarrow> VirtQueue \<Rightarrow> world \<Rightarrow> VirtQueue \<Rightarrow> world \<Rightarrow> bool" where
  "blk_completed calls ins head len vq w vq' w' \<longleftrightarrow>
     (\<exists>w1 m. blk_confined calls ins w w1 \<and> update_used_ring vq' head len (w_mem w1) = Some m \<and> w' = w1\<lparr>w_mem := m\<rparr>)
     \<and> vq' = vq\<lparr>last_avail_idx := last_avail_idx vq'\<rparr>"

lemma blk_completed_error:
  assumes "blk_complete vq' head 0 EIO 0 w = Some w'" and "vq' = vq\<lparr>last_avail_idx := last_avail_idx vq'\<rparr>"
  shows "blk_completed [] [] head 1 vq w vq' w'"
  using assms by (elim blk_complete_status) (auto simp: blk_completed_def blk_confined_def)

lemma blk_completed_served:
  assumes op: "blk_operation fd vreq w = Some (err, wlen, w0)" and ne: "in_iov vreq \<noteq> []"
    and last: "iov_len (in_iov vreq ! (length (in_iov vreq) - 1)) = 1"
    and c: "blk_complete vq' head (iov_base (in_iov vreq ! (length (in_iov vreq) - 1))) err wlen w0 = Some w'"
    and vq: "vq' = vq\<lparr>last_avail_idx := last_avail_idx vq'\<rparr>"
  shows "blk_completed (blk_calls fd vreq (w_mem w)) (in_iov vreq) head (of_int (wlen + 1)) vq w vq' w'"
proof -
  let ?last = "in_iov vreq ! (length (in_iov vreq) - 1)"
  obtain w1 m where u: "update_used_ring vq' head (of_int (wlen + 1)) (w_mem w1) = Some m" "w' = w1\<lparr>w_mem := m\<rparr>"
      and st: "w1 = w0 \<or> (\<exists>c. w1 = w0\<lparr>w_mem := st8 (w_mem w0) (iov_base ?last) c\<rparr>)"
    using c by (elim blk_complete_status) auto
  have "?last \<in> set (in_iov vreq)" using ne by simp
  then have sub: "footprint (iov_base ?last) 1 \<subseteq> iovs_bytes (in_iov vreq)"
    using iovs_bytes_member [of ?last "in_iov vreq"] last by (simp add: iov_bytes_def)
  have "mem_within (iovs_bytes (in_iov vreq)) (w_mem w0) (w_mem w1)"
    using st mem_within_st8 [OF sub] by auto
  then have "blk_confined (blk_calls fd vreq (w_mem w)) (in_iov vreq) w w1"
    using blk_operation_confined [OF op ne] st mem_within_trans unfolding blk_confined_def by fastforce
  then show ?thesis unfolding blk_completed_def using u vq by blast
qed

text \<open>
  C14: Serving one block request, whatever the guest has put in the ring and in the descriptors. A
  chain that cannot be walked or has not the layout of a block request makes no call and changes no
  buffer. Any other request makes exactly the call its header asks for, on the device's own file,
  with the data vectors of its own chain, and changes memory only inside the device-writable
  vectors of that chain. In both cases exactly one entry of the used ring is added, for the head of
  the chain; every vector begins in mapped memory of the device's own zone; and of the queue only
  \<open>last_avail_idx\<close> changes.
\<close>

theorem virtq_blk_handle_one_request_confined:
  assumes "virtq_blk_handle_one_request fd zone vq w = Some (vq', w')"
  shows "\<exists>n vq1 vreq len. blk_chain zone vq w = Some (n, vq1, vreq)
     \<and> list_all (\<lambda>v. zone_backed (w_zm w) zone (iov_base v)) (out_iov vreq @ in_iov vreq)
     \<and> (if 0 < n \<and> blk_layout_ok vreq n (w_mem w)
        then blk_completed (blk_calls fd vreq (w_mem w)) (in_iov vreq) (next_head vq (w_mem w)) len vq w vq' w'
        else blk_completed [] [] (next_head vq (w_mem w)) 1 vq w vq' w')"
proof -
  obtain n vq1 vreq where c: "blk_chain zone vq w = Some (n, vq1, vreq)"
    using assms by (auto simp: virtq_blk_handle_one_request_def blk_chain_def Let_def bind_Some_iff split: if_splits)
  note ch = process_descriptor_chain_buf_cases [OF c [unfolded blk_chain_def]]
  have backed: "list_all (\<lambda>v. zone_backed (w_zm w) zone (iov_base v)) (out_iov vreq @ in_iov vreq)"
    using ch by (auto simp: list_all_iff)
  obtain k where k: "vq1 = vq\<lparr>last_avail_idx := k\<rparr>" using ch by (cases "n = -1 \<and> vq1 = vq") (auto intro: that [of "last_avail_idx vq"])
  then have vq1: "vq1 = vq\<lparr>last_avail_idx := last_avail_idx vq1\<rparr>" by simp
  note run = assms [unfolded virtq_blk_handle_one_request_def Let_def, folded blk_chain_def, unfolded c]
  show ?thesis
  proof (cases "0 < n \<and> blk_layout_ok vreq n (w_mem w)")
    case True
    then obtain err wlen w1 where op: "blk_operation fd vreq w = Some (err, wlen, w1)" and vq': "vq' = vq1"
        and b: "blk_complete vq1 (next_head vq (w_mem w)) (iov_base (in_iov vreq ! (length (in_iov vreq) - 1))) err wlen w1 = Some w'"
      using run by (auto simp: bind_Some_iff split: if_splits)
    have "in_iov vreq \<noteq> []" "iov_len (in_iov vreq ! (length (in_iov vreq) - 1)) = 1"
      using True by (auto simp: blk_layout_ok_def)
    from blk_completed_served [OF op this b vq1] show ?thesis
      using c backed True vq' by auto
  next
    case False
    then have "blk_complete vq' (next_head vq (w_mem w)) 0 EIO 0 w = Some w' \<and> vq' = vq\<lparr>last_avail_idx := last_avail_idx vq'\<rparr>"
      using run by (auto simp: k bind_Some_iff Let_def split: if_splits)
    then show ?thesis using c backed False blk_completed_error by auto
  qed
qed

text \<open>
  A read of sector 3 into a buffer of four bytes: header, data and status descriptors, the available
  ring at offset 48, the header at offset 96 and the used ring at offset 128.
\<close>

definition blk_mem :: memory where
  "blk_mem = bytes_at 0x7f0000000000
     [0x60, 0x00, 0, 0x50, 0, 0, 0, 0,  0x10, 0, 0, 0,  1, 0,  1, 0,
      0x00, 0x02, 0, 0x50, 0, 0, 0, 0,  0x04, 0, 0, 0,  3, 0,  2, 0,
      0x70, 0x00, 0, 0x50, 0, 0, 0, 0,  0x01, 0, 0, 0,  2, 0,  0, 0,
      0, 0,  1, 0,  0, 0,  0, 0,  0, 0,  0, 0,  0, 0,  0, 0,
      0, 0, 0, 0, 0, 0, 0, 0,  0, 0, 0, 0, 0, 0, 0, 0,
      0, 0, 0, 0, 0, 0, 0, 0,  0, 0, 0, 0, 0, 0, 0, 0,
      0, 0, 0, 0,  0, 0, 0, 0,  3, 0, 0, 0, 0, 0, 0, 0]"

definition blk_vq :: VirtQueue where
  "blk_vq = zero_vq\<lparr>vq_num := 4, desc_table := 0x7f0000000000, avail_ring := 0x7f0000000030,
     used_ring := 0x7f0000000080\<rparr>"

definition blk_world :: world where
  "blk_world = example_world\<lparr>w_mem := blk_mem,
     w_tape := [\<lparr>s_ret = 4, s_errno = 0, s_vals = [], s_bytes = [1, 2, 3, 4]\<rparr>]\<rparr>"

lemma virtq_blk_handle_one_request_confined_witness:
  "\<exists>len vq' w'. virtq_blk_handle_one_request 3 1 blk_vq blk_world = Some (vq', w')
     \<and> blk_completed [Preadv 3 [\<lparr>iov_base = 0x7f0000000200, iov_len = 4\<rparr>] 1536]
         [\<lparr>iov_base = 0x7f0000000200, iov_len = 4\<rparr>, \<lparr>iov_base = 0x7f0000000070, iov_len = 1\<rparr>] 0 len blk_vq blk_world vq' w'"
proof -
  have "\<not> Option.is_none (virtq_blk_handle_one_request 3 1 blk_vq blk_world)" by code_simp
  then obtain vq' w' where h: "virtq_blk_handle_one_request 3 1 blk_vq blk_world = Some (vq', w')"
    by (cases "virtq_blk_handle_one_request 3 1 blk_vq blk_world") auto
  let ?req = "\<lparr>out_iov = [\<lparr>iov_base = 0x7f0000000060, iov_len = 16\<rparr>],
    in_iov = [\<lparr>iov_base = 0x7f0000000200, iov_len = 4\<rparr>, \<lparr>iov_base = 0x7f0000000070, iov_len = 1\<rparr>]\<rparr>"
  have c: "blk_chain 1 blk_vq blk_world = Some (3, blk_vq\<lparr>last_avail_idx := 1\<rparr>, ?req)" by code_simp
  have "blk_layout_ok ?req 3 (w_mem blk_world)"
    and "blk_calls 3 ?req (w_mem blk_world) = [Preadv 3 [\<lparr>iov_base = 0x7f0000000200, iov_len = 4\<rparr>] 1536]"
    and "next_head blk_vq (w_mem blk_world) = 0" by code_simp+
  then show ?thesis using virtq_blk_handle_one_request_confined [OF h] h c by auto
qed

section \<open>What the worker keeps\<close>

text \<open>The drain of a queue changes nothing of the world the generic code relies on.\<close>

lemma virtq_blk_one_wkeeps:
  assumes "virtq_blk_handle_one_request fd zone vq w = Some (vq', w')"
  shows "wkeeps w w'"
proof -
  have op: "post (\<lambda>(err, wlen, w'). wkeeps w w') (blk_operation fd vreq w)" for vreq
    using blk_operation_frame [of w fd vreq] by (rule post_mono) (auto simp: wkeeps_def)
  have fin: "post P (blk_complete q i st err wlen u)" if "\<And>m. P (u\<lparr>w_mem := m\<rparr>)" for P q i st err wlen u
    using that by (auto simp: blk_complete_def post_def bind_Some_iff)
  have "post (\<lambda>(vq', w'). wkeeps w w') (virtq_blk_handle_one_request fd zone vq w)"
    unfolding virtq_blk_handle_one_request_def Let_def
    by (intro wp fin op [THEN post_mono]) auto
  from postD [OF this assms] show ?thesis by simp
qed

lemma blk_worker_action_keeps:
  assumes "blk_worker_action need a v w = Some (v', w')"
  shows "keeps v v' \<and> wkeeps w w'"
proof (cases a)
  case Worker_Serve
  then obtain fd zone vq vq1 where "virtq_blk_handle_one_request fd zone vq w = Some (vq1, w')" "upd_vq 0 (\<lambda>_. vq1) v = Some v'"
    using assms by (auto simp: blk_worker_action_def bind_Some_iff)
  then show ?thesis using virtq_blk_one_wkeeps keeps_upd_vq by blast
next
  case Worker_Inject
  then have "virtio_inject_irq need 0 v w = Some (v', w')"
    using assms by (auto simp: blk_worker_action_def bind_Some_iff)
  then show ?thesis using virtio_inject_irq_keeps virtio_inject_irq_wkeeps by blast
qed (use assms in \<open>auto simp: blk_worker_action_def bind_Some_iff notify_off_def notify_on_def\<close>)

section \<open>A round is a sequence of actions\<close>

definition acts :: "need_event \<Rightarrow> blk_device \<times> world \<Rightarrow> blk_device \<times> world \<Rightarrow> bool" where
  "acts need s t \<longleftrightarrow> (\<exists>a. blk_worker_action need a (fst s) (snd s) = Some t)"

text \<open>A device with another queue 0.\<close>

definition with_queue :: "blk_device \<Rightarrow> VirtQueue \<Rightarrow> blk_device" where
  "with_queue v vq = v\<lparr>vqs := (vqs v)[0 := vq]\<rparr>"

lemma with_queue_simps [simp]:
  "with_queue (with_queue v q) vq = with_queue v vq" "dev (with_queue v vq) = dev v" "zone_id (with_queue v vq) = zone_id v"
  "vqs v \<noteq> [] \<Longrightarrow> vqs (with_queue v vq) ! 0 = vq" "vqs (with_queue v vq) = [] \<longleftrightarrow> vqs v = []"
  "vqs v \<noteq> [] \<Longrightarrow> upd_vq 0 (\<lambda>_. vq) v = Some (with_queue v vq)"
  by (simp_all add: with_queue_def nth_ub_def upd_vq_def)

lemma act_serve:
  assumes "virtq_blk_handle_one_request (img_fd d) (sint (zone_id v)) vq w = Some (vq', w')"
    and "dev v = Some d" and "vqs v \<noteq> []"
  shows "acts need (with_queue v vq, w) (with_queue v vq', w')"
  unfolding acts_def using assms by (intro exI [of _ Worker_Serve]) (simp add: blk_worker_action_def)

lemma act_quiet:
  assumes "virtqueue_disable_notify (w_mem w) vq = Some m" and "dev v = Some d" and "vqs v \<noteq> []"
  shows "acts need (with_queue v vq, w) (with_queue v vq, w\<lparr>w_mem := m\<rparr>)"
  unfolding acts_def using assms by (intro exI [of _ Worker_Quiet]) (simp add: blk_worker_action_def notify_off_def)

lemma act_arm:
  assumes "virtqueue_enable_notify (w_mem w) vq = Some m" and "dev v = Some d" and "vqs v \<noteq> []"
  shows "acts need (with_queue v vq, w) (with_queue v vq, w\<lparr>w_mem := m\<rparr>)"
  unfolding acts_def using assms by (intro exI [of _ Worker_Arm]) (simp add: blk_worker_action_def notify_on_def)

lemma blk_drain_acts:
  assumes "blk_drain fd zone vq w = Some y" and "dev v = Some d" and "vqs v \<noteq> []"
    and "fd = img_fd d" and "zone = sint (zone_id v)"
  shows "(acts need)\<^sup>*\<^sup>* (with_queue v vq, w) (with_queue v (fst y), snd y)"
proof -
  let ?P = "\<lambda>fd zone vq w y. fd = img_fd d \<and> zone = sint (zone_id v) \<longrightarrow>
    (acts need)\<^sup>*\<^sup>* (with_queue v vq, w) (with_queue v (fst y), snd y)"
  have "?P fd zone vq w y"
  proof (rule blk_drain.raw_induct [OF _ assms(1), of ?P], rule impI)
    fix rec fd zone vq w y
    assume IH: "\<And>fd zone vq w y. rec fd zone vq w = Some y \<Longrightarrow> ?P fd zone vq w y"
      and body: "(if vq_is_empty (w_mem w) vq then Some (vq, w)
        else Option.bind (virtq_blk_handle_one_request fd zone vq w) (\<lambda>(vq', w'). rec fd zone vq' w')) = Some y"
      and here: "fd = img_fd d \<and> zone = sint (zone_id v)"
    show "(acts need)\<^sup>*\<^sup>* (with_queue v vq, w) (with_queue v (fst y), snd y)"
    proof (cases "vq_is_empty (w_mem w) vq")
      case False
      then obtain vq' w' where one: "virtq_blk_handle_one_request fd zone vq w = Some (vq', w')" and r: "rec fd zone vq' w' = Some y"
        using body by (auto simp: bind_Some_iff)
      have "acts need (with_queue v vq, w) (with_queue v vq', w')"
        using act_serve [OF _ assms(2,3)] one here by simp
      then show ?thesis using IH [OF r] here by (simp add: converse_rtranclp_into_rtranclp)
    qed (use body in auto)
  qed
  then show ?thesis using assms(4,5) by simp
qed

lemma blk_drain_batches_acts:
  assumes "blk_drain_batches fd zone vq w = Some y" and "dev v = Some d" and "vqs v \<noteq> []"
    and "fd = img_fd d" and "zone = sint (zone_id v)"
  shows "(acts need)\<^sup>*\<^sup>* (with_queue v vq, w) (with_queue v (fst y), snd y)"
proof -
  let ?P = "\<lambda>fd zone vq w y. fd = img_fd d \<and> zone = sint (zone_id v) \<longrightarrow>
    (acts need)\<^sup>*\<^sup>* (with_queue v vq, w) (with_queue v (fst y), snd y)"
  have "?P fd zone vq w y"
  proof (rule blk_drain_batches.raw_induct [OF _ assms(1), of ?P], rule impI)
    fix rec fd zone vq w y
    assume IH: "\<And>fd zone vq w y. rec fd zone vq w = Some y \<Longrightarrow> ?P fd zone vq w y"
      and body: "Option.bind (virtqueue_disable_notify (w_mem w) vq) (\<lambda>m1.
       Option.bind (blk_drain fd zone vq (w\<lparr>w_mem := m1\<rparr>)) (\<lambda>(vq1, w1).
       Option.bind (virtqueue_enable_notify (w_mem w1) vq1) (\<lambda>m2.
       (let w2 = w1\<lparr>w_mem := m2\<rparr> in
        if vq_is_empty (w_mem w2) vq1 then Some (vq1, w2) else rec fd zone vq1 w2)))) = Some y"
      and here: "fd = img_fd d \<and> zone = sint (zone_id v)"
    obtain m1 vq1 w1 m2 where off: "virtqueue_disable_notify (w_mem w) vq = Some m1"
        and drain: "blk_drain fd zone vq (w\<lparr>w_mem := m1\<rparr>) = Some (vq1, w1)"
        and on: "virtqueue_enable_notify (w_mem w1) vq1 = Some m2"
        and y: "y = (vq1, w1\<lparr>w_mem := m2\<rparr>) \<or> rec fd zone vq1 (w1\<lparr>w_mem := m2\<rparr>) = Some y"
      using body by (auto simp: bind_Some_iff Let_def split: if_splits)
    have "(acts need)\<^sup>*\<^sup>* (with_queue v vq, w) (with_queue v vq1, w1)"
      using converse_rtranclp_into_rtranclp [OF act_quiet [OF off assms(2,3)] blk_drain_acts [OF drain assms(2,3)]] here
      by simp
    then have "(acts need)\<^sup>*\<^sup>* (with_queue v vq, w) (with_queue v vq1, w1\<lparr>w_mem := m2\<rparr>)"
      using act_arm [OF on assms(2,3)] by (simp add: rtranclp.rtrancl_into_rtrancl)
    then show "(acts need)\<^sup>*\<^sup>* (with_queue v vq, w) (with_queue v (fst y), snd y)"
      using y IH here by (auto intro: rtranclp_trans)
  qed
  then show ?thesis using assms(4,5) by simp
qed

text \<open>
  Whatever a round of the worker does as one step, its actions do one after the other: a system
  that lets the actions interleave with other threads has every round among its behaviours.
\<close>

theorem blk_worker_round_acts:
  assumes "blk_worker_round need v w = Some (v', w')"
  shows "(acts need)\<^sup>*\<^sup>* (v, w) (v', w')"
proof -
  obtain vq d where q: "nth_ub (vqs v) 0 = Some vq" "dev v = Some d"
    using assms by (auto simp: blk_worker_round_def bind_Some_iff)
  then have ne: "vqs v \<noteq> []" and same: "with_queue v vq = v"
    by (auto simp: nth_ub_def with_queue_def split: if_splits)
  show ?thesis
  proof (cases "vq_is_empty (w_mem w) vq")
    case False
    then obtain vq1 w1 where b: "blk_drain_batches (img_fd d) (sint (zone_id v)) vq w = Some (vq1, w1)"
        and i: "virtio_inject_irq need 0 (with_queue v vq1) w1 = Some (v', w')"
      using assms q ne by (auto simp: blk_worker_round_def bind_Some_iff)
    have "acts need (with_queue v vq1, w1) (v', w')"
      unfolding acts_def using i q(2) ne by (intro exI [of _ Worker_Inject]) (simp add: blk_worker_action_def)
    then show ?thesis
      using blk_drain_batches_acts [OF b q(2) ne refl refl, of need] same by (simp add: rtranclp.rtrancl_into_rtrancl)
  qed (use assms q in \<open>simp add: blk_worker_round_def\<close>)
qed

section \<open>Empty chains\<close>

text \<open>
  A request whose chain is empty (an indirect descriptor with a table shorter than one entry)
  is completed with one used-ring entry, but consumes two entries of the available ring: the chain
  walk has already advanced the queue when its result 0 is taken for a failure. The request after
  it is never served; if there is none, the queue then looks non-empty.
\<close>

theorem blk_empty_chain_skips_a_request:
  assumes "avail_ring vq \<noteq> 0" and "used_ring vq \<noteq> 0" and "desc_table vq \<noteq> 0" and "vq_num vq \<noteq> 0"
    and "d = ld_desc (w_mem w) (desc_table vq) (next_head vq (w_mem w))"
    and "has_flag (d_flags d) VRING_DESC_F_INDIRECT" and "\<not> has_flag (d_flags d) VRING_DESC_F_NEXT"
    and "d_len d < 16"
  shows "\<exists>w'. virtq_blk_handle_one_request fd zone vq w =
              Some (vq\<lparr>last_avail_idx := last_avail_idx vq + 2\<rparr>, w')
            \<and> ld16 (w_mem w') (used_idx_at (used_ring vq)) = ld16 (w_mem w) (used_idx_at (used_ring vq)) + 1"
proof -
  note chain = empty_indirect_chain [OF assms(3-8), of "w_zm w" zone]
  have two: "last_avail_idx vq + 1 + 1 = last_avail_idx vq + 2" by simp
  show ?thesis
    using assms(1,2) chain unfolding virtq_blk_handle_one_request_def Let_def
    by (simp add: blk_complete_def update_used_ring_def Let_def two)
qed

lemma blk_empty_chain_skips_a_request_witness:
  "\<exists>w'. virtq_blk_handle_one_request 3 1 blk_vq (blk_world\<lparr>w_mem := blk_mem(0x7f000000000c := 4, 0x7f0000000008 := 0)\<rparr>) =
     Some (blk_vq\<lparr>last_avail_idx := 2\<rparr>, w') \<and> ld16 (w_mem w') 0x7f0000000082 = 1"
proof -
  let ?m = "blk_mem(0x7f000000000c := 4, 0x7f0000000008 := 0)"
  define w where "w = blk_world\<lparr>w_mem := ?m\<rparr>"
  define d where "d = ld_desc (w_mem w) (desc_table blk_vq) (next_head blk_vq (w_mem w))"
  have d: "d = \<lparr>d_addr = 0x50000060, d_len = 0, d_flags = 4, d_next = 1\<rparr>"
    unfolding d_def w_def by code_simp
  have q: "avail_ring blk_vq \<noteq> 0" "used_ring blk_vq \<noteq> 0" "desc_table blk_vq \<noteq> 0" "vq_num blk_vq \<noteq> 0"
    "last_avail_idx blk_vq + 2 = 2" "used_idx_at (used_ring blk_vq) = 0x7f0000000082"
    by code_simp+
  have "ld16 (w_mem w) 0x7f0000000082 = 0" unfolding w_def by code_simp
  then show ?thesis
    using blk_empty_chain_skips_a_request [OF q(1-4) d_def] unfolding q(5,6) w_def [symmetric]
    by (simp add: d has_flag_def)
qed

end
