(* ===== verification/Scmi_Core.thy ===== *)
theory Scmi_Core
  imports World
begin

text \<open>
  The core of the SCMI device (\<^verbatim>\<open>src/tools/virtio/devices/scmi/scmi_core.c\<close> and
  \<^verbatim>\<open>src/tools/virtio/include/virtio_scmi.h\<close>): the packed message header, the response context with
  its bounds, the per-device protocol table and the dispatch of a message. A handler is a function
  on the device, the request and the response context; its results are the C return code, the
  context and the world.
\<close>

section \<open>Message headers\<close>

text \<open>The bit fields of \<open>struct scmi_msg_header\<close>, from the least significant bit.\<close>

definition hdr_msg_id :: "u32 \<Rightarrow> u8" where "hdr_msg_id h = ucast h"
definition hdr_msg_type :: "u32 \<Rightarrow> u32" where "hdr_msg_type h = take_bit 2 (drop_bit 8 h)"
definition hdr_protocol_id :: "u32 \<Rightarrow> u8" where "hdr_protocol_id h = ucast (drop_bit 10 h)"
definition hdr_token :: "u32 \<Rightarrow> u16" where "hdr_token h = ucast (take_bit 10 (drop_bit 18 h))"

definition SCMI_MSG_TYPE_COMMAND :: u32 where [simp]: "SCMI_MSG_TYPE_COMMAND = 0"

definition scmi_build_header :: "u8 \<Rightarrow> u8 \<Rightarrow> u16 \<Rightarrow> u32" where
  "scmi_build_header protocol msg token =
     ucast msg OR push_bit 8 (take_bit 2 SCMI_MSG_TYPE_COMMAND) OR push_bit 10 (ucast protocol)
     OR push_bit 18 (take_bit 10 (ucast token))"

definition SCMI_PROTO_ID_BASE :: u8 where [simp]: "SCMI_PROTO_ID_BASE = 0x10"
definition SCMI_PROTO_ID_POWER :: u8 where [simp]: "SCMI_PROTO_ID_POWER = 0x11"
definition SCMI_PROTO_ID_CLOCK :: u8 where [simp]: "SCMI_PROTO_ID_CLOCK = 0x14"
definition SCMI_PROTO_ID_RESET :: u8 where [simp]: "SCMI_PROTO_ID_RESET = 0x16"

definition SCMI_COMMON_MSG_VERSION :: u8 where [simp]: "SCMI_COMMON_MSG_VERSION = 0"
definition SCMI_COMMON_MSG_PROTOCOL_ATTRIBUTES :: u8 where [simp]: "SCMI_COMMON_MSG_PROTOCOL_ATTRIBUTES = 1"
definition SCMI_COMMON_MSG_MESSAGE_ATTRIBUTES :: u8 where [simp]: "SCMI_COMMON_MSG_MESSAGE_ATTRIBUTES = 2"

definition SCMI_SUCCESS :: int where [simp]: "SCMI_SUCCESS = 0"
definition SCMI_ERR_SUPPORT :: int where [simp]: "SCMI_ERR_SUPPORT = -1"
definition SCMI_ERR_PARAMS :: int where [simp]: "SCMI_ERR_PARAMS = -2"
definition SCMI_ERR_ENTRY :: int where [simp]: "SCMI_ERR_ENTRY = -4"
definition SCMI_ERR_RANGE :: int where [simp]: "SCMI_ERR_RANGE = -5"
definition SCMI_ERR_GENERIC :: int where [simp]: "SCMI_ERR_GENERIC = -8"

section \<open>The device and its protocol table\<close>

definition SCMI_MAX_PROTOCOLS :: nat where [simp]: "SCMI_MAX_PROTOCOLS = 16"

text \<open>The handlers a protocol can be registered with.\<close>

datatype scmi_handler = Base_Handler | Clock_Handler | Power_Handler | Reset_Handler

record scmi_dev_protocol_entry =
  pe_protocol_id :: u8
  pe_handler :: scmi_handler

text \<open>
  An array of identifiers and its count are separate fields, as in C; \<open>None\<close> is the null pointer.
  The used entries of \<open>protocols\<close> are a list, so its length is \<open>protocol_count\<close>.
\<close>

record SCMIDev =
  clock_ids :: "u32 list option"
  clock_count :: u32
  reset_ids :: "u32 list option"
  reset_count :: u32
  power_ids :: "u32 list option"
  power_count :: u32
  protocols :: "scmi_dev_protocol_entry list"

record scmi_resp_ctx =
  ctx_base :: u64
  ctx_written :: u64
  ctx_capacity :: u64

definition scmi_validate_request :: "u64 \<Rightarrow> u64 \<Rightarrow> u64 \<Rightarrow> u64 \<Rightarrow> int" where
  "scmi_validate_request req_len min_req_len resp_len min_resp_len =
     (if req_len < min_req_len then SCMI_ERR_PARAMS
      else if resp_len < min_resp_len then SCMI_ERR_PARAMS
      else SCMI_SUCCESS)"

definition scmi_resp_ctx_init :: "iovec \<Rightarrow> scmi_resp_ctx" where
  "scmi_resp_ctx_init v = \<lparr>ctx_base = iov_base v, ctx_written = 0, ctx_capacity = iov_len v\<rparr>"

text \<open>Reserving space: the pointer (0 for \<open>NULL\<close>) and the context.\<close>

definition scmi_resp_write :: "scmi_resp_ctx \<Rightarrow> u64 \<Rightarrow> (u64 \<times> scmi_resp_ctx) option" where
  "scmi_resp_write ctx sz =
     (if ctx_written ctx + sz > ctx_capacity ctx then Some (0, ctx)
      else Some (ctx_base ctx + ctx_written ctx, ctx\<lparr>ctx_written := ctx_written ctx + sz\<rparr>))"

text \<open>The header and the status word at the start of a response.\<close>

definition resp_mem :: "memory \<Rightarrow> u64 \<Rightarrow> u32 \<Rightarrow> int \<Rightarrow> memory" where
  "resp_mem m base hdr status = st32 (st32 m base hdr) (base + 4) (of_int status)"

definition scmi_make_response ::
  "scmi_resp_ctx \<Rightarrow> u8 \<Rightarrow> u8 \<Rightarrow> u16 \<Rightarrow> int \<Rightarrow> world \<Rightarrow> (int \<times> scmi_resp_ctx \<times> world) option" where
  "scmi_make_response ctx protocol msg token status w =
     (if ctx_capacity ctx < 8 then Some (SCMI_ERR_PARAMS, ctx, w)
      else if ctx_base ctx = 0 then None
      else Some (0, ctx\<lparr>ctx_written := 8\<rparr>,
                 w\<lparr>w_mem := resp_mem (w_mem w) (ctx_base ctx) (scmi_build_header protocol msg token) status\<rparr>))"

definition scmi_dev_register_protocol :: "SCMIDev \<Rightarrow> u8 \<Rightarrow> scmi_handler \<Rightarrow> int \<times> SCMIDev" where
  "scmi_dev_register_protocol dev pid h =
     (if length (protocols dev) \<ge> SCMI_MAX_PROTOCOLS then (-1, dev)
      else if pid \<in> pe_protocol_id ` set (protocols dev) then (0, dev)
      else (0, dev\<lparr>protocols := protocols dev @ [\<lparr>pe_protocol_id = pid, pe_handler = h\<rparr>]\<rparr>))"

type_synonym scmi_fun = "SCMIDev \<Rightarrow> u8 \<Rightarrow> u16 \<Rightarrow> iovec \<Rightarrow> scmi_resp_ctx \<Rightarrow> world \<Rightarrow> (int \<times> scmi_resp_ctx \<times> world) option"

text \<open>The argument \<open>run\<close> calls the function behind a handler.\<close>

definition scmi_handle_message ::
  "(scmi_handler \<Rightarrow> scmi_fun) \<Rightarrow> SCMIDev \<Rightarrow> u8 \<Rightarrow> u8 \<Rightarrow> u16 \<Rightarrow> iovec \<Rightarrow> scmi_resp_ctx \<Rightarrow> world
     \<Rightarrow> (int \<times> scmi_resp_ctx \<times> world) option" where
  "scmi_handle_message run dev pid msg token req ctx w =
     (case find (\<lambda>e. pe_protocol_id e = pid) (protocols dev) of
        None \<Rightarrow> Some (SCMI_ERR_SUPPORT, ctx, w)
      | Some e \<Rightarrow> run (pe_handler e) dev msg token req ctx w)"

text \<open>
  The ioctl helper. The call carries the subcommand; the length field, which is a constant of the
  argument structure, is left out.
\<close>

definition hvisor_scmi_ioctl_cmd :: "syscall \<Rightarrow> world \<Rightarrow> (int \<times> sysret \<times> world) option" where
  "hvisor_scmi_ioctl_cmd call w = do {
     (r, w1) \<leftarrow> sys_call call w;
     Some (if s_ret r < 0 then - EIO else 0, r, w1)
   }"

text \<open>Looking up a guest's identifier in a granted array: whether it is valid, and the physical one.\<close>

definition phys_id :: "u32 list option \<Rightarrow> u32 \<Rightarrow> u32 \<Rightarrow> (bool \<times> u32) option" where
  "phys_id ids count i =
     (case ids of None \<Rightarrow> Some (False, 0)
      | Some xs \<Rightarrow> if i \<ge> count then Some (False, 0) else do { x \<leftarrow> nth_ub xs (unat i); Some (True, x) })"

text \<open>A 32-bit field of the request's payload, which follows the 4-byte header.\<close>

definition req_u32 :: "iovec \<Rightarrow> u64 \<Rightarrow> world \<Rightarrow> u32 option" where
  "req_u32 v off w = (if iov_base v = 0 then None else Some (ld32 (w_mem w) (iov_base v + 4 + off)))"

text \<open>The C library's \<open>strncpy\<close>: the bytes it writes, padded with zeros.\<close>

definition strncpy :: "u8 list \<Rightarrow> nat \<Rightarrow> u8 list" where
  "strncpy src n = take n (takeWhile (\<lambda>b. b \<noteq> 0) src @ replicate n 0)"

definition c_chars :: "string \<Rightarrow> u8 list" where
  "c_chars s = map of_char s"

lemma length_strncpy [simp]: "length (strncpy src n) = n"
  by (simp add: strncpy_def)

lemma header_fields:
  "hdr_protocol_id (scmi_build_header protocol msg token) = protocol"
  "hdr_msg_id (scmi_build_header protocol msg token) = msg"
  "hdr_msg_type (scmi_build_header protocol msg token) = SCMI_MSG_TYPE_COMMAND"
  "hdr_token (scmi_build_header protocol msg token) = take_bit 10 token"
  unfolding hdr_protocol_id_def hdr_msg_id_def hdr_msg_type_def hdr_token_def scmi_build_header_def
  by (rule bit_word_eqI, auto simp: bit_simps dest: bit_imp_le_length)+

text \<open>
  A header survives the wire: reading the fields of a header that was built from a protocol, a
  message and a token gives the protocol, the message, the command type, and the token's ten bits.
\<close>

theorem scmi_header_roundtrip:
  "hdr_protocol_id (scmi_build_header protocol msg token) = protocol
   \<and> hdr_msg_id (scmi_build_header protocol msg token) = msg
   \<and> hdr_msg_type (scmi_build_header protocol msg token) = SCMI_MSG_TYPE_COMMAND
   \<and> hdr_token (scmi_build_header protocol msg token) = take_bit 10 token"
  using header_fields by blast

section \<open>What every handler keeps\<close>

text \<open>The calls a device may make: its own identifiers only.\<close>

definition granted :: "u32 list option \<Rightarrow> u32 \<Rightarrow> bool" where
  "granted ids i = (case ids of None \<Rightarrow> False | Some xs \<Rightarrow> i \<in> set xs)"

fun scmi_allowed :: "SCMIDev \<Rightarrow> syscall \<Rightarrow> bool" where
  "scmi_allowed d (Ioctl_Scmi_Clock sub i xs) = granted (clock_ids d) i"
| "scmi_allowed d (Ioctl_Scmi_Reset sub i xs) = granted (reset_ids d) i"
| "scmi_allowed d (Ioctl_Scmi_Power sub i xs) = granted (power_ids d) i"
| "scmi_allowed d c = False"

text \<open>Only the memory and the record of calls change, and the calls are allowed.\<close>

definition scmi_calls :: "SCMIDev \<Rightarrow> world \<Rightarrow> world \<Rightarrow> bool" where
  "scmi_calls d w w' \<longleftrightarrow> (\<exists>m tape calls. list_all (scmi_allowed d) calls \<and>
     w' = w\<lparr>w_mem := m, w_tape := tape, w_trace := w_trace w @ calls\<rparr>)"

abbreviation resp_buf :: "scmi_resp_ctx \<Rightarrow> u64 set" where
  "resp_buf ctx \<equiv> footprint (ctx_base ctx) (unat (ctx_capacity ctx))"

abbreviation resp_payload :: "scmi_resp_ctx \<Rightarrow> u64 set" where
  "resp_payload ctx \<equiv> footprint (ctx_base ctx + 8) (unat (ctx_capacity ctx) - 8)"

text \<open>
  A successful handler has put the header of the request and a status at the start of the response
  and otherwise only written the payload; a failed one has at most written the response buffer.
\<close>

definition scmi_ok :: "SCMIDev \<Rightarrow> u8 \<Rightarrow> u8 \<Rightarrow> u16 \<Rightarrow> scmi_resp_ctx \<Rightarrow> world \<Rightarrow> int \<times> scmi_resp_ctx \<times> world \<Rightarrow> bool" where
  "scmi_ok d protocol msg token ctx w = (\<lambda>(r, ctx', w').
     ctx_base ctx' = ctx_base ctx \<and> ctx_capacity ctx' = ctx_capacity ctx \<and> scmi_calls d w w'
     \<and> mem_within (resp_buf ctx) (w_mem w) (w_mem w')
     \<and> (r = 0 \<longrightarrow> 8 \<le> unat (ctx_written ctx') \<and> ctx_written ctx' \<le> ctx_capacity ctx
          \<and> (\<exists>status. mem_within (resp_payload ctx)
                 (resp_mem (w_mem w) (ctx_base ctx) (scmi_build_header protocol msg token) status) (w_mem w'))))"

definition ctx_ok :: "scmi_resp_ctx \<Rightarrow> bool" where
  "ctx_ok ctx \<longleftrightarrow> 8 \<le> unat (ctx_capacity ctx) \<and> ctx_base ctx \<noteq> 0"

lemma scmi_callsI:
  assumes "list_all (scmi_allowed d) calls"
    and "w' = w\<lparr>w_mem := m, w_tape := tape, w_trace := w_trace w @ calls\<rparr>"
  shows "scmi_calls d w w'"
  unfolding scmi_calls_def using assms by blast

lemma scmi_calls_refl [simp, intro]: "scmi_calls d w w"
  by (rule scmi_callsI [of _ "[]" _ _ "w_tape w" "w_mem w"]) simp_all

lemma scmi_calls_store [intro]:
  assumes "scmi_calls d w w'"
  shows "scmi_calls d w (w'\<lparr>w_mem := m\<rparr>)"
proof -
  obtain m' tape calls where "list_all (scmi_allowed d) calls"
      "w' = w\<lparr>w_mem := m', w_tape := tape, w_trace := w_trace w @ calls\<rparr>"
    using assms by (auto simp: scmi_calls_def)
  then show ?thesis by (intro scmi_callsI [of _ calls _ _ tape m]) simp_all
qed

lemma scmi_calls_sys:
  assumes "sys_call c w = Some (r, w')" and "scmi_allowed d c" and "scmi_calls d w0 w"
  shows "scmi_calls d w0 w'"
proof -
  obtain m tape calls where w: "list_all (scmi_allowed d) calls"
      "w = w0\<lparr>w_mem := m, w_tape := tape, w_trace := w_trace w0 @ calls\<rparr>"
    using assms(3) by (auto simp: scmi_calls_def)
  have "w' = w0\<lparr>w_mem := m, w_tape := tl tape, w_trace := w_trace w0 @ (calls @ [c])\<rparr>"
    using assms(1) w(2) by (simp add: sys_call_def split: list.splits)
  then show ?thesis
    using w(1) assms(2) by (intro scmi_callsI [of _ "calls @ [c]" _ _ "tl tape" m]) simp_all
qed

text \<open>Buffer and payload.\<close>

lemma resp_payload_sub:
  assumes "ctx_ok ctx"
  shows "resp_payload ctx \<subseteq> resp_buf ctx"
  using footprint_offset [of 8 "unat (ctx_capacity ctx) - 8" "unat (ctx_capacity ctx)" "ctx_base ctx"] assms
  by (simp add: ctx_ok_def)

lemma resp_mem_within:
  assumes "ctx_ok ctx"
  shows "mem_within (resp_buf ctx) m (resp_mem m (ctx_base ctx) h st)"
  unfolding resp_mem_def using assms
  by (intro mem_within_then mem_within_refl footprint_at footprint_mono) (simp_all add: ctx_ok_def)

text \<open>The two ways a handler ends well: with the bare status, or with a payload.\<close>

lemma footprint_between:
  assumes "i \<le> j" and "j + n \<le> k"
  shows "footprint (a + of_nat j) n \<subseteq> footprint (a + of_nat i) (k - i)"
proof -
  obtain d where "j = i + d" using assms(1) le_Suc_ex by blast
  then show ?thesis
    using footprint_offset [of d n "k - i" "a + of_nat i"] assms by (simp add: add.assoc)
qed

lemma payload_at:
  assumes "8 \<le> (numeral i :: nat)" and "numeral i + n \<le> unat (ctx_capacity ctx)"
  shows "footprint (ctx_base ctx + numeral i) n \<subseteq> resp_payload ctx"
    and "footprint (numeral i + ctx_base ctx) n \<subseteq> resp_payload ctx"
  using footprint_between [OF assms, of "ctx_base ctx"] by (simp_all add: add.commute)

lemma scmi_ok_payload:
  assumes "ctx_ok ctx" and "scmi_calls d w w'" and "w_mem w' = w_mem w"
    and "8 \<le> unat n" and "n \<le> ctx_capacity ctx"
    and "mem_within (resp_payload ctx) (resp_mem (w_mem w) (ctx_base ctx) (scmi_build_header protocol msg token) st) m"
  shows "scmi_ok d protocol msg token ctx w (0, ctx\<lparr>ctx_written := n\<rparr>, w'\<lparr>w_mem := m\<rparr>)"
proof -
  have "mem_within (resp_buf ctx) (w_mem w) m"
    using resp_mem_within [OF assms(1)] mem_within_mono [OF assms(6) resp_payload_sub [OF assms(1)]]
    by (rule mem_within_trans)
  then show ?thesis
    unfolding scmi_ok_def using assms by (auto intro!: exI [of _ st])
qed

lemma scmi_ok_status:
  assumes "ctx_ok ctx" and "scmi_calls d w w'" and "w_mem w' = w_mem w"
  shows "scmi_ok d protocol msg token ctx w (0, ctx\<lparr>ctx_written := 8\<rparr>,
     w'\<lparr>w_mem := resp_mem (w_mem w) (ctx_base ctx) (scmi_build_header protocol msg token) st\<rparr>)"
  using assms by (intro scmi_ok_payload [where st = st]) (simp_all add: ctx_ok_def word_le_nat_alt)

lemma scmi_ok_fail: "r \<noteq> 0 \<Longrightarrow> scmi_ok d protocol msg token ctx w (r, ctx, w)"
  by (simp add: scmi_ok_def)

lemma scmi_ok_fail_late:
  assumes "ctx_ok ctx" and "r \<noteq> 0" and "scmi_calls d w w'" and "w_mem w' = w_mem w"
  shows "scmi_ok d protocol msg token ctx w (r, ctx\<lparr>ctx_written := n\<rparr>,
     w'\<lparr>w_mem := resp_mem (w_mem w) (ctx_base ctx) h st\<rparr>)"
  using assms resp_mem_within [OF assms(1)] by (auto simp: scmi_ok_def)

lemmas scmi_ok_intros = scmi_ok_payload mem_within_then payload_at footprint_start

lemmas scmi_ok_simps =
  word_less_nat_alt word_le_nat_alt scmi_validate_request_def scmi_ok_fail scmi_ok_fail_late scmi_ok_status

text \<open>Postconditions of the core functions, with the response buffer known to be usable.\<close>

lemma post_scmi_make_response [wp]:
  assumes "ctx_ok ctx"
    and "P (0, ctx\<lparr>ctx_written := 8\<rparr>,
            w\<lparr>w_mem := resp_mem (w_mem w) (ctx_base ctx) (scmi_build_header protocol msg token) status\<rparr>)"
  shows "post P (scmi_make_response ctx protocol msg token status w)"
  using assms by (simp add: scmi_make_response_def ctx_ok_def word_less_nat_alt post_def)

lemma post_scmi_resp_write [wp]:
  assumes "P (0, ctx)"
    and "\<not> ctx_written ctx + n > ctx_capacity ctx \<Longrightarrow>
         P (ctx_base ctx + ctx_written ctx, ctx\<lparr>ctx_written := ctx_written ctx + n\<rparr>)"
  shows "post P (scmi_resp_write ctx n)"
  using assms by (simp add: scmi_resp_write_def post_def)

lemma post_req_u32 [wp]: "(\<And>x. P x) \<Longrightarrow> post P (req_u32 v off w)"
  by (simp add: req_u32_def post_def)

lemma post_phys_id [wp]:
  assumes "P (False, 0)" and "\<And>x. granted ids x \<Longrightarrow> P (True, x)"
  shows "post P (phys_id ids count i)"
  unfolding phys_id_def using assms by (intro wp) (auto simp: granted_def split: option.splits)

lemma post_hvisor_scmi_ioctl_cmd [wp]:
  assumes "\<And>r w'. w_mem w' = w_mem w \<Longrightarrow> (\<And>d. scmi_allowed d call \<Longrightarrow> scmi_calls d w w') \<Longrightarrow>
     P (if s_ret r < 0 then - EIO else 0, r, w')"
  shows "post P (hvisor_scmi_ioctl_cmd call w)"
  unfolding hvisor_scmi_ioctl_cmd_def
proof (intro wp)
  fix x r w' r' w1
  assume "sys_call call w = Some (r, w')" and "(r, w') = (r', w1)"
  then show "P (if s_ret r' < 0 then - EIO else 0, r', w1)"
    using sys_call_mem scmi_calls_sys [OF _ _ scmi_calls_refl] by (intro assms) auto
qed

end
