(* ===== verification/Scmi_Base.thy ===== *)
theory Scmi_Base
  imports Scmi_Core
begin

text \<open>
  The base protocol (\<^verbatim>\<open>src/tools/virtio/devices/scmi/base.c\<close>): version, attributes, vendor and agent
  discovery and the list of a device's protocols.
\<close>

definition SCMI_BASE_VERSION :: u32 where [simp]: "SCMI_BASE_VERSION = 0x20001"
definition SCMI_BASE_MSG_DISCOVER_VENDOR :: u8 where [simp]: "SCMI_BASE_MSG_DISCOVER_VENDOR = 3"
definition SCMI_BASE_MSG_DISCOVER_SUB_VENDOR :: u8 where [simp]: "SCMI_BASE_MSG_DISCOVER_SUB_VENDOR = 4"
definition SCMI_BASE_MSG_DISCOVER_IMPL_VERSION :: u8 where [simp]: "SCMI_BASE_MSG_DISCOVER_IMPL_VERSION = 5"
definition SCMI_BASE_MSG_DISCOVER_LIST_PROTOCOLS :: u8 where [simp]: "SCMI_BASE_MSG_DISCOVER_LIST_PROTOCOLS = 6"
definition SCMI_BASE_MSG_DISCOVER_AGENT :: u8 where [simp]: "SCMI_BASE_MSG_DISCOVER_AGENT = 7"
definition SCMI_BASE_MSG_NOTIFY_ERRORS :: u8 where [simp]: "SCMI_BASE_MSG_NOTIFY_ERRORS = 8"
definition SCMI_BASE_VENDOR_ID_LEN :: nat where [simp]: "SCMI_BASE_VENDOR_ID_LEN = 16"

section \<open>The protocol list\<close>

text \<open>
  The loop that packs four identifiers into each of the four slots that follow the count;
  a fifth slot is outside the structure.
\<close>

primrec put_protocols :: "SCMIDev \<Rightarrow> u64 \<Rightarrow> nat \<Rightarrow> nat \<Rightarrow> nat \<Rightarrow> memory \<Rightarrow> memory option" where
  "put_protocols dev resp skip i 0 m = Some m"
| "put_protocols dev resp skip i (Suc n) m = do {
     e \<leftarrow> nth_ub (protocols dev) (skip + i);
     if i div 4 \<ge> 4 then None else do {
       let slot = resp + 4 + of_nat (4 * (i div 4));
       let m1 = (if i mod 4 = 0 then st32 m slot 0 else m);
       let m2 = st32 m1 slot (ld32 m1 slot OR push_bit (8 * (i mod 4)) (ucast (pe_protocol_id e)));
       put_protocols dev resp skip (i + 1) n m2
     }
   }"

definition int_fits :: "int \<Rightarrow> bool" where
  "int_fits x \<longleftrightarrow> - (2 ^ 31) \<le> x \<and> x < 2 ^ 31"

definition get_protocol_list :: "SCMIDev \<Rightarrow> u64 \<Rightarrow> int \<Rightarrow> int \<Rightarrow> memory \<Rightarrow> (int \<times> memory) option" where
  "get_protocol_list dev resp skip max_n m = do {
     let total_protocols = int (length (protocols dev));
     let remaining = total_protocols - skip;
     if \<not> int_fits remaining then None
     else if remaining \<le> 0 then Some (0, st32 m resp 0)
     else do {
       let count = (if remaining < max_n then remaining else max_n);
       m1 \<leftarrow> put_protocols dev resp (nat skip) 0 (nat count) (st32 m resp (of_int count));
       Some (count, m1)
     }
   }"

section \<open>Handlers\<close>

definition handle_base_attributes :: "SCMIDev \<Rightarrow> u16 \<Rightarrow> iovec \<Rightarrow> scmi_resp_ctx \<Rightarrow> world \<Rightarrow> (int \<times> scmi_resp_ctx \<times> world) option" where
  "handle_base_attributes dev token req ctx w = do {
     let ret = scmi_validate_request (iov_len req) 4 (ctx_capacity ctx) (8 + 4);
     if ret \<noteq> SCMI_SUCCESS then Some (ret, ctx, w) else do {
       (_, ctx1, w1) \<leftarrow> scmi_make_response ctx SCMI_PROTO_ID_BASE SCMI_COMMON_MSG_PROTOCOL_ATTRIBUTES token SCMI_SUCCESS w;
       (attr, ctx2) \<leftarrow> scmi_resp_write ctx1 4;
       if attr = 0 then Some (SCMI_ERR_PARAMS, ctx2, w1)
       else Some (0, ctx2, w1\<lparr>w_mem :=
         st16 (st8 (st8 (w_mem w1) attr (of_nat (length (protocols dev)))) (attr + 1) 1) (attr + 2) 0\<rparr>)
     }
   }"

definition handle_base_version :: "SCMIDev \<Rightarrow> u16 \<Rightarrow> iovec \<Rightarrow> scmi_resp_ctx \<Rightarrow> world \<Rightarrow> (int \<times> scmi_resp_ctx \<times> world) option" where
  "handle_base_version dev token req ctx w = do {
     let ret = scmi_validate_request (iov_len req) 4 (ctx_capacity ctx) (8 + 4);
     if ret \<noteq> SCMI_SUCCESS then Some (ret, ctx, w) else do {
       (_, ctx1, w1) \<leftarrow> scmi_make_response ctx SCMI_PROTO_ID_BASE SCMI_COMMON_MSG_VERSION token SCMI_SUCCESS w;
       (version, ctx2) \<leftarrow> scmi_resp_write ctx1 4;
       if version = 0 then Some (SCMI_ERR_PARAMS, ctx2, w1)
       else Some (0, ctx2, w1\<lparr>w_mem := st32 (w_mem w1) version SCMI_BASE_VERSION\<rparr>)
     }
   }"

definition vendor_msg :: "bool \<Rightarrow> u8" where
  "vendor_msg sub_vendor = (if sub_vendor then SCMI_BASE_MSG_DISCOVER_SUB_VENDOR else SCMI_BASE_MSG_DISCOVER_VENDOR)"

definition handle_base_vendor :: "SCMIDev \<Rightarrow> u16 \<Rightarrow> iovec \<Rightarrow> scmi_resp_ctx \<Rightarrow> bool \<Rightarrow> world \<Rightarrow> (int \<times> scmi_resp_ctx \<times> world) option" where
  "handle_base_vendor dev token req ctx sub_vendor w = do {
     let ret = scmi_validate_request (iov_len req) 4 (ctx_capacity ctx) (8 + 16);
     if ret \<noteq> SCMI_SUCCESS then Some (ret, ctx, w) else do {
       (_, ctx1, w1) \<leftarrow> scmi_make_response ctx SCMI_PROTO_ID_BASE (vendor_msg sub_vendor) token SCMI_SUCCESS w;
       (vendor_id, ctx2) \<leftarrow> scmi_resp_write ctx1 16;
       if vendor_id = 0 then Some (SCMI_ERR_PARAMS, ctx2, w1)
       else Some (0, ctx2, w1\<lparr>w_mem := st_bytes (w_mem w1) vendor_id
         (strncpy (c_chars (if sub_vendor then ''SUB_HVIS'' else ''HVIS'')) SCMI_BASE_VENDOR_ID_LEN)\<rparr>)
     }
   }"

text \<open>
  The comparison \<open>total > skip\<close> is unsigned, the parameter of \<open>get_protocol_list\<close> is signed. The
  structure takes 20 bytes, so a response of 16 to 27 bytes passes the size check and then fails.
\<close>

definition handle_base_protocol_list :: "SCMIDev \<Rightarrow> u16 \<Rightarrow> iovec \<Rightarrow> scmi_resp_ctx \<Rightarrow> world \<Rightarrow> (int \<times> scmi_resp_ctx \<times> world) option" where
  "handle_base_protocol_list dev token req ctx w = do {
     let ret = scmi_validate_request (iov_len req) (4 + 4) (ctx_capacity ctx) (8 + 2 * 4);
     if ret \<noteq> SCMI_SUCCESS then Some (ret, ctx, w) else do {
       skip \<leftarrow> req_u32 req 0 w;
       (_, ctx1, w1) \<leftarrow> scmi_make_response ctx SCMI_PROTO_ID_BASE SCMI_BASE_MSG_DISCOVER_LIST_PROTOCOLS token SCMI_SUCCESS w;
       (resp, ctx2) \<leftarrow> scmi_resp_write ctx1 20;
       if resp = 0 then Some (SCMI_ERR_PARAMS, ctx2, w1) else do {
         let n = length (protocols dev);
         let max_protos = (if n > unat skip then int n - int (unat skip) else 0);
         (count, m) \<leftarrow> get_protocol_list dev resp (sint skip) max_protos (w_mem w1);
         let actual = 4 + (of_int ((count + 3) div 4)) * 4;
         Some (0, ctx2\<lparr>ctx_written := 8 + actual\<rparr>, w1\<lparr>w_mem := m\<rparr>)
       }
     }
   }"

definition handle_base_discover_agent :: "SCMIDev \<Rightarrow> u16 \<Rightarrow> iovec \<Rightarrow> scmi_resp_ctx \<Rightarrow> world \<Rightarrow> (int \<times> scmi_resp_ctx \<times> world) option" where
  "handle_base_discover_agent dev token req ctx w = do {
     let ret = scmi_validate_request (iov_len req) (4 + 4) (ctx_capacity ctx) (8 + 16);
     if ret \<noteq> SCMI_SUCCESS then Some (ret, ctx, w) else do {
       agent_id \<leftarrow> req_u32 req 0 w;
       if agent_id \<noteq> 0xFFFFFFFF \<and> agent_id \<noteq> 0 then
         scmi_make_response ctx SCMI_PROTO_ID_BASE SCMI_BASE_MSG_DISCOVER_AGENT token SCMI_ERR_ENTRY w
       else do {
         (_, ctx1, w1) \<leftarrow> scmi_make_response ctx SCMI_PROTO_ID_BASE SCMI_BASE_MSG_DISCOVER_AGENT token SCMI_SUCCESS w;
         (name, ctx2) \<leftarrow> scmi_resp_write ctx1 16;
         if name = 0 then Some (SCMI_ERR_PARAMS, ctx2, w1)
         else Some (0, ctx2, w1\<lparr>w_mem := st_bytes (w_mem w1) name
           (strncpy (c_chars (if agent_id = 0xFFFFFFFF then ''OSPM'' else ''platform'')) 16)\<rparr>)
       }
     }
   }"

definition handle_base_impl_version :: "SCMIDev \<Rightarrow> u16 \<Rightarrow> iovec \<Rightarrow> scmi_resp_ctx \<Rightarrow> world \<Rightarrow> (int \<times> scmi_resp_ctx \<times> world) option" where
  "handle_base_impl_version dev token req ctx w = do {
     let ret = scmi_validate_request (iov_len req) 4 (ctx_capacity ctx) (8 + 4);
     if ret \<noteq> SCMI_SUCCESS then Some (ret, ctx, w) else do {
       (_, ctx1, w1) \<leftarrow> scmi_make_response ctx SCMI_PROTO_ID_BASE SCMI_BASE_MSG_DISCOVER_IMPL_VERSION token SCMI_SUCCESS w;
       (impl_ver, ctx2) \<leftarrow> scmi_resp_write ctx1 4;
       if impl_ver = 0 then Some (SCMI_ERR_PARAMS, ctx2, w1)
       else Some (0, ctx2, w1\<lparr>w_mem := st32 (w_mem w1) impl_ver 1\<rparr>)
     }
   }"

definition handle_base_error_notify :: "SCMIDev \<Rightarrow> u16 \<Rightarrow> iovec \<Rightarrow> scmi_resp_ctx \<Rightarrow> world \<Rightarrow> (int \<times> scmi_resp_ctx \<times> world) option" where
  "handle_base_error_notify dev token req ctx w = do {
     let ret = scmi_validate_request (iov_len req) (4 + 4) (ctx_capacity ctx) 0;
     if ret \<noteq> SCMI_SUCCESS then Some (ret, ctx, w) else do {
       event_control \<leftarrow> req_u32 req 0 w;
       scmi_make_response ctx SCMI_PROTO_ID_BASE SCMI_BASE_MSG_NOTIFY_ERRORS token SCMI_SUCCESS w
     }
   }"

definition virtio_scmi_base_handle_req :: scmi_fun where
  "virtio_scmi_base_handle_req dev msg token req ctx w =
     (if ctx_capacity ctx < 8 \<or> ctx_base ctx = 0 then Some (SCMI_ERR_PARAMS, ctx, w)
      else if msg = SCMI_COMMON_MSG_VERSION then handle_base_version dev token req ctx w
      else if msg = SCMI_COMMON_MSG_PROTOCOL_ATTRIBUTES then handle_base_attributes dev token req ctx w
      else if msg = SCMI_BASE_MSG_NOTIFY_ERRORS then handle_base_error_notify dev token req ctx w
      else if msg = SCMI_BASE_MSG_DISCOVER_VENDOR then handle_base_vendor dev token req ctx False w
      else if msg = SCMI_BASE_MSG_DISCOVER_SUB_VENDOR then handle_base_vendor dev token req ctx True w
      else if msg = SCMI_BASE_MSG_DISCOVER_IMPL_VERSION then handle_base_impl_version dev token req ctx w
      else if msg = SCMI_BASE_MSG_DISCOVER_LIST_PROTOCOLS then handle_base_protocol_list dev token req ctx w
      else if msg = SCMI_BASE_MSG_DISCOVER_AGENT then handle_base_discover_agent dev token req ctx w
      else Some (SCMI_ERR_SUPPORT, ctx, w))"

section \<open>Every handler answers in its buffer\<close>

lemma handle_base_attributes_ok [wp]:
  assumes "ctx_ok ctx"
  shows "post (scmi_ok dev 0x10 1 token ctx w) (handle_base_attributes dev token req ctx w)"
  unfolding handle_base_attributes_def using assms
  by (intro wp) (auto simp: scmi_ok_simps intro!: scmi_ok_intros del: subsetI)

lemma handle_base_version_ok [wp]:
  assumes "ctx_ok ctx"
  shows "post (scmi_ok dev 0x10 0 token ctx w) (handle_base_version dev token req ctx w)"
  unfolding handle_base_version_def using assms
  by (intro wp) (auto simp: scmi_ok_simps intro!: scmi_ok_intros del: subsetI)

lemma handle_base_vendor_ok [wp]:
  assumes "ctx_ok ctx"
  shows "post (scmi_ok dev 0x10 (vendor_msg sub) token ctx w) (handle_base_vendor dev token req ctx sub w)"
  unfolding handle_base_vendor_def using assms
  by (intro wp) (auto simp: scmi_ok_simps intro!: scmi_ok_intros del: subsetI)

lemma handle_base_discover_agent_ok [wp]:
  assumes "ctx_ok ctx"
  shows "post (scmi_ok dev 0x10 7 token ctx w) (handle_base_discover_agent dev token req ctx w)"
  unfolding handle_base_discover_agent_def using assms
  by (intro wp) (auto simp: scmi_ok_simps intro!: scmi_ok_intros del: subsetI)

lemma handle_base_impl_version_ok [wp]:
  assumes "ctx_ok ctx"
  shows "post (scmi_ok dev 0x10 5 token ctx w) (handle_base_impl_version dev token req ctx w)"
  unfolding handle_base_impl_version_def using assms
  by (intro wp) (auto simp: scmi_ok_simps intro!: scmi_ok_intros del: subsetI)

lemma handle_base_error_notify_ok [wp]:
  assumes "ctx_ok ctx"
  shows "post (scmi_ok dev 0x10 8 token ctx w) (handle_base_error_notify dev token req ctx w)"
  unfolding handle_base_error_notify_def using assms
  by (intro wp) (auto simp: scmi_ok_simps intro!: scmi_ok_intros del: subsetI)

section \<open>Listing the protocols\<close>

lemma next_in_slot:
  assumes "Suc i mod 4 \<noteq> 0"
  shows "Suc i mod 4 = Suc (i mod 4)" and "Suc i div 4 = i div 4"
  using assms by presburger+

definition slot_clear :: "memory \<Rightarrow> u64 \<Rightarrow> nat \<Rightarrow> bool" where
  "slot_clear m a i \<longleftrightarrow> (\<forall>k. i mod 4 \<le> k \<longrightarrow> k < 4 \<longrightarrow> m (a + of_nat (4 * (i div 4) + k)) = 0)"

text \<open>One round of the loop stores one byte, once the rest of the slot is clear.\<close>

lemma put_one:
  fixes m :: memory and p :: u8
  assumes "i mod 4 \<noteq> 0 \<Longrightarrow> slot_clear m a i"
  defines "slot \<equiv> a + of_nat (4 * (i div 4))"
  defines "m1 \<equiv> (if i mod 4 = 0 then st32 m slot 0 else m)"
  defines "m2 \<equiv> m1(a + of_nat i := p)"
  shows "st32 m1 slot (ld32 m1 slot OR push_bit (8 * (i mod 4)) (ucast p)) = m2"
    and "Suc i mod 4 \<noteq> 0 \<Longrightarrow> slot_clear m2 a (Suc i)"
proof -
  have slot: "slot + of_nat k = a + of_nat (4 * (i div 4) + k)" for k
    by (simp add: slot_def add.assoc)
  have zero: "m1 (slot + of_nat k) = 0" if "i mod 4 \<le> k" "k < 4" for k
  proof (cases "i mod 4 = 0")
    case True
    have "k \<in> {0, 1, 2, 3}" using that(2) by auto
    then show ?thesis using True by (auto simp: m1_def st32_bytes)
  next
    case False
    then show ?thesis using assms(1) that by (auto simp: m1_def slot slot_clear_def simp del: of_nat_add of_nat_mult)
  qed
  have at: "slot + of_nat (i mod 4) = a + of_nat i"
    unfolding slot by simp
  show "st32 m1 slot (ld32 m1 slot OR push_bit (8 * (i mod 4)) (ucast p)) = m2"
    using st32_or_byte [of "i mod 4" m1 slot p] zero [of "i mod 4"] by (simp add: m2_def at)
  assume "Suc i mod 4 \<noteq> 0"
  note d = next_in_slot [OF this]
  have "slot + of_nat k \<noteq> slot + of_nat (i mod 4)" if "i mod 4 < k" "k < 4" for k
  proof
    assume "slot + of_nat k = slot + of_nat (i mod 4)"
    then have "unat (of_nat k :: u64) = unat (of_nat (i mod 4) :: u64)" by simp
    then show False using that by (simp add: unat_of_nat_small)
  qed
  then show "slot_clear m2 a (Suc i)"
    using zero by (simp add: slot_clear_def d m2_def at [symmetric] slot [symmetric] del: of_nat_add of_nat_mult)
qed

lemma put_protocols_ok:
  fixes resp :: u64
  assumes "skip + i + n \<le> length (protocols dev)" and "i + n \<le> 16"
    and "i mod 4 \<noteq> 0 \<Longrightarrow> slot_clear m (resp + 4) i"
  shows "\<exists>m'. put_protocols dev resp skip i n m = Some m'
    \<and> (\<forall>j<n. m' (resp + 4 + of_nat (i + j)) = pe_protocol_id (protocols dev ! (skip + i + j)))
    \<and> mem_within (footprint (resp + 4 + of_nat i) (16 - i)) m m'"
  using assms
proof (induction n arbitrary: i m)
  case 0
  then show ?case by simp
next
  case (Suc n)
  define e where "e = protocols dev ! (skip + i)"
  define slot where "slot = resp + 4 + of_nat (4 * (i div 4))"
  define m1 where "m1 = (if i mod 4 = 0 then st32 m slot 0 else m)"
  define m2 where "m2 = m1(resp + 4 + of_nat i := pe_protocol_id e)"
  define A where "A = footprint (resp + 4 + of_nat i) (16 - i)"
  have one: "st32 m1 slot (ld32 m1 slot OR push_bit (8 * (i mod 4)) (ucast (pe_protocol_id e))) = m2"
      "Suc i mod 4 \<noteq> 0 \<Longrightarrow> slot_clear m2 (resp + 4) (Suc i)"
    using put_one [of i m "resp + 4" "pe_protocol_id e", folded slot_def, folded m1_def, folded m2_def] Suc.prems(3)
    by blast+
  have "\<exists>m'. put_protocols dev resp skip (Suc i) n m2 = Some m'
      \<and> (\<forall>j<n. m' (resp + 4 + of_nat (Suc i + j)) = pe_protocol_id (protocols dev ! (skip + Suc i + j)))
      \<and> mem_within (footprint (resp + 4 + of_nat (Suc i)) (16 - Suc i)) m2 m'"
    using Suc.prems(1,2) one(2) by (intro Suc.IH) simp_all
  then obtain m' where m': "put_protocols dev resp skip (Suc i) n m2 = Some m'"
      "\<And>j. j < n \<Longrightarrow> m' (resp + 4 + of_nat (Suc i + j)) = pe_protocol_id (protocols dev ! (skip + Suc i + j))"
      "mem_within (footprint (resp + 4 + of_nat (Suc i)) (16 - Suc i)) m2 m'"
    by blast
  have e: "nth_ub (protocols dev) (skip + i) = Some e" "\<not> 4 \<le> i div 4"
    using Suc.prems(1,2) by (simp_all add: nth_ub_def e_def)
  have run: "put_protocols dev resp skip i (Suc n) m = Some m'"
    unfolding put_protocols.simps Let_def slot_def [symmetric] m1_def [symmetric] e Option.bind.simps
    using m'(1) by (simp only: e if_False one(1) Suc_eq_plus1 [symmetric])
  have A: "A = insert (resp + 4 + of_nat i) (footprint (resp + 4 + of_nat (Suc i)) (16 - Suc i))"
  proof -
    have "16 - i = Suc (16 - Suc i)" using Suc.prems(2) by simp
    then show ?thesis
      using footprint_Suc [of "resp + 4 + of_nat i" "16 - Suc i"] unfolding A_def by (simp add: add.assoc add.commute)
  qed
  have "mem_within A m m1"
  proof (cases "i mod 4 = 0")
    case True
    then have "4 * (i div 4) = i" "4 \<le> 16 - i" using Suc.prems(2) by presburger+
    then show ?thesis
      using True footprint_mono [of 4 "16 - i"] unfolding m1_def A_def slot_def by (simp only: refl if_True mem_within_st32)
  qed (simp add: m1_def)
  then have "mem_within A m m'"
    using m'(3) unfolding A m2_def mem_within_def by auto
  moreover have "m' (resp + 4 + of_nat i) = pe_protocol_id e"
    using m'(3) start_notin_next [of "16 - Suc i" "resp + 4 + of_nat i"]
    unfolding mem_within_def m2_def by (auto simp: ac_simps)
  ultimately show ?case
    using run m'(2) unfolding A_def by (auto simp: less_Suc_eq_0_disj e_def)
qed

lemma sint_small:
  fixes x :: u32
  assumes "unat x < 2147483648"
  shows "sint x = int (unat x)"
proof -
  define k where "k = int (unat x)"
  have "0 \<le> k" "k < int 2147483648" using assms by (simp_all only: k_def of_nat_0_le_iff of_nat_less_iff)
  then have "signed_take_bit 31 k = k" by (intro signed_take_bit_int_eq_self) simp_all
  then show ?thesis by (simp add: k_def sint_uint)
qed

lemma get_protocol_list_ok:
  fixes k n :: nat
  assumes "k < length (protocols dev)" and "length (protocols dev) \<le> 16"
  defines "n \<equiv> length (protocols dev) - k"
  shows "\<exists>m'. get_protocol_list dev resp (int k) (int (length (protocols dev)) - int k) m = Some (int n, m')
    \<and> (\<forall>j<n. m' (resp + 4 + of_nat j) = pe_protocol_id (protocols dev ! (k + j)))
    \<and> mem_within (footprint (resp + 4) 16) (st32 m resp (of_nat n)) m'"
proof -
  have "\<exists>m'. put_protocols dev resp k 0 n (st32 m resp (of_nat n)) = Some m'
      \<and> (\<forall>j<n. m' (resp + 4 + of_nat (0 + j)) = pe_protocol_id (protocols dev ! (k + 0 + j)))
      \<and> mem_within (footprint (resp + 4 + of_nat 0) (16 - 0)) (st32 m resp (of_nat n)) m'"
    using assms by (intro put_protocols_ok) (simp_all add: n_def)
  moreover have "int (length (protocols dev)) - int k = int n" "0 < n" "int_fits (int n)"
    using assms by (simp_all add: n_def int_fits_def)
  ultimately show ?thesis
    by (auto simp: get_protocol_list_def)
qed

lemma get_protocol_list_past:
  assumes "get_protocol_list dev resp (sint (skip :: u32)) 0 m = Some (c, m')"
    and "length (protocols dev) \<le> unat skip"
  shows "c = 0 \<and> m' = st32 m resp 0"
  using assms by (auto simp: get_protocol_list_def Let_def split: if_splits)

lemma post_get_protocol_list [wp]:
  fixes skip :: u32
  assumes "length (protocols dev) \<le> 16"
    and "\<And>c m'. 0 \<le> c \<Longrightarrow> c \<le> 16 \<Longrightarrow> mem_within (footprint resp 20) m m' \<Longrightarrow> P (c, m')"
  shows "post P (get_protocol_list dev resp (sint skip)
     (if unat skip < length (protocols dev) then int (length (protocols dev)) - int (unat skip) else 0) m)"
proof (cases "unat skip < length (protocols dev)")
  case True
  define k n where "k = unat skip" and "n = length (protocols dev) - k"
  have sk: "sint skip = int k"
    unfolding k_def using True assms(1) by (intro sint_small) simp
  obtain m' where m': "get_protocol_list dev resp (int k) (int (length (protocols dev)) - int k) m = Some (int n, m')"
      "mem_within (footprint (resp + 4) 16) (st32 m resp (of_nat n)) m'"
    using get_protocol_list_ok [of k dev resp m] True assms(1) unfolding n_def k_def by blast
  have "mem_within (footprint resp 20) m (st32 m resp (of_nat n))"
    by (intro mem_within_st32 footprint_mono) simp
  moreover have "mem_within (footprint resp 20) (st32 m resp (of_nat n)) m'"
    using mem_within_mono [OF m'(2)] footprint_at [of "num.Bit0 (num.Bit0 num.One)" 16 20 resp] by simp
  ultimately have "mem_within (footprint resp 20) m m'" by (rule mem_within_trans)
  then have "P (int n, m')" using assms by (intro assms(2)) (simp_all add: n_def)
  then show ?thesis using True by (simp only: if_True sk k_def [symmetric] m'(1) post_Some)
next
  case False
  have "mem_within (footprint resp 20) m (st32 m resp 0)"
    by (intro mem_within_st32 footprint_mono) simp
  then show ?thesis
    using False get_protocol_list_past [of dev resp skip m] assms(2) by (auto simp: post_def)
qed

lemma list_bytes:
  assumes "0 \<le> c" and "c \<le> 16"
  shows "unat (12 + of_int ((c + 3) div 4) * 4 :: u64) = 12 + 4 * nat ((c + 3) div 4)"
    and "nat ((c + 3) div 4) \<le> 4"
proof -
  define q where "q = nat ((c + 3) div 4)"
  have q: "(c + 3) div 4 = int q" and le: "q \<le> 4" using assms by (simp_all add: q_def)
  have "(12 + of_int ((c + 3) div 4) * 4 :: u64) = of_nat (12 + 4 * q)" by (simp add: q)
  moreover have "unat (of_nat (12 + 4 * q) :: u64) = 12 + 4 * q"
    using le by (intro unat_of_nat_small) simp
  ultimately show "unat (12 + of_int ((c + 3) div 4) * 4 :: u64) = 12 + 4 * nat ((c + 3) div 4)"
    by (simp add: q_def)
  show "nat ((c + 3) div 4) \<le> 4" using le by (simp add: q_def)
qed

lemma list_answer_ok:
  assumes "ctx_ok ctx" and "28 \<le> unat (ctx_capacity ctx)" and "0 \<le> c" and "c \<le> 16"
    and "mem_within (footprint (ctx_base ctx + 8) 20)
           (resp_mem (w_mem w) (ctx_base ctx) (scmi_build_header protocol msg token) st) m"
  shows "scmi_ok d protocol msg token ctx w
     (0, ctx\<lparr>ctx_written := 12 + of_int ((c + 3) div 4) * 4\<rparr>, w\<lparr>w_mem := m\<rparr>)"
proof (rule scmi_ok_payload)
  show "mem_within (resp_payload ctx)
      (resp_mem (w_mem w) (ctx_base ctx) (scmi_build_header protocol msg token) st) m"
    by (rule mem_within_mono [OF assms(5)], rule footprint_mono) (use assms(2) in simp)
qed (use assms list_bytes [OF assms(3,4)] in \<open>simp_all add: word_le_nat_alt\<close>)

lemma handle_base_protocol_list_ok:
  assumes "ctx_ok ctx" and "length (protocols dev) \<le> 16"
  shows "post (scmi_ok dev 0x10 6 token ctx w) (handle_base_protocol_list dev token req ctx w)"
  unfolding handle_base_protocol_list_def Let_def using assms
  by (intro wp) (auto simp: scmi_ok_simps intro!: list_answer_ok)

lemma virtio_scmi_base_handle_req_ok:
  assumes "length (protocols dev) \<le> 16"
  shows "post (scmi_ok dev 0x10 msg token ctx w) (virtio_scmi_base_handle_req dev msg token req ctx w)"
proof (cases "ctx_ok ctx")
  case True
  note handlers = handle_base_version_ok handle_base_attributes_ok handle_base_error_notify_ok handle_base_impl_version_ok
    handle_base_discover_agent_ok handle_base_vendor_ok [of ctx dev False, unfolded vendor_msg_def]
    handle_base_vendor_ok [of ctx dev True, unfolded vendor_msg_def] handle_base_protocol_list_ok
  show ?thesis
    unfolding virtio_scmi_base_handle_req_def using True assms
    by (intro post_if) (simp_all add: handlers [simplified] post_Some scmi_ok_fail)
next
  case False
  then have "ctx_capacity ctx < 8 \<or> ctx_base ctx = 0"
    by (auto simp: ctx_ok_def word_less_nat_alt)
  then show ?thesis
    by (simp add: virtio_scmi_base_handle_req_def post_Some scmi_ok_fail)
qed

text \<open>
  C33: The protocol list is exact. For a request that skips fewer protocols than the device has and
  a response buffer of at least 28 bytes, the handler of DISCOVER_LIST_PROTOCOLS succeeds, the count
  it stores is the number of protocols that remain, the identifiers follow as consecutive bytes in
  registration order, and the reported length covers the count and the slots in use.
\<close>

theorem base_protocol_list_exact:
  assumes "length (protocols dev) \<le> 16" and "iov_base req \<noteq> 0" and "8 \<le> unat (iov_len req)"
    and "28 \<le> unat (ctx_capacity ctx)" and "ctx_base ctx \<noteq> 0" and "ctx_base ctx + 8 \<noteq> 0"
    and "unat (ld32 (w_mem w) (iov_base req + 4)) = skip" and "skip < length (protocols dev)"
  shows "\<exists>ctx' w'. virtio_scmi_base_handle_req dev SCMI_BASE_MSG_DISCOVER_LIST_PROTOCOLS token req ctx w = Some (0, ctx', w')
     \<and> ld32 (w_mem w') (ctx_base ctx + 8) = of_nat (length (protocols dev) - skip)
     \<and> (\<forall>j < length (protocols dev) - skip.
          w_mem w' (ctx_base ctx + 12 + of_nat j) = pe_protocol_id (protocols dev ! (skip + j)))
     \<and> unat (ctx_written ctx') = 12 + 4 * ((length (protocols dev) - skip + 3) div 4)"
proof -
  define n where "n = length (protocols dev) - skip"
  define m where "m = resp_mem (w_mem w) (ctx_base ctx) (scmi_build_header 0x10 6 token) 0"
  have sk: "sint (ld32 (w_mem w) (iov_base req + 4)) = int skip"
    using sint_small [of "ld32 (w_mem w) (iov_base req + 4)", unfolded assms(7)] assms(1,8) by linarith
  obtain m' where m': "get_protocol_list dev (ctx_base ctx + 8) (int skip) (int (length (protocols dev)) - int skip) m = Some (int n, m')"
      "\<And>j. j < n \<Longrightarrow> m' (ctx_base ctx + 8 + 4 + of_nat j) = pe_protocol_id (protocols dev ! (skip + j))"
      "mem_within (footprint (ctx_base ctx + 8 + 4) 16) (st32 m (ctx_base ctx + 8) (of_nat n)) m'"
    using get_protocol_list_ok [of skip dev "ctx_base ctx + 8" m] assms(1,8) unfolding n_def by blast
  have "virtio_scmi_base_handle_req dev SCMI_BASE_MSG_DISCOVER_LIST_PROTOCOLS token req ctx w =
      Some (0, ctx\<lparr>ctx_written := 12 + of_int ((int n + 3) div 4) * 4\<rparr>, w\<lparr>w_mem := m'\<rparr>)"
    using assms m'(1) sk
    by (simp add: virtio_scmi_base_handle_req_def handle_base_protocol_list_def scmi_validate_request_def req_u32_def
        scmi_make_response_def scmi_resp_write_def word_less_nat_alt m_def [symmetric] Let_def)
  moreover have "ld32 m' (ctx_base ctx + 8) = of_nat n"
  proof -
    have "ld32 m' (ctx_base ctx + 8) = ld32 (st32 m (ctx_base ctx + 8) (of_nat n)) (ctx_base ctx + 8)"
      using m'(3) apart_footprints [of "ctx_base ctx + 8" 4 "ctx_base ctx + 8 + 4" 16]
      by (intro ld32_cong) (auto simp: mem_within_def apart_def)
    then show ?thesis by simp
  qed
  moreover have "nat ((int n + 3) div 4) = (n + 3) div 4"
    by (simp add: nat_div_distrib)
  ultimately show ?thesis
    using m'(2) list_bytes [of "int n"] assms(1) unfolding n_def [symmetric]
    by (auto simp: add.assoc n_def)
qed

text \<open>A device with four protocols; the request skips one, and the answer is at 0x2000.\<close>

definition list_dev :: SCMIDev where
  "list_dev = \<lparr>clock_ids = Some [7], clock_count = 1, reset_ids = Some [3], reset_count = 1, power_ids = Some [5], power_count = 1,
     protocols = map (\<lambda>(i, h). \<lparr>pe_protocol_id = i, pe_handler = h\<rparr>)
       [(0x10, Base_Handler), (0x14, Clock_Handler), (0x11, Power_Handler), (0x16, Reset_Handler)]\<rparr>"

lemma base_protocol_list_exact_witness:
  "\<exists>ctx' w'. virtio_scmi_base_handle_req list_dev SCMI_BASE_MSG_DISCOVER_LIST_PROTOCOLS 9
       \<lparr>iov_base = 0x1000, iov_len = 8\<rparr> \<lparr>ctx_base = 0x2000, ctx_written = 0, ctx_capacity = 32\<rparr>
       (example_world\<lparr>w_mem := (\<lambda>_. 0)(0x1004 := 1)\<rparr>) = Some (0, ctx', w')
     \<and> ld32 (w_mem w') 0x2008 = 3 \<and> w_mem w' 0x200c = 0x14 \<and> w_mem w' 0x200d = 0x11 \<and> w_mem w' 0x200e = 0x16
     \<and> unat (ctx_written ctx') = 16"
proof -
  let ?w = "example_world\<lparr>w_mem := (\<lambda>_. 0)(0x1004 := 1)\<rparr>"
  let ?req = "\<lparr>iov_base = 0x1000, iov_len = 8\<rparr>" and ?ctx = "\<lparr>ctx_base = 0x2000, ctx_written = 0, ctx_capacity = 32\<rparr>"
  have skip: "unat (ld32 (w_mem ?w) (iov_base ?req + 4)) = 1" by code_simp
  obtain ctx' w' where r: "virtio_scmi_base_handle_req list_dev SCMI_BASE_MSG_DISCOVER_LIST_PROTOCOLS 9 ?req ?ctx ?w = Some (0, ctx', w')"
      "ld32 (w_mem w') 0x2008 = of_nat (length (protocols list_dev) - 1)"
      "\<And>j. j < 3 \<Longrightarrow> w_mem w' (0x200c + of_nat j) = pe_protocol_id (protocols list_dev ! (1 + j))"
      "unat (ctx_written ctx') = 12 + 4 * ((length (protocols list_dev) - 1 + 3) div 4)"
    using base_protocol_list_exact [OF _ _ _ _ _ _ skip, of list_dev ?ctx 9] by (auto simp: list_dev_def)
  from r(3) [of 0] r(3) [of 1] r(3) [of 2] r(1,2,4) show ?thesis
    by (auto simp: list_dev_def)
qed

end
