(* ===== verification/Scmi_Clock.thy ===== *)
theory Scmi_Clock
  imports Scmi_Core
begin

text \<open>
  The clock protocol (\<^verbatim>\<open>src/tools/virtio/devices/scmi/clock.c\<close>). A guest names a clock by its index in
  the array the zone was granted; only the physical identifier found there reaches the kernel. The
  values the kernel stores in the argument structure are taken in the order of its fields, a name
  as bytes.
\<close>

definition SCMI_CLOCK_VERSION :: u32 where [simp]: "SCMI_CLOCK_VERSION = 0x30000"
definition HVISOR_SCMI_CLOCK_GET_ATTRIBUTES :: u32 where [simp]: "HVISOR_SCMI_CLOCK_GET_ATTRIBUTES = 2"
definition HVISOR_SCMI_CLOCK_RATE_GET :: u32 where [simp]: "HVISOR_SCMI_CLOCK_RATE_GET = 4"
definition HVISOR_SCMI_CLOCK_RATE_SET :: u32 where [simp]: "HVISOR_SCMI_CLOCK_RATE_SET = 5"
definition HVISOR_SCMI_CLOCK_CONFIG_GET :: u32 where [simp]: "HVISOR_SCMI_CLOCK_CONFIG_GET = 6"
definition HVISOR_SCMI_CLOCK_CONFIG_SET :: u32 where [simp]: "HVISOR_SCMI_CLOCK_CONFIG_SET = 7"
definition HVISOR_SCMI_CLOCK_NAME_GET :: u32 where [simp]: "HVISOR_SCMI_CLOCK_NAME_GET = 8"
definition SCMI_CLOCK_MSG_CLK_ATTRIBUTES :: u8 where [simp]: "SCMI_CLOCK_MSG_CLK_ATTRIBUTES = 3"
definition SCMI_CLOCK_MSG_DESCRIBE_RATES :: u8 where [simp]: "SCMI_CLOCK_MSG_DESCRIBE_RATES = 4"
definition SCMI_CLOCK_MSG_RATE_SET :: u8 where [simp]: "SCMI_CLOCK_MSG_RATE_SET = 5"
definition SCMI_CLOCK_MSG_RATE_GET :: u8 where [simp]: "SCMI_CLOCK_MSG_RATE_GET = 6"
definition SCMI_CLOCK_MSG_CONFIG_SET :: u8 where [simp]: "SCMI_CLOCK_MSG_CONFIG_SET = 7"
definition SCMI_CLOCK_MSG_CONFIG_GET :: u8 where [simp]: "SCMI_CLOCK_MSG_CONFIG_GET = 8"
definition SCMI_CLOCK_MSG_NAME_GET :: u8 where [simp]: "SCMI_CLOCK_MSG_NAME_GET = 9"

definition clk_phys_id :: "SCMIDev \<Rightarrow> u32 \<Rightarrow> (bool \<times> u32) option" where
  "clk_phys_id dev clk_id = phys_id (clock_ids dev) (clock_count dev) clk_id"

section \<open>Handlers\<close>

definition handle_clock_version :: "SCMIDev \<Rightarrow> u16 \<Rightarrow> iovec \<Rightarrow> scmi_resp_ctx \<Rightarrow> world \<Rightarrow> (int \<times> scmi_resp_ctx \<times> world) option" where
  "handle_clock_version dev token req ctx w = do {
     let ret = scmi_validate_request (iov_len req) 4 (ctx_capacity ctx) (8 + 4);
     if ret \<noteq> SCMI_SUCCESS then Some (ret, ctx, w) else do {
       (_, ctx1, w1) \<leftarrow> scmi_make_response ctx SCMI_PROTO_ID_CLOCK SCMI_COMMON_MSG_VERSION token SCMI_SUCCESS w;
       (version, ctx2) \<leftarrow> scmi_resp_write ctx1 4;
       if version = 0 then Some (SCMI_ERR_PARAMS, ctx2, w1)
       else Some (0, ctx2, w1\<lparr>w_mem := st32 (w_mem w1) version SCMI_CLOCK_VERSION\<rparr>)
     }
   }"

definition handle_clock_protocol_attributes :: "SCMIDev \<Rightarrow> u16 \<Rightarrow> iovec \<Rightarrow> scmi_resp_ctx \<Rightarrow> world \<Rightarrow> (int \<times> scmi_resp_ctx \<times> world) option" where
  "handle_clock_protocol_attributes dev token req ctx w = do {
     let ret = scmi_validate_request (iov_len req) 4 (ctx_capacity ctx) (8 + 4);
     if ret \<noteq> SCMI_SUCCESS then Some (ret, ctx, w) else do {
       (_, ctx1, w1) \<leftarrow> scmi_make_response ctx SCMI_PROTO_ID_CLOCK SCMI_COMMON_MSG_PROTOCOL_ATTRIBUTES token SCMI_SUCCESS w;
       (attr, ctx2) \<leftarrow> scmi_resp_write ctx1 4;
       if attr = 0 then None
       else Some (0, ctx2, w1\<lparr>w_mem :=
         st8 (st8 (st16 (w_mem w1) attr (ucast (clock_count dev))) (attr + 2) 1) (attr + 3) 0\<rparr>)
     }
   }"

definition clock_attr_bits :: "sysret \<Rightarrow> u32" where
  "clock_attr_bits r = (if (ucast (s_val r 0) :: u32) \<noteq> 0 then 1 else 0) OR (if (ucast (s_val r 1) :: u32) \<noteq> - 1 then push_bit 28 1 else 0)"

definition handle_clock_clock_attributes :: "SCMIDev \<Rightarrow> u16 \<Rightarrow> iovec \<Rightarrow> scmi_resp_ctx \<Rightarrow> world \<Rightarrow> (int \<times> scmi_resp_ctx \<times> world) option" where
  "handle_clock_clock_attributes dev token req ctx w = 
     (if iov_len req < 4 + 4 then Some (SCMI_ERR_PARAMS, ctx, w) else do {
       clock_id \<leftarrow> req_u32 req 0 w;
       (valid, phys) \<leftarrow> clk_phys_id dev clock_id;
       if \<not> valid then scmi_make_response ctx SCMI_PROTO_ID_CLOCK SCMI_CLOCK_MSG_CLK_ATTRIBUTES token SCMI_ERR_ENTRY w
       else if ctx_capacity ctx < 8 + 20 then scmi_make_response ctx SCMI_PROTO_ID_CLOCK SCMI_CLOCK_MSG_CLK_ATTRIBUTES token SCMI_ERR_RANGE w
       else do {
         (ret, r, w1) \<leftarrow> hvisor_scmi_ioctl_cmd (Ioctl_Scmi_Clock HVISOR_SCMI_CLOCK_GET_ATTRIBUTES phys []) w;
         if ret < 0 then scmi_make_response ctx SCMI_PROTO_ID_CLOCK SCMI_CLOCK_MSG_CLK_ATTRIBUTES token SCMI_ERR_GENERIC w1
         else do {
           (_, ctx1, w2) \<leftarrow> scmi_make_response ctx SCMI_PROTO_ID_CLOCK SCMI_CLOCK_MSG_CLK_ATTRIBUTES token SCMI_SUCCESS w1;
           (attr, ctx2) \<leftarrow> scmi_resp_write ctx1 20;
           if attr = 0 then None
           else Some (0, ctx2, w2\<lparr>w_mem :=
             st8 (st_bytes (st32 (w_mem w2) attr (clock_attr_bits r)) (attr + 4) (strncpy (s_bytes r) 15)) (attr + 19) 0\<rparr>)
         }
       }
     })"

definition handle_clock_describe_rates :: "SCMIDev \<Rightarrow> u16 \<Rightarrow> iovec \<Rightarrow> scmi_resp_ctx \<Rightarrow> world \<Rightarrow> (int \<times> scmi_resp_ctx \<times> world) option" where
  "handle_clock_describe_rates dev token req ctx w = 
     (if iov_len req < 4 + 8 then Some (SCMI_ERR_PARAMS, ctx, w) else do {
       clock_id \<leftarrow> req_u32 req 0 w;
       (valid, _) \<leftarrow> clk_phys_id dev clock_id;
       rate_index \<leftarrow> req_u32 req 4 w;
       if \<not> valid then scmi_make_response ctx SCMI_PROTO_ID_CLOCK SCMI_CLOCK_MSG_DESCRIBE_RATES token SCMI_ERR_ENTRY w
       else if ctx_capacity ctx < 8 + 4 + 8 * 3 then scmi_make_response ctx SCMI_PROTO_ID_CLOCK SCMI_CLOCK_MSG_DESCRIBE_RATES token SCMI_ERR_RANGE w
       else if rate_index > 0 then scmi_make_response ctx SCMI_PROTO_ID_CLOCK SCMI_CLOCK_MSG_DESCRIBE_RATES token SCMI_ERR_RANGE w
       else do {
         (_, ctx1, w1) \<leftarrow> scmi_make_response ctx SCMI_PROTO_ID_CLOCK SCMI_CLOCK_MSG_DESCRIBE_RATES token SCMI_SUCCESS w;
         (payload, ctx2) \<leftarrow> scmi_resp_write ctx1 (4 + 8 * 3);
         if payload = 0 then None
         else Some (0, ctx2, w1\<lparr>w_mem :=
           st64 (st64 (st64 (st32 (w_mem w1) payload (push_bit 12 1 OR (3 AND 0xFFF)))
             (payload + 4) 0) (payload + 12) 10000000000) (payload + 20) 1\<rparr>)
       }
     })"

definition handle_clock_rate_get :: "SCMIDev \<Rightarrow> u16 \<Rightarrow> iovec \<Rightarrow> scmi_resp_ctx \<Rightarrow> world \<Rightarrow> (int \<times> scmi_resp_ctx \<times> world) option" where
  "handle_clock_rate_get dev token req ctx w = 
     (if iov_len req < 4 + 4 then Some (SCMI_ERR_PARAMS, ctx, w) else do {
       clock_id \<leftarrow> req_u32 req 0 w;
       (valid, phys) \<leftarrow> clk_phys_id dev clock_id;
       if \<not> valid then scmi_make_response ctx SCMI_PROTO_ID_CLOCK SCMI_CLOCK_MSG_RATE_GET token SCMI_ERR_ENTRY w
       else if ctx_capacity ctx < 8 + 8 then scmi_make_response ctx SCMI_PROTO_ID_CLOCK SCMI_CLOCK_MSG_RATE_GET token SCMI_ERR_RANGE w
       else do {
         (ret, r, w1) \<leftarrow> hvisor_scmi_ioctl_cmd (Ioctl_Scmi_Clock HVISOR_SCMI_CLOCK_RATE_GET phys []) w;
         if ret < 0 then scmi_make_response ctx SCMI_PROTO_ID_CLOCK SCMI_CLOCK_MSG_RATE_GET token SCMI_ERR_GENERIC w1
         else do {
           (_, ctx1, w2) \<leftarrow> scmi_make_response ctx SCMI_PROTO_ID_CLOCK SCMI_CLOCK_MSG_RATE_GET token SCMI_SUCCESS w1;
           (payload, ctx2) \<leftarrow> scmi_resp_write ctx1 8;
           if payload = 0 then Some (SCMI_ERR_PARAMS, ctx2, w2)
           else Some (0, ctx2, w2\<lparr>w_mem :=
             st32 (st32 (w_mem w2) payload (ucast (s_val r 0 AND 0xFFFFFFFF)))
               (payload + 4) (ucast (drop_bit 32 (s_val r 0) AND 0xFFFFFFFF))\<rparr>)
         }
       }
     })"

definition handle_clock_rate_set :: "SCMIDev \<Rightarrow> u16 \<Rightarrow> iovec \<Rightarrow> scmi_resp_ctx \<Rightarrow> world \<Rightarrow> (int \<times> scmi_resp_ctx \<times> world) option" where
  "handle_clock_rate_set dev token req ctx w = 
     (if iov_len req < 4 + 16 then Some (SCMI_ERR_PARAMS, ctx, w) else do {
       flags \<leftarrow> req_u32 req 0 w;
       clock_id \<leftarrow> req_u32 req 4 w;
       rate_low \<leftarrow> req_u32 req 8 w;
       rate_high \<leftarrow> req_u32 req 12 w;
       let requested_rate = push_bit 32 (ucast rate_high) OR ucast rate_low;
       (valid, phys) \<leftarrow> clk_phys_id dev clock_id;
       if \<not> valid then scmi_make_response ctx SCMI_PROTO_ID_CLOCK SCMI_CLOCK_MSG_RATE_SET token SCMI_ERR_ENTRY w
       else if flags AND 1 \<noteq> 0 then scmi_make_response ctx SCMI_PROTO_ID_CLOCK SCMI_CLOCK_MSG_RATE_SET token SCMI_ERR_SUPPORT w
       else do {
         (ret, r, w1) \<leftarrow> hvisor_scmi_ioctl_cmd
           (Ioctl_Scmi_Clock HVISOR_SCMI_CLOCK_RATE_SET phys [ucast flags, requested_rate]) w;
         if ret < 0 then scmi_make_response ctx SCMI_PROTO_ID_CLOCK SCMI_CLOCK_MSG_RATE_SET token SCMI_ERR_GENERIC w1
         else scmi_make_response ctx SCMI_PROTO_ID_CLOCK SCMI_CLOCK_MSG_RATE_SET token SCMI_SUCCESS w1
       }
     })"

definition handle_clock_config_get :: "SCMIDev \<Rightarrow> u16 \<Rightarrow> iovec \<Rightarrow> scmi_resp_ctx \<Rightarrow> world \<Rightarrow> (int \<times> scmi_resp_ctx \<times> world) option" where
  "handle_clock_config_get dev token req ctx w = 
     (if iov_len req < 4 + 8 then Some (SCMI_ERR_PARAMS, ctx, w) else do {
       clock_id \<leftarrow> req_u32 req 0 w;
       flags \<leftarrow> req_u32 req 4 w;
       (valid, phys) \<leftarrow> clk_phys_id dev clock_id;
       if \<not> valid then scmi_make_response ctx SCMI_PROTO_ID_CLOCK SCMI_CLOCK_MSG_CONFIG_GET token SCMI_ERR_ENTRY w
       else if flags AND 0xFF \<noteq> 0 then scmi_make_response ctx SCMI_PROTO_ID_CLOCK SCMI_CLOCK_MSG_CONFIG_GET token SCMI_ERR_PARAMS w
       else if ctx_capacity ctx < 8 + 12 then scmi_make_response ctx SCMI_PROTO_ID_CLOCK SCMI_CLOCK_MSG_CONFIG_GET token SCMI_ERR_RANGE w
       else do {
         (ret, r, w1) \<leftarrow> hvisor_scmi_ioctl_cmd (Ioctl_Scmi_Clock HVISOR_SCMI_CLOCK_CONFIG_GET phys [ucast flags]) w;
         if ret < 0 then scmi_make_response ctx SCMI_PROTO_ID_CLOCK SCMI_CLOCK_MSG_CONFIG_GET token SCMI_ERR_GENERIC w1
         else do {
           (_, ctx1, w2) \<leftarrow> scmi_make_response ctx SCMI_PROTO_ID_CLOCK SCMI_CLOCK_MSG_CONFIG_GET token SCMI_SUCCESS w1;
           (payload, ctx2) \<leftarrow> scmi_resp_write ctx1 (4 * 3);
           if payload = 0 then Some (SCMI_ERR_PARAMS, ctx2, w2)
           else Some (0, ctx2, w2\<lparr>w_mem :=
             st32 (st32 (st32 (w_mem w2) payload 0) (payload + 4) (ucast (s_val r 0))) (payload + 8) (ucast (s_val r 1))\<rparr>)
         }
       }
     })"

definition handle_clock_config_set :: "SCMIDev \<Rightarrow> u16 \<Rightarrow> iovec \<Rightarrow> scmi_resp_ctx \<Rightarrow> world \<Rightarrow> (int \<times> scmi_resp_ctx \<times> world) option" where
  "handle_clock_config_set dev token req ctx w = 
     (if iov_len req < 4 + 8 then Some (SCMI_ERR_PARAMS, ctx, w) else do {
       clock_id \<leftarrow> req_u32 req 0 w;
       (valid, phys) \<leftarrow> clk_phys_id dev clock_id;
       if \<not> valid then scmi_make_response ctx SCMI_PROTO_ID_CLOCK SCMI_CLOCK_MSG_CONFIG_SET token SCMI_ERR_ENTRY w
       else do {
         attributes \<leftarrow> req_u32 req 4 w;
         (ret, r, w1) \<leftarrow> hvisor_scmi_ioctl_cmd (Ioctl_Scmi_Clock HVISOR_SCMI_CLOCK_CONFIG_SET phys [ucast attributes]) w;
         if ret < 0 then scmi_make_response ctx SCMI_PROTO_ID_CLOCK SCMI_CLOCK_MSG_CONFIG_SET token SCMI_ERR_GENERIC w1
         else scmi_make_response ctx SCMI_PROTO_ID_CLOCK SCMI_CLOCK_MSG_CONFIG_SET token SCMI_SUCCESS w1
       }
     })"

definition handle_clock_name_get :: "SCMIDev \<Rightarrow> u16 \<Rightarrow> iovec \<Rightarrow> scmi_resp_ctx \<Rightarrow> world \<Rightarrow> (int \<times> scmi_resp_ctx \<times> world) option" where
  "handle_clock_name_get dev token req ctx w = 
     (if iov_len req < 4 + 4 then Some (SCMI_ERR_PARAMS, ctx, w) else do {
       clock_id \<leftarrow> req_u32 req 0 w;
       (valid, phys) \<leftarrow> clk_phys_id dev clock_id;
       if \<not> valid then scmi_make_response ctx SCMI_PROTO_ID_CLOCK SCMI_CLOCK_MSG_NAME_GET token SCMI_ERR_ENTRY w
       else if ctx_capacity ctx < 8 + (4 + 64) then scmi_make_response ctx SCMI_PROTO_ID_CLOCK SCMI_CLOCK_MSG_NAME_GET token SCMI_ERR_RANGE w
       else do {
         (ret, r, w1) \<leftarrow> hvisor_scmi_ioctl_cmd (Ioctl_Scmi_Clock HVISOR_SCMI_CLOCK_NAME_GET phys []) w;
         if ret < 0 then scmi_make_response ctx SCMI_PROTO_ID_CLOCK SCMI_CLOCK_MSG_NAME_GET token SCMI_ERR_GENERIC w1
         else do {
           (_, ctx1, w2) \<leftarrow> scmi_make_response ctx SCMI_PROTO_ID_CLOCK SCMI_CLOCK_MSG_NAME_GET token SCMI_SUCCESS w1;
           (flags, ctx2) \<leftarrow> scmi_resp_write ctx1 (4 + 64);
           if flags = 0 then None
           else Some (0, ctx2, w2\<lparr>w_mem :=
             st8 (st_bytes (st32 (w_mem w2) flags 0) (flags + 4) (strncpy (s_bytes r) 63)) (flags + 67) 0\<rparr>)
         }
       }
     })"

definition virtio_scmi_clock_handle_req :: scmi_fun where
  "virtio_scmi_clock_handle_req dev msg token req ctx w =
     (if ctx_capacity ctx < 8 \<or> ctx_base ctx = 0 then Some (SCMI_ERR_PARAMS, ctx, w)
      else if msg = SCMI_COMMON_MSG_VERSION then handle_clock_version dev token req ctx w
      else if msg = SCMI_COMMON_MSG_PROTOCOL_ATTRIBUTES then handle_clock_protocol_attributes dev token req ctx w
      else if msg = SCMI_CLOCK_MSG_CLK_ATTRIBUTES then handle_clock_clock_attributes dev token req ctx w
      else if msg = SCMI_CLOCK_MSG_DESCRIBE_RATES then handle_clock_describe_rates dev token req ctx w
      else if msg = SCMI_CLOCK_MSG_RATE_SET then handle_clock_rate_set dev token req ctx w
      else if msg = SCMI_CLOCK_MSG_RATE_GET then handle_clock_rate_get dev token req ctx w
      else if msg = SCMI_CLOCK_MSG_CONFIG_SET then handle_clock_config_set dev token req ctx w
      else if msg = SCMI_CLOCK_MSG_CONFIG_GET then handle_clock_config_get dev token req ctx w
      else if msg = SCMI_CLOCK_MSG_NAME_GET then handle_clock_name_get dev token req ctx w
      else Some (SCMI_ERR_SUPPORT, ctx, w))"

section \<open>Every handler answers in its buffer and asks only for granted clocks\<close>

lemma handle_clock_version_ok [wp]:
  assumes "ctx_ok ctx"
  shows "post (scmi_ok dev 0x14 0 token ctx w) (handle_clock_version dev token req ctx w)"
  unfolding handle_clock_version_def clk_phys_id_def using assms
  by (intro wp) (auto simp: scmi_ok_simps intro!: scmi_ok_intros del: subsetI)

lemma handle_clock_protocol_attributes_ok [wp]:
  assumes "ctx_ok ctx"
  shows "post (scmi_ok dev 0x14 1 token ctx w) (handle_clock_protocol_attributes dev token req ctx w)"
  unfolding handle_clock_protocol_attributes_def clk_phys_id_def using assms
  by (intro wp) (auto simp: scmi_ok_simps intro!: scmi_ok_intros del: subsetI)

lemma handle_clock_clock_attributes_ok [wp]:
  assumes "ctx_ok ctx"
  shows "post (scmi_ok dev 0x14 3 token ctx w) (handle_clock_clock_attributes dev token req ctx w)"
  unfolding handle_clock_clock_attributes_def clk_phys_id_def using assms
  by (intro wp) (auto simp: scmi_ok_simps intro!: scmi_ok_intros del: subsetI)

lemma handle_clock_describe_rates_ok [wp]:
  assumes "ctx_ok ctx"
  shows "post (scmi_ok dev 0x14 4 token ctx w) (handle_clock_describe_rates dev token req ctx w)"
  unfolding handle_clock_describe_rates_def clk_phys_id_def using assms
  by (intro wp) (auto simp: scmi_ok_simps intro!: scmi_ok_intros del: subsetI)

lemma handle_clock_rate_set_ok [wp]:
  assumes "ctx_ok ctx"
  shows "post (scmi_ok dev 0x14 5 token ctx w) (handle_clock_rate_set dev token req ctx w)"
  unfolding handle_clock_rate_set_def clk_phys_id_def using assms
  by (intro wp) (auto simp: scmi_ok_simps intro!: scmi_ok_intros del: subsetI)

lemma handle_clock_rate_get_ok [wp]:
  assumes "ctx_ok ctx"
  shows "post (scmi_ok dev 0x14 6 token ctx w) (handle_clock_rate_get dev token req ctx w)"
  unfolding handle_clock_rate_get_def clk_phys_id_def using assms
  by (intro wp) (auto simp: scmi_ok_simps intro!: scmi_ok_intros del: subsetI)

lemma handle_clock_config_set_ok [wp]:
  assumes "ctx_ok ctx"
  shows "post (scmi_ok dev 0x14 7 token ctx w) (handle_clock_config_set dev token req ctx w)"
  unfolding handle_clock_config_set_def clk_phys_id_def using assms
  by (intro wp) (auto simp: scmi_ok_simps intro!: scmi_ok_intros del: subsetI)

lemma handle_clock_config_get_ok [wp]:
  assumes "ctx_ok ctx"
  shows "post (scmi_ok dev 0x14 8 token ctx w) (handle_clock_config_get dev token req ctx w)"
  unfolding handle_clock_config_get_def clk_phys_id_def using assms
  by (intro wp) (auto simp: scmi_ok_simps intro!: scmi_ok_intros del: subsetI)

lemma handle_clock_name_get_ok [wp]:
  assumes "ctx_ok ctx"
  shows "post (scmi_ok dev 0x14 9 token ctx w) (handle_clock_name_get dev token req ctx w)"
  unfolding handle_clock_name_get_def clk_phys_id_def using assms
  by (intro wp) (auto simp: scmi_ok_simps intro!: scmi_ok_intros del: subsetI)

lemma virtio_scmi_clock_handle_req_ok:
  "post (scmi_ok dev 0x14 msg token ctx w) (virtio_scmi_clock_handle_req dev msg token req ctx w)"
proof (cases "ctx_ok ctx")
  case True
  note handlers = handle_clock_version_ok handle_clock_protocol_attributes_ok handle_clock_clock_attributes_ok handle_clock_describe_rates_ok handle_clock_rate_set_ok handle_clock_rate_get_ok handle_clock_config_set_ok handle_clock_config_get_ok handle_clock_name_get_ok
  show ?thesis
    unfolding virtio_scmi_clock_handle_req_def
    by (intro post_if) (simp_all add: handlers [OF True] post_Some scmi_ok_fail)
next
  case False
  then have "ctx_capacity ctx < 8 \<or> ctx_base ctx = 0"
    by (auto simp: ctx_ok_def word_less_nat_alt)
  then show ?thesis
    by (simp add: virtio_scmi_clock_handle_req_def post_Some scmi_ok_fail)
qed

end
