(* ===== verification/Scmi_Power.thy ===== *)
theory Scmi_Power
  imports Scmi_Core
begin

text \<open>The power domain protocol (\<^verbatim>\<open>src/tools/virtio/devices/scmi/power.c\<close>).\<close>

definition SCMI_POWER_VERSION :: u32 where [simp]: "SCMI_POWER_VERSION = 0x20000"
definition HVISOR_SCMI_POWER_GET_ATTRIBUTES :: u32 where [simp]: "HVISOR_SCMI_POWER_GET_ATTRIBUTES = 2"
definition HVISOR_SCMI_POWER_STATE_SET :: u32 where [simp]: "HVISOR_SCMI_POWER_STATE_SET = 3"
definition HVISOR_SCMI_POWER_STATE_GET :: u32 where [simp]: "HVISOR_SCMI_POWER_STATE_GET = 4"
definition SCMI_POWER_MSG_POWER_DOMAIN_ATTRIBUTES :: u8 where [simp]: "SCMI_POWER_MSG_POWER_DOMAIN_ATTRIBUTES = 3"
definition SCMI_POWER_MSG_POWER_STATE_SET :: u8 where [simp]: "SCMI_POWER_MSG_POWER_STATE_SET = 4"
definition SCMI_POWER_MSG_POWER_STATE_GET :: u8 where [simp]: "SCMI_POWER_MSG_POWER_STATE_GET = 5"
definition SCMI_POWER_MSG_POWER_STATE_NOTIFY :: u8 where [simp]: "SCMI_POWER_MSG_POWER_STATE_NOTIFY = 6"

definition pwr_phys_id :: "SCMIDev \<Rightarrow> u32 \<Rightarrow> (bool \<times> u32) option" where
  "pwr_phys_id dev dom_id = phys_id (power_ids dev) (power_count dev) dom_id"

section \<open>Handlers\<close>

definition handle_power_version :: "SCMIDev \<Rightarrow> u16 \<Rightarrow> iovec \<Rightarrow> scmi_resp_ctx \<Rightarrow> world \<Rightarrow> (int \<times> scmi_resp_ctx \<times> world) option" where
  "handle_power_version dev token req ctx w = do {
     let ret = scmi_validate_request (iov_len req) 4 (ctx_capacity ctx) (8 + 4);
     if ret \<noteq> SCMI_SUCCESS then Some (ret, ctx, w) else do {
       (_, ctx1, w1) \<leftarrow> scmi_make_response ctx SCMI_PROTO_ID_POWER SCMI_COMMON_MSG_VERSION token SCMI_SUCCESS w;
       (version, ctx2) \<leftarrow> scmi_resp_write ctx1 4;
       if version = 0 then Some (SCMI_ERR_PARAMS, ctx2, w1)
       else Some (0, ctx2, w1\<lparr>w_mem := st32 (w_mem w1) version SCMI_POWER_VERSION\<rparr>)
     }
   }"

definition handle_power_protocol_attributes :: "SCMIDev \<Rightarrow> u16 \<Rightarrow> iovec \<Rightarrow> scmi_resp_ctx \<Rightarrow> world \<Rightarrow> (int \<times> scmi_resp_ctx \<times> world) option" where
  "handle_power_protocol_attributes dev token req ctx w = do {
     let ret = scmi_validate_request (iov_len req) 4 (ctx_capacity ctx) (8 + 4);
     if ret \<noteq> SCMI_SUCCESS then Some (ret, ctx, w) else do {
       (_, ctx1, w1) \<leftarrow> scmi_make_response ctx SCMI_PROTO_ID_POWER SCMI_COMMON_MSG_PROTOCOL_ATTRIBUTES token SCMI_SUCCESS w;
       (attributes, ctx2) \<leftarrow> scmi_resp_write ctx1 4;
       if attributes = 0 then Some (SCMI_ERR_PARAMS, ctx2, w1)
       else Some (0, ctx2, w1\<lparr>w_mem := st32 (w_mem w1) attributes (power_count dev AND 0xFFFF)\<rparr>)
     }
   }"

definition handle_power_domain_attributes :: "SCMIDev \<Rightarrow> u16 \<Rightarrow> iovec \<Rightarrow> scmi_resp_ctx \<Rightarrow> world \<Rightarrow> (int \<times> scmi_resp_ctx \<times> world) option" where
  "handle_power_domain_attributes dev token req ctx w = 
     (if iov_len req < 4 + 4 then Some (SCMI_ERR_PARAMS, ctx, w) else do {
       domain_id \<leftarrow> req_u32 req 0 w;
       (valid, phys) \<leftarrow> pwr_phys_id dev domain_id;
       if \<not> valid then scmi_make_response ctx SCMI_PROTO_ID_POWER SCMI_POWER_MSG_POWER_DOMAIN_ATTRIBUTES token SCMI_ERR_ENTRY w
       else if ctx_capacity ctx < 8 + 20 then scmi_make_response ctx SCMI_PROTO_ID_POWER SCMI_POWER_MSG_POWER_DOMAIN_ATTRIBUTES token SCMI_ERR_RANGE w
       else do {
         (ret, r, w1) \<leftarrow> hvisor_scmi_ioctl_cmd (Ioctl_Scmi_Power HVISOR_SCMI_POWER_GET_ATTRIBUTES phys []) w;
         if ret < 0 then scmi_make_response ctx SCMI_PROTO_ID_POWER SCMI_POWER_MSG_POWER_DOMAIN_ATTRIBUTES token SCMI_ERR_GENERIC w1
         else do {
           (_, ctx1, w2) \<leftarrow> scmi_make_response ctx SCMI_PROTO_ID_POWER SCMI_POWER_MSG_POWER_DOMAIN_ATTRIBUTES token SCMI_SUCCESS w1;
           (attr, ctx2) \<leftarrow> scmi_resp_write ctx1 20;
           if attr = 0 then None
           else Some (0, ctx2, w2\<lparr>w_mem :=
             st8 (st_bytes (st32 (w_mem w2) attr (push_bit 29 1)) (attr + 4) (strncpy (s_bytes r) 15)) (attr + 19) 0\<rparr>)
         }
       }
     })"

definition handle_power_state_set :: "SCMIDev \<Rightarrow> u16 \<Rightarrow> iovec \<Rightarrow> scmi_resp_ctx \<Rightarrow> world \<Rightarrow> (int \<times> scmi_resp_ctx \<times> world) option" where
  "handle_power_state_set dev token req ctx w = 
     (if iov_len req < 4 + 12 then Some (SCMI_ERR_PARAMS, ctx, w) else do {
       flags \<leftarrow> req_u32 req 0 w;
       domain_id \<leftarrow> req_u32 req 4 w;
       power_state \<leftarrow> req_u32 req 8 w;
       (valid, phys) \<leftarrow> pwr_phys_id dev domain_id;
       if \<not> valid then scmi_make_response ctx SCMI_PROTO_ID_POWER SCMI_POWER_MSG_POWER_STATE_SET token SCMI_ERR_ENTRY w
       else if flags AND 1 \<noteq> 0 then scmi_make_response ctx SCMI_PROTO_ID_POWER SCMI_POWER_MSG_POWER_STATE_SET token SCMI_ERR_SUPPORT w
       else do {
         (ret, r, w1) \<leftarrow> hvisor_scmi_ioctl_cmd (Ioctl_Scmi_Power HVISOR_SCMI_POWER_STATE_SET phys [ucast power_state]) w;
         if ret < 0 then scmi_make_response ctx SCMI_PROTO_ID_POWER SCMI_POWER_MSG_POWER_STATE_SET token SCMI_ERR_GENERIC w1
         else scmi_make_response ctx SCMI_PROTO_ID_POWER SCMI_POWER_MSG_POWER_STATE_SET token SCMI_SUCCESS w1
       }
     })"

definition handle_power_state_get :: "SCMIDev \<Rightarrow> u16 \<Rightarrow> iovec \<Rightarrow> scmi_resp_ctx \<Rightarrow> world \<Rightarrow> (int \<times> scmi_resp_ctx \<times> world) option" where
  "handle_power_state_get dev token req ctx w = 
     (if iov_len req < 4 + 4 then Some (SCMI_ERR_PARAMS, ctx, w) else do {
       domain_id \<leftarrow> req_u32 req 0 w;
       (valid, phys) \<leftarrow> pwr_phys_id dev domain_id;
       if \<not> valid then scmi_make_response ctx SCMI_PROTO_ID_POWER SCMI_POWER_MSG_POWER_STATE_GET token SCMI_ERR_ENTRY w
       else if ctx_capacity ctx < 8 + 4 then scmi_make_response ctx SCMI_PROTO_ID_POWER SCMI_POWER_MSG_POWER_STATE_GET token SCMI_ERR_RANGE w
       else do {
         (ret, r, w1) \<leftarrow> hvisor_scmi_ioctl_cmd (Ioctl_Scmi_Power HVISOR_SCMI_POWER_STATE_GET phys []) w;
         if ret < 0 then scmi_make_response ctx SCMI_PROTO_ID_POWER SCMI_POWER_MSG_POWER_STATE_GET token SCMI_ERR_GENERIC w1
         else do {
           (_, ctx1, w2) \<leftarrow> scmi_make_response ctx SCMI_PROTO_ID_POWER SCMI_POWER_MSG_POWER_STATE_GET token SCMI_SUCCESS w1;
           (state, ctx2) \<leftarrow> scmi_resp_write ctx1 4;
           if state = 0 then Some (SCMI_ERR_PARAMS, ctx2, w2)
           else Some (0, ctx2, w2\<lparr>w_mem := st32 (w_mem w2) state (ucast (s_val r 0))\<rparr>)
         }
       }
     })"

definition handle_power_state_notify :: "SCMIDev \<Rightarrow> u16 \<Rightarrow> iovec \<Rightarrow> scmi_resp_ctx \<Rightarrow> world \<Rightarrow> (int \<times> scmi_resp_ctx \<times> world) option" where
  "handle_power_state_notify dev token req ctx w = 
     scmi_make_response ctx SCMI_PROTO_ID_POWER SCMI_POWER_MSG_POWER_STATE_NOTIFY token SCMI_ERR_SUPPORT w"

definition virtio_scmi_power_handle_req :: scmi_fun where
  "virtio_scmi_power_handle_req dev msg token req ctx w =
     (if ctx_capacity ctx < 8 \<or> ctx_base ctx = 0 then Some (SCMI_ERR_PARAMS, ctx, w)
      else if msg = SCMI_COMMON_MSG_VERSION then handle_power_version dev token req ctx w
      else if msg = SCMI_COMMON_MSG_PROTOCOL_ATTRIBUTES then handle_power_protocol_attributes dev token req ctx w
      else if msg = SCMI_COMMON_MSG_MESSAGE_ATTRIBUTES then scmi_make_response ctx SCMI_PROTO_ID_POWER msg token SCMI_ERR_SUPPORT w
      else if msg = SCMI_POWER_MSG_POWER_DOMAIN_ATTRIBUTES then handle_power_domain_attributes dev token req ctx w
      else if msg = SCMI_POWER_MSG_POWER_STATE_SET then handle_power_state_set dev token req ctx w
      else if msg = SCMI_POWER_MSG_POWER_STATE_GET then handle_power_state_get dev token req ctx w
      else if msg = SCMI_POWER_MSG_POWER_STATE_NOTIFY then handle_power_state_notify dev token req ctx w
      else Some (SCMI_ERR_SUPPORT, ctx, w))"

section \<open>Every handler answers in its buffer and asks only for granted domains\<close>

lemma handle_power_version_ok [wp]:
  assumes "ctx_ok ctx"
  shows "post (scmi_ok dev 0x11 0 token ctx w) (handle_power_version dev token req ctx w)"
  unfolding handle_power_version_def pwr_phys_id_def using assms
  by (intro wp) (auto simp: scmi_ok_simps intro!: scmi_ok_intros del: subsetI)

lemma handle_power_protocol_attributes_ok [wp]:
  assumes "ctx_ok ctx"
  shows "post (scmi_ok dev 0x11 1 token ctx w) (handle_power_protocol_attributes dev token req ctx w)"
  unfolding handle_power_protocol_attributes_def pwr_phys_id_def using assms
  by (intro wp) (auto simp: scmi_ok_simps intro!: scmi_ok_intros del: subsetI)

lemma handle_power_domain_attributes_ok [wp]:
  assumes "ctx_ok ctx"
  shows "post (scmi_ok dev 0x11 3 token ctx w) (handle_power_domain_attributes dev token req ctx w)"
  unfolding handle_power_domain_attributes_def pwr_phys_id_def using assms
  by (intro wp) (auto simp: scmi_ok_simps intro!: scmi_ok_intros del: subsetI)

lemma handle_power_state_set_ok [wp]:
  assumes "ctx_ok ctx"
  shows "post (scmi_ok dev 0x11 4 token ctx w) (handle_power_state_set dev token req ctx w)"
  unfolding handle_power_state_set_def pwr_phys_id_def using assms
  by (intro wp) (auto simp: scmi_ok_simps intro!: scmi_ok_intros del: subsetI)

lemma handle_power_state_get_ok [wp]:
  assumes "ctx_ok ctx"
  shows "post (scmi_ok dev 0x11 5 token ctx w) (handle_power_state_get dev token req ctx w)"
  unfolding handle_power_state_get_def pwr_phys_id_def using assms
  by (intro wp) (auto simp: scmi_ok_simps intro!: scmi_ok_intros del: subsetI)

lemma handle_power_state_notify_ok [wp]:
  assumes "ctx_ok ctx"
  shows "post (scmi_ok dev 0x11 6 token ctx w) (handle_power_state_notify dev token req ctx w)"
  unfolding handle_power_state_notify_def pwr_phys_id_def using assms
  by (intro wp) (auto simp: scmi_ok_simps intro!: scmi_ok_intros del: subsetI)

lemma message_attributes_ok:
  assumes "ctx_ok ctx"
  shows "post (scmi_ok dev 0x11 msg token ctx w) (scmi_make_response ctx 0x11 msg token (- 1) w)"
  using assms by (intro wp) (auto simp: scmi_ok_simps intro!: scmi_ok_intros del: subsetI)

lemma virtio_scmi_power_handle_req_ok:
  "post (scmi_ok dev 0x11 msg token ctx w) (virtio_scmi_power_handle_req dev msg token req ctx w)"
proof (cases "ctx_ok ctx")
  case True
  note handlers = message_attributes_ok handle_power_version_ok handle_power_protocol_attributes_ok handle_power_domain_attributes_ok handle_power_state_set_ok handle_power_state_get_ok handle_power_state_notify_ok
  show ?thesis
    unfolding virtio_scmi_power_handle_req_def
    by (intro post_if) (simp_all add: handlers [OF True] post_Some scmi_ok_fail)
next
  case False
  then have "ctx_capacity ctx < 8 \<or> ctx_base ctx = 0"
    by (auto simp: ctx_ok_def word_less_nat_alt)
  then show ?thesis
    by (simp add: virtio_scmi_power_handle_req_def post_Some scmi_ok_fail)
qed

end
