(* ===== verification/Scmi_Reset.thy ===== *)
theory Scmi_Reset
  imports Scmi_Core Json
begin

text \<open>The reset domain protocol (\<^verbatim>\<open>src/tools/virtio/devices/scmi/reset.c\<close>).\<close>

definition SCMI_RESET_VERSION :: u32 where [simp]: "SCMI_RESET_VERSION = 0x20000"
definition HVISOR_SCMI_RESET_RESET :: u32 where [simp]: "HVISOR_SCMI_RESET_RESET = 2"
definition SCMI_RESET_MSG_RESET_ATTRIBUTES :: u8 where [simp]: "SCMI_RESET_MSG_RESET_ATTRIBUTES = 3"
definition SCMI_RESET_MSG_RESET :: u8 where [simp]: "SCMI_RESET_MSG_RESET = 4"
definition SCMI_RESET_MSG_RESET_NOTIFY :: u8 where [simp]: "SCMI_RESET_MSG_RESET_NOTIFY = 5"

definition rst_phys_id :: "SCMIDev \<Rightarrow> u32 \<Rightarrow> (bool \<times> u32) option" where
  "rst_phys_id dev rst_id = phys_id (reset_ids dev) (reset_count dev) rst_id"

text \<open>The name of a domain, as \<open>snprintf\<close> with a size of 15 and the format \<open>rst_%u\<close> leaves it.\<close>

definition reset_name :: "u32 \<Rightarrow> u8 list" where
  "reset_name i = take 14 (c_chars (''rst_'' @ to_digits 10 (unat i))) @ [0]"

section \<open>Handlers\<close>

definition handle_reset_version :: "SCMIDev \<Rightarrow> u16 \<Rightarrow> iovec \<Rightarrow> scmi_resp_ctx \<Rightarrow> world \<Rightarrow> (int \<times> scmi_resp_ctx \<times> world) option" where
  "handle_reset_version dev token req ctx w = do {
     let ret = scmi_validate_request (iov_len req) 4 (ctx_capacity ctx) (8 + 4);
     if ret \<noteq> SCMI_SUCCESS then Some (ret, ctx, w) else do {
       (_, ctx1, w1) \<leftarrow> scmi_make_response ctx SCMI_PROTO_ID_RESET SCMI_COMMON_MSG_VERSION token SCMI_SUCCESS w;
       (version, ctx2) \<leftarrow> scmi_resp_write ctx1 4;
       if version = 0 then Some (SCMI_ERR_PARAMS, ctx2, w1)
       else Some (0, ctx2, w1\<lparr>w_mem := st32 (w_mem w1) version SCMI_RESET_VERSION\<rparr>)
     }
   }"

definition handle_reset_protocol_attributes :: "SCMIDev \<Rightarrow> u16 \<Rightarrow> iovec \<Rightarrow> scmi_resp_ctx \<Rightarrow> world \<Rightarrow> (int \<times> scmi_resp_ctx \<times> world) option" where
  "handle_reset_protocol_attributes dev token req ctx w = do {
     let ret = scmi_validate_request (iov_len req) 4 (ctx_capacity ctx) (8 + 4);
     if ret \<noteq> SCMI_SUCCESS then Some (ret, ctx, w) else do {
       (_, ctx1, w1) \<leftarrow> scmi_make_response ctx SCMI_PROTO_ID_RESET SCMI_COMMON_MSG_PROTOCOL_ATTRIBUTES token SCMI_SUCCESS w;
       (attributes, ctx2) \<leftarrow> scmi_resp_write ctx1 4;
       if attributes = 0 then Some (SCMI_ERR_PARAMS, ctx2, w1)
       else Some (0, ctx2, w1\<lparr>w_mem := st32 (w_mem w1) attributes (reset_count dev AND 0xFFFF)\<rparr>)
     }
   }"

definition handle_reset_attributes :: "SCMIDev \<Rightarrow> u16 \<Rightarrow> iovec \<Rightarrow> scmi_resp_ctx \<Rightarrow> world \<Rightarrow> (int \<times> scmi_resp_ctx \<times> world) option" where
  "handle_reset_attributes dev token req ctx w = 
     (if iov_len req < 4 + 4 then Some (SCMI_ERR_PARAMS, ctx, w) else do {
       domain_id \<leftarrow> req_u32 req 0 w;
       (valid, phys) \<leftarrow> rst_phys_id dev domain_id;
       if \<not> valid then scmi_make_response ctx SCMI_PROTO_ID_RESET SCMI_RESET_MSG_RESET_ATTRIBUTES token SCMI_ERR_ENTRY w
       else if ctx_capacity ctx < 8 + 24 then scmi_make_response ctx SCMI_PROTO_ID_RESET SCMI_RESET_MSG_RESET_ATTRIBUTES token SCMI_ERR_RANGE w
       else do {
         (_, ctx1, w1) \<leftarrow> scmi_make_response ctx SCMI_PROTO_ID_RESET SCMI_RESET_MSG_RESET_ATTRIBUTES token SCMI_SUCCESS w;
         (attr, ctx2) \<leftarrow> scmi_resp_write ctx1 24;
         if attr = 0 then None
         else Some (0, ctx2, w1\<lparr>w_mem :=
           st8 (st_bytes (st32 (st32 (w_mem w1) attr 0) (attr + 4) 100) (attr + 8) (reset_name phys)) (attr + 23) 0\<rparr>)
       }
     })"

definition handle_reset :: "SCMIDev \<Rightarrow> u16 \<Rightarrow> iovec \<Rightarrow> scmi_resp_ctx \<Rightarrow> world \<Rightarrow> (int \<times> scmi_resp_ctx \<times> world) option" where
  "handle_reset dev token req ctx w = 
     (if iov_len req < 4 + 12 then Some (SCMI_ERR_PARAMS, ctx, w) else do {
       domain_id \<leftarrow> req_u32 req 0 w;
       flags \<leftarrow> req_u32 req 4 w;
       reset_state \<leftarrow> req_u32 req 8 w;
       (valid, phys) \<leftarrow> rst_phys_id dev domain_id;
       if \<not> valid then scmi_make_response ctx SCMI_PROTO_ID_RESET SCMI_RESET_MSG_RESET token SCMI_ERR_ENTRY w
       else if flags AND push_bit 2 1 \<noteq> 0 then scmi_make_response ctx SCMI_PROTO_ID_RESET SCMI_RESET_MSG_RESET token SCMI_ERR_SUPPORT w
       else do {
         (ret, r, w1) \<leftarrow> hvisor_scmi_ioctl_cmd
           (Ioctl_Scmi_Reset HVISOR_SCMI_RESET_RESET phys [ucast flags, ucast reset_state]) w;
         if ret < 0 then scmi_make_response ctx SCMI_PROTO_ID_RESET SCMI_RESET_MSG_RESET token SCMI_ERR_GENERIC w1
         else scmi_make_response ctx SCMI_PROTO_ID_RESET SCMI_RESET_MSG_RESET token SCMI_SUCCESS w1
       }
     })"

definition handle_reset_notify :: "SCMIDev \<Rightarrow> u16 \<Rightarrow> iovec \<Rightarrow> scmi_resp_ctx \<Rightarrow> world \<Rightarrow> (int \<times> scmi_resp_ctx \<times> world) option" where
  "handle_reset_notify dev token req ctx w = 
     scmi_make_response ctx SCMI_PROTO_ID_RESET SCMI_RESET_MSG_RESET_NOTIFY token SCMI_ERR_SUPPORT w"

definition virtio_scmi_reset_handle_req :: scmi_fun where
  "virtio_scmi_reset_handle_req dev msg token req ctx w =
     (if ctx_capacity ctx < 8 \<or> ctx_base ctx = 0 then Some (SCMI_ERR_PARAMS, ctx, w)
      else if msg = SCMI_COMMON_MSG_VERSION then handle_reset_version dev token req ctx w
      else if msg = SCMI_COMMON_MSG_PROTOCOL_ATTRIBUTES then handle_reset_protocol_attributes dev token req ctx w
      else if msg = SCMI_RESET_MSG_RESET_ATTRIBUTES then handle_reset_attributes dev token req ctx w
      else if msg = SCMI_RESET_MSG_RESET then handle_reset dev token req ctx w
      else if msg = SCMI_RESET_MSG_RESET_NOTIFY then handle_reset_notify dev token req ctx w
      else Some (SCMI_ERR_SUPPORT, ctx, w))"

section \<open>Every handler answers in its buffer and asks only for granted domains\<close>

lemma length_reset_name: "31 \<le> k \<Longrightarrow> 16 + length (reset_name i) \<le> k"
  by (simp add: reset_name_def)

lemma handle_reset_version_ok [wp]:
  assumes "ctx_ok ctx"
  shows "post (scmi_ok dev 0x16 0 token ctx w) (handle_reset_version dev token req ctx w)"
  unfolding handle_reset_version_def rst_phys_id_def using assms
  by (intro wp) (auto simp: scmi_ok_simps intro!: scmi_ok_intros del: subsetI)

lemma handle_reset_protocol_attributes_ok [wp]:
  assumes "ctx_ok ctx"
  shows "post (scmi_ok dev 0x16 1 token ctx w) (handle_reset_protocol_attributes dev token req ctx w)"
  unfolding handle_reset_protocol_attributes_def rst_phys_id_def using assms
  by (intro wp) (auto simp: scmi_ok_simps intro!: scmi_ok_intros del: subsetI)

lemma handle_reset_attributes_ok [wp]:
  assumes "ctx_ok ctx"
  shows "post (scmi_ok dev 0x16 3 token ctx w) (handle_reset_attributes dev token req ctx w)"
  unfolding handle_reset_attributes_def rst_phys_id_def using assms
  by (intro wp) (auto simp: scmi_ok_simps length_reset_name intro!: scmi_ok_intros del: subsetI)

lemma handle_reset_ok [wp]:
  assumes "ctx_ok ctx"
  shows "post (scmi_ok dev 0x16 4 token ctx w) (handle_reset dev token req ctx w)"
  unfolding handle_reset_def rst_phys_id_def using assms
  by (intro wp) (auto simp: scmi_ok_simps intro!: scmi_ok_intros del: subsetI)

lemma handle_reset_notify_ok [wp]:
  assumes "ctx_ok ctx"
  shows "post (scmi_ok dev 0x16 5 token ctx w) (handle_reset_notify dev token req ctx w)"
  unfolding handle_reset_notify_def rst_phys_id_def using assms
  by (intro wp) (auto simp: scmi_ok_simps intro!: scmi_ok_intros del: subsetI)

lemma virtio_scmi_reset_handle_req_ok:
  "post (scmi_ok dev 0x16 msg token ctx w) (virtio_scmi_reset_handle_req dev msg token req ctx w)"
proof (cases "ctx_ok ctx")
  case True
  note handlers = handle_reset_version_ok handle_reset_protocol_attributes_ok handle_reset_attributes_ok handle_reset_ok handle_reset_notify_ok
  show ?thesis
    unfolding virtio_scmi_reset_handle_req_def
    by (intro post_if) (simp_all add: handlers [OF True] post_Some scmi_ok_fail)
next
  case False
  then have "ctx_capacity ctx < 8 \<or> ctx_base ctx = 0"
    by (auto simp: ctx_ok_def word_less_nat_alt)
  then show ?thesis
    by (simp add: virtio_scmi_reset_handle_req_def post_Some scmi_ok_fail)
qed

end
