(* ===== verification/Virtio_Scmi.thy ===== *)
theory Virtio_Scmi
  imports Queue_IO Json Scmi_Base Scmi_Clock Scmi_Power Scmi_Reset
begin

text \<open>
  The SCMI device itself (\<^verbatim>\<open>src/tools/virtio/devices/scmi/virtio_scmi.c\<close>): serving one message of the
  transmit queue, the notification handler, the creation of the device from its parameters with the
  registration of the protocols it supports, and the parsing of those parameters.
\<close>

type_synonym scmi_device = "SCMIDev option VirtIODevice"

definition SCMI_MAX_BUFFER_SIZE :: u64 where [simp]: "SCMI_MAX_BUFFER_SIZE = 1024 * 1024"
definition VIRTIO_F_VERSION_1 :: nat where [simp]: "VIRTIO_F_VERSION_1 = 32"
definition SCMI_SUPPORTED_FEATURES :: u64 where [simp]: "SCMI_SUPPORTED_FEATURES = push_bit VIRTIO_F_VERSION_1 1"

text \<open>The function behind each handler.\<close>

fun scmi_run :: "scmi_handler \<Rightarrow> scmi_fun" where
  "scmi_run Base_Handler = virtio_scmi_base_handle_req"
| "scmi_run Clock_Handler = virtio_scmi_clock_handle_req"
| "scmi_run Power_Handler = virtio_scmi_power_handle_req"
| "scmi_run Reset_Handler = virtio_scmi_reset_handle_req"

section \<open>One message\<close>

definition scmi_drop :: "VirtQueue \<Rightarrow> u16 \<Rightarrow> world \<Rightarrow> (int \<times> VirtQueue \<times> world) option" where
  "scmi_drop vq idx w = do { w1 \<leftarrow> put_used vq idx 0 w; Some (- EINVAL, vq, w1) }"

definition scmi_tx_handle_one_request ::
  "SCMIDev option \<Rightarrow> int \<Rightarrow> VirtQueue \<Rightarrow> world \<Rightarrow> (int \<times> VirtQueue \<times> world) option" where
  "scmi_tx_handle_one_request scmi zone vq w =
     (if avail_ring vq = 0 then None
      else do {
        let desc_idx = next_head vq (w_mem w);
        (ret, vq1, vreq) \<leftarrow> process_descriptor_chain_buf (w_zm w) zone (w_mem w) vq desc_idx
            \<lparr>max_out = 2, max_in = 2\<rparr> \<lparr>out_iov = [], in_iov = []\<rparr>;
        if ret \<le> 0 then scmi_drop (vq1\<lparr>last_avail_idx := last_avail_idx vq1 + 1\<rparr>) desc_idx w
        else if length (out_iov vreq) \<noteq> 1 \<or> length (in_iov vreq) \<noteq> 1 then scmi_drop vq1 desc_idx w
        else do {
          let req = out_iov vreq ! 0;
          let resp = in_iov vreq ! 0;
          if iov_len req < 4 \<or> iov_base req = 0 \<or> iov_len req > SCMI_MAX_BUFFER_SIZE then scmi_drop vq1 desc_idx w
          else do {
            let hdr = ld32 (w_mem w) (iov_base req);
            if hdr_msg_type hdr \<noteq> SCMI_MSG_TYPE_COMMAND then scmi_drop vq1 desc_idx w
            else do {
              d \<leftarrow> scmi;
              (r, ctx, w1) \<leftarrow> scmi_handle_message scmi_run d (hdr_protocol_id hdr) (hdr_msg_id hdr) (hdr_token hdr)
                  req (scmi_resp_ctx_init resp) w;
              if r \<noteq> 0 then scmi_drop vq1 desc_idx w1
              else do { w2 \<leftarrow> put_used vq1 desc_idx (ucast (ctx_written ctx)) w1; Some (0, vq1, w2) }
            }
          }
        }
      })"

definition virtio_scmi_txq_notify_handler ::
  "need_event \<Rightarrow> scmi_device \<Rightarrow> nat \<Rightarrow> world \<Rightarrow> (int \<times> scmi_device \<times> world) option" where
  "virtio_scmi_txq_notify_handler need vdev i w = do {
     vq \<leftarrow> nth_ub (vqs vdev) i;
     (vq1, w1) \<leftarrow> serve_batches (scmi_tx_handle_one_request (dev vdev) (sint (zone_id vdev))) vq w;
     vdev1 \<leftarrow> upd_vq i (\<lambda>_. vq1) vdev;
     (vdev2, w2) \<leftarrow> virtio_inject_irq need i vdev1 w1;
     Some (0, vdev2, w2)
   }"

section \<open>The operation table\<close>

record virtio_scmi_init_params =
  p_clock_ids :: "u32 list option"
  p_clock_count :: u32
  p_reset_ids :: "u32 list option"
  p_reset_count :: u32
  p_power_ids :: "u32 list option"
  p_power_count :: u32

definition scmi_dev_create :: SCMIDev where
  "scmi_dev_create = \<lparr>clock_ids = None, clock_count = 0, reset_ids = None, reset_count = 0,
     power_ids = None, power_count = 0, protocols = []\<rparr>"

text \<open>
  The copy of an array: the code, the copy (left \<open>NULL\<close> for a count of zero), the world. Copying
  from a null pointer or past the end of the source is undefined.
\<close>

definition scmi_copy_id_array :: "u32 list option \<Rightarrow> u32 \<Rightarrow> world \<Rightarrow> (int \<times> u32 list option \<times> world) option" where
  "scmi_copy_id_array src count w =
     (if count = 0 then Some (0, None, w)
      else do {
        (r, w1) \<leftarrow> sys_call Calloc w;
        if s_ret r = 0 then Some (- ENOMEM, None, w1)
        else do {
          xs \<leftarrow> src;
          if length xs < unat count then None else Some (0, Some (take (unat count) xs), w1)
        }
      })"

definition register_protocols :: "SCMIDev \<Rightarrow> SCMIDev" where
  "register_protocols d =
     (let d1 = snd (scmi_dev_register_protocol d SCMI_PROTO_ID_BASE Base_Handler);
          d2 = (if clock_count d1 > 0 then snd (scmi_dev_register_protocol d1 SCMI_PROTO_ID_CLOCK Clock_Handler) else d1);
          d3 = (if power_count d2 > 0 then snd (scmi_dev_register_protocol d2 SCMI_PROTO_ID_POWER Power_Handler) else d2)
      in if reset_count d3 > 0 then snd (scmi_dev_register_protocol d3 SCMI_PROTO_ID_RESET Reset_Handler) else d3)"

definition virtio_scmi_do_init ::
  "scmi_device \<Rightarrow> virtio_scmi_init_params option \<Rightarrow> world \<Rightarrow> (int \<times> scmi_device \<times> world) option" where
  "virtio_scmi_do_init vdev params w = do {
     (r, w1) \<leftarrow> sys_call Calloc w;
     if s_ret r = 0 then Some (- ENOMEM, vdev, w1)
     else (case params of None \<Rightarrow> Some (0, vdev\<lparr>dev := Some scmi_dev_create\<rparr>, w1)
      | Some p \<Rightarrow> do {
          let d = scmi_dev_create;
          (e1, cs, w2) \<leftarrow> scmi_copy_id_array (p_clock_ids p) (p_clock_count p) w1;
          let d1 = d\<lparr>clock_ids := cs\<rparr>;
          if e1 \<noteq> 0 then Some (- ENOMEM, vdev\<lparr>dev := Some d1\<rparr>, w2) else do {
          (e2, rs, w3) \<leftarrow> scmi_copy_id_array (p_reset_ids p) (p_reset_count p) w2;
          let d2 = d1\<lparr>reset_ids := rs\<rparr>;
          if e2 \<noteq> 0 then Some (- ENOMEM, vdev\<lparr>dev := Some d2\<rparr>, w3) else do {
          (e3, ps, w4) \<leftarrow> scmi_copy_id_array (p_power_ids p) (p_power_count p) w3;
          let d3 = d2\<lparr>power_ids := ps\<rparr>;
          if e3 \<noteq> 0 then Some (- ENOMEM, vdev\<lparr>dev := Some d3\<rparr>, w4) else do {
          let d4 = d3\<lparr>clock_count := p_clock_count p, reset_count := p_reset_count p, power_count := p_power_count p\<rparr>;
          Some (0, vdev\<lparr>dev := Some (register_protocols d4)\<rparr>, w4) } } }
        })
   }"

definition virtio_scmi_reset :: "scmi_device \<Rightarrow> world \<Rightarrow> (scmi_device \<times> world) option" where
  "virtio_scmi_reset vdev w = Some (vdev, w)"

text \<open>Closing only frees memory.\<close>

definition virtio_scmi_close :: "scmi_device \<Rightarrow> world \<Rightarrow> world option" where
  "virtio_scmi_close vdev w = Some w"

definition virtio_scmi_ops :: "need_event \<Rightarrow> (SCMIDev option, virtio_scmi_init_params option) virtio_device_ops" where
  "virtio_scmi_ops need = \<lparr>op_features = SCMI_SUPPORTED_FEATURES, num_queues = 2, queue_max_size = 64,
     op_init = virtio_scmi_do_init, op_close = virtio_scmi_close, op_reset = Some virtio_scmi_reset,
     op_status_changed = None, notify_handlers = [Some (virtio_scmi_txq_notify_handler need), None]\<rparr>"

section \<open>Parameters\<close>

text \<open>
  The elements of an array of identifiers. As for the other devices, the caller only tests whether
  parsing failed, and allocation is taken to succeed.
\<close>

fun parse_ids :: "'j cjson \<Rightarrow> 'j \<Rightarrow> nat \<Rightarrow> nat \<Rightarrow> u32 list cres" where
  "parse_ids J a i 0 = Ok []"
| "parse_ids J a i (Suc n) =
     (case parse_json_u32 J (safe_array_item J (Some a) (int i)) of None \<Rightarrow> Err (- EINVAL)
      | Some x \<Rightarrow> (case parse_ids J a (Suc i) n of Err e \<Rightarrow> Err e | Ok xs \<Rightarrow> Ok (x # xs)))"

text \<open>The array (\<open>NULL\<close> when it is absent or empty) and its count.\<close>

definition parse_id_array :: "'j cjson \<Rightarrow> 'j option \<Rightarrow> (u32 list option \<times> u32) cres" where
  "parse_id_array J json_array =
     (case json_array of None \<Rightarrow> Ok (None, 0)
      | Some a \<Rightarrow>
          if \<not> cj_is_array J a then Ok (None, 0)
          else let count = safe_array_size J (Some a) in
            if count = 0 then Ok (None, 0)
            else (case parse_ids J a 0 (nat count) of Err e \<Rightarrow> Err e | Ok xs \<Rightarrow> Ok (Some xs, of_int count)))"

definition virtio_scmi_parse_params :: "'j cjson \<Rightarrow> 'j option \<Rightarrow> virtio_scmi_init_params cres" where
  "virtio_scmi_parse_params J json =
     (let get = safe_get_item J json in
      case parse_id_array J (get ''clock_ids'') of Err e \<Rightarrow> Err (- EINVAL)
      | Ok (cs, nc) \<Rightarrow> (case parse_id_array J (get ''reset_ids'') of Err e \<Rightarrow> Err (- EINVAL)
      | Ok (rs, nr) \<Rightarrow> (case parse_id_array J (get ''power_ids'') of Err e \<Rightarrow> Err (- EINVAL)
      | Ok (ps, np) \<Rightarrow> Ok \<lparr>p_clock_ids = cs, p_clock_count = nc, p_reset_ids = rs, p_reset_count = nr,
                          p_power_ids = ps, p_power_count = np\<rparr>)))"

section \<open>The protocols of a device\<close>

fun handler_proto :: "scmi_handler \<Rightarrow> u8" where
  "handler_proto Base_Handler = SCMI_PROTO_ID_BASE"
| "handler_proto Clock_Handler = SCMI_PROTO_ID_CLOCK"
| "handler_proto Power_Handler = SCMI_PROTO_ID_POWER"
| "handler_proto Reset_Handler = SCMI_PROTO_ID_RESET"

definition scmi_dev_ok :: "SCMIDev \<Rightarrow> bool" where
  "scmi_dev_ok d \<longleftrightarrow> length (protocols d) \<le> 16 \<and> (\<forall>e\<in>set (protocols d). pe_protocol_id e = handler_proto (pe_handler e))"

lemma register_protocols_ok:
  assumes "protocols d = []"
  shows "map pe_protocol_id (protocols (register_protocols d)) =
      0x10 # (if clock_count d > 0 then [0x14] else []) @ (if power_count d > 0 then [0x11] else [])
           @ (if reset_count d > 0 then [0x16] else [])"
    and "scmi_dev_ok (register_protocols d)"
    and "clock_ids (register_protocols d) = clock_ids d" "clock_count (register_protocols d) = clock_count d"
    and "reset_ids (register_protocols d) = reset_ids d" "reset_count (register_protocols d) = reset_count d"
    and "power_ids (register_protocols d) = power_ids d" "power_count (register_protocols d) = power_count d"
  using assms by (simp_all add: register_protocols_def scmi_dev_register_protocol_def scmi_dev_ok_def Let_def)

lemma post_scmi_copy_id_array [wp]:
  assumes "\<And>w'. P (- ENOMEM, None, w')" and "\<And>w'. count = 0 \<Longrightarrow> P (0, None, w')"
    and "\<And>w' xs. src = Some xs \<Longrightarrow> count \<noteq> 0 \<Longrightarrow> unat count \<le> length xs \<Longrightarrow> P (0, Some (take (unat count) xs), w')"
  shows "post P (scmi_copy_id_array src count w)"
  unfolding scmi_copy_id_array_def using assms by (intro wp postI) (auto simp: post_def bind_Some_iff)

text \<open>What a granted array is in the device, given the parameters.\<close>

definition id_copy :: "u32 list option \<Rightarrow> u32 \<Rightarrow> u32 list option" where
  "id_copy src count = (if count = 0 then None else map_option (take (unat count)) src)"

text \<open>
  C29: A device created from parameters offers the base protocol always, and the clock, power and
  reset protocols exactly when the zone was granted at least one clock, power domain or reset
  domain, in this order; every table entry names the protocol its handler implements, the table is
  within its bounds, and the device's arrays are copies of the granted ones.
\<close>

theorem virtio_scmi_do_init_protocols:
  assumes "virtio_scmi_do_init vdev (Some p) w = Some (0, vdev', w')"
  shows "\<exists>d. dev vdev' = Some d \<and> scmi_dev_ok d
     \<and> map pe_protocol_id (protocols d) = 0x10 # (if p_clock_count p > 0 then [0x14] else [])
          @ (if p_power_count p > 0 then [0x11] else []) @ (if p_reset_count p > 0 then [0x16] else [])
     \<and> clock_ids d = id_copy (p_clock_ids p) (p_clock_count p) \<and> clock_count d = p_clock_count p
     \<and> reset_ids d = id_copy (p_reset_ids p) (p_reset_count p) \<and> reset_count d = p_reset_count p
     \<and> power_ids d = id_copy (p_power_ids p) (p_power_count p) \<and> power_count d = p_power_count p"
    (is "?Q vdev'")
proof -
  have "post (\<lambda>(r, v, w'). r = 0 \<longrightarrow> ?Q v) (virtio_scmi_do_init vdev (Some p) w)"
    unfolding virtio_scmi_do_init_def
    by (intro wp) (auto simp: id_copy_def scmi_dev_create_def register_protocols_ok) 
  then show ?thesis using assms by (auto dest: postD)
qed

definition scmi_params :: virtio_scmi_init_params where
  "scmi_params = \<lparr>p_clock_ids = Some [7, 9], p_clock_count = 2, p_reset_ids = None, p_reset_count = 0,
     p_power_ids = Some [5], p_power_count = 1\<rparr>"

definition blank_scmi :: scmi_device where
  "blank_scmi = \<lparr>vqs_len = 0, zone_id = 1, irq_id = 76, base_addr = 0xa003c00, mmio_len = 0x200, dev_type = VirtioTSCMI,
     regs = \<lparr>device_id = 0, dev_feature_sel = 0, drv_feature_sel = 0, queue_sel = 0, interrupt_status = 0,
       reg_status = 0, generation = 0, dev_feature = 0, drv_feature = 0\<rparr>,
     vqs = [], dev = None, virtio_close_set = True, status_changed_set = False, activated = False,
     interrupt_line_asserted = False\<rparr>"

lemma virtio_scmi_do_init_protocols_witness:
  "\<exists>vdev' w' d. virtio_scmi_do_init blank_scmi (Some scmi_params)
       (example_world\<lparr>w_tape := replicate 3 (ok_ret\<lparr>s_ret := 1\<rparr>)\<rparr>) = Some (0, vdev', w')
     \<and> dev vdev' = Some d \<and> map pe_protocol_id (protocols d) = [0x10, 0x14, 0x11] \<and> clock_ids d = Some [7, 9]"
proof -
  let ?w = "example_world\<lparr>w_tape := replicate 3 (ok_ret\<lparr>s_ret := 1\<rparr>)\<rparr>"
  have "map_option fst (virtio_scmi_do_init blank_scmi (Some scmi_params) ?w) = Some 0" by code_simp
  then obtain vdev' w' where "virtio_scmi_do_init blank_scmi (Some scmi_params) ?w = Some (0, vdev', w')" by auto
  with virtio_scmi_do_init_protocols [OF this] show ?thesis by (auto simp: scmi_params_def id_copy_def)
qed

section \<open>A message is answered in its own buffer\<close>

lemma scmi_handle_message_ok [wp]:
  assumes "scmi_dev_ok d"
  shows "post (scmi_ok d pid msg token ctx w) (scmi_handle_message scmi_run d pid msg token req ctx w)"
proof (cases "find (\<lambda>e. pe_protocol_id e = pid) (protocols d)")
  case None
  then show ?thesis by (simp add: scmi_handle_message_def post_Some scmi_ok_fail)
next
  case (Some e)
  then have "e \<in> set (protocols d)" and pid: "pe_protocol_id e = pid"
    by (auto simp: find_Some_iff)
  then have "handler_proto (pe_handler e) = pid" and "length (protocols d) \<le> 16"
    using assms by (auto simp: scmi_dev_ok_def)
  then show ?thesis
    using Some virtio_scmi_base_handle_req_ok virtio_scmi_clock_handle_req_ok virtio_scmi_power_handle_req_ok
      virtio_scmi_reset_handle_req_ok
    by (cases "pe_handler e") (auto simp: scmi_handle_message_def)
qed

text \<open>The buffers of the chain at the head of the queue.\<close>

definition scmi_chain :: "int \<Rightarrow> VirtQueue \<Rightarrow> world \<Rightarrow> (int \<times> VirtQueue \<times> VirtioRequest) option" where
  "scmi_chain zone vq w = process_descriptor_chain_buf (w_zm w) zone (w_mem w) vq (next_head vq (w_mem w))
     \<lparr>max_out = 2, max_in = 2\<rparr> \<lparr>out_iov = [], in_iov = []\<rparr>"

text \<open>
  What serving one message may do: make calls for granted identifiers, change memory in the
  response buffer, and publish one used-ring entry.
\<close>

definition scmi_served ::
  "SCMIDev \<Rightarrow> iovec list \<Rightarrow> VirtQueue \<Rightarrow> world \<Rightarrow> world \<Rightarrow> u32 \<Rightarrow> VirtQueue \<Rightarrow> world \<Rightarrow> bool" where
  "scmi_served d ins vq w w1 len vq' w' \<longleftrightarrow>
     scmi_calls d w w1 \<and> mem_within (iovs_bytes ins) (w_mem w) (w_mem w1)
     \<and> (\<exists>m. update_used_ring vq' (next_head vq (w_mem w)) len (w_mem w1) = Some m \<and> w' = w1\<lparr>w_mem := m\<rparr>)
     \<and> (\<exists>k. vq' = vq\<lparr>last_avail_idx := k\<rparr>)"

text \<open>
  The reply: the chain has one request and one response buffer, and the header of the request is
  echoed at the start of the response, whose length is within the buffer.
\<close>

definition scmi_replied :: "int \<Rightarrow> VirtQueue \<Rightarrow> world \<Rightarrow> iovec \<Rightarrow> iovec \<Rightarrow> world \<Rightarrow> u32 \<Rightarrow> bool" where
  "scmi_replied zone vq w req resp w1 len \<longleftrightarrow>
     (\<exists>n vq1. scmi_chain zone vq w = Some (n, vq1, \<lparr>out_iov = [req], in_iov = [resp]\<rparr>))
     \<and> (\<exists>n. len = ucast n \<and> 8 \<le> unat n \<and> n \<le> iov_len resp)
     \<and> (let h = ld32 (w_mem w) (iov_base req); h' = ld32 (w_mem w1) (iov_base resp) in
        hdr_protocol_id h' = hdr_protocol_id h \<and> hdr_msg_id h' = hdr_msg_id h \<and> hdr_token h' = hdr_token h
        \<and> hdr_msg_type h' = SCMI_MSG_TYPE_COMMAND)"

lemma header_echoed:
  assumes "mem_within (footprint (a + 8) n) (resp_mem m a h st) m'" and "unat (cap :: u64) = n + 8"
  shows "ld32 m' a = h"
proof -
  have n: "n < 18446744073709551608"
    using unat_lt_64 [of cap] assms(2) by simp
  have "unat (- 8 :: u64) = 18446744073709551608" by simp
  then have "apart a 4 (a + 8) n" using n by (simp add: apart_def)
  then have "ld32 m' a = ld32 (resp_mem m a h st) a"
    using assms(1) apart_footprints by (intro ld32_cong) (fastforce simp: mem_within_def)
  also have "\<dots> = h" by (simp add: resp_mem_def ld32_st32_apart apart_def)
  finally show ?thesis .
qed

lemma token_bits: "take_bit 10 (hdr_token h) = hdr_token h"
  by (rule bit_word_eqI) (auto simp: hdr_token_def bit_simps)

text \<open>
  How serving one message ends: in a zero-length completion or in a reply. Anything but the
  completion happens only for a chain of one request and one response buffer.
\<close>

definition scmi_outcome :: "SCMIDev \<Rightarrow> int \<Rightarrow> VirtQueue \<Rightarrow> world \<Rightarrow> int \<times> VirtQueue \<times> world \<Rightarrow> bool" where
  "scmi_outcome d zone vq w = (\<lambda>(r, vq', w'). \<exists>n vq1 vreq w1 len. scmi_chain zone vq w = Some (n, vq1, vreq)
     \<and> scmi_served d (in_iov vreq) vq w w1 len vq' w'
     \<and> (w1 = w \<or> (\<exists>req resp. vreq = \<lparr>out_iov = [req], in_iov = [resp]\<rparr>))
     \<and> (r = - EINVAL \<and> len = 0 \<or> r = 0 \<and> (\<exists>req resp. in_iov vreq = [resp] \<and> scmi_replied zone vq w req resp w1 len)))"

lemma post_scmi_drop [wp]:
  "(\<And>m. update_used_ring vq idx 0 (w_mem w) = Some m \<Longrightarrow> P (- EINVAL, vq, w\<lparr>w_mem := m\<rparr>)) \<Longrightarrow> post P (scmi_drop vq idx w)"
  unfolding scmi_drop_def by (intro wp) auto

lemma scmi_outcome_early:
  assumes "scmi_chain zone vq w = Some (n, vq1, vreq)"
    and "update_used_ring (vq\<lparr>last_avail_idx := k\<rparr>) (next_head vq (w_mem w)) 0 (w_mem w) = Some m"
  shows "scmi_outcome d zone vq w (- EINVAL, vq\<lparr>last_avail_idx := k\<rparr>, w\<lparr>w_mem := m\<rparr>)"
  unfolding scmi_outcome_def scmi_served_def using assms by auto

lemma scmi_outcome_failed:
  assumes "scmi_chain zone vq w = Some (n, vq1, \<lparr>out_iov = [req], in_iov = [resp]\<rparr>)"
    and "scmi_ok d pid msg token (scmi_resp_ctx_init resp) w (r, ctx, w1)"
    and "update_used_ring (vq\<lparr>last_avail_idx := k\<rparr>) (next_head vq (w_mem w)) 0 (w_mem w1) = Some m"
  shows "scmi_outcome d zone vq w (- EINVAL, vq\<lparr>last_avail_idx := k\<rparr>, w1\<lparr>w_mem := m\<rparr>)"
proof -
  have "scmi_served d [resp] vq w w1 0 (vq\<lparr>last_avail_idx := k\<rparr>) (w1\<lparr>w_mem := m\<rparr>)"
    using assms(2,3) by (auto simp: scmi_served_def scmi_ok_def scmi_resp_ctx_init_def iovs_bytes_def iov_bytes_def)
  then show ?thesis unfolding scmi_outcome_def using assms(1) by auto
qed

lemma scmi_outcome_reply:
  assumes "scmi_chain zone vq w = Some (n, vq1, \<lparr>out_iov = [req], in_iov = [resp]\<rparr>)"
    and "scmi_ok d (hdr_protocol_id h) (hdr_msg_id h) (hdr_token h) (scmi_resp_ctx_init resp) w (0, ctx, w1)"
    and "h = ld32 (w_mem w) (iov_base req)"
    and "update_used_ring (vq\<lparr>last_avail_idx := k\<rparr>) (next_head vq (w_mem w)) (ucast (ctx_written ctx)) (w_mem w1) = Some m"
  shows "scmi_outcome d zone vq w (0, vq\<lparr>last_avail_idx := k\<rparr>, w1\<lparr>w_mem := m\<rparr>)"
proof -
  obtain st where ok: "scmi_calls d w w1" "mem_within (iov_bytes resp) (w_mem w) (w_mem w1)"
      "8 \<le> unat (ctx_written ctx)" "ctx_written ctx \<le> iov_len resp"
      "mem_within (footprint (iov_base resp + 8) (unat (iov_len resp) - 8)) (resp_mem (w_mem w) (iov_base resp)
         (scmi_build_header (hdr_protocol_id h) (hdr_msg_id h) (hdr_token h)) st) (w_mem w1)"
    using assms(2) by (auto simp: scmi_ok_def scmi_resp_ctx_init_def iov_bytes_def)
  have "unat (iov_len resp) = (unat (iov_len resp) - 8) + 8"
    using ok(3,4) by (simp add: word_le_nat_alt)
  from header_echoed [OF ok(5) this]
  have "scmi_replied zone vq w req resp w1 (ucast (ctx_written ctx))"
    unfolding scmi_replied_def Let_def using assms(1,3) ok(3,4) by (auto simp: header_fields token_bits)
  moreover have "scmi_served d [resp] vq w w1 (ucast (ctx_written ctx)) (vq\<lparr>last_avail_idx := k\<rparr>) (w1\<lparr>w_mem := m\<rparr>)"
    using assms(4) ok(1,2) by (auto simp: scmi_served_def iovs_bytes_def)
  ultimately show ?thesis
    unfolding scmi_outcome_def prod.case using assms(1)
    by (intro exI [of _ n] exI [of _ vq1] exI [of _ "\<lparr>out_iov = [req], in_iov = [resp]\<rparr>"] exI [of _ w1]) auto
qed

lemma scmi_tx_outcome:
  assumes ok: "scmi_dev_ok d"
  shows "post (scmi_outcome d zone vq w) (scmi_tx_handle_one_request (Some d) zone vq w)"
proof (cases "avail_ring vq = 0 \<or> scmi_chain zone vq w = None")
  case False
  then obtain ret vq1 vreq where c: "scmi_chain zone vq w = Some (ret, vq1, vreq)" and a: "avail_ring vq \<noteq> 0"
    by auto
  have vq1: "\<exists>k. vq1 = vq\<lparr>last_avail_idx := k\<rparr>"
    using process_descriptor_chain_buf_cases [OF c [unfolded scmi_chain_def]] by (metis VirtQueue.surjective VirtQueue.update_convs(11))
  then obtain k where k: "vq1 = vq\<lparr>last_avail_idx := k\<rparr>" by blast
  have two: "scmi_chain zone vq w = Some (ret, vq1, \<lparr>out_iov = [out_iov vreq ! 0], in_iov = [in_iov vreq ! 0]\<rparr>)"
    if "length (out_iov vreq) = Suc 0" "length (in_iov vreq) = Suc 0"
    using c that by (cases vreq) (auto simp: length_Suc_conv)
  show ?thesis
    unfolding scmi_tx_handle_one_request_def Let_def scmi_chain_def [symmetric] c k
      Option.bind.simps prod.case if_not_P [OF a]
    by (intro wp scmi_handle_message_ok [OF ok, THEN post_mono])
      (auto intro: scmi_outcome_early [OF c, simplified] scmi_outcome_failed [OF two, simplified]
          scmi_outcome_reply [OF two _ refl])
qed (auto simp: scmi_tx_handle_one_request_def scmi_chain_def post_def Let_def)

text \<open>
  C1: Serving one SCMI message, whatever the guest has put in the queue. The only calls made name
  clocks, power domains and resets the zone was granted, by their physical identifiers. Memory
  changes only inside the device-writable vectors of the chain at the head of the queue, each of
  which begins in mapped memory of the device's own zone, and then by exactly one used-ring entry
  for that head. A chain that is not one request and one response buffer makes no call and changes
  no buffer; a failed message is completed with length zero; and of the queue only
  \<open>last_avail_idx\<close> changes.
\<close>

theorem scmi_message_confined:
  assumes "scmi_dev_ok d" and "scmi_tx_handle_one_request (Some d) zone vq w = Some (r, vq', w')"
  shows "\<exists>n vq1 vreq w1 len m. scmi_chain zone vq w = Some (n, vq1, vreq)
     \<and> list_all (\<lambda>v. zone_backed (w_zm w) zone (iov_base v)) (out_iov vreq @ in_iov vreq)
     \<and> scmi_calls d w w1 \<and> mem_within (iovs_bytes (in_iov vreq)) (w_mem w) (w_mem w1)
     \<and> update_used_ring vq' (next_head vq (w_mem w)) len (w_mem w1) = Some m \<and> w' = w1\<lparr>w_mem := m\<rparr>
     \<and> vq' = vq\<lparr>last_avail_idx := last_avail_idx vq'\<rparr>
     \<and> (w1 = w \<or> (\<exists>req resp. vreq = \<lparr>out_iov = [req], in_iov = [resp]\<rparr>))
     \<and> (r = 0 \<or> r = - EINVAL \<and> len = 0)"
proof -
  obtain n vq1 vreq w1 len where c: "scmi_chain zone vq w = Some (n, vq1, vreq)"
      and s: "scmi_served d (in_iov vreq) vq w w1 len vq' w'"
      and rest: "w1 = w \<or> (\<exists>req resp. vreq = \<lparr>out_iov = [req], in_iov = [resp]\<rparr>)" "r = 0 \<or> r = - EINVAL \<and> len = 0"
    using postD [OF scmi_tx_outcome [OF assms(1)] assms(2)] unfolding scmi_outcome_def by blast
  have "list_all (\<lambda>v. zone_backed (w_zm w) zone (iov_base v)) (out_iov vreq @ in_iov vreq)"
    using process_descriptor_chain_buf_cases [OF c [unfolded scmi_chain_def]] by (auto simp: list_all_iff)
  moreover have "vq' = vq\<lparr>last_avail_idx := last_avail_idx vq'\<rparr>" using s by (auto simp: scmi_served_def)
  ultimately show ?thesis using c s rest unfolding scmi_served_def by blast
qed

text \<open>
  A version request of the base protocol with token 5, in a chain of one readable and one writable
  descriptor; the available ring is at offset 48, the request at 96, the used ring at 128.
\<close>

definition scmi_mem :: memory where
  "scmi_mem = bytes_at 0x7f0000000000
     [0x60, 0x00, 0, 0x50, 0, 0, 0, 0,  0x08, 0, 0, 0,  1, 0,  1, 0,
      0x00, 0x01, 0, 0x50, 0, 0, 0, 0,  0x20, 0, 0, 0,  2, 0,  0, 0,
      0, 0, 0, 0, 0, 0, 0, 0,  0, 0, 0, 0, 0, 0, 0, 0,
      0, 0,  1, 0,  0, 0,  0, 0,  0, 0,  0, 0,  0, 0,  0, 0,
      0, 0, 0, 0, 0, 0, 0, 0,  0, 0, 0, 0, 0, 0, 0, 0,
      0, 0, 0, 0, 0, 0, 0, 0,  0, 0, 0, 0, 0, 0, 0, 0,
      0, 0x40, 0x14, 0,  0, 0, 0, 0]"

definition scmi_vq :: VirtQueue where
  "scmi_vq = zero_vq\<lparr>vq_num := 4, desc_table := 0x7f0000000000, avail_ring := 0x7f0000000030,
     used_ring := 0x7f0000000080\<rparr>"

definition scmi_world :: world where
  "scmi_world = example_world\<lparr>w_mem := scmi_mem\<rparr>"

lemma list_dev_ok: "scmi_dev_ok list_dev"
  by (simp add: scmi_dev_ok_def list_dev_def)

lemma scmi_message_confined_witness:
  "\<exists>r vq' w' w1. scmi_tx_handle_one_request (Some list_dev) 1 scmi_vq scmi_world = Some (r, vq', w')
     \<and> scmi_calls list_dev scmi_world w1
     \<and> mem_within (iovs_bytes [\<lparr>iov_base = 0x7f0000000100, iov_len = 32\<rparr>]) (w_mem scmi_world) (w_mem w1)"
proof -
  have "\<not> Option.is_none (scmi_tx_handle_one_request (Some list_dev) 1 scmi_vq scmi_world)" by code_simp
  then obtain r vq' w' where run: "scmi_tx_handle_one_request (Some list_dev) 1 scmi_vq scmi_world = Some (r, vq', w')"
    by (cases "scmi_tx_handle_one_request (Some list_dev) 1 scmi_vq scmi_world") auto
  have "scmi_chain 1 scmi_vq scmi_world = Some (2, scmi_vq\<lparr>last_avail_idx := 1\<rparr>,
      \<lparr>out_iov = [\<lparr>iov_base = 0x7f0000000060, iov_len = 8\<rparr>], in_iov = [\<lparr>iov_base = 0x7f0000000100, iov_len = 32\<rparr>]\<rparr>)"
    by code_simp
  with scmi_message_confined [OF list_dev_ok run] run show ?thesis by auto
qed

text \<open>
  C19: A message that is served is answered: its chain is one request and one response buffer, the
  length reported is at least a header and at most the buffer, and the response carries the
  protocol, message and token of the request.
\<close>

theorem scmi_reply_matches_request:
  assumes "scmi_dev_ok d" and "scmi_tx_handle_one_request (Some d) zone vq w = Some (0, vq', w')"
  shows "\<exists>req resp w1 len. scmi_served d [resp] vq w w1 len vq' w' \<and> scmi_replied zone vq w req resp w1 len"
  using postD [OF scmi_tx_outcome [OF assms(1)] assms(2)] unfolding scmi_outcome_def by simp metis

lemma scmi_reply_matches_request_witness:
  "\<exists>vq' w' req resp w1 len. scmi_tx_handle_one_request (Some list_dev) 1 scmi_vq scmi_world = Some (0, vq', w')
     \<and> scmi_served list_dev [resp] scmi_vq scmi_world w1 len vq' w' \<and> scmi_replied 1 scmi_vq scmi_world req resp w1 len"
proof -
  have "map_option fst (scmi_tx_handle_one_request (Some list_dev) 1 scmi_vq scmi_world) = Some 0" by code_simp
  then obtain vq' w' where "scmi_tx_handle_one_request (Some list_dev) 1 scmi_vq scmi_world = Some (0, vq', w')"
    by auto
  with scmi_reply_matches_request [OF list_dev_ok this] show ?thesis by blast
qed

section \<open>What the table promises the generic code\<close>

text \<open>Whatever the state of the device, its handlers change nothing of the world but memory and calls.\<close>

lemma post_get_protocol_list_any: "(\<And>c m'. P (c, m')) \<Longrightarrow> post P (get_protocol_list d resp skip n m)"
  by (rule postI) auto

lemma base_list_calls:
  assumes "ctx_ok ctx"
  shows "post (\<lambda>(r, ctx', w'). scmi_calls d w w') (handle_base_protocol_list d token req ctx w)"
  unfolding handle_base_protocol_list_def Let_def using assms
  by (intro post_bind post_if post_case_prod post_Some post_scmi_make_response post_scmi_resp_write post_req_u32
      post_get_protocol_list_any) auto

lemma scmi_ok_calls: "post (scmi_ok d p msg token ctx w) h \<Longrightarrow> post (\<lambda>(r, ctx', w'). scmi_calls d w w') h"
  by (erule post_mono) (auto simp: scmi_ok_def)

lemma base_calls: "post (\<lambda>(r, ctx', w'). scmi_calls d w w') (virtio_scmi_base_handle_req d msg token req ctx w)"
proof (cases "ctx_ok ctx")
  case True
  note handlers = handle_base_version_ok handle_base_attributes_ok handle_base_error_notify_ok handle_base_impl_version_ok
    handle_base_discover_agent_ok handle_base_vendor_ok
  show ?thesis
    unfolding virtio_scmi_base_handle_req_def
    by (intro post_if) (simp_all add: handlers [OF True, THEN scmi_ok_calls] base_list_calls [OF True] post_Some)
next
  case False
  then have "ctx_capacity ctx < 8 \<or> ctx_base ctx = 0"
    by (auto simp: ctx_ok_def word_less_nat_alt)
  then show ?thesis by (simp add: virtio_scmi_base_handle_req_def post_Some)
qed

lemma scmi_run_calls: "post (\<lambda>(r, ctx', w'). scmi_calls d w w') (scmi_run h d msg token req ctx w)"
  using base_calls virtio_scmi_clock_handle_req_ok [THEN scmi_ok_calls] virtio_scmi_power_handle_req_ok [THEN scmi_ok_calls]
    virtio_scmi_reset_handle_req_ok [THEN scmi_ok_calls]
  by (cases h) simp_all

lemma scmi_calls_wkeeps: "scmi_calls d w w' \<Longrightarrow> wkeeps w w'"
  by (auto simp: scmi_calls_def wkeeps_def)

lemma scmi_handle_message_wkeeps:
  "post (\<lambda>(r, ctx', w'). wkeeps w w') (scmi_handle_message scmi_run d pid msg token req ctx w)"
  unfolding scmi_handle_message_def
  by (intro post_case_option post_Some scmi_run_calls [THEN post_mono]) (auto intro: scmi_calls_wkeeps)

lemma scmi_tx_wkeeps: "post (\<lambda>(r, vq', w'). wkeeps w w') (scmi_tx_handle_one_request scmi zone vq w)"
  unfolding scmi_tx_handle_one_request_def Let_def
  by (cases scmi; hypsubst; intro wp scmi_handle_message_wkeeps [THEN post_mono]; auto)

interpretation scmi_server: request_server "scmi_tx_handle_one_request scmi zone" wkeeps for scmi zone
proof unfold_locales
  fix vq w r vq' w'
  assume "scmi_tx_handle_one_request scmi zone vq w = Some (r, vq', w')"
  then show "wkeeps w w'" using postD [OF scmi_tx_wkeeps] by fastforce
qed (simp_all, rule wkeeps_trans)

lemma virtio_scmi_notify_keeps:
  assumes "virtio_scmi_txq_notify_handler need v i w = Some (r, v', w')"
  shows "keeps v v' \<and> wkeeps w w'"
proof -
  obtain vq vq1 w1 v1 where
      s: "serve_batches (scmi_tx_handle_one_request (dev v) (sint (zone_id v))) vq w = Some (vq1, w1)"
    and u: "upd_vq i (\<lambda>_. vq1) v = Some v1" and j: "virtio_inject_irq need i v1 w1 = Some (v', w')"
    using assms by (auto simp: virtio_scmi_txq_notify_handler_def bind_Some_iff)
  from scmi_server.serve_batches_rel [OF s, simplified] show ?thesis by (rule served_then_injected [OF u j])
qed

lemma virtio_scmi_reset_keeps: "virtio_scmi_reset v w = Some (v', w') \<Longrightarrow> keeps v v' \<and> wkeeps w w'"
  by (simp add: virtio_scmi_reset_def)

lemma post_scmi_copy_any: "(\<And>e xs w'. P (e, xs, w')) \<Longrightarrow> post P (scmi_copy_id_array src count w)"
  by (rule postI) auto

lemma virtio_scmi_do_init_keeps: "post (\<lambda>(r, v', w'). keeps v v') (virtio_scmi_do_init v p w)"
  unfolding virtio_scmi_do_init_def by (intro wp) (auto simp: keeps_dev)

end
