(* ===== verification/Io_Calls.thy ===== *)
theory Io_Calls
  imports Queue_IO
begin

text \<open>
  Which system calls a device makes while it serves its queues.
  A device that serves its queues from one descriptor: it reads and writes that descriptor only, into
  and from buffers that begin at addresses of its own, and the only other call it makes tells the hypervisor
  about an interrupt.
\<close>

fun io_call_ok :: "int \<Rightarrow> (u64 \<Rightarrow> bool) \<Rightarrow> syscall \<Rightarrow> bool" where
  "io_call_ok fd own (Readv f iov) \<longleftrightarrow> f = fd \<and> list_all (\<lambda>v. own (iov_base v)) iov"
| "io_call_ok fd own (Writev f iov) \<longleftrightarrow> f = fd \<and> list_all (\<lambda>v. own (iov_base v)) iov"
| "io_call_ok fd own (Read_Discard f) \<longleftrightarrow> f = fd"
| "io_call_ok fd own Ioctl_Finish \<longleftrightarrow> True"
| "io_call_ok fd own _ \<longleftrightarrow> False"

definition calls_within :: "(zone_mem \<Rightarrow> syscall \<Rightarrow> bool) \<Rightarrow> world \<Rightarrow> world \<Rightarrow> bool" where
  "calls_within ok w w' \<longleftrightarrow> w_zm w' = w_zm w \<and> (\<exists>cs. w_trace w' = w_trace w @ cs \<and> list_all (ok (w_zm w)) cs)"

lemma calls_within_refl [simp]: "calls_within ok w w"
  by (simp add: calls_within_def)

lemma calls_within_mem [simp]: "calls_within ok w (w'\<lparr>w_mem := m\<rparr>) \<longleftrightarrow> calls_within ok w w'"
  by (simp add: calls_within_def)

lemma calls_within_trans: "calls_within ok u v \<Longrightarrow> calls_within ok v w \<Longrightarrow> calls_within ok u w"
  by (fastforce simp: calls_within_def)

lemma calls_within_call:
  assumes "sys_call c w = Some (r, w')" and "ok (w_zm w) c"
  shows "calls_within ok w w'"
  using sys_call_frame [OF assms(1)] sys_call_trace [OF assms(1)] assms(2) by (auto simp: calls_within_def)

lemma calls_within_retry:
  assumes "sys_retry c w = Some (r, w')" and "ok (w_zm w) c"
  shows "calls_within ok w w'"
  using assms
proof (induction c w rule: sys_retry.induct)
  case (1 c w)
  then obtain r1 w1 where c: "sys_call c w = Some (r1, w1)"
      and rest: "(if interrupted r1 then sys_retry c w1 else Some (r1, w1)) = Some (r, w')"
    by (subst (asm) sys_retry.simps) (auto split: option.splits)
  note first = calls_within_call [OF c, of ok, OF "1.prems"(2)]
  show ?case
  proof (cases "interrupted r1")
    case True
    have "ok (w_zm w1) c" using sys_call_frame [OF c] "1.prems"(2) by simp
    with "1.IH" [OF c refl True] rest True have "calls_within ok w1 w'" by simp
    then show ?thesis by (rule calls_within_trans [OF first])
  qed (use rest first in auto)
qed

lemma calls_within_inject:
  assumes "virtio_inject_irq need i v w = Some (v', w')" and "ok (w_zm w) Ioctl_Finish"
  shows "calls_within ok w w'"
proof -
  have line: "calls_within ok w w'" if l: "assert_line v w = Some (v', w')" for v v'
  proof -
    obtain b r w1 where "sys_retry Ioctl_Finish (w\<lparr>w_bridge := b\<rparr>) = Some (r, w1)"
        and w': "w' = w1\<lparr>irq_trace_seq := irq_trace_seq w1 + 1\<rparr>"
      using l by (auto simp: assert_line_def bind_Some_iff Let_def)
    from calls_within_retry [OF this(1), of ok] assms(2) show ?thesis
      by (auto simp: calls_within_def w')
  qed
  have seq: "calls_within ok w (w\<lparr>irq_trace_seq := n\<rparr>)" for n by (simp add: calls_within_def)
  show ?thesis
    using assms(1) by (auto simp: virtio_inject_irq_def bind_Some_iff Let_def seq split: if_splits dest: line)
qed

end
