(* ===== verification/Event_Monitor.thy ===== *)
theory Event_Monitor
  imports Device
begin

text \<open>
  The event monitor (\<^verbatim>\<open>src/tools/virtio/event_monitor.c\<close>): a table of at most 16 registered events and
  the \<open>epoll\<close> descriptor they are registered with. A pointer to an event is its slot in the table.
\<close>

definition MAX_EVENTS :: nat where [simp]: "MAX_EVENTS = 16"
definition EPOLLIN :: u32 where [simp]: "EPOLLIN = 1"

text \<open>
  Registering: the slot of the new event, or none. A failed allocation is not checked, so it is
  undefined behaviour.
\<close>

definition add_event :: "int \<Rightarrow> u32 \<Rightarrow> event_handler \<Rightarrow> world \<Rightarrow> (nat option \<times> world) option" where
  "add_event fd epoll_type h w =
     (let em = w_events w in
      if em_events_num em \<ge> MAX_EVENTS then Some (None, w)
      else if fd < 0 then Some (None, w)
      else do {
        (a, w1) \<leftarrow> sys_call Calloc w;
        if s_ret a = 0 then None
        else do {
          let hevent = \<lparr>ev_handler = h, ev_fd = fd, ev_epoll_type = epoll_type\<rparr>;
          (r, w2) \<leftarrow> sys_call (Other_Call ''epoll_ctl_add'' [em_epoll_fd em, fd]) w1;
          if s_ret r < 0 then Some (None, w2)
          else do {
            es \<leftarrow> upd_ub (em_events em) (em_events_num em) (Some hevent);
            Some (Some (em_events_num em),
                  w2\<lparr>w_events := em\<lparr>em_events := es, em_events_num := em_events_num em + 1\<rparr>\<rparr>)
          }
        }
      })"

text \<open>Removing: the count of slots in use is not changed, so the slot is not used again.\<close>

definition remove_event :: "nat option \<Rightarrow> world \<Rightarrow> world option" where
  "remove_event slot w =
     (let em = w_events w in
      case slot of None \<Rightarrow> Some w
      | Some i \<Rightarrow>
          if i < em_events_num em
          then do {
            e \<leftarrow> nth_ub (em_events em) i;
            case e of None \<Rightarrow> Some w
            | Some ev \<Rightarrow> do {
                (r, w1) \<leftarrow> sys_call (Other_Call ''epoll_ctl_del'' [em_epoll_fd em, ev_fd ev]) w;
                Some (w1\<lparr>w_events := em\<lparr>em_events := (em_events em)[i := None]\<rparr>\<rparr>)
              }
          }
          else Some w)"

text \<open>
  Starting the monitor: the descriptor, the thread, and pinning the thread to the highest CPU of the
  process's mask other than CPU 0. The kernel returns the members of the mask.
\<close>

definition CPU_SETSIZE :: nat where [simp]: "CPU_SETSIZE = 1024"

definition last_cpu :: "u64 list \<Rightarrow> nat option" where
  "last_cpu cpus = find (\<lambda>i. of_nat i \<in> set cpus) (rev [1..<CPU_SETSIZE])"

definition initialize_event_monitor :: "world \<Rightarrow> (int \<times> world) option" where
  "initialize_event_monitor w = do {
     (r, w1) \<leftarrow> sys_call (Other_Call ''epoll_create1'' []) w;
     (t, w2) \<leftarrow> sys_call Thread_Create (w1\<lparr>w_events := (w_events w1)\<lparr>em_epoll_fd := s_ret r\<rparr>\<rparr>);
     (g, w3) \<leftarrow> sys_call (Other_Call ''sched_getaffinity'' []) w2;
     w4 \<leftarrow> (if s_ret g = 0
           then (case last_cpu (s_vals g) of None \<Rightarrow> Some w3
                 | Some c \<Rightarrow> map_option snd (sys_call (Other_Call ''pthread_setaffinity'' [int c]) w3))
           else Some w3);
     Some (if s_ret r \<ge> 0 then 0 else -1, w4)
   }"

fun destroy_events :: "int \<Rightarrow> hvisor_event option list \<Rightarrow> world \<Rightarrow> world option" where
  "destroy_events efd [] w = Some w"
| "destroy_events efd (None # es) w = destroy_events efd es w"
| "destroy_events efd (Some ev # es) w = do {
     (r, w1) \<leftarrow> sys_call (Other_Call ''epoll_ctl_del'' [efd, ev_fd ev]) w;
     destroy_events efd es w1
   }"

definition destroy_event_monitor :: "world \<Rightarrow> world option" where
  "destroy_event_monitor w = do {
     let em = w_events w;
     w1 \<leftarrow> destroy_events (em_epoll_fd em) (take (em_events_num em) (em_events em)) w;
     (r, w2) \<leftarrow> sys_call (Close_Fd (em_epoll_fd em)) w1;
     Some (w2\<lparr>w_events := em\<lparr>em_events :=
       replicate (em_events_num em) None @ drop (em_events_num em) (em_events em)\<rparr>\<rparr>)
   }"

section \<open>The table\<close>

text \<open>The table is well formed: its array has its size, and slots past the count are empty.\<close>

definition events_ok :: "event_monitor \<Rightarrow> bool" where
  "events_ok em \<longleftrightarrow> length (em_events em) = MAX_EVENTS \<and> em_events_num em \<le> MAX_EVENTS
     \<and> (\<forall>i < MAX_EVENTS. em_events_num em \<le> i \<longrightarrow> em_events em ! i = None)"

text \<open>Operations on the table, in any order, and how many registrations succeed.\<close>

datatype event_op = Add_Event int u32 event_handler | Remove_Event "nat option"

fun event_run :: "event_op list \<Rightarrow> world \<Rightarrow> (nat \<times> world) option" where
  "event_run [] w = Some (0, w)"
| "event_run (Add_Event fd t h # ops) w = do {
     (s, w1) \<leftarrow> add_event fd t h w;
     (n, w2) \<leftarrow> event_run ops w1;
     Some (if s = None then n else Suc n, w2)
   }"
| "event_run (Remove_Event s # ops) w = do { w1 \<leftarrow> remove_event s w; event_run ops w1 }"

lemma add_event_table:
  assumes "add_event fd t h w = Some (s, w')"
  shows "(s = None \<and> w_events w' = w_events w)
    \<or> (s = Some (em_events_num (w_events w)) \<and> em_events_num (w_events w) < 16 \<and>
       w_events w' = (w_events w)\<lparr>em_events := (em_events (w_events w))[em_events_num (w_events w) :=
          Some \<lparr>ev_handler = h, ev_fd = fd, ev_epoll_type = t\<rparr>],
         em_events_num := em_events_num (w_events w) + 1\<rparr>)"
  using assms
  by (auto simp: add_event_def Let_def bind_Some_iff upd_ub_Some split: if_splits dest!: sys_call_frame)

lemma remove_event_table:
  assumes "remove_event s w = Some w'"
  shows "w_events w' = w_events w
    \<or> (\<exists>i < em_events_num (w_events w). w_events w' = (w_events w)\<lparr>em_events := (em_events (w_events w))[i := None]\<rparr>)"
  using assms
  by (fastforce simp: remove_event_def Let_def bind_Some_iff split: option.splits if_splits dest!: sys_call_frame)

lemma add_event_ok: "add_event fd t h w = Some (s, w') \<Longrightarrow> events_ok (w_events w) \<Longrightarrow> events_ok (w_events w')"
  by (auto simp: events_ok_def dest!: add_event_table)

lemma remove_event_ok: "remove_event s w = Some w' \<Longrightarrow> events_ok (w_events w) \<Longrightarrow> events_ok (w_events w')"
  by (auto simp: events_ok_def nth_list_update dest!: remove_event_table)

lemma event_run_table:
  assumes "event_run ops w = Some (n, w')" and "events_ok (w_events w)"
  shows "events_ok (w_events w') \<and> em_events_num (w_events w') = em_events_num (w_events w) + n"
  using assms
proof (induction ops w arbitrary: n rule: event_run.induct)
  case (2 fd t h ops w)
  then obtain s w1 k where a: "add_event fd t h w = Some (s, w1)" and r: "event_run ops w1 = Some (k, w')"
      and n: "n = (if s = None then k else Suc k)"
    by (auto simp: bind_Some_iff)
  have "events_ok (w_events w1)" using add_event_ok [OF a] 2(3) by blast
  from 2(1) [OF a refl r this] have "events_ok (w_events w')"
    "em_events_num (w_events w') = em_events_num (w_events w1) + k" by auto
  with add_event_table [OF a] n show ?case by (auto split: if_splits)
next
  case (3 s ops w)
  then obtain w1 where a: "remove_event s w = Some w1" and r: "event_run ops w1 = Some (n, w')"
    by (auto simp: bind_Some_iff)
  from 3(1) [OF a r remove_event_ok [OF a]] 3(3) remove_event_table [OF a] show ?case by auto
qed simp

text \<open>
  C38: A slot of the event table is used once: from an empty table, whatever events are added and
  removed and in whatever order, the table stays well formed, the number of slots in use is the
  number of registrations that ever succeeded, and this number never passes 16. Removing an event
  therefore never makes room for another one.
\<close>

theorem event_slots_are_used_once:
  assumes "em_events (w_events w) = replicate 16 None" and "em_events_num (w_events w) = 0"
    and "event_run ops w = Some (n, w')"
  shows "events_ok (w_events w') \<and> em_events_num (w_events w') = n \<and> n \<le> 16"
  using event_run_table [OF assms(3)] assms(1,2) by (auto simp: events_ok_def)

lemma event_slots_are_used_once_witness:
  "\<exists>w'. event_run [Add_Event 3 1 (Console_Event 1 0xa003c00), Remove_Event (Some 0), Add_Event 4 1 (Net_Event 1 0xa003e00)]
       (example_world\<lparr>w_tape := replicate 5 (ok_ret\<lparr>s_ret := 1\<rparr>)\<rparr>) = Some (2, w')
     \<and> em_events_num (w_events w') = 2 \<and> events_ok (w_events w')"
proof -
  let ?ops = "[Add_Event 3 1 (Console_Event 1 0xa003c00), Remove_Event (Some 0), Add_Event 4 1 (Net_Event 1 0xa003e00)]"
  let ?w = "example_world\<lparr>w_tape := replicate 5 (ok_ret\<lparr>s_ret := 1\<rparr>)\<rparr>"
  have "map_option fst (event_run ?ops ?w) = Some 2" by code_simp
  then obtain w' where "event_run ?ops ?w = Some (2, w')" by auto
  with event_slots_are_used_once [OF _ _ this] show ?thesis by (simp add: example_world_def)
qed

text \<open>What the operations leave alone.\<close>

lemma post_add_event [wp]:
  assumes "\<And>s w'. wkeeps w w' \<Longrightarrow> P (s, w')"
  shows "post P (add_event fd t h w)"
  unfolding add_event_def Let_def
  by (intro wp) (auto intro!: assms dest!: sys_call_frame simp: wkeeps_def)

lemma post_remove_event [wp]:
  assumes "\<And>w'. wkeeps w w' \<Longrightarrow> P w'"
  shows "post P (remove_event s w)"
  unfolding remove_event_def Let_def
  by (intro wp) (auto intro!: assms dest!: sys_call_frame simp: wkeeps_def)

end
