(* ===== verification/Console.thy ===== *)
theory Console
  imports Desc_Chain Io_Calls Event_Monitor Json
begin

text \<open>
  The console device of \<^verbatim>\<open>src/tools/virtio/devices/console/virtio_console.c\<close>: a pseudo terminal whose
  master end is read when the event monitor reports input and written when the guest kicks the
  transmit queue. A device that was not allocated is \<open>None\<close>.
\<close>

section \<open>State\<close>

record ConsoleDev =
  con_cols :: u16
  con_rows :: u16
  master_fd :: int
  slave_keepalive_fd :: int
  con_rx_ready :: int
  con_event :: "nat option"

type_synonym console_device = "ConsoleDev option VirtIODevice"

definition CONSOLE_SUPPORTED_FEATURES :: u64 where
  [simp]: "CONSOLE_SUPPORTED_FEATURES = push_bit 32 1 OR push_bit 0 1"
definition CONSOLE_MAX_QUEUES :: u32 where [simp]: "CONSOLE_MAX_QUEUES = 2"
definition VIRTQUEUE_CONSOLE_MAX_SIZE :: u32 where [simp]: "VIRTQUEUE_CONSOLE_MAX_SIZE = 64"
definition CONSOLE_QUEUE_RX :: nat where [simp]: "CONSOLE_QUEUE_RX = 0"
definition CONSOLE_QUEUE_TX :: nat where [simp]: "CONSOLE_QUEUE_TX = 1"

definition fresh_console :: ConsoleDev where
  "fresh_console = \<lparr>con_cols = 80, con_rows = 25, master_fd = -1, slave_keepalive_fd = -1, con_rx_ready = -1,
     con_event = None\<rparr>"

definition init_console_dev :: "world \<Rightarrow> (ConsoleDev option \<times> world) option" where
  "init_console_dev w = do {
     (r, w1) \<leftarrow> sys_call Calloc w;
     Some (if s_ret r = 0 then None else Some fresh_console, w1)
   }"

section \<open>Input\<close>

text \<open>
  The array that \<open>process_descriptor_chain\<close> allocated and partly filled, as the first \<open>n\<close> vectors the
  kernel is told to read: an entry that was never written has no value.
\<close>

definition filled_iov :: "int \<Rightarrow> iov_slot option list \<Rightarrow> iovec list option" where
  "filled_iov n slots =
     (if nat n \<le> length slots \<and> None \<notin> set (take (nat n) slots)
      then Some (map (\<lambda>s. fst (the s)) (take (nat n) slots)) else None)"

text \<open>One turn of the loop of the event handler; a negative result is its \<open>break\<close>.\<close>

definition console_rx_one :: "int \<Rightarrow> int \<Rightarrow> VirtQueue \<Rightarrow> world \<Rightarrow> (int \<times> VirtQueue \<times> world) option" where
  "console_rx_one fd zone vq w = do {
     (n, idx, slots, vq1) \<leftarrow> process_descriptor_chain (w_zm w) zone (w_mem w) vq 0 False;
     if n < 1 then Some (-1, vq1, w)
     else do {
       iov \<leftarrow> filled_iov n slots;
       (r, w1) \<leftarrow> sys_call (Readv fd iov) w;
       if s_ret r < 0 then Some (-1, vq1\<lparr>last_avail_idx := last_avail_idx vq1 - 1\<rparr>, w1)
       else do {
         i \<leftarrow> idx;
         w2 \<leftarrow> put_used vq1 i (of_int (s_ret r)) (w1\<lparr>w_mem := scatter iov (s_bytes r) (w_mem w1)\<rparr>);
         Some (0, vq1, w2)
       }
     }
   }"

definition virtio_console_event_handler ::
  "need_event \<Rightarrow> console_device \<Rightarrow> int \<Rightarrow> u32 \<Rightarrow> world \<Rightarrow> (console_device \<times> world) option" where
  "virtio_console_event_handler need vdev fd epoll_type w = do {
     d \<leftarrow> dev vdev;
     if fd \<noteq> master_fd d \<or> epoll_type AND EPOLLIN = 0 then Some (vdev, w)
     else if master_fd d \<le> 0 \<or> dev_type vdev \<noteq> VirtioTConsole then Some (vdev, w)
     else if con_rx_ready d \<le> 0
     then do { (r, w1) \<leftarrow> sys_call (Read_Discard (master_fd d)) w; Some (vdev, w1) }
     else do {
       vq \<leftarrow> nth_ub (vqs vdev) CONSOLE_QUEUE_RX;
       if virtqueue_is_empty (w_mem w) vq
       then do {
         (r, w1) \<leftarrow> sys_call (Read_Discard (master_fd d)) w;
         virtio_inject_irq need CONSOLE_QUEUE_RX vdev w1
       }
       else do {
         (vq1, w1) \<leftarrow> serve_queue (console_rx_one (master_fd d) (sint (zone_id vdev))) vq w;
         vdev1 \<leftarrow> upd_vq CONSOLE_QUEUE_RX (\<lambda>_. vq1) vdev;
         virtio_inject_irq need CONSOLE_QUEUE_RX vdev1 w1
       }
     }
   }"

section \<open>Creation\<close>

text \<open>
  Opening the terminal. The name \<open>ptsname\<close> returns is not modelled: the call answers 0 for a null
  pointer, and the name is the constant below.
\<close>

definition pts_path :: string where "pts_path = ''/dev/pts''"

definition virtio_console_init :: "console_device \<Rightarrow> world \<Rightarrow> (int \<times> console_device \<times> world) option" where
  "virtio_console_init vdev w = do {
     (m, w1) \<leftarrow> sys_call (Other_Call ''posix_openpt'' []) w;
     if s_ret m < 0 then Some (-1, vdev, w1) else do {
     (g, w2) \<leftarrow> sys_call (Other_Call ''grantpt'' [s_ret m]) w1;
     if s_ret g < 0 then do { (c, w3) \<leftarrow> sys_call (Close_Fd (s_ret m)) w2; Some (-1, vdev, w3) } else do {
     (u, w3) \<leftarrow> sys_call (Other_Call ''unlockpt'' [s_ret m]) w2;
     if s_ret u < 0 then do { (c, w4) \<leftarrow> sys_call (Close_Fd (s_ret m)) w3; Some (-1, vdev, w4) } else do {
     d \<leftarrow> dev vdev;
     let v1 = vdev\<lparr>dev := Some (d\<lparr>master_fd := s_ret m\<rparr>)\<rparr>;
     (p, w4) \<leftarrow> sys_call (Other_Call ''ptsname'' [s_ret m]) w3;
     if s_ret p = 0 then do { (c, w5) \<leftarrow> sys_call (Close_Fd (s_ret m)) w4; Some (-1, v1, w5) } else do {
     (s, w5) \<leftarrow> sys_call (Open_Path pts_path) w4;
     if s_ret s < 0 then do { (c, w6) \<leftarrow> sys_call (Close_Fd (s_ret m)) w5; Some (-1, v1, w6) } else do {
     (t, w6) \<leftarrow> sys_call (Other_Call ''tcgetattr'' [s_ret s]) w5;
     (t2, w7) \<leftarrow> sys_call (Other_Call ''tcsetattr'' [s_ret s]) w6;
     let v2 = vdev\<lparr>dev := Some (d\<lparr>master_fd := s_ret m, slave_keepalive_fd := s_ret s\<rparr>)\<rparr>;
     (e, w8) \<leftarrow> set_nonblocking (s_ret m) w7;
     if e < 0 then Some (-1, v2, w8) else do {
     (ev, w9) \<leftarrow> add_event (s_ret m) EPOLLIN (Console_Event (zone_id vdev) (base_addr vdev)) w8;
     let v3 = vdev\<lparr>dev := Some (d\<lparr>master_fd := s_ret m, slave_keepalive_fd := s_ret s, con_event := ev\<rparr>)\<rparr>;
     Some (if ev = None then -1 else 0, v3, w9) } } } } } }
   }"

section \<open>Notifications\<close>

definition virtio_console_rxq_notify_handler ::
  "console_device \<Rightarrow> nat \<Rightarrow> world \<Rightarrow> (int \<times> console_device \<times> world) option" where
  "virtio_console_rxq_notify_handler vdev i w = do {
     d \<leftarrow> dev vdev;
     if con_rx_ready d \<le> 0
     then do {
       vq \<leftarrow> nth_ub (vqs vdev) i;
       w1 \<leftarrow> notify_off vq w;
       Some (0, vdev\<lparr>dev := Some (d\<lparr>con_rx_ready := 1\<rparr>)\<rparr>, w1)
     }
     else Some (0, vdev, w)
   }"

text \<open>The function returns nothing, so the loop around it always goes on: the result is 0.\<close>

definition console_tx_handle_one_request ::
  "ConsoleDev option \<Rightarrow> int \<Rightarrow> VirtQueue \<Rightarrow> world \<Rightarrow> (int \<times> VirtQueue \<times> world) option" where
  "console_tx_handle_one_request con zone vq w = do {
     d \<leftarrow> con;
     if master_fd d \<le> 0 then Some (0, vq, w)
     else do {
       (n, idx, slots, vq1) \<leftarrow> process_descriptor_chain (w_zm w) zone (w_mem w) vq 0 False;
       if n < 1 then Some (0, vq1, w)
       else do {
         iov \<leftarrow> filled_iov n slots;
         (r, w1) \<leftarrow> sys_call (Writev (master_fd d) iov) w;
         i \<leftarrow> idx;
         w2 \<leftarrow> put_used vq1 i 0 w1;
         Some (0, vq1, w2)
       }
     }
   }"

definition virtio_console_txq_notify_handler ::
  "need_event \<Rightarrow> console_device \<Rightarrow> nat \<Rightarrow> world \<Rightarrow> (int \<times> console_device \<times> world) option" where
  "virtio_console_txq_notify_handler need vdev i w = do {
     vq \<leftarrow> nth_ub (vqs vdev) i;
     (vq1, w1) \<leftarrow> serve_batches (console_tx_handle_one_request (dev vdev) (sint (zone_id vdev))) vq w;
     vdev1 \<leftarrow> upd_vq i (\<lambda>_. vq1) vdev;
     (vdev2, w2) \<leftarrow> virtio_inject_irq need i vdev1 w1;
     Some (0, vdev2, w2)
   }"

section \<open>The operation table\<close>

definition virtio_console_reset :: "console_device \<Rightarrow> world \<Rightarrow> (console_device \<times> world) option" where
  "virtio_console_reset vdev w = Some (vdev, w)"

definition virtio_console_close :: "console_device \<Rightarrow> world \<Rightarrow> world option" where
  "virtio_console_close vdev w =
     (case dev vdev of None \<Rightarrow> Some w
      | Some d \<Rightarrow> do {
          w1 \<leftarrow> (if master_fd d \<ge> 0 then map_option snd (sys_call (Close_Fd (master_fd d)) w) else Some w);
          w2 \<leftarrow> (if slave_keepalive_fd d \<ge> 0 then map_option snd (sys_call (Close_Fd (slave_keepalive_fd d)) w1) else Some w1);
          remove_event (con_event d) w2
        })"

definition virtio_console_do_init :: "console_device \<Rightarrow> unit \<Rightarrow> world \<Rightarrow> (int \<times> console_device \<times> world) option" where
  "virtio_console_do_init vdev params w = do {
     (d, w1) \<leftarrow> init_console_dev w;
     if d = None then Some (- ENOMEM, vdev\<lparr>dev := None\<rparr>, w1)
     else virtio_console_init (vdev\<lparr>dev := d\<rparr>) w1
   }"

definition virtio_console_ops :: "need_event \<Rightarrow> (ConsoleDev option, unit) virtio_device_ops" where
  "virtio_console_ops need = \<lparr>op_features = CONSOLE_SUPPORTED_FEATURES, num_queues = CONSOLE_MAX_QUEUES,
     queue_max_size = VIRTQUEUE_CONSOLE_MAX_SIZE, op_init = virtio_console_do_init, op_close = virtio_console_close,
     op_reset = Some virtio_console_reset, op_status_changed = None,
     notify_handlers = [Some virtio_console_rxq_notify_handler, Some (virtio_console_txq_notify_handler need)]\<rparr>"

definition virtio_console_parse_params :: "'j cjson \<Rightarrow> 'j option \<Rightarrow> unit cres" where
  "virtio_console_parse_params J json = Ok ()"

section \<open>Where the buffers of a chain point\<close>

text \<open>
  The allocating chain walk does not refuse an unmapped address: a buffer begins in memory of the
  zone or at the null pointer.
\<close>

definition zone_or_null :: "int \<Rightarrow> zone_mem \<Rightarrow> u64 \<Rightarrow> bool" where
  "zone_or_null zone zm a \<longleftrightarrow> a = 0 \<or> zone_backed zm zone a"

definition slots_ok :: "(u64 \<Rightarrow> bool) \<Rightarrow> iov_slot option list \<Rightarrow> bool" where
  "slots_ok own slots \<longleftrightarrow> (\<forall>v f. Some (v, f) \<in> set slots \<longrightarrow> own (iov_base v))"

lemma slots_ok_update:
  assumes "slots_ok own slots" and "\<And>a. own (tr a)"
  shows "slots_ok own (slots[i := Some (descriptor2iov tr cf d)])"
  using assms set_update_subset_insert [of slots i "Some (descriptor2iov tr cf d)"]
  by (fastforce simp: slots_ok_def descriptor2iov_def)

lemma fill_indirect_slots:
  assumes "fill_indirect tr m cf t slots i n nxt = Some (slots', i', n')" and "slots_ok own slots" and "\<And>a. own (tr a)"
  shows "slots_ok own slots'"
  using assms
proof (induction tr m cf t slots i n nxt rule: fill_indirect.induct)
  case (1 tr m cf t slots i n nxt)
  then show ?case
    by (subst (asm) (2) fill_indirect.simps) (auto simp: Let_def slots_ok_update split: if_splits)
qed

lemma fill_chain_slots:
  assumes "fill_chain tr m cf tbl cl slots i nxt = Some slots'" and "slots_ok own slots" and "\<And>a. own (tr a)"
  shows "slots_ok own slots'"
  using assms
proof (induction tr m cf tbl cl slots i nxt rule: fill_chain.induct)
  case (1 tr m cf tbl cl slots i nxt)
  then show ?case
    by (subst (asm) (3) fill_chain.simps)
      (auto simp: Let_def slots_ok_update fill_indirect_slots split: if_splits option.splits prod.splits)
qed

lemma get_virt_addr_own: "zone_or_null zone zm (get_virt_addr zm a zone)"
  using gva.translate_backed [of zm a zone] by (auto simp: zone_or_null_def)

lemma post_process_descriptor_chain [wp]:
  assumes "P (0, None, [], vq)"
    and "\<And>n idx slots. slots_ok (zone_or_null zone zm) slots \<Longrightarrow>
           P (n, Some idx, slots, vq\<lparr>last_avail_idx := last_avail_idx vq + 1\<rparr>)"
  shows "post P (process_descriptor_chain zm zone m vq k cf)"
proof -
  have fill: "slots_ok (zone_or_null zone zm) slots"
    if "fill_chain (\<lambda>ipa. get_virt_addr zm ipa zone) m cf t l (replicate j None) i nxt = Some slots" for t l j i nxt slots
    by (rule fill_chain_slots [OF that]) (simp_all add: slots_ok_def get_virt_addr_own)
  show ?thesis
    unfolding process_descriptor_chain_def Let_def
    by (intro wp postI) (auto intro!: assms split: option.splits prod.splits if_splits dest!: fill)
qed

lemma filled_iov_own:
  "filled_iov n slots = Some iov \<Longrightarrow> slots_ok own slots \<Longrightarrow> list_all (\<lambda>v. own (iov_base v)) iov"
  by (clarsimp simp: filled_iov_def slots_ok_def list_all_iff split: if_splits)
    (metis in_set_takeD not_None_eq option.sel prod.collapse)

lemma post_filled_iov [wp]:
  "(\<And>iov. filled_iov n slots = Some iov \<Longrightarrow> P iov) \<Longrightarrow> post P (filled_iov n slots)"
  by (simp add: post_def)

section \<open>What a console keeps and calls\<close>

abbreviation console_calls :: "int \<Rightarrow> int \<Rightarrow> world \<Rightarrow> world \<Rightarrow> bool" where
  "console_calls fd zone \<equiv> calls_within (\<lambda>zm. io_call_ok fd (zone_or_null zone zm))"

lemma console_io_step:
  assumes "sys_call c w = Some (r, w')" and "c = Readv fd iov \<or> c = Writev fd iov \<or> c = Read_Discard fd"
    and "slots_ok (zone_or_null zone (w_zm w)) slots" and "filled_iov n slots = Some iov"
  shows "wkeeps w w' \<and> console_calls fd zone w w'"
  using wkeeps_calls [OF sys_call_frame [OF assms(1)]] filled_iov_own [OF assms(4,3)] assms(2)
  by (auto intro!: calls_within_call [OF assms(1)])

lemma console_rx_one_rel:
  "post (\<lambda>(r, vq', w'). wkeeps w w' \<and> console_calls fd zone w w') (console_rx_one fd zone vq w)"
  unfolding console_rx_one_def
  by (intro wp; simp; (intro wp)?; use console_io_step in \<open>fastforce\<close>)

lemma console_tx_one_rel:
  "post (\<lambda>(r, vq', w'). wkeeps w w' \<and> console_calls (master_fd d) zone w w')
     (console_tx_handle_one_request (Some d) zone vq w)"
  unfolding console_tx_handle_one_request_def bind.simps
  by (intro wp; simp; (intro wp)?; use console_io_step in \<open>fastforce\<close>)

text \<open>Both directions are request servers for both relations at once.\<close>

definition console_rel :: "int \<Rightarrow> int \<Rightarrow> world \<Rightarrow> world \<Rightarrow> bool" where
  "console_rel fd zone w w' \<longleftrightarrow> wkeeps w w' \<and> console_calls fd zone w w'"

lemma console_rel_trans: "console_rel fd zone u v \<Longrightarrow> console_rel fd zone v w \<Longrightarrow> console_rel fd zone u w"
  unfolding console_rel_def by (blast intro: wkeeps_trans calls_within_trans)

interpretation console_rx: request_server "console_rx_one fd zone" "console_rel fd zone" for fd zone
proof unfold_locales
  fix vq w r vq' w'
  assume "console_rx_one fd zone vq w = Some (r, vq', w')"
  then show "console_rel fd zone w w'" using postD [OF console_rx_one_rel] by (fastforce simp: console_rel_def)
qed (simp add: console_rel_def, simp add: console_rel_def, rule console_rel_trans)

text \<open>The descriptor of the terminal, if there is a device at all.\<close>

definition console_fd :: "ConsoleDev option \<Rightarrow> int" where
  "console_fd con = (case con of None \<Rightarrow> -1 | Some d \<Rightarrow> master_fd d)"

interpretation console_tx: request_server "console_tx_handle_one_request con zone" "console_rel (console_fd con) zone" for con zone
proof unfold_locales
  fix vq w r vq' w'
  assume one: "console_tx_handle_one_request con zone vq w = Some (r, vq', w')"
  then obtain d where d: "con = Some d" by (auto simp: console_tx_handle_one_request_def bind_Some_iff)
  then show "console_rel (console_fd con) zone w w'"
    using postD [OF console_tx_one_rel one [unfolded d]] by (simp add: console_rel_def console_fd_def)
qed (simp add: console_rel_def, simp add: console_rel_def, rule console_rel_trans)

lemma console_discard: "sys_call (Read_Discard fd) w = Some (r, w') \<Longrightarrow> console_rel fd zone w w'"
  by (auto simp: console_rel_def intro: wkeeps_calls sys_call_frame calls_within_call)

lemma console_inject: "virtio_inject_irq need i v w = Some (v', w') \<Longrightarrow> console_rel fd zone w w'"
  by (auto simp: console_rel_def intro: virtio_inject_irq_wkeeps calls_within_inject)

lemma console_event_rel:
  assumes "virtio_console_event_handler need v fd t w = Some (v', w')"
  shows "keeps v v' \<and> console_rel fd (sint (zone_id v)) w w'"
proof -
  obtain d where d: "dev v = Some d" using assms by (auto simp: virtio_console_event_handler_def bind_Some_iff)
  consider (same) "v' = v" "w' = w" | (drop) r where "v' = v" "fd = master_fd d" "sys_call (Read_Discard fd) w = Some (r, w')"
    | (empty) r w1 where "sys_call (Read_Discard fd) w = Some (r, w1)" "virtio_inject_irq need 0 v w1 = Some (v', w')"
    | (loop) vq vq1 w1 v1 where "serve_queue (console_rx_one fd (sint (zone_id v))) vq w = Some (vq1, w1)"
        "upd_vq 0 (\<lambda>_. vq1) v = Some v1" "virtio_inject_irq need 0 v1 w1 = Some (v', w')"
    using assms d by (auto simp: virtio_console_event_handler_def bind_Some_iff split: if_splits)
  then show ?thesis
  proof cases
    case same then show ?thesis by (simp add: console_rel_def)
  next
    case drop then show ?thesis by (simp add: console_discard)
  next
    case empty
    then show ?thesis
      using console_rel_trans [OF console_discard console_inject] virtio_inject_irq_keeps by blast
  next
    case loop
    note rel = console_rx.serve_queue_rel [OF loop(1), simplified]
    show ?thesis
      using console_rel_trans [OF rel console_inject [OF loop(3)]]
        keeps_trans [OF keeps_upd_vq [OF loop(2)] virtio_inject_irq_keeps [OF loop(3)]] by simp
  qed
qed

lemma console_txq_rel:
  assumes "virtio_console_txq_notify_handler need v i w = Some (r, v', w')"
  shows "keeps v v' \<and> console_rel (console_fd (dev v)) (sint (zone_id v)) w w'"
proof -
  obtain vq vq1 w1 v1 where
      s: "serve_batches (console_tx_handle_one_request (dev v) (sint (zone_id v))) vq w = Some (vq1, w1)"
    and u: "upd_vq i (\<lambda>_. vq1) v = Some v1" and j: "virtio_inject_irq need i v1 w1 = Some (v', w')"
    using assms by (auto simp: virtio_console_txq_notify_handler_def bind_Some_iff)
  show ?thesis
    using console_rel_trans [OF console_tx.serve_batches_rel [OF s, simplified] console_inject [OF j]]
      keeps_trans [OF keeps_upd_vq [OF u] virtio_inject_irq_keeps [OF j]] by simp
qed

lemma virtio_console_rxq_keeps:
  "virtio_console_rxq_notify_handler v i w = Some (r, v', w') \<Longrightarrow> keeps v v' \<and> wkeeps w w'"
  by (auto simp: virtio_console_rxq_notify_handler_def bind_Some_iff notify_off_def keeps_dev split: if_splits)

lemma virtio_console_reset_keeps: "virtio_console_reset v w = Some (v', w') \<Longrightarrow> keeps v v' \<and> wkeeps w w'"
  by (simp add: virtio_console_reset_def)

lemma post_virtio_console_init [wp]:
  assumes "\<And>e v' w'. keeps v v' \<Longrightarrow> P (e, v', w')"
  shows "post P (virtio_console_init v w)"
  unfolding virtio_console_init_def by (intro wp postI) (auto simp: keeps_dev bind_Some_iff intro!: assms split: if_splits)

lemma virtio_console_do_init_keeps: "post (\<lambda>(r, v', w'). keeps v v') (virtio_console_do_init v p w)"
  unfolding virtio_console_do_init_def init_console_dev_def
  by (intro wp) (auto simp: keeps_dev intro: keeps_trans [OF keeps_dev])

section \<open>Properties\<close>

lemma wf_chain_nonempty: "wf_chain tr m tbl k nxt = Some ds \<Longrightarrow> ds \<noteq> []"
proof -
  have "table_chain m t n i = Some xs \<Longrightarrow> xs \<noteq> []" for t n i xs
    by (induction m t n i arbitrary: xs rule: table_chain.induct) (auto simp: Let_def split: if_splits)
  then show "wf_chain tr m tbl k nxt = Some ds \<Longrightarrow> ds \<noteq> []"
    by (induction tr m tbl k nxt arbitrary: ds rule: wf_chain.induct) (fastforce simp: Let_def split: if_splits option.splits)+
qed

lemma filled_iov_all:
  "filled_iov (int (length ds)) (map (\<lambda>d. Some (descriptor2iov tr False d)) ds) = Some (map (desc_iov tr) ds)"
  by (auto simp: filled_iov_def descriptor2iov_def desc_iov_def)

lemma console_chain:
  assumes "\<not> vq_is_empty (w_mem w) vq" and "uint (vq_num vq) \<le> INT_MAX"
    and "wf_chain (\<lambda>ipa. get_virt_addr (w_zm w) ipa zone) (w_mem w) (desc_table vq) (unat (vq_num vq)) (next_head vq (w_mem w)) = Some ds"
    and "int (length ds) \<le> INT_MAX"
  shows "process_descriptor_chain (w_zm w) zone (w_mem w) vq 0 False =
     Some (int (length ds), Some (next_head vq (w_mem w)), map (\<lambda>d. Some (descriptor2iov (\<lambda>ipa. get_virt_addr (w_zm w) ipa zone) False d)) ds,
       vq\<lparr>last_avail_idx := last_avail_idx vq + 1\<rparr>)"
proof -
  have "avail_ring vq \<noteq> 0" using assms(1) by (auto simp: vq_is_empty_def)
  then show ?thesis
    using chain_on_wf [of vq "w_mem w" "w_zm w" zone ds 0 False] assms by (simp add: next_head_def)
qed

text \<open>
  C13: What the console does with a chain the virtio specification allows, whatever its buffers hold
  and whatever the kernel answers. Transmitting makes exactly one write to the terminal, of the
  buffers of the chain in chain order, changes no buffer, and completes the head of the chain
  with length zero even when the write failed. Receiving makes exactly one read from the terminal
  into the same buffers: if it fails, the queue is left as it was and the chain stays available;
  otherwise the bytes read are spread over the buffers and the head is completed with their number.
  Neither runs into undefined behaviour.
\<close>

theorem console_chain_served:
  fixes zone vq w ds r rs
  defines "iov \<equiv> map (desc_iov (\<lambda>ipa. get_virt_addr (w_zm w) ipa zone)) ds" and "head \<equiv> next_head vq (w_mem w)"
    and "vq1 \<equiv> vq\<lparr>last_avail_idx := last_avail_idx vq + 1\<rparr>"
  assumes "\<not> vq_is_empty (w_mem w) vq" and "used_ring vq \<noteq> 0" and "uint (vq_num vq) \<le> INT_MAX"
    and "wf_chain (\<lambda>ipa. get_virt_addr (w_zm w) ipa zone) (w_mem w) (desc_table vq) (unat (vq_num vq)) head = Some ds"
    and "int (length ds) \<le> INT_MAX" and "w_tape w = r # rs" and "0 < master_fd d"
  shows "(\<exists>m. update_used_ring vq head 0 (w_mem w) = Some m
        \<and> console_tx_handle_one_request (Some d) zone vq w = Some (0, vq1,
            w\<lparr>w_mem := m, w_tape := rs, w_trace := w_trace w @ [Writev (master_fd d) iov]\<rparr>))
    \<and> (if s_ret r < 0
       then console_rx_one (master_fd d) zone vq w = Some (-1, vq,
            w\<lparr>w_tape := rs, w_trace := w_trace w @ [Readv (master_fd d) iov]\<rparr>)
       else (\<exists>m. update_used_ring vq head (of_int (s_ret r)) (scatter iov (s_bytes r) (w_mem w)) = Some m
        \<and> console_rx_one (master_fd d) zone vq w = Some (0, vq1,
            w\<lparr>w_mem := m, w_tape := rs, w_trace := w_trace w @ [Readv (master_fd d) iov]\<rparr>)))"
proof -
  have c: "process_descriptor_chain (w_zm w) zone (w_mem w) vq 0 False = Some (int (length ds), Some head,
      map (\<lambda>d. Some (descriptor2iov (\<lambda>ipa. get_virt_addr (w_zm w) ipa zone) False d)) ds, vq1)"
    unfolding head_def vq1_def by (rule console_chain) (use assms in simp_all)
  have n: "\<not> int (length ds) < 1" using wf_chain_nonempty [OF assms(7)] by (cases ds) auto
  have f: "filled_iov (int (length ds)) (map (\<lambda>d. Some (descriptor2iov (\<lambda>ipa. get_virt_addr (w_zm w) ipa zone) False d)) ds) = Some iov"
    unfolding iov_def by (rule filled_iov_all)
  have s: "sys_call e w = Some (r, w\<lparr>w_tape := rs, w_trace := w_trace w @ [e]\<rparr>)" for e
    using assms(9) by (simp add: sys_call_def)
  have undo: "vq1\<lparr>last_avail_idx := last_avail_idx vq1 - 1\<rparr> = vq" by (simp add: vq1_def)
  have used: "used_ring vq1 \<noteq> 0" and same: "update_used_ring vq1 = update_used_ring vq"
    using assms(5) by (simp_all add: vq1_def update_used_ring_def fun_eq_iff)
  have tx: "console_tx_handle_one_request (Some d) zone vq w =
      map_option (\<lambda>w2. (0, vq1, w2)) (put_used vq1 head 0 (w\<lparr>w_tape := rs, w_trace := w_trace w @ [Writev (master_fd d) iov]\<rparr>))"
    using assms(10) n by (simp add: console_tx_handle_one_request_def c f s map_conv_bind_option comp_def)
  have rx: "console_rx_one (master_fd d) zone vq w =
      (if s_ret r < 0 then Some (-1, vq, w\<lparr>w_tape := rs, w_trace := w_trace w @ [Readv (master_fd d) iov]\<rparr>)
       else map_option (\<lambda>w2. (0, vq1, w2)) (put_used vq1 head (of_int (s_ret r))
         (w\<lparr>w_tape := rs, w_trace := w_trace w @ [Readv (master_fd d) iov], w_mem := scatter iov (s_bytes r) (w_mem w)\<rparr>)))"
    using n undo by (simp add: console_rx_one_def c f s map_conv_bind_option comp_def)
  show ?thesis
    unfolding tx rx using used
    by (auto simp: put_used_def same update_used_ring_def Let_def vq1_def)
qed

text \<open>
  A console in zone 1 with terminal 7 whose transmit queue holds one chain of two readable
  descriptors: the descriptor table is at offset 0, the available ring at 48, the used ring at 128.
\<close>

definition console_mem :: memory where
  "console_mem = bytes_at 0x7f0000000000
     [0x60, 0x00, 0, 0x50, 0, 0, 0, 0,  0x08, 0, 0, 0,  1, 0,  1, 0,
      0x00, 0x01, 0, 0x50, 0, 0, 0, 0,  0x20, 0, 0, 0,  0, 0,  0, 0,
      0, 0, 0, 0, 0, 0, 0, 0,  0, 0, 0, 0, 0, 0, 0, 0,
      0, 0,  1, 0,  0, 0,  0, 0]"

definition console_vq :: VirtQueue where
  "console_vq = zero_vq\<lparr>vq_num := 4, desc_table := 0x7f0000000000, avail_ring := 0x7f0000000030,
     used_ring := 0x7f0000000080\<rparr>"

definition example_console :: console_device where
  "example_console = \<lparr>vqs_len = 2, zone_id = 1, irq_id = 78, base_addr = 0xa003c00, mmio_len = 0x200, dev_type = VirtioTConsole,
     regs = \<lparr>device_id = 3, dev_feature_sel = 0, drv_feature_sel = 0, queue_sel = 1, interrupt_status = 0, reg_status = 15,
       generation = 0, dev_feature = 0, drv_feature = 0\<rparr>,
     vqs = [console_vq, console_vq],
     dev = Some (fresh_console\<lparr>master_fd := 7, slave_keepalive_fd := 8, con_rx_ready := 1, con_event := Some 0\<rparr>),
     virtio_close_set = True, status_changed_set = False, activated = True, interrupt_line_asserted = False\<rparr>"

lemma console_chain_served_witness:
  "\<exists>m. console_tx_handle_one_request (dev example_console) 1 console_vq (example_world\<lparr>w_mem := console_mem\<rparr>) =
     Some (0, console_vq\<lparr>last_avail_idx := 1\<rparr>, example_world\<lparr>w_mem := m, w_tape := tl (w_tape example_world),
       w_trace := [Writev 7 [\<lparr>iov_base = 0x7f0000000060, iov_len = 8\<rparr>, \<lparr>iov_base = 0x7f0000000100, iov_len = 32\<rparr>]]\<rparr>)"
proof -
  let ?w = "example_world\<lparr>w_mem := console_mem\<rparr>"
  let ?d = "fresh_console\<lparr>master_fd := 7, slave_keepalive_fd := 8, con_rx_ready := 1, con_event := Some 0\<rparr>"
  let ?ds = "[\<lparr>d_addr = 0x50000060, d_len = 8, d_flags = 1, d_next = 1\<rparr>, \<lparr>d_addr = 0x50000100, d_len = 32, d_flags = 0, d_next = 0\<rparr>]"
  have chain: "wf_chain (\<lambda>ipa. get_virt_addr (w_zm ?w) ipa 1) (w_mem ?w) (desc_table console_vq) (unat (vq_num console_vq))
      (next_head console_vq (w_mem ?w)) = Some ?ds"
    and ne: "\<not> vq_is_empty (w_mem ?w) console_vq" by code_simp+
  have iov: "map (desc_iov (\<lambda>ipa. get_virt_addr (w_zm ?w) ipa 1)) ?ds =
      [\<lparr>iov_base = 0x7f0000000060, iov_len = 8\<rparr>, \<lparr>iov_base = 0x7f0000000100, iov_len = 32\<rparr>]" by code_simp
  have tape: "w_tape ?w = hd (w_tape example_world) # tl (w_tape example_world)" by (simp add: example_world_def)
  show ?thesis
    using conjunct1 [OF console_chain_served [OF ne _ _ chain _ tape, of ?d, unfolded iov]]
    by (auto simp: console_vq_def zero_vq_def example_console_def example_world_def)
qed

text \<open>
  C36: Input after a reset of a console that was receiving is fatal. The reset leaves the device
  marked as ready to receive while the generic code clears its queues, so when the terminal has
  input the handler reads it away and then takes the index of a used ring that is a null pointer.
\<close>

theorem console_input_after_reset:
  assumes "dev v = Some d" and "master_fd d > 0" and "con_rx_ready d > 0" and "dev_type v = VirtioTConsole"
    and "vqs_len v = 2" and "length (vqs v) = 2" and "interrupt_line_asserted v = False" and "queue_sel (regs v) < 2"
    and "lookup_ops env VirtioTConsole = Some (virtio_console_ops need)"
    and "w_tape w \<noteq> []"
  shows "\<exists>v'. virtio_dev_reset env v w = Some (v', w)
     \<and> virtio_console_event_handler need v' (master_fd d) EPOLLIN w = None"
proof -
  have sel: "unat (queue_sel (regs v)) < 2" using assms(8) by (simp add: word_less_nat_alt)
  obtain v' where v': "virtio_dev_reset env v w = Some (v', w)" and dv: "dev v' = Some d" "dev_type v' = VirtioTConsole"
      and q: "vqs v' = map (\<lambda>i. virtqueue_reset ((vqs v)[unat (queue_sel (regs v)) := (vqs v ! unat (queue_sel (regs v)))\<lparr>vq_ready := 0\<rparr>] ! i) (of_nat i)) [0..<2]"
    using assms sel
    by (simp add: virtio_dev_reset_def upd_vq_def virtio_console_ops_def virtio_console_reset_def reset_vqs_def)
  have "nth_ub (vqs v') 0 = Some (virtqueue_reset ((vqs v)[unat (queue_sel (regs v)) := (vqs v ! unat (queue_sel (regs v)))\<lparr>vq_ready := 0\<rparr>] ! 0) 0)"
    by (simp add: q nth_ub_def)
  then show ?thesis
    using v' dv assms(2,3,10)
    by (auto simp: virtio_console_event_handler_def virtqueue_is_empty_def vq_is_empty_def virtqueue_reset_def
        zero_vq_def virtio_inject_irq_def sys_call_def split: list.splits)
qed

lemma console_input_after_reset_witness:
  "\<exists>v'. virtio_dev_reset \<lparr>lookup_ops = (\<lambda>_. Some (virtio_console_ops (\<lambda>_ _ _. True))), dev_bytes = (\<lambda>_. []), null_dev = None\<rparr>
        example_console example_world = Some (v', example_world)
     \<and> virtio_console_event_handler (\<lambda>_ _ _. True) v' 7 EPOLLIN example_world = None"
proof -
  have d: "dev example_console = Some (fresh_console\<lparr>master_fd := 7, slave_keepalive_fd := 8, con_rx_ready := 1, con_event := Some 0\<rparr>)"
    by (simp add: example_console_def)
  show ?thesis
    using console_input_after_reset [OF d, of "\<lparr>lookup_ops = (\<lambda>_. Some (virtio_console_ops (\<lambda>_ _ _. True))), dev_bytes = (\<lambda>_. []), null_dev = None\<rparr>" "\<lambda>_ _ _. True" example_world]
    by (simp add: example_console_def example_world_def)
qed

end
