(* ===== verification/Net.thy ===== *)
theory Net
  imports Io_Calls Event_Monitor Virtio_Config
begin

text \<open>
  The network device of \<^verbatim>\<open>src/tools/virtio/devices/net/virtio_net.c\<close>: frames between a TAP interface
  and the guest's receive and transmit queues. Both directions collect their completions in arrays
  of 256 entries on the stack and publish them together; a write past these arrays is undefined
  behaviour. The address of the padding buffer, which is on the stack too, is the argument \<open>pad\<close>.
\<close>

section \<open>State\<close>

definition NET_QUEUE_RX :: nat where [simp]: "NET_QUEUE_RX = 0"
definition NET_QUEUE_TX :: nat where [simp]: "NET_QUEUE_TX = 1"
definition NET_MAX_QUEUES :: u32 where [simp]: "NET_MAX_QUEUES = 2"
definition VIRTQUEUE_NET_MAX_SIZE :: nat where [simp]: "VIRTQUEUE_NET_MAX_SIZE = 256"
definition NET_IOV_MAX :: nat where [simp]: "NET_IOV_MAX = VIRTQUEUE_NET_MAX_SIZE"
definition NET_SUPPORTED_FEATURES :: u64 where
  [simp]: "NET_SUPPORTED_FEATURES = push_bit 32 1 OR push_bit 5 1 OR push_bit 16 1"
definition IFNAMSIZ :: nat where [simp]: "IFNAMSIZ = 16"
definition VIRTIO_CONFIG_S_FEATURES_OK :: u32 where [simp]: "VIRTIO_CONFIG_S_FEATURES_OK = 8"

record virtio_net_init_params =
  p_mac :: "u8 list"
  p_tap :: string

record NetDev =
  net_mac :: "u8 list"
  net_status :: u16
  tapfd :: int
  net_rx_ready :: int
  net_event :: "nat option"
  net_iovs :: bool

type_synonym net_device = "NetDev option VirtIODevice"

definition fresh_net :: "u8 list \<Rightarrow> NetDev" where
  "fresh_net mac = \<lparr>net_mac = mac, net_status = 1, tapfd = -1, net_rx_ready = 0, net_event = None, net_iovs = False\<rparr>"

definition init_net_dev :: "u8 list \<Rightarrow> world \<Rightarrow> (NetDev option \<times> world) option" where
  "init_net_dev mac w = do {
     (r, w1) \<leftarrow> sys_call Calloc w;
     Some (if s_ret r = 0 then None else Some (fresh_net mac), w1)
   }"

definition open_tap :: "string \<Rightarrow> world \<Rightarrow> (int \<times> world) option" where
  "open_tap devname w = do {
     (r, w1) \<leftarrow> sys_call (Open_Path ''/dev/net/tun'') w;
     if s_ret r < 0 then Some (-1, w1)
     else do {
       (r2, w2) \<leftarrow> sys_call (Other_Call (''TUNSETIFF '' @ take (IFNAMSIZ - 1) devname) [s_ret r]) w1;
       if s_ret r2 < 0 then do { (c, w3) \<leftarrow> sys_call (Close_Fd (s_ret r)) w2; Some (-1, w3) }
       else Some (s_ret r, w2)
     }
   }"

definition virtio_net_rxq_notify_handler :: "net_device \<Rightarrow> nat \<Rightarrow> world \<Rightarrow> (int \<times> net_device \<times> world) option" where
  "virtio_net_rxq_notify_handler vdev i w = do {
     d \<leftarrow> dev vdev;
     if net_rx_ready d \<le> 0
     then do {
       vq \<leftarrow> nth_ub (vqs vdev) i;
       w1 \<leftarrow> notify_off vq w;
       Some (0, vdev\<lparr>dev := Some (d\<lparr>net_rx_ready := 1\<rparr>)\<rparr>, w1)
     }
     else Some (0, vdev, w)
   }"

text \<open>The sizes of \<open>struct virtio_net_hdr_v1\<close> and of the legacy \<open>struct virtio_net_hdr\<close>.\<close>

definition get_nethdr_size :: "'d VirtIODevice \<Rightarrow> u64" where
  "get_nethdr_size vdev = (if drv_feature (regs vdev) AND push_bit 32 1 \<noteq> 0 then 12 else 10)"

section \<open>Receiving\<close>

type_synonym batch = "(u16 \<times> u32) list"

text \<open>Appending to the arrays on the stack.\<close>

definition batch_push :: "batch \<Rightarrow> u16 \<Rightarrow> u32 \<Rightarrow> batch option" where
  "batch_push b idx len = (if length b < VIRTQUEUE_NET_MAX_SIZE then Some (b @ [(idx, len)]) else None)"

text \<open>
  One turn of the loop. The first component of the result says whether the loop goes on, the second
  is the value of \<open>rx_ready\<close>.
\<close>

definition net_rx_one ::
  "int \<Rightarrow> int \<Rightarrow> int \<Rightarrow> VirtQueue \<Rightarrow> batch \<Rightarrow> world \<Rightarrow> (bool \<times> int \<times> VirtQueue \<times> batch \<times> world) option" where
  "net_rx_one fd zone ready vq b w =
     (if avail_ring vq = 0 then None
      else do {
        let idx = next_head vq (w_mem w);
        (n, vq1, req) \<leftarrow> process_descriptor_chain_buf (w_zm w) zone (w_mem w) vq idx
            \<lparr>max_out = 0, max_in = NET_IOV_MAX\<rparr> \<lparr>out_iov = [], in_iov = []\<rparr>;
        if n < 1 \<or> n > int VIRTQUEUE_NET_MAX_SIZE
        then do {
          let vq2 = (if n < 1 then vq1\<lparr>last_avail_idx := last_avail_idx vq1 + 1\<rparr> else vq1);
          b1 \<leftarrow> batch_push b idx 0;
          Some (False, ready, vq2, b1, w)
        }
        else do {
          (r, w1) \<leftarrow> sys_call (Readv fd (in_iov req)) w;
          if s_ret r < 0 \<and> s_errno r = EWOULDBLOCK
          then Some (False, ready, vq1\<lparr>last_avail_idx := last_avail_idx vq1 - 1\<rparr>, b, w1)
          else if s_ret r < 0 then do { b1 \<leftarrow> batch_push b idx 0; Some (False, ready, vq1, b1, w1) }
          else if s_ret r = 0 then do { b1 \<leftarrow> batch_push b idx 0; Some (False, 0, vq1, b1, w1) }
          else do {
            b1 \<leftarrow> batch_push b idx (of_int (s_ret r));
            Some (True, ready, vq1, b1, w1\<lparr>w_mem := scatter (in_iov req) (s_bytes r) (w_mem w1)\<rparr>)
          }
        }
      })"

definition net_rx_loop ::
  "int \<Rightarrow> int \<Rightarrow> int \<Rightarrow> VirtQueue \<Rightarrow> world \<Rightarrow> (bool \<times> int \<times> VirtQueue \<times> batch \<times> world) option" where
  "net_rx_loop fd zone ready vq w =
     while_opt (\<lambda>(go, ready, vq, b, w). go \<and> \<not> virtqueue_is_empty (w_mem w) vq)
       (\<lambda>(go, ready, vq, b, w). net_rx_one fd zone ready vq b w) (True, ready, vq, [], w)"

text \<open>Publishing the collected completions.\<close>

definition put_used_batch :: "VirtQueue \<Rightarrow> batch \<Rightarrow> world \<Rightarrow> world option" where
  "put_used_batch vq b w = do { m \<leftarrow> update_used_ring_batch vq b (w_mem w); Some (w\<lparr>w_mem := m\<rparr>) }"

definition virtio_net_event_handler ::
  "need_event \<Rightarrow> net_device \<Rightarrow> int \<Rightarrow> u32 \<Rightarrow> world \<Rightarrow> (net_device \<times> world) option" where
  "virtio_net_event_handler need vdev fd epoll_type w = do {
     d \<leftarrow> dev vdev;
     if fd \<noteq> tapfd d \<or> epoll_type AND EPOLLIN = 0 then Some (vdev, w)
     else if tapfd d = -1 \<or> dev_type vdev \<noteq> VirtioTNet then Some (vdev, w)
     else if net_rx_ready d = 0
     then do { (r, w1) \<leftarrow> sys_call (Read_Discard (tapfd d)) w; Some (vdev, w1) }
     else do {
       vq \<leftarrow> nth_ub (vqs vdev) NET_QUEUE_RX;
       if virtqueue_is_empty (w_mem w) vq
       then do {
         (r, w1) \<leftarrow> sys_call (Read_Discard (tapfd d)) w;
         virtio_inject_irq need NET_QUEUE_RX vdev w1
       }
       else do {
         (go, ready, vq1, b, w1) \<leftarrow> net_rx_loop (tapfd d) (sint (zone_id vdev)) (net_rx_ready d) vq w;
         vdev1 \<leftarrow> upd_vq NET_QUEUE_RX (\<lambda>_. vq1) (vdev\<lparr>dev := Some (d\<lparr>net_rx_ready := ready\<rparr>)\<rparr>);
         w2 \<leftarrow> (if length b > 0 then put_used_batch vq1 b w1 else Some w1);
         virtio_inject_irq need NET_QUEUE_RX vdev1 w2
       }
     }
   }"

section \<open>Transmitting\<close>

definition iovs_total :: "iovec list \<Rightarrow> u64" where
  "iovs_total vs = sum_list (map iov_len vs)"

text \<open>A frame shorter than 64 bytes gets a last vector of zeros.\<close>

definition pad_frame :: "u64 \<Rightarrow> u64 \<Rightarrow> iovec list \<Rightarrow> iovec list option" where
  "pad_frame pad hdr vs =
     (let packet_len = iovs_total vs - hdr in
      if packet_len < 64
      then (if length vs < NET_IOV_MAX then Some (vs @ [\<lparr>iov_base = pad, iov_len = 64 - packet_len\<rparr>]) else None)
      else Some vs)"

definition net_tx_handle_one_request ::
  "u64 \<Rightarrow> NetDev option \<Rightarrow> u64 \<Rightarrow> int \<Rightarrow> VirtQueue \<Rightarrow> batch \<Rightarrow> world \<Rightarrow> (VirtQueue \<times> batch \<times> world) option" where
  "net_tx_handle_one_request pad net hdr zone vq b w = Option.bind net (\<lambda>d.
      if tapfd d = -1 then Some (vq, b, w)
      else if avail_ring vq = 0 then None
      else do {
        let idx = next_head vq (w_mem w);
        (n, vq1, req) \<leftarrow> process_descriptor_chain_buf (w_zm w) zone (w_mem w) vq idx
            \<lparr>max_out = NET_IOV_MAX - 1, max_in = 0\<rparr> \<lparr>out_iov = [], in_iov = []\<rparr>;
        if n < 1
        then do {
          b1 \<leftarrow> batch_push b idx 0;
          Some (vq1\<lparr>last_avail_idx := last_avail_idx vq1 + 1\<rparr>, b1, w)
        }
        else do {
          v0 \<leftarrow> nth_ub (out_iov req) 0;
          if iov_len v0 < hdr then do { b1 \<leftarrow> batch_push b idx 0; Some (vq1, b1, w) }
          else do {
            iov \<leftarrow> pad_frame pad hdr (out_iov req);
            (r, w1) \<leftarrow> sys_call (Writev (tapfd d) iov) w;
            b1 \<leftarrow> batch_push b idx (if s_ret r < 0 then 0 else ucast (iovs_total (out_iov req)));
            Some (vq1, b1, w1)
          }
        }
      })"

definition net_tx_drain ::
  "u64 \<Rightarrow> NetDev option \<Rightarrow> u64 \<Rightarrow> int \<Rightarrow> VirtQueue \<Rightarrow> world \<Rightarrow> (VirtQueue \<times> batch \<times> world) option" where
  "net_tx_drain pad net hdr zone vq w =
     while_opt (\<lambda>(vq, b, w). \<not> virtqueue_is_empty (w_mem w) vq)
       (\<lambda>(vq, b, w). net_tx_handle_one_request pad net hdr zone vq b w) (vq, [], w)"

text \<open>
  One turn of the outer loop: drain, publish, interrupt, notifications on, and the last test, whose
  outcome is the first component: whether the loop goes on.
\<close>

definition net_tx_round :: "need_event \<Rightarrow> u64 \<Rightarrow> nat \<Rightarrow> net_device \<Rightarrow> world \<Rightarrow> (bool \<times> net_device \<times> world) option" where
  "net_tx_round need pad i vdev w = do {
     vq \<leftarrow> nth_ub (vqs vdev) i;
     (vq1, b, w1) \<leftarrow> net_tx_drain pad (dev vdev) (get_nethdr_size vdev) (sint (zone_id vdev)) vq w;
     v1 \<leftarrow> upd_vq i (\<lambda>_. vq1) vdev;
     (v2, w2) \<leftarrow> (if length b > 0
        then do { w' \<leftarrow> put_used_batch vq1 b w1; virtio_inject_irq need i v1 w' }
        else Some (v1, w1));
     vq2 \<leftarrow> nth_ub (vqs v2) i;
     w3 \<leftarrow> notify_on vq2 w2;
     if virtqueue_is_empty (w_mem w3) vq2 then Some (False, v2, w3)
     else do { w4 \<leftarrow> notify_off vq2 w3; Some (True, v2, w4) }
   }"

definition virtio_net_txq_notify_handler ::
  "need_event \<Rightarrow> u64 \<Rightarrow> net_device \<Rightarrow> nat \<Rightarrow> world \<Rightarrow> (int \<times> net_device \<times> world) option" where
  "virtio_net_txq_notify_handler need pad vdev i w = do {
     vq \<leftarrow> nth_ub (vqs vdev) i;
     w1 \<leftarrow> notify_off vq w;
     (go, v2, w2) \<leftarrow> while_opt (\<lambda>(go, v, w). go) (\<lambda>(go, v, w). net_tx_round need pad i v w) (True, vdev, w1);
     Some (0, v2, w2)
   }"

section \<open>Status, creation and the operation table\<close>

definition net_on_status :: "net_device \<Rightarrow> u32 \<Rightarrow> world \<Rightarrow> (net_device \<times> world) option" where
  "net_on_status vdev status w = do {
     w1 \<leftarrow> (if status AND VIRTIO_CONFIG_S_FEATURES_OK \<noteq> 0
        then do {
          d \<leftarrow> dev vdev;
          (r, w') \<leftarrow> sys_call (Other_Call ''TUNSETVNETHDRSZ'' [tapfd d, uint (get_nethdr_size vdev)]) w;
          Some w'
        }
        else Some w);
     if status = 0 then do { d \<leftarrow> dev vdev; Some (vdev\<lparr>dev := Some (d\<lparr>net_rx_ready := 0\<rparr>)\<rparr>, w1) }
     else Some (vdev, w1)
   }"

definition virtio_net_init :: "net_device \<Rightarrow> string \<Rightarrow> world \<Rightarrow> (int \<times> net_device \<times> world) option" where
  "virtio_net_init vdev devname w = do {
     d \<leftarrow> dev vdev;
     (fd, w1) \<leftarrow> open_tap devname w;
     let v1 = vdev\<lparr>dev := Some (d\<lparr>tapfd := fd\<rparr>)\<rparr>;
     if fd = -1 then Some (-1, v1, w1) else do {
     (e, w2) \<leftarrow> set_nonblocking fd w1;
     if e < 0 then Some (-1, v1, w2) else do {
     (ev, w3) \<leftarrow> add_event fd EPOLLIN (Net_Event (zone_id vdev) (base_addr vdev)) w2;
     let v2 = vdev\<lparr>dev := Some (d\<lparr>tapfd := fd, net_event := ev\<rparr>)\<rparr>;
     if ev = None then Some (-1, v2, w3) else do {
     (a, w4) \<leftarrow> sys_call Calloc w3;
     (a2, w5) \<leftarrow> sys_call Calloc w4;
     if s_ret a = 0 \<or> s_ret a2 = 0 then Some (-1, v2, w5)
     else Some (0, vdev\<lparr>dev := Some (d\<lparr>tapfd := fd, net_event := ev, net_iovs := True\<rparr>)\<rparr>, w5) } } }
   }"

definition virtio_net_reset :: "net_device \<Rightarrow> world \<Rightarrow> (net_device \<times> world) option" where
  "virtio_net_reset vdev w =
     (case dev vdev of None \<Rightarrow> Some (vdev, w)
      | Some d \<Rightarrow> Some (vdev\<lparr>dev := Some (d\<lparr>net_rx_ready := 0\<rparr>)\<rparr>, w))"

definition virtio_net_close :: "net_device \<Rightarrow> world \<Rightarrow> world option" where
  "virtio_net_close vdev w =
     (case dev vdev of None \<Rightarrow> Some w
      | Some d \<Rightarrow> do {
          w1 \<leftarrow> (if tapfd d \<ge> 0 then map_option snd (sys_call (Close_Fd (tapfd d)) w) else Some w);
          (if net_event d \<noteq> None then remove_event (net_event d) w1 else Some w1)
        })"

definition virtio_net_do_init ::
  "net_device \<Rightarrow> virtio_net_init_params option \<Rightarrow> world \<Rightarrow> (int \<times> net_device \<times> world) option" where
  "virtio_net_do_init vdev params w =
     (case params of None \<Rightarrow> Some (- EINVAL, vdev, w)
      | Some p \<Rightarrow> do {
          (d, w1) \<leftarrow> init_net_dev (p_mac p) w;
          if d = None then Some (- ENOMEM, vdev\<lparr>dev := None\<rparr>, w1)
          else virtio_net_init (vdev\<lparr>dev := d\<rparr>) (p_tap p) w1
        })"

definition virtio_net_ops :: "need_event \<Rightarrow> u64 \<Rightarrow> (NetDev option, virtio_net_init_params option) virtio_device_ops" where
  "virtio_net_ops need pad = \<lparr>op_features = NET_SUPPORTED_FEATURES, num_queues = NET_MAX_QUEUES,
     queue_max_size = of_nat VIRTQUEUE_NET_MAX_SIZE, op_init = virtio_net_do_init, op_close = virtio_net_close,
     op_reset = Some virtio_net_reset, op_status_changed = Some net_on_status,
     notify_handlers = [Some virtio_net_rxq_notify_handler, Some (virtio_net_txq_notify_handler need pad)]\<rparr>"

text \<open>
  The parameters in the configuration. The JSON library answers 0 for the size of a null array and
  a null item for any index of it. The allocation is taken to succeed.
\<close>

fun parse_mac :: "'j cjson \<Rightarrow> 'j option \<Rightarrow> nat list \<Rightarrow> u8 list option" where
  "parse_mac J arr [] = Some []"
| "parse_mac J arr (i # is) = do {
     x \<leftarrow> parse_json_u8 J (Option.bind arr (\<lambda>a. cj_array_item J a (int i)));
     xs \<leftarrow> parse_mac J arr is;
     Some (x # xs)
   }"

definition virtio_net_parse_params :: "'j cjson \<Rightarrow> 'j option \<Rightarrow> virtio_net_init_params cres" where
  "virtio_net_parse_params J json =
     (let item = (\<lambda>key. Option.bind json (\<lambda>j. cj_get_item J j key)) in
      case node_text J (item ''tap'') of None \<Rightarrow> Err (- EINVAL)
      | Some s \<Rightarrow>
          if s = [] then Err (- EINVAL)
          else if length s \<ge> IFNAMSIZ then Err (- 36)
          else let mac = item ''mac'' in
            if (case mac of None \<Rightarrow> 0 | Some a \<Rightarrow> cj_array_size J a) \<noteq> 6 then Err (- EINVAL)
            else (case parse_mac J mac [0..<6] of None \<Rightarrow> Err (- EINVAL)
                  | Some bs \<Rightarrow> Ok \<lparr>p_mac = bs, p_tap = s\<rparr>))"

section \<open>What a network device keeps and calls\<close>

definition net_rel :: "u64 \<Rightarrow> int \<Rightarrow> int \<Rightarrow> world \<Rightarrow> world \<Rightarrow> bool" where
  "net_rel pad fd zone w w' \<longleftrightarrow>
     wkeeps w w' \<and> calls_within (\<lambda>zm. io_call_ok fd (\<lambda>a. a = pad \<or> zone_backed zm zone a)) w w'"

lemma net_rel_refl [simp]: "net_rel pad fd zone w w"
  by (simp add: net_rel_def)

lemma net_rel_mem [simp]: "net_rel pad fd zone w (w'\<lparr>w_mem := m\<rparr>) \<longleftrightarrow> net_rel pad fd zone w w'"
  by (simp add: net_rel_def)

lemma net_rel_from_mem [simp]: "net_rel pad fd zone (w\<lparr>w_mem := m\<rparr>) w' \<longleftrightarrow> net_rel pad fd zone w w'"
  by (simp add: net_rel_def calls_within_def wkeeps_def)

lemma net_rel_trans: "net_rel pad fd zone u v \<Longrightarrow> net_rel pad fd zone v w \<Longrightarrow> net_rel pad fd zone u w"
  unfolding net_rel_def by (blast intro: wkeeps_trans calls_within_trans)

lemma net_rel_call:
  assumes "sys_call c w = Some (r, w')" and "io_call_ok fd (\<lambda>a. a = pad \<or> zone_backed (w_zm w) zone a) c"
  shows "net_rel pad fd zone w w'"
  using assms by (auto simp: net_rel_def intro: wkeeps_calls sys_call_frame calls_within_call)

lemma net_rel_inject: "virtio_inject_irq need i v w = Some (v', w') \<Longrightarrow> net_rel pad fd zone w w'"
  by (auto simp: net_rel_def intro: virtio_inject_irq_wkeeps calls_within_inject)

lemma upd_vq_dev: "upd_vq i f v = Some v' \<Longrightarrow> dev v' = dev v"
  by (auto simp: upd_vq_def split: if_splits)

lemma assert_line_dev: "assert_line v w = Some (v', w') \<Longrightarrow> dev v' = dev v"
  by (auto simp: assert_line_def bind_Some_iff Let_def)

lemma inject_dev: "virtio_inject_irq need i v w = Some (v', w') \<Longrightarrow> dev v' = dev v"
  by (auto simp: virtio_inject_irq_def bind_Some_iff Let_def split: if_splits dest!: upd_vq_dev assert_line_dev)

lemma post_put_used_batch [wp]: "(\<And>m. P (w\<lparr>w_mem := m\<rparr>)) \<Longrightarrow> post P (put_used_batch vq b w)"
  by (auto simp: put_used_batch_def post_def bind_Some_iff)

lemma post_batch_push [wp]:
  "(length b < 256 \<Longrightarrow> P (b @ [(i, l)])) \<Longrightarrow> post P (batch_push b i l)"
  by (simp add: batch_push_def post_def)

lemma pad_frame_cases:
  "pad_frame pad hdr vs = Some iov \<Longrightarrow> iov = vs \<or> (\<exists>n. iov = vs @ [\<lparr>iov_base = pad, iov_len = n\<rparr>])"
  by (auto simp: pad_frame_def Let_def split: if_splits)

lemma post_pad_frame [wp]: "(\<And>iov. pad_frame pad hdr vs = Some iov \<Longrightarrow> P iov) \<Longrightarrow> post P (pad_frame pad hdr vs)"
  by (simp add: post_def)

lemma net_rx_step:
  assumes "sys_call (Readv fd iov) w = Some (r, w')" and "\<forall>v\<in>set iov. zone_backed (w_zm w) zone (iov_base v) \<and> iov_base v \<noteq> 0"
  shows "net_rel pad fd zone w w'"
  using assms(2) by (auto simp: list_all_iff intro!: net_rel_call [OF assms(1)])

lemma net_tx_step:
  assumes "sys_call (Writev fd iov) w = Some (r, w')" and "pad_frame pad hdr outs = Some iov"
    and "\<forall>v\<in>set outs. zone_backed (w_zm w) zone (iov_base v) \<and> iov_base v \<noteq> 0"
  shows "net_rel pad fd zone w w'"
  using assms(3) pad_frame_cases [OF assms(2)] by (auto simp: list_all_iff intro!: net_rel_call [OF assms(1)])

lemma net_rx_one_rel:
  "post (\<lambda>(go, ready', vq', b', w'). net_rel pad fd zone w w') (net_rx_one fd zone ready vq b w)"
  unfolding net_rx_one_def by (intro wp; simp; erule (1) net_rx_step)

lemma net_tx_one_rel:
  "post (\<lambda>(vq', b', w'). net_rel pad (tapfd d) zone w w') (net_tx_handle_one_request pad (Some d) hdr zone vq b w)"
  unfolding net_tx_handle_one_request_def bind.simps
  by (intro wp; simp; erule (2) net_tx_step)

lemma net_rx_loop_rel:
  "post (\<lambda>(go, ready', vq', b', w'). net_rel pad fd zone w w') (net_rx_loop fd zone ready vq w)"
  unfolding net_rx_loop_def
  by (rule post_while_opt [where I = "\<lambda>(go, ready', vq', b', w'). net_rel pad fd zone w w'"])
    (auto intro!: net_rx_one_rel [THEN post_mono] intro: net_rel_trans)

text \<open>The descriptor of the interface, if there is a device at all.\<close>

definition net_fd :: "NetDev option \<Rightarrow> int" where
  "net_fd net = (case net of None \<Rightarrow> -1 | Some d \<Rightarrow> tapfd d)"

lemma net_tx_drain_rel:
  "post (\<lambda>(vq', b', w'). net_rel pad (net_fd net) zone w w') (net_tx_drain pad net hdr zone vq w)"
proof -
  have one: "post (\<lambda>(vq', b', w'). net_rel pad (net_fd net) zone w w') (net_tx_handle_one_request pad net hdr zone vq b w)" for vq b w
    using net_tx_one_rel by (cases net) (auto simp: net_fd_def net_tx_handle_one_request_def intro: post_None)
  show ?thesis
    unfolding net_tx_drain_def
    by (rule post_while_opt [where I = "\<lambda>(vq', b', w'). net_rel pad (net_fd net) zone w w'"])
      (auto intro!: one [THEN post_mono] intro: net_rel_trans)
qed

abbreviation net_step :: "u64 \<Rightarrow> net_device \<Rightarrow> world \<Rightarrow> net_device \<Rightarrow> world \<Rightarrow> bool" where
  "net_step pad v w v' w' \<equiv> keeps v v' \<and> dev v' = dev v \<and> net_rel pad (net_fd (dev v)) (sint (zone_id v)) w w'"

lemma net_step_trans:
  assumes "net_step pad u w v x" and "net_step pad v x v' w'"
  shows "net_step pad u w v' w'"
proof -
  have "zone_id v = zone_id u" using assms(1) by (simp add: keeps_def same_identity_def)
  then show ?thesis using assms keeps_trans [of u v v'] net_rel_trans [of pad _ _ w x w'] by simp
qed

lemma post_upd_vq [wp]: "(\<And>v'. keeps v v' \<Longrightarrow> dev v' = dev v \<Longrightarrow> P v') \<Longrightarrow> post P (upd_vq i f v)"
  by (rule postI) (simp add: keeps_upd_vq upd_vq_dev)

lemma post_inject [wp]:
  "(\<And>v' w'. keeps v v' \<Longrightarrow> dev v' = dev v \<Longrightarrow> (\<And>pad fd zone. net_rel pad fd zone w w') \<Longrightarrow> P (v', w'))
   \<Longrightarrow> post P (virtio_inject_irq need i v w)"
  by (rule postI) (auto dest: virtio_inject_irq_keeps inject_dev net_rel_inject)

lemma net_tx_round_rel: "post (\<lambda>(go, v', w'). net_step pad v w v' w') (net_tx_round need pad i v w)"
  unfolding net_tx_round_def
  by (intro wp net_tx_drain_rel [where pad = pad, THEN post_mono])
    (auto elim: keeps_trans net_rel_trans)

lemma virtio_net_txq_rel:
  assumes "virtio_net_txq_notify_handler need pad v i w = Some (r, v', w')"
  shows "net_step pad v w v' w'"
proof -
  obtain m go where run: "while_opt (\<lambda>(go, v, w). go) (\<lambda>(go, v, w). net_tx_round need pad i v w) (True, v, w\<lparr>w_mem := m\<rparr>) = Some (go, v', w')"
    using assms by (auto simp: virtio_net_txq_notify_handler_def bind_Some_iff notify_off_def)
  have "post (\<lambda>(go, v', w'). net_step pad v w v' w')
      (while_opt (\<lambda>(go, v, w). go) (\<lambda>(go, v, w). net_tx_round need pad i v w) (True, v, w\<lparr>w_mem := m\<rparr>))"
  proof (rule post_while_opt [where I = "\<lambda>(go, v', w'). net_step pad v w v' w'"], simp, clarify)
    fix v1 w1 assume so_far: "keeps v v1" "dev v1 = dev v" "net_rel pad (net_fd (dev v)) (sint (zone_id v)) w w1"
    show "post (\<lambda>(go, v', w'). net_step pad v w v' w') (net_tx_round need pad i v1 w1)"
      using net_step_trans [of v v1 pad w w1] so_far
      by (intro net_tx_round_rel [where pad = pad, THEN post_mono]) (simp only: split: prod.splits, blast)
  qed simp
  from postD [OF this run] show ?thesis by simp
qed

lemma net_discard: "sys_call (Read_Discard fd) w = Some (r, w') \<Longrightarrow> net_rel pad fd zone w w'"
  by (erule net_rel_call) simp

lemma net_event_rel:
  "post (\<lambda>(v', w'). keeps v v' \<and> net_rel pad fd (sint (zone_id v)) w w') (virtio_net_event_handler need v fd t w)"
proof (cases "dev v")
  case (Some d)
  show ?thesis
    unfolding virtio_net_event_handler_def Some bind.simps
    by (intro wp net_rx_loop_rel [where pad = pad, THEN post_mono])
      (auto elim: keeps_trans net_rel_trans dest!: net_discard [where pad = pad and zone = "sint (zone_id v)"] intro: keeps_trans [OF keeps_dev])
qed (simp add: virtio_net_event_handler_def post_None)

lemma virtio_net_rxq_keeps:
  "virtio_net_rxq_notify_handler v i w = Some (r, v', w') \<Longrightarrow> keeps v v' \<and> wkeeps w w'"
  by (auto simp: virtio_net_rxq_notify_handler_def bind_Some_iff notify_off_def keeps_dev split: if_splits)

lemma virtio_net_reset_keeps: "virtio_net_reset v w = Some (v', w') \<Longrightarrow> keeps v v' \<and> wkeeps w w'"
  by (auto simp: virtio_net_reset_def keeps_dev split: option.splits)

lemma net_on_status_keeps: "net_on_status v s w = Some (v', w') \<Longrightarrow> keeps v v' \<and> wkeeps w w'"
  by (auto simp: net_on_status_def bind_Some_iff keeps_dev split: if_splits dest!: sys_call_frame wkeeps_calls)

lemma post_open_tap: "(\<And>fd w'. P (fd, w')) \<Longrightarrow> post P (open_tap n w)"
  by (rule postI) auto

lemma post_virtio_net_init:
  assumes "\<And>e v' w'. keeps v v' \<Longrightarrow> P (e, v', w')"
  shows "post P (virtio_net_init v n w)"
proof (cases "dev v")
  case (Some d)
  show ?thesis
    unfolding virtio_net_init_def Some bind.simps
    by (intro wp post_open_tap) (auto simp: keeps_dev intro!: assms)
qed (simp add: virtio_net_init_def post_None)

lemma virtio_net_do_init_keeps: "post (\<lambda>(r, v', w'). keeps v v') (virtio_net_do_init v p w)"
  unfolding virtio_net_do_init_def init_net_dev_def
  by (intro wp post_virtio_net_init) (auto simp: keeps_dev intro: keeps_trans [OF keeps_dev])

section \<open>Properties\<close>

text \<open>
  A network device in zone 1 whose transmit queue holds one chain of one descriptor of 32 bytes: the
  descriptor table is at offset 0, the available ring at 48 with index \<open>lo + 256 * hi\<close>, the used
  ring at 128.
\<close>

definition net_mem :: "u8 \<Rightarrow> u8 \<Rightarrow> memory" where
  "net_mem lo hi = bytes_at 0x7f0000000000
     [0x00, 0x01, 0, 0x50, 0, 0, 0, 0,  0x20, 0, 0, 0,  0, 0,  0, 0,
      0, 0, 0, 0, 0, 0, 0, 0,  0, 0, 0, 0, 0, 0, 0, 0,
      0, 0, 0, 0, 0, 0, 0, 0,  0, 0, 0, 0, 0, 0, 0, 0,
      0, 0,  lo, hi,  0, 0,  0, 0]"

definition net_vq :: VirtQueue where
  "net_vq = zero_vq\<lparr>vq_num := 4, desc_table := 0x7f0000000000, avail_ring := 0x7f0000000030,
     used_ring := 0x7f0000000080\<rparr>"

definition example_net_dev :: NetDev where
  "example_net_dev = (fresh_net [2, 0, 0, 0, 0, 1])\<lparr>tapfd := 9, net_rx_ready := 1, net_event := Some 0, net_iovs := True\<rparr>"

definition example_net :: net_device where
  "example_net = \<lparr>vqs_len = 2, zone_id = 1, irq_id = 75, base_addr = 0xa003600, mmio_len = 0x200, dev_type = VirtioTNet,
     regs = \<lparr>device_id = 1, dev_feature_sel = 0, drv_feature_sel = 0, queue_sel = 1, interrupt_status = 0, reg_status = 15,
       generation = 0, dev_feature = 0, drv_feature = 0x100000000\<rparr>,
     vqs = [net_vq, net_vq], dev = Some example_net_dev,
     virtio_close_set = True, status_changed_set = True, activated = True, interrupt_line_asserted = False\<rparr>"

definition net_world :: world where
  "net_world = example_world\<lparr>w_mem := net_mem 1 0\<rparr>"

text \<open>The length of a frame as a number.\<close>

definition frame_bytes :: "iovec list \<Rightarrow> nat" where
  "frame_bytes vs = sum_list (map (\<lambda>v. unat (iov_len v)) vs)"

lemma frame_bytes_bound: "\<forall>v\<in>set vs. unat (iov_len v) < k \<Longrightarrow> frame_bytes vs \<le> length vs * k"
  by (induction vs) (auto simp: frame_bytes_def)

lemma iovs_total_unat: "frame_bytes vs < 2 ^ 64 \<Longrightarrow> unat (iovs_total vs) = frame_bytes vs"
proof (induction vs)
  case (Cons v vs)
  then have "unat (iovs_total vs) = frame_bytes vs" and "unat (iov_len v) + frame_bytes vs < 2 ^ 64"
    by (simp_all add: frame_bytes_def)
  then show ?case by (simp add: iovs_total_def frame_bytes_def unat_word_ariths)
qed (simp_all add: iovs_total_def frame_bytes_def)

lemma chain_buf_len:
  assumes "process_descriptor_chain_buf zm zid m vq head cfg \<lparr>out_iov = [], in_iov = []\<rparr> = Some (n, vq', req)"
    and "v \<in> set (out_iov req)"
  shows "unat (iov_len v) < 2 ^ 32"
proof -
  let ?tr = "\<lambda>ipa. get_virt_addr zm ipa zid"
  have fit: "iovs_fit cfg ([], [])" by (simp add: iovs_fit_def)
  obtain outs ins where w: "walk_chain ?tr m cfg (desc_table vq) (unat (vq_num vq)) head ([], []) = Some (Ok (outs, ins))"
      and o: "out_iov req = outs"
    using assms by (auto simp: process_descriptor_chain_buf_def split: option.splits cres.splits)
  then obtain ds where "(outs, ins) = gather ?tr ([], []) ds" using walk_chain_Ok [OF fit] by blast
  then obtain d where "v = desc_iov ?tr d" using assms(2) o by (auto simp: gather_def)
  then show ?thesis using le_less_trans [OF take_bit_nat_less_eq_self [of 64 "unat (d_len d)"] unsigned_less [of "d_len d"]]
    by (simp add: desc_iov_def unsigned_ucast_eq)
qed

text \<open>
  The frame that goes to the interface: the vectors of the chain, and if fewer than 64 bytes follow
  the header a last vector of padding that makes up for the difference.
\<close>

definition net_frame :: "u64 \<Rightarrow> u64 \<Rightarrow> iovec list \<Rightarrow> iovec list" where
  "net_frame pad hdr vs =
     (if frame_bytes vs < unat hdr + 64
      then vs @ [\<lparr>iov_base = pad, iov_len = of_nat (unat hdr + 64 - frame_bytes vs)\<rparr>] else vs)"

lemma pad_frame_exact:
  assumes "pad_frame pad hdr vs = Some iov" and "frame_bytes vs < 2 ^ 64" and "unat hdr \<le> frame_bytes vs"
  shows "iov = net_frame pad hdr vs"
proof -
  let ?p = "iovs_total vs - hdr"
  have "unat (iovs_total vs) = frame_bytes vs" by (rule iovs_total_unat [OF assms(2)])
  then have p: "unat ?p = frame_bytes vs - unat hdr" using assms(3) by (simp add: unat_sub word_le_nat_alt)
  show ?thesis
  proof (cases "?p < 64")
    case True
    then have lt: "unat ?p < 64" by (simp add: word_less_nat_alt)
    have "64 - ?p = of_nat (64 - unat ?p)" using True by (simp add: of_nat_diff word_less_nat_alt less_imp_le)
    also have "64 - unat ?p = unat hdr + 64 - frame_bytes vs" using p assms(3) by simp
    finally show ?thesis
      using assms(1,3) True lt p by (auto simp: pad_frame_def net_frame_def Let_def split: if_splits)
  next
    case False
    then have "64 \<le> unat ?p" by (simp add: word_less_nat_alt)
    then show ?thesis using assms(1) False p by (auto simp: pad_frame_def net_frame_def Let_def)
  qed
qed

lemma net_frame_bytes:
  assumes "unat hdr \<le> frame_bytes vs"
  shows "frame_bytes (net_frame pad hdr vs) = max (frame_bytes vs) (unat hdr + 64)"
proof -
  define k where "k = unat hdr + 64 - frame_bytes vs"
  have "k < 2 ^ 64" using assms by (simp add: k_def)
  then have "unat (of_nat k :: u64) = k" by (simp add: unat_of_nat_small)
  moreover have "frame_bytes (vs @ [\<lparr>iov_base = pad, iov_len = n\<rparr>]) = frame_bytes vs + unat n" for n
    by (simp add: frame_bytes_def)
  moreover have "frame_bytes vs < unat hdr + 64 \<Longrightarrow> frame_bytes vs + k = unat hdr + 64" by (simp add: k_def)
  ultimately show ?thesis unfolding net_frame_def k_def [symmetric] by (cases "frame_bytes vs < unat hdr + 64") simp_all
qed

text \<open>The chain a frame is taken from, and what sending it amounts to.\<close>

definition net_tx_chain :: "int \<Rightarrow> VirtQueue \<Rightarrow> world \<Rightarrow> (int \<times> VirtQueue \<times> VirtioRequest) option" where
  "net_tx_chain zone vq w = process_descriptor_chain_buf (w_zm w) zone (w_mem w) vq (next_head vq (w_mem w))
     \<lparr>max_out = NET_IOV_MAX - 1, max_in = 0\<rparr> \<lparr>out_iov = [], in_iov = []\<rparr>"

definition net_sent :: "u64 \<Rightarrow> NetDev \<Rightarrow> u64 \<Rightarrow> iovec list \<Rightarrow> world \<Rightarrow> u32 \<Rightarrow> world \<Rightarrow> bool" where
  "net_sent pad d hdr vs w len w' \<longleftrightarrow>
     (\<exists>r. sys_call (Writev (tapfd d) (net_frame pad hdr vs)) w = Some (r, w')
        \<and> len = (if s_ret r < 0 then 0 else of_nat (frame_bytes vs)))"

lemma net_tx_chain_bounds:
  assumes c: "net_tx_chain zone vq w = Some (n, vq1, req)" and n: "1 \<le> n"
  shows "length (out_iov req) \<le> 255" and "out_iov req \<noteq> []" and "frame_bytes (out_iov req) < 2 ^ 64"
    and "list_all (\<lambda>v. zone_backed (w_zm w) zone (iov_base v)) (out_iov req)"
proof -
  note ch = process_descriptor_chain_buf_cases [OF c [unfolded net_tx_chain_def]]
  show len: "length (out_iov req) \<le> 255" and "list_all (\<lambda>v. zone_backed (w_zm w) zone (iov_base v)) (out_iov req)"
    using ch n by (auto simp: list_all_iff)
  show "out_iov req \<noteq> []" using ch n by auto
  have "frame_bytes (out_iov req) \<le> length (out_iov req) * 2 ^ 32"
    using chain_buf_len [OF c [unfolded net_tx_chain_def]] by (intro frame_bytes_bound) simp
  with len show "frame_bytes (out_iov req) < 2 ^ 64" by simp
qed

text \<open>
  C24: Serving one chain of the transmit queue never writes memory and completes exactly the head of
  the chain. A chain that cannot be walked, or whose first vector is shorter than the header, is
  completed with length zero and sends nothing. Any other chain sends exactly one frame: the
  vectors of the chain in order, each beginning in the zone's memory, and when fewer than 64 bytes
  follow the header one more vector that pads it to exactly 64; at most 256 vectors in all. It is
  completed with the length of the chain, or with zero when the interface refused it.
\<close>

theorem net_tx_frame:
  assumes "net_tx_handle_one_request pad (Some d) hdr zone vq b w = Some (vq', b', w')" and "tapfd d \<noteq> -1"
  shows "w_mem w' = w_mem w \<and> (\<exists>n vq1 req len. net_tx_chain zone vq w = Some (n, vq1, req)
     \<and> b' = b @ [(next_head vq (w_mem w), len)]
     \<and> (if n < 1 \<or> iov_len (hd (out_iov req)) < hdr then w' = w \<and> len = 0
        else net_sent pad d hdr (out_iov req) w len w' \<and> length (net_frame pad hdr (out_iov req)) \<le> 256
          \<and> list_all (\<lambda>v. zone_backed (w_zm w) zone (iov_base v)) (out_iov req)
          \<and> frame_bytes (net_frame pad hdr (out_iov req)) = max (frame_bytes (out_iov req)) (unat hdr + 64)))"
proof -
  obtain n vq1 req where c: "net_tx_chain zone vq w = Some (n, vq1, req)"
    using assms by (auto simp: net_tx_handle_one_request_def net_tx_chain_def Let_def bind_Some_iff split: if_splits)
  note run = assms(1) [unfolded net_tx_handle_one_request_def bind.simps Let_def, folded net_tx_chain_def, unfolded c]
  show ?thesis
  proof (cases "n < 1 \<or> iov_len (hd (out_iov req)) < hdr")
    case True
    have "out_iov req ! 0 = hd (out_iov req)" if "0 < length (out_iov req)" using that by (cases "out_iov req") auto
    then have "w' = w \<and> b' = b @ [(next_head vq (w_mem w), 0)]"
      using run assms(2) True by (auto simp: bind_Some_iff batch_push_def nth_ub_def split: if_splits)
    then show ?thesis using c True by auto
  next
    case False
    then have n: "1 \<le> n" by simp
    note bounds = net_tx_chain_bounds [OF c n]
    have first: "out_iov req ! 0 = hd (out_iov req)" using bounds(2) by (cases "out_iov req") auto
    obtain iov r where p: "pad_frame pad hdr (out_iov req) = Some iov" and s: "sys_call (Writev (tapfd d) iov) w = Some (r, w')"
        and b': "b' = b @ [(next_head vq (w_mem w), if s_ret r < 0 then 0 else ucast (iovs_total (out_iov req)))]"
      using run assms(2) False bounds(2) by (auto simp: bind_Some_iff batch_push_def nth_ub_def first split: if_splits)
    have hdr: "unat hdr \<le> frame_bytes (out_iov req)"
      using False bounds(2) by (cases "out_iov req") (auto simp: frame_bytes_def word_le_nat_alt not_less)
    have iov: "iov = net_frame pad hdr (out_iov req)" by (rule pad_frame_exact [OF p bounds(3) hdr])
    have "(ucast (iovs_total (out_iov req)) :: u32) = of_nat (frame_bytes (out_iov req))"
      using iovs_total_unat [OF bounds(3)] by (metis of_nat_unat)
    then have "net_sent pad d hdr (out_iov req) w (if s_ret r < 0 then 0 else ucast (iovs_total (out_iov req))) w'"
      using s iov by (auto simp: net_sent_def)
    moreover have "length (net_frame pad hdr (out_iov req)) \<le> 256" using bounds(1) by (simp add: net_frame_def)
    ultimately show ?thesis using c b' False sys_call_mem [OF s] bounds(4) net_frame_bytes [OF hdr] by simp
  qed
qed

lemma net_tx_frame_witness:
  "\<exists>vq' len w'. net_tx_handle_one_request 0x7ffd0000 (Some example_net_dev) 12 1 net_vq [] net_world = Some (vq', [(0, len)], w')
     \<and> net_sent 0x7ffd0000 example_net_dev 12 [\<lparr>iov_base = 0x7f0000000100, iov_len = 32\<rparr>] net_world len w'"
proof -
  let ?run = "net_tx_handle_one_request 0x7ffd0000 (Some example_net_dev) 12 1 net_vq [] net_world"
  have "\<not> Option.is_none ?run" by code_simp
  then obtain vq' b' w' where run: "?run = Some (vq', b', w')" by (cases ?run) auto
  have fd: "tapfd example_net_dev \<noteq> -1" by (simp add: example_net_dev_def)
  have head: "next_head net_vq (w_mem net_world) = 0" by code_simp
  have "net_tx_chain 1 net_vq net_world = Some (1, net_vq\<lparr>last_avail_idx := 1\<rparr>,
      \<lparr>out_iov = [\<lparr>iov_base = 0x7f0000000100, iov_len = 32\<rparr>], in_iov = []\<rparr>)" by code_simp
  with net_tx_frame [OF run fd] run head show ?thesis by auto
qed

text \<open>
  C26: A guest that moves the index of its transmit queue more than 512 positions ahead breaks the
  daemon: the loop collects completions in an array of 256 entries without a bound, so no run of it
  returns, whatever the descriptors hold.
\<close>

theorem net_tx_batch_overflow:
  assumes "tapfd d \<noteq> -1" and "avail_ring vq \<noteq> 0"
    and "512 < unat (ld16 (w_mem w) (avail_idx_at (avail_ring vq)) - last_avail_idx vq)"
  shows "net_tx_drain pad (Some d) hdr zone vq w = None"
proof -
  define ahead where "ahead = (\<lambda>q :: VirtQueue. unat (ld16 (w_mem w) (avail_idx_at (avail_ring vq)) - last_avail_idx q))"
  let ?I = "\<lambda>(q, b, w'). avail_ring q = avail_ring vq \<and> w_mem w' = w_mem w \<and> length b \<le> 256 \<and> 512 < ahead q + 2 * length b"
  have closer: "ahead q - 1 \<le> ahead (q\<lparr>last_avail_idx := last_avail_idx q + 1\<rparr>)" for q
    by (cases "ld16 (w_mem w) (avail_idx_at (avail_ring vq)) = last_avail_idx q")
      (simp_all add: ahead_def diff_diff_eq [symmetric] unat_minus_one)
  have step: "post ?I (net_tx_handle_one_request pad (Some d) hdr zone q b w')"
    if inv: "?I (q, b, w')" and ne: "\<not> virtqueue_is_empty (w_mem w') q" for q b w'
  proof -
    let ?q1 = "q\<lparr>last_avail_idx := last_avail_idx q + 1\<rparr>"
    let ?q2 = "q\<lparr>last_avail_idx := 2 + last_avail_idx q\<rparr>"
    have i: "avail_ring q = avail_ring vq" "w_mem w' = w_mem w" "512 < ahead q + 2 * length b" using inv by auto
    have far: "512 < ahead ?q1 + 2 * Suc (length b)" "512 < ahead ?q2 + 2 * Suc (length b)"
      using i(3) closer [of q] closer [of ?q1] by simp_all
    show ?thesis
      unfolding net_tx_handle_one_request_def bind.simps Let_def
      by (intro wp; use i(1,2) far assms(1) in \<open>clarsimp simp: sys_call_mem\<close>)
  qed
  have "post (\<lambda>_. False) (net_tx_drain pad (Some d) hdr zone vq w)"
    unfolding net_tx_drain_def
  proof (rule post_while_opt [where I = ?I])
    show "?I (vq, [], w)" using assms(3) by (simp add: ahead_def)
  next
    fix s assume "?I s" and "\<not> (case s of (q, b, w') \<Rightarrow> \<not> virtqueue_is_empty (w_mem w') q)"
    then show False using assms(2) by (auto simp: virtqueue_is_empty_def vq_is_empty_def ahead_def)
  next
    fix s :: "VirtQueue \<times> batch \<times> world" assume s: "?I s" "case s of (q, b, w') \<Rightarrow> \<not> virtqueue_is_empty (w_mem w') q"
    obtain q b w' where [simp]: "s = (q, b, w')" by (cases s)
    show "post ?I (case s of (q, b, w') \<Rightarrow> net_tx_handle_one_request pad (Some d) hdr zone q b w')"
      using step [of q b w'] s by simp
  qed
  then show ?thesis by (cases "net_tx_drain pad (Some d) hdr zone vq w") (auto dest: postD)
qed

lemma net_tx_batch_overflow_witness:
  "net_tx_drain 0x7ffd0000 (Some example_net_dev) 12 1 net_vq (net_world\<lparr>w_mem := net_mem 0x58 0x02\<rparr>) = None"
proof (rule net_tx_batch_overflow)
  show "512 < unat (ld16 (w_mem (net_world\<lparr>w_mem := net_mem 0x58 0x02\<rparr>)) (avail_idx_at (avail_ring net_vq)) - last_avail_idx net_vq)"
    by code_simp
qed (simp_all add: example_net_dev_def net_vq_def zero_vq_def)

end
