(* ===== verification/Backends.thy ===== *)
theory Backends
  imports Consume Config_Safety Blk Virtio_Scmi Console Net
begin

text \<open>
  The tables of \<^verbatim>\<open>src/tools/virtio/virtio.c\<close> that tie the generic code to the device models:
  \<open>device_ops_table\<close> and \<open>config_ops_table\<close>. The pointer \<open>dev\<close> of a device, and the parameters of a
  configuration, become sums over the device types; using them as another type than the one they
  were made for is undefined behaviour. The GPU device is compiled out by default and has no entry.
\<close>

section \<open>One type for all devices\<close>

datatype device_state = Null_Dev | Blk_State BlkDev | Net_State NetDev | Console_State ConsoleDev | Scmi_State SCMIDev

datatype device_params = Null_Params | Blk_Params virtio_blk_init_params | Net_Params virtio_net_init_params
  | Scmi_Params virtio_scmi_init_params

fun as_blk :: "device_state \<Rightarrow> BlkDev option option" where
  "as_blk Null_Dev = Some None" | "as_blk (Blk_State d) = Some (Some d)" | "as_blk _ = None"

fun as_net :: "device_state \<Rightarrow> NetDev option option" where
  "as_net Null_Dev = Some None" | "as_net (Net_State d) = Some (Some d)" | "as_net _ = None"

fun as_console :: "device_state \<Rightarrow> ConsoleDev option option" where
  "as_console Null_Dev = Some None" | "as_console (Console_State d) = Some (Some d)" | "as_console _ = None"

fun as_scmi :: "device_state \<Rightarrow> SCMIDev option option" where
  "as_scmi Null_Dev = Some None" | "as_scmi (Scmi_State d) = Some (Some d)" | "as_scmi _ = None"

definition of_opt :: "('a \<Rightarrow> device_state) \<Rightarrow> 'a option \<Rightarrow> device_state" where
  "of_opt c x = (case x of None \<Rightarrow> Null_Dev | Some d \<Rightarrow> c d)"

fun blk_params :: "device_params \<Rightarrow> virtio_blk_init_params option option" where
  "blk_params Null_Params = Some None" | "blk_params (Blk_Params p) = Some (Some p)" | "blk_params _ = None"

fun net_params :: "device_params \<Rightarrow> virtio_net_init_params option option" where
  "net_params Null_Params = Some None" | "net_params (Net_Params p) = Some (Some p)" | "net_params _ = None"

fun scmi_init_params :: "device_params \<Rightarrow> virtio_scmi_init_params option option" where
  "scmi_init_params Null_Params = Some None" | "scmi_init_params (Scmi_Params p) = Some (Some p)" | "scmi_init_params _ = None"

text \<open>The same device with another value behind \<open>dev\<close>.\<close>

definition with_dev :: "'b \<Rightarrow> 'a VirtIODevice \<Rightarrow> 'b VirtIODevice" where
  "with_dev d v = \<lparr>vqs_len = vqs_len v, zone_id = zone_id v, irq_id = irq_id v, base_addr = base_addr v,
     mmio_len = mmio_len v, dev_type = dev_type v, regs = regs v, vqs = vqs v, dev = d,
     virtio_close_set = virtio_close_set v, status_changed_set = status_changed_set v, activated = activated v,
     interrupt_line_asserted = interrupt_line_asserted v\<rparr>"

text \<open>An operation table of one device type, on devices of any type.\<close>

definition lift_dev :: "(device_state \<Rightarrow> 'd option) \<Rightarrow> ('d \<Rightarrow> device_state)
    \<Rightarrow> ('d VirtIODevice \<Rightarrow> world \<Rightarrow> ('d VirtIODevice \<times> world) option)
    \<Rightarrow> device_state VirtIODevice \<Rightarrow> world \<Rightarrow> (device_state VirtIODevice \<times> world) option" where
  "lift_dev prj emb f v w = do {
     d \<leftarrow> prj (dev v);
     (v1, w1) \<leftarrow> f (with_dev d v) w;
     Some (with_dev (emb (dev v1)) v1, w1)
   }"

definition lift_int :: "(device_state \<Rightarrow> 'd option) \<Rightarrow> ('d \<Rightarrow> device_state)
    \<Rightarrow> ('d VirtIODevice \<Rightarrow> world \<Rightarrow> (int \<times> 'd VirtIODevice \<times> world) option)
    \<Rightarrow> device_state VirtIODevice \<Rightarrow> world \<Rightarrow> (int \<times> device_state VirtIODevice \<times> world) option" where
  "lift_int prj emb f v w = do {
     d \<leftarrow> prj (dev v);
     (r, v1, w1) \<leftarrow> f (with_dev d v) w;
     Some (r, with_dev (emb (dev v1)) v1, w1)
   }"

definition lift_ops :: "(device_state \<Rightarrow> 'd option) \<Rightarrow> ('d \<Rightarrow> device_state) \<Rightarrow> (device_params \<Rightarrow> 'p option)
    \<Rightarrow> ('d, 'p) virtio_device_ops \<Rightarrow> (device_state, device_params) virtio_device_ops" where
  "lift_ops prj emb par ops = \<lparr>op_features = op_features ops, num_queues = num_queues ops, queue_max_size = queue_max_size ops,
     op_init = (\<lambda>v p w. do { q \<leftarrow> par p; lift_int prj emb (\<lambda>v w. op_init ops v q w) v w }),
     op_close = (\<lambda>v w. do { d \<leftarrow> prj (dev v); op_close ops (with_dev d v) w }),
     op_reset = map_option (lift_dev prj emb) (op_reset ops),
     op_status_changed = map_option (\<lambda>g v s w. lift_dev prj emb (\<lambda>v w. g v s w) v w) (op_status_changed ops),
     notify_handlers = map (map_option (\<lambda>h v i w. lift_int prj emb (\<lambda>v w. h v i w) v w)) (notify_handlers ops)\<rparr>"

section \<open>The tables\<close>

fun device_ops_table :: "need_event \<Rightarrow> u64 \<Rightarrow> VirtioDeviceType \<Rightarrow> (device_state, device_params) virtio_device_ops option" where
  "device_ops_table need pad VirtioTBlock = Some (lift_ops as_blk (of_opt Blk_State) blk_params virtio_blk_ops)"
| "device_ops_table need pad VirtioTNet = Some (lift_ops as_net (of_opt Net_State) net_params (virtio_net_ops need pad))"
| "device_ops_table need pad VirtioTConsole = Some (lift_ops as_console (of_opt Console_State) (\<lambda>_. Some ()) (virtio_console_ops need))"
| "device_ops_table need pad VirtioTSCMI = Some (lift_ops as_scmi (of_opt Scmi_State) scmi_init_params (virtio_scmi_ops need))"
| "device_ops_table need pad VirtioTNone = None"
| "device_ops_table need pad VirtioTGPU = None"

fun ok_opt :: "'a cres \<Rightarrow> 'a option" where
  "ok_opt (Ok x) = Some x"
| "ok_opt (Err e) = None"

fun hv_config_ops :: "'j cjson \<Rightarrow> ('j, device_params) config_ops_table" where
  "hv_config_ops J VirtioTBlock = Some (\<lambda>j. map_option Blk_Params (ok_opt (virtio_blk_parse_params J j)))"
| "hv_config_ops J VirtioTNet = Some (\<lambda>j. map_option Net_Params (ok_opt (virtio_net_parse_params J j)))"
| "hv_config_ops J VirtioTConsole = Some (\<lambda>j. map_option (\<lambda>_. Null_Params) (ok_opt (virtio_console_parse_params J j)))"
| "hv_config_ops J VirtioTSCMI = Some (\<lambda>j. map_option Scmi_Params (ok_opt (virtio_scmi_parse_params J j)))"
| "hv_config_ops J VirtioTNone = None"
| "hv_config_ops J VirtioTGPU = None"

definition hv_env :: "need_event \<Rightarrow> u64 \<Rightarrow> (device_state \<Rightarrow> u8 list) \<Rightarrow> (device_state, device_params) devenv" where
  "hv_env need pad bytes = \<lparr>lookup_ops = device_ops_table need pad, dev_bytes = bytes, null_dev = Null_Dev\<rparr>"

section \<open>The contract of an operation table\<close>

text \<open>What the generic code expects of one table, and that it survives the change of type.\<close>

locale ops_contract =
  fixes ops :: "('d, 'p) virtio_device_ops"
  assumes ops_reset: "op_reset ops = Some f \<Longrightarrow> f v w = Some (v', w') \<Longrightarrow> keeps v v' \<and> wkeeps w w'"
    and ops_status: "op_status_changed ops = Some g \<Longrightarrow> g v s w = Some (v', w') \<Longrightarrow> keeps v v' \<and> wkeeps w w'"
    and ops_notify: "Some h \<in> set (notify_handlers ops) \<Longrightarrow> h v i w = Some (r, v', w') \<Longrightarrow> keeps v v' \<and> wkeeps w w'"
    and ops_init: "op_init ops v p w = Some (e, v', w') \<Longrightarrow> keeps v v' \<and> wkeeps w w'"
    and ops_close: "op_close ops v w = Some w' \<Longrightarrow> wkeeps w w'"

lemma keeps_with_dev: "keeps (with_dev a v) u \<Longrightarrow> keeps v (with_dev b u)"
  by (simp add: keeps_def same_identity_def dev_ok_def with_dev_def)

lemma lift_dev_keeps:
  assumes "lift_dev prj emb f v w = Some (v', w')" and "\<And>v v' w'. f v w = Some (v', w') \<Longrightarrow> keeps v v' \<and> wkeeps w w'"
  shows "keeps v v' \<and> wkeeps w w'"
  using assms(1) by (auto simp: lift_dev_def bind_Some_iff dest!: assms(2) intro: keeps_with_dev)

lemma lift_int_keeps:
  assumes "lift_int prj emb f v w = Some (r, v', w')" and "\<And>v r v' w'. f v w = Some (r, v', w') \<Longrightarrow> keeps v v' \<and> wkeeps w w'"
  shows "keeps v v' \<and> wkeeps w w'"
  using assms(1) by (auto simp: lift_int_def bind_Some_iff dest!: assms(2) intro: keeps_with_dev)

context ops_contract
begin

lemma lifted: "ops_contract (lift_ops prj emb par ops)"
proof
  fix f v w v' w'
  assume "op_reset (lift_ops prj emb par ops) = Some f" "f v w = Some (v', w')"
  then obtain f0 where "op_reset ops = Some f0" "lift_dev prj emb f0 v w = Some (v', w')" by (auto simp: lift_ops_def)
  then show "keeps v v' \<and> wkeeps w w'" using lift_dev_keeps ops_reset by blast
next
  fix g v s w v' w'
  assume "op_status_changed (lift_ops prj emb par ops) = Some g" "g v s w = Some (v', w')"
  then obtain g0 where "op_status_changed ops = Some g0" "lift_dev prj emb (\<lambda>v w. g0 v s w) v w = Some (v', w')"
    by (auto simp: lift_ops_def)
  then show "keeps v v' \<and> wkeeps w w'" using lift_dev_keeps ops_status by blast
next
  fix h v i w r v' w'
  assume "Some h \<in> set (notify_handlers (lift_ops prj emb par ops))" "h v i w = Some (r, v', w')"
  then obtain h0 where "Some h0 \<in> set (notify_handlers ops)" "lift_int prj emb (\<lambda>v w. h0 v i w) v w = Some (r, v', w')"
    by (auto simp: lift_ops_def dest!: sym [of "Some h"])
  then show "keeps v v' \<and> wkeeps w w'" using lift_int_keeps ops_notify by blast
next
  fix v p w e v' w'
  assume "op_init (lift_ops prj emb par ops) v p w = Some (e, v', w')"
  then obtain q where "lift_int prj emb (\<lambda>v w. op_init ops v q w) v w = Some (e, v', w')"
    by (auto simp: lift_ops_def bind_Some_iff)
  then show "keeps v v' \<and> wkeeps w w'" using lift_int_keeps ops_init by blast
next
  fix v w w'
  assume "op_close (lift_ops prj emb par ops) v w = Some w'"
  then show "wkeeps w w'" by (auto simp: lift_ops_def bind_Some_iff dest: ops_close)
qed

end

section \<open>Creating and closing devices\<close>

text \<open>
  Rules that carry what a chain of calls keeps of the world it started from.
\<close>

lemma wk_sys_call:
  assumes "wkeeps u w" and "\<And>r w'. wkeeps u w' \<Longrightarrow> P (r, w')"
  shows "post P (sys_call c w)"
  using wkeeps_trans [OF assms(1) wkeeps_calls [OF sys_call_frame]] assms(2) by (fastforce intro: postI)

lemma wk_discard:
  assumes "wkeeps u w" and "\<And>w'. wkeeps u w' \<Longrightarrow> P w'"
  shows "post P (map_option snd (sys_call c w))"
  using wkeeps_trans [OF assms(1) wkeeps_calls [OF sys_call_frame]] assms(2) by (fastforce intro: postI)

lemma wk_set_nonblocking:
  assumes "wkeeps u w" and "\<And>e w'. wkeeps u w' \<Longrightarrow> P (e, w')"
  shows "post P (set_nonblocking fd w)"
  using wkeeps_trans [OF assms(1) wkeeps_calls] assms(2) by (intro post_set_nonblocking) blast

lemma wk_add_event:
  assumes "wkeeps u w" and "\<And>s w'. wkeeps u w' \<Longrightarrow> P (s, w')"
  shows "post P (add_event fd t h w)"
  using wkeeps_trans [OF assms(1)] assms(2) by (intro post_add_event) blast

lemma wk_remove_event:
  assumes "wkeeps u w" and "\<And>w'. wkeeps u w' \<Longrightarrow> P w'"
  shows "post P (remove_event s w)"
  using wkeeps_trans [OF assms(1)] assms(2) by (intro post_remove_event) blast

lemmas wk_calls = wk_sys_call wk_discard wk_set_nonblocking wk_add_event wk_remove_event

lemmas wk_structure = post_Some post_None post_bind post_if post_let post_case_prod post_case_option

lemma blk_close_wkeeps: "post (wkeeps w) (virtio_blk_close v w)"
  unfolding virtio_blk_close_def by (intro wk_structure wk_calls) auto

lemma net_close_wkeeps: "post (wkeeps w) (virtio_net_close v w)"
  unfolding virtio_net_close_def by (intro wk_structure wk_calls) auto

lemma console_close_wkeeps: "post (wkeeps w) (virtio_console_close v w)"
  unfolding virtio_console_close_def by (intro wk_structure wk_calls) auto

lemma scmi_close_wkeeps: "post (wkeeps w) (virtio_scmi_close v w)"
  unfolding virtio_scmi_close_def by (intro wk_structure wk_calls) auto

lemma wk_init_blk_dev:
  assumes "wkeeps u w" and "\<And>r v' w'. wkeeps u w' \<Longrightarrow> P (r, v', w')"
  shows "post P (init_blk_dev v w)"
  unfolding init_blk_dev_def by (intro wk_structure wk_calls) (use assms in auto)

lemma wk_virtio_blk_init:
  assumes "wkeeps u w" and "\<And>r v' w'. wkeeps u w' \<Longrightarrow> P (r, v', w')"
  shows "post P (virtio_blk_init v n w)"
  unfolding virtio_blk_init_def by (intro wk_structure wk_calls) (use assms in \<open>auto intro!: wk_structure wk_calls\<close>)

lemma wk_start_blk_worker:
  assumes "wkeeps u w" and "\<And>r v' w'. wkeeps u w' \<Longrightarrow> P (r, v', w')"
  shows "post P (start_blk_worker v w)"
  unfolding start_blk_worker_def
  by (cases "dev v"; simp only: bind.simps; intro wk_structure wk_calls) (use assms in auto)

lemma blk_init_wkeeps: "post (\<lambda>(r, v', w'). wkeeps w w') (virtio_blk_do_init v p w)"
  unfolding virtio_blk_do_init_def
  by (intro wk_structure wk_calls wk_init_blk_dev wk_virtio_blk_init wk_start_blk_worker) auto

lemma wk_open_tap:
  assumes "wkeeps u w" and "\<And>fd w'. wkeeps u w' \<Longrightarrow> P (fd, w')"
  shows "post P (open_tap n w)"
  unfolding open_tap_def by (intro wk_structure wk_calls) (use assms in auto)

lemma wk_virtio_net_init:
  assumes "wkeeps u w" and "\<And>r v' w'. wkeeps u w' \<Longrightarrow> P (r, v', w')"
  shows "post P (virtio_net_init v n w)"
  unfolding virtio_net_init_def
  by (cases "dev v"; simp only: bind.simps; intro wk_structure wk_calls wk_open_tap) (use assms in auto)

lemma net_init_wkeeps: "post (\<lambda>(r, v', w'). wkeeps w w') (virtio_net_do_init v p w)"
  unfolding virtio_net_do_init_def init_net_dev_def
  by (intro wk_structure wk_calls wk_virtio_net_init) auto

lemma wk_virtio_console_init:
  assumes "wkeeps u w" and "\<And>r v' w'. wkeeps u w' \<Longrightarrow> P (r, v', w')"
  shows "post P (virtio_console_init v w)"
  unfolding virtio_console_init_def
  by (cases "dev v"; simp only: bind.simps; intro wk_structure wk_calls) (use assms in auto)

lemma console_init_wkeeps: "post (\<lambda>(r, v', w'). wkeeps w w') (virtio_console_do_init v p w)"
  unfolding virtio_console_do_init_def init_console_dev_def
  by (intro wk_structure wk_calls wk_virtio_console_init) auto

lemma wk_scmi_copy:
  assumes "wkeeps u w" and "\<And>r xs w'. wkeeps u w' \<Longrightarrow> P (r, xs, w')"
  shows "post P (scmi_copy_id_array src n w)"
  unfolding scmi_copy_id_array_def
  by (cases src; simp only: bind.simps; intro wk_structure wk_calls) (use assms in auto)

lemma scmi_init_wkeeps: "post (\<lambda>(r, v', w'). wkeeps w w') (virtio_scmi_do_init v p w)"
  unfolding virtio_scmi_do_init_def
  by (intro wk_structure wk_calls wk_scmi_copy) auto

section \<open>The tables honour their contracts\<close>

interpretation blk_ops: ops_contract virtio_blk_ops
  by unfold_locales
    (auto simp: virtio_blk_ops_def dest: virtio_blk_reset_keeps virtio_blk_notify_keeps
      postD [OF virtio_blk_do_init_keeps] postD [OF blk_init_wkeeps] postD [OF blk_close_wkeeps])

interpretation net_ops: ops_contract "virtio_net_ops need pad" for need pad
  by unfold_locales
    (auto simp: virtio_net_ops_def net_rel_def dest: virtio_net_reset_keeps net_on_status_keeps virtio_net_rxq_keeps virtio_net_txq_rel
      postD [OF virtio_net_do_init_keeps] postD [OF net_init_wkeeps] postD [OF net_close_wkeeps])

interpretation console_ops: ops_contract "virtio_console_ops need" for need
  by unfold_locales
    (auto simp: virtio_console_ops_def console_rel_def dest: virtio_console_reset_keeps virtio_console_rxq_keeps console_txq_rel
      postD [OF virtio_console_do_init_keeps] postD [OF console_init_wkeeps] postD [OF console_close_wkeeps])

interpretation scmi_ops: ops_contract "virtio_scmi_ops need" for need
  by unfold_locales
    (auto simp: virtio_scmi_ops_def dest: virtio_scmi_reset_keeps virtio_scmi_notify_keeps
      postD [OF virtio_scmi_do_init_keeps] postD [OF scmi_init_wkeeps] postD [OF scmi_close_wkeeps])

lemma device_ops_contract: "device_ops_table need pad t = Some ops \<Longrightarrow> ops_contract ops"
  by (cases t) (auto intro: blk_ops.lifted net_ops.lifted console_ops.lifted scmi_ops.lifted)

interpretation hv: device_creator "hv_env need pad bytes" for need pad bytes
proof unfold_locales
qed (auto simp: hv_env_def dest!: device_ops_contract dest: ops_contract.ops_reset ops_contract.ops_status
    ops_contract.ops_notify ops_contract.ops_init ops_contract.ops_close)

section \<open>Reset of a device\<close>

lemma unchanged_dev: "\<exists>d. u = u\<lparr>dev := d\<rparr>"
  by (rule exI [of _ "dev u"]) simp

text \<open>A table whose reset changes nothing of a device but what is behind \<open>dev\<close>.\<close>

definition dev_only :: "('d, 'p) virtio_device_ops \<Rightarrow> bool" where
  "dev_only ops \<longleftrightarrow> (\<forall>f u w u' w'. op_reset ops = Some f \<longrightarrow> f u w = Some (u', w') \<longrightarrow> (\<exists>d. u' = u\<lparr>dev := d\<rparr>))"

lemma lifted_reset_quiet:
  assumes "dev_only ops" and "op_reset (lift_ops prj emb par ops) = Some f" and "f v w = Some (v', w')"
  shows "regs v' = regs v \<and> vqs_len v' = vqs_len v \<and> interrupt_line_asserted v' = interrupt_line_asserted v \<and> vqs v' = vqs v"
proof -
  obtain g where g: "op_reset ops = Some g" "lift_dev prj emb g v w = Some (v', w')"
    using assms(2,3) by (auto simp: lift_ops_def)
  then obtain d u x where u: "g (with_dev d v) w = Some (u, x)" and v': "v' = with_dev (emb (dev u)) u"
    by (auto simp: lift_dev_def bind_Some_iff)
  obtain e where "u = (with_dev d v)\<lparr>dev := e\<rparr>" using assms(1) g(1) u unfolding dev_only_def by blast
  then show ?thesis by (simp add: v' with_dev_def)
qed

lemma ops_dev_only:
  "dev_only virtio_blk_ops" "dev_only (virtio_net_ops need pad)" "dev_only (virtio_console_ops need)" "dev_only (virtio_scmi_ops need)"
  using unchanged_dev
  by (auto simp: dev_only_def virtio_blk_ops_def virtio_net_ops_def virtio_console_ops_def virtio_scmi_ops_def
      virtio_blk_reset_def virtio_net_reset_def virtio_console_reset_def virtio_scmi_reset_def split: option.splits if_splits)

lemma table_reset_quiet:
  assumes "device_ops_table need pad t = Some ops" and "op_reset ops = Some f" and "f v w = Some (v', w')"
  shows "regs v' = regs v \<and> vqs_len v' = vqs_len v \<and> interrupt_line_asserted v' = interrupt_line_asserted v \<and> vqs v' = vqs v"
proof (cases t)
  case VirtioTBlock
  then have "ops = lift_ops as_blk (of_opt Blk_State) blk_params virtio_blk_ops" using assms(1) by simp
  then show ?thesis using lifted_reset_quiet [OF ops_dev_only(1)] assms(2,3) by blast
next
  case VirtioTNet
  then have "ops = lift_ops as_net (of_opt Net_State) net_params (virtio_net_ops need pad)" using assms(1) by simp
  then show ?thesis using lifted_reset_quiet [OF ops_dev_only(2)] assms(2,3) by blast
next
  case VirtioTConsole
  then have "ops = lift_ops as_console (of_opt Console_State) (\<lambda>_. Some ()) (virtio_console_ops need)" using assms(1) by simp
  then show ?thesis using lifted_reset_quiet [OF ops_dev_only(3)] assms(2,3) by blast
next
  case VirtioTSCMI
  then have "ops = lift_ops as_scmi (of_opt Scmi_State) scmi_init_params (virtio_scmi_ops need)" using assms(1) by simp
  then show ?thesis using lifted_reset_quiet [OF ops_dev_only(4)] assms(2,3) by blast
qed (use assms(1) in simp_all)

lemma hv_reset_quiet: "reset_quiet (hv_env need pad bytes)"
  unfolding reset_quiet_def hv_env_def using table_reset_quiet by (metis devenv.select_convs(1))

text \<open>
  C27: A completed reset of a consistent device, of any of the four device models, leaves the status
  register zero, the device inactive and every queue exactly as it was first created (not ready, no
  addresses, no indices, its size limit and handler kept). The interrupt line is held afterwards
  exactly when it was held before and the kernel refused to release it; if it is released the
  pending interrupts are cleared too, and all other registers are untouched.
\<close>

theorem virtio_dev_reset_post:
  assumes "virtio_dev_reset (hv_env need pad bytes) v w = Some (v', w')" and "dev_ok v"
  shows "(\<exists>ret w1. (if interrupt_line_asserted v then virtio_deassert_line_locked v w = Some (ret, w1) else ret = 0)
        \<and> (interrupt_line_asserted v' \<longleftrightarrow> ret \<noteq> 0))
     \<and> regs v' = (if interrupt_line_asserted v' then (regs v)\<lparr>reg_status := 0\<rparr>
                  else (regs v)\<lparr>interrupt_status := 0, reg_status := 0\<rparr>)
     \<and> vqs v' = map (\<lambda>i. fresh_vq (queue_num_max (vqs v ! i)) (notify_handler (vqs v ! i)) i) [0..<unat (vqs_len v)]
     \<and> vqs_len v' = vqs_len v \<and> \<not> activated v'"
  using virtio_dev_reset_line [OF assms(1) hv_reset_quiet] virtio_dev_reset_result [OF assms(1) hv_reset_quiet assms(2)]
  by (simp add: reset_regs_def)

text \<open>A running SCMI device that holds its line, and a kernel that releases it.\<close>

definition running_scmi :: "device_state VirtIODevice" where
  "running_scmi = with_dev (Scmi_State list_dev) (running_dev\<lparr>dev_type := VirtioTSCMI\<rparr>)"

lemma virtio_dev_reset_post_witness:
  "\<exists>v' w'. virtio_dev_reset (hv_env (\<lambda>_ _ _. True) 0 (\<lambda>_. [])) running_scmi example_world = Some (v', w')
     \<and> interrupt_status (regs v') = 0 \<and> \<not> interrupt_line_asserted v' \<and> vqs v' = [fresh_vq 0 None 0]"
proof -
  let ?run = "virtio_dev_reset (hv_env (\<lambda>_ _ _. True) 0 (\<lambda>_. [])) running_scmi example_world"
  have "map_option (\<lambda>(v', w'). interrupt_line_asserted v') ?run = Some False" by code_simp
  then obtain v' w' where run: "?run = Some (v', w')" and line: "\<not> interrupt_line_asserted v'" by auto
  have ok: "dev_ok running_scmi" using running_dev_ok by (simp add: dev_ok_def running_scmi_def with_dev_def)
  have "vqs_len running_scmi = 1" "map (\<lambda>q. (queue_num_max q, notify_handler q)) (vqs running_scmi) = [(0, None)]" by code_simp+
  then show ?thesis
    using virtio_dev_reset_post [OF run ok] run line by (auto simp: map_eq_Cons_conv)
qed

end
