(* ===== verification/Daemon.thy ===== *)
theory Daemon
  imports Backends
begin

text \<open>
  The virtio daemon as a whole: the device table with what changes it while the daemon runs. Its
  threads are steps of a transition system: the main thread serves the requests of the hypervisor,
  the event monitor delivers events, the control server adds configurations, and the worker of a
  block device acts on its queue. They are interleaved with each other and with steps of the
  hypervisor, the guests and the kernel, which own the rest of the world. A step is one request (or
  a whole drain of the ring), one event (or a turn of the event monitor), one added configuration,
  or one action of a worker; interleavings inside these are not modelled. Starting and closing the
  daemon are in the theory on its life.
\<close>

type_synonym hv_device = "device_state VirtIODevice"

section \<open>Delivering an event\<close>

text \<open>
  The parameter of a registered handler is a pointer to its device; here it is found by the zone and
  the window it was registered with. An event whose slot was cleared, or whose device is gone, is
  handled through a dangling pointer.
\<close>

definition run_handler ::
  "need_event \<Rightarrow> VirtioDeviceType \<Rightarrow> hv_device \<Rightarrow> int \<Rightarrow> u32 \<Rightarrow> world \<Rightarrow> (hv_device \<times> world) option" where
  "run_handler need t v fd epoll_type w =
     (if t = VirtioTConsole
      then lift_dev as_console (of_opt Console_State) (\<lambda>v w. virtio_console_event_handler need v fd epoll_type w) v w
      else lift_dev as_net (of_opt Net_State) (\<lambda>v w. virtio_net_event_handler need v fd epoll_type w) v w)"

fun event_target :: "event_handler \<Rightarrow> VirtioDeviceType \<times> u32 \<times> u64" where
  "event_target (Console_Event zone base) = (VirtioTConsole, zone, base)"
| "event_target (Net_Event zone base) = (VirtioTNet, zone, base)"

fun find_target :: "u32 \<Rightarrow> u64 \<Rightarrow> nat \<Rightarrow> hv_device list \<Rightarrow> nat option" where
  "find_target zone base i [] = None"
| "find_target zone base i (v # vs) = (if zone_id v = zone \<and> base_addr v = base then Some i else find_target zone base (Suc i) vs)"

definition deliver_event :: "need_event \<Rightarrow> nat \<Rightarrow> u32 \<Rightarrow> hv_device list \<Rightarrow> world \<Rightarrow> (hv_device list \<times> world) option" where
  "deliver_event need slot events vs w = do {
     e \<leftarrow> nth_ub (em_events (w_events w)) slot;
     hevent \<leftarrow> e;
     (case event_target (ev_handler hevent) of (t, zone, base) \<Rightarrow> do {
        i \<leftarrow> find_target zone base 0 vs;
        (v', w') \<leftarrow> run_handler need t (vs ! i) (ev_fd hevent) events w;
        Some (vs[i := v'], w')
      })
   }"

text \<open>One turn of the thread: the slots and event masks \<open>epoll_wait\<close> reports, in order.\<close>

fun deliver_events :: "need_event \<Rightarrow> (nat \<times> u32) list \<Rightarrow> hv_device list \<Rightarrow> world \<Rightarrow> (hv_device list \<times> world) option" where
  "deliver_events need [] vs w = Some (vs, w)"
| "deliver_events need ((slot, events) # es) vs w = do {
     (vs1, w1) \<leftarrow> deliver_event need slot events vs w;
     deliver_events need es vs1 w1
   }"

section \<open>The worker of a block device\<close>

definition run_worker :: "need_event \<Rightarrow> worker_action \<Rightarrow> nat \<Rightarrow> hv_device list \<Rightarrow> world \<Rightarrow> (hv_device list \<times> world) option" where
  "run_worker need a i vs w = do {
     v \<leftarrow> nth_ub vs i;
     (v', w') \<leftarrow> lift_dev as_blk (of_opt Blk_State) (blk_worker_action need a) v w;
     Some (vs[i := v'], w')
   }"

section \<open>The transition system\<close>

text \<open>
  What the surroundings may do between two steps of the daemon: the guests write their memory, the
  kernel answers calls, the hypervisor adds requests and takes responses. They keep the bridge page
  well formed and never touch the daemon's own tables.
\<close>

definition outside_step :: "world \<Rightarrow> world \<Rightarrow> bool" where
  "outside_step w w' \<longleftrightarrow> w_zm w' = w_zm w \<and> w_events w' = w_events w \<and> bridge_ok (w_bridge w')"

inductive daemon_step :: "need_event \<Rightarrow> u64 \<Rightarrow> (device_state \<Rightarrow> u8 list) \<Rightarrow> 'j cjson
    \<Rightarrow> hv_device list \<times> world \<Rightarrow> hv_device list \<times> world \<Rightarrow> bool"
  for need pad bytes J where
  requests: "consume_pending_requests (hv_env need pad bytes) vs w = Some (n, vs', w') \<Longrightarrow>
    daemon_step need pad bytes J (vs, w) (vs', w')"
| request: "virtio_handle_req (hv_env need pad bytes) q vs w = Some (r, vs', w') \<Longrightarrow>
    daemon_step need pad bytes J (vs, w) (vs', set_req_front ((req_front (w_bridge w') + 1) AND (MAX_REQ - 1)) w')"
| events: "deliver_events need es vs w = Some (vs', w') \<Longrightarrow> daemon_step need pad bytes J (vs, w) (vs', w')"
| worker: "run_worker need a i vs w = Some (vs', w') \<Longrightarrow> daemon_step need pad bytes J (vs, w) (vs', w')"
| hot_add: "virtio_add_from_json J (hv_config_ops J) (hv_env need pad bytes) mem_ok buffer vs w = Some (e, vs', w') \<Longrightarrow>
    daemon_step need pad bytes J (vs, w) (vs', w')"
| outside: "outside_step w w' \<Longrightarrow> daemon_step need pad bytes J (vs, w) (vs, w')"

inductive daemon_run :: "need_event \<Rightarrow> u64 \<Rightarrow> (device_state \<Rightarrow> u8 list) \<Rightarrow> 'j cjson
    \<Rightarrow> hv_device list \<times> world \<Rightarrow> hv_device list \<times> world \<Rightarrow> bool"
  for need pad bytes J where
  stop: "daemon_run need pad bytes J s s"
| step: "daemon_run need pad bytes J s t \<Longrightarrow> daemon_step need pad bytes J t u \<Longrightarrow> daemon_run need pad bytes J s u"

text \<open>The invariant of the daemon.\<close>

definition daemon_ok :: "'d VirtIODevice list \<times> world \<Rightarrow> bool" where
  "daemon_ok s \<longleftrightarrow> table_ok (fst s) \<and> (\<forall>v\<in>set (fst s). dev_ok v) \<and> bridge_ok (w_bridge (snd s))
     \<and> (\<forall>z. unambiguous (w_zm (snd s) z) \<and> length (w_zm (snd s) z) \<le> CONFIG_MAX_MEMORY_REGIONS)"

section \<open>Every step keeps it\<close>

lemma find_target_bound: "find_target zone base k vs = Some i \<Longrightarrow> k \<le> i \<and> i < k + length vs"
  by (induction zone base k vs rule: find_target.induct) (auto split: if_splits)

lemma run_handler_keeps:
  assumes "run_handler need t v fd e w = Some (v', w')"
  shows "keeps v v' \<and> wkeeps w w'"
proof -
  have console: "keeps u u' \<and> wkeeps w x" if "virtio_console_event_handler need u fd e w = Some (u', x)" for u u' x
    using console_event_rel [OF that] by (simp add: console_rel_def)
  have net: "keeps u u' \<and> wkeeps w x" if "virtio_net_event_handler need u fd e w = Some (u', x)" for u u' x
    using postD [OF net_event_rel that] by (simp add: net_rel_def)
  show ?thesis
    using assms lift_dev_keeps [OF _ console] lift_dev_keeps [OF _ net]
    unfolding run_handler_def by (auto split: if_splits)
qed

lemma update_devices:
  assumes "table_ok vs" and "\<forall>v\<in>set vs. dev_ok v" and "i < length vs" and "keeps (vs ! i) v'"
  shows "table_ok (vs[i := v']) \<and> (\<forall>v\<in>set (vs[i := v']). dev_ok v)"
  using table_ok_update [OF assms(1), of i v'] assms set_update_subset_insert [of vs i v'] nth_mem [OF assms(3)]
  by (auto simp: keeps_def)

lemma wkeeps_daemon:
  "wkeeps w w' \<Longrightarrow> daemon_ok (vs, w) \<Longrightarrow> table_ok vs' \<Longrightarrow> \<forall>v\<in>set vs'. dev_ok v \<Longrightarrow> daemon_ok (vs', w')"
  by (simp add: daemon_ok_def wkeeps_def)

lemma deliver_event_ok:
  assumes "deliver_event need slot es vs w = Some (vs', w')" and "daemon_ok (vs, w)"
  shows "daemon_ok (vs', w')"
proof -
  obtain hevent where h: "nth_ub (em_events (w_events w)) slot = Some (Some hevent)"
    using assms(1) by (auto simp: deliver_event_def bind_Some_iff)
  obtain t zone base where "event_target (ev_handler hevent) = (t, zone, base)" by (rule prod_cases3)
  then obtain i v' where f: "find_target zone base 0 vs = Some i"
      and r: "run_handler need t (vs ! i) (ev_fd hevent) es w = Some (v', w')" and vs': "vs' = vs[i := v']"
    using assms(1) h by (auto simp: deliver_event_def bind_Some_iff)
  have i: "i < length vs" using find_target_bound [OF f] by simp
  note k = run_handler_keeps [OF r]
  have "table_ok vs' \<and> (\<forall>v\<in>set vs'. dev_ok v)"
    unfolding vs' using assms(2) i k by (intro update_devices) (auto simp: daemon_ok_def)
  then show ?thesis using wkeeps_daemon [of w w' vs vs'] k assms(2) by blast
qed

lemma deliver_events_ok:
  "deliver_events need es vs w = Some (vs', w') \<Longrightarrow> daemon_ok (vs, w) \<Longrightarrow> daemon_ok (vs', w')"
proof (induction es arbitrary: vs w)
  case (Cons e es)
  obtain slot events where "e = (slot, events)" by (cases e)
  with Cons.prems(1) obtain vs1 w1 where "deliver_event need slot events vs w = Some (vs1, w1)"
      and "deliver_events need es vs1 w1 = Some (vs', w')"
    by (auto simp: bind_Some_iff)
  then show ?case using Cons.IH deliver_event_ok Cons.prems(2) by blast
qed simp

lemma run_worker_ok:
  assumes "run_worker need a i vs w = Some (vs', w')" and "daemon_ok (vs, w)"
  shows "daemon_ok (vs', w')"
proof -
  obtain v' where i: "i < length vs" and vs': "vs' = vs[i := v']"
      and l: "lift_dev as_blk (of_opt Blk_State) (blk_worker_action need a) (vs ! i) w = Some (v', w')"
    using assms(1) by (auto simp: run_worker_def bind_Some_iff nth_ub_def split: if_splits)
  have k: "keeps (vs ! i) v' \<and> wkeeps w w'" using lift_dev_keeps [OF l] blk_worker_action_keeps by blast
  have "table_ok vs' \<and> (\<forall>v\<in>set vs'. dev_ok v)"
    unfolding vs' using assms(2) i k by (intro update_devices) (auto simp: daemon_ok_def)
  then show ?thesis using wkeeps_daemon [of w w' vs vs'] k assms(2) by blast
qed

text \<open>Serving requests.\<close>

context device_backend
begin

lemma handle_req_zm:
  assumes "virtio_handle_req env req vs w = Some (r, vs', w')"
  shows "w_zm w' = w_zm w"
proof -
  have mmio: "post P (virtio_mmio_write env v offs x sz w)" if "\<And>v' w'. w_zm w' = w_zm w \<Longrightarrow> P (v', w')" for P v offs x sz w
    using that virtio_mmio_write_keeps by (fastforce simp: wkeeps_def intro: postI)
  have fin: "post P (virtio_finish_cfg_req cpu x u)" if "\<And>u'. w_zm u' = w_zm u \<Longrightarrow> P u'" for P cpu x u
    using that by (auto simp: finish_frame intro: postI)
  have rd: "post P (virtio_mmio_read env v offs sz seq)" if "\<And>x. P x" for P v offs sz seq
    using that by (auto intro: postI)
  have "post (\<lambda>(r, vs', w'). w_zm w' = w_zm w) (virtio_handle_req env req vs w)"
    unfolding virtio_handle_req_def by (intro wp mmio fin rd) auto
  from postD [OF this assms] show ?thesis by simp
qed

lemma handle_req_ok:
  assumes "virtio_handle_req env req vs w = Some (r, vs', w')" and "daemon_ok (vs, w)"
  shows "daemon_ok (vs', w')"
  using virtio_handle_req_keeps [OF assms(1)] handle_req_zm [OF assms(1)] assms(2)
  by (simp add: daemon_ok_def ring_untouched_def)

lemma serve_ok: "serve env qs vs w = Some (vs', w') \<Longrightarrow> daemon_ok (vs, w) \<Longrightarrow> daemon_ok (vs', w')"
proof (induction qs arbitrary: vs w)
  case (Cons q qs)
  then obtain r vs1 w1 where h: "virtio_handle_req env q vs w = Some (r, vs1, w1)"
      and s: "serve env qs vs1 (set_req_front ((req_front (w_bridge w1) + 1) AND (MAX_REQ - 1)) w1) = Some (vs', w')"
    by (auto simp: bind_Some_iff)
  have "daemon_ok (vs1, set_req_front ((req_front (w_bridge w1) + 1) AND (MAX_REQ - 1)) w1)"
    using handle_req_ok [OF h Cons.prems(2)] next_index_bound [of "req_front (w_bridge w1)"]
    by (simp add: daemon_ok_def bridge_ok_def set_req_front_def)
  then show ?case by (rule Cons.IH [OF s])
qed simp

lemma consume_ok:
  assumes "consume_pending_requests env vs w = Some (n, vs', w')" and "daemon_ok (vs, w)"
  shows "daemon_ok (vs', w')"
proof -
  have wake: "daemon_ok (us, set_need_wakeup x u) \<longleftrightarrow> daemon_ok (us, u)" for us :: "'a VirtIODevice list" and x u
    by (simp add: daemon_ok_def bridge_ok_def set_need_wakeup_def)
  have b: "bridge_ok (w_bridge w)" using assms(2) by (simp add: daemon_ok_def)
  obtain u where "serve env (req_items (w_bridge w)) vs (set_need_wakeup 0 w) = Some (vs', u)" and "w' = set_need_wakeup 1 u"
    using assms(1) unfolding consume_pending_requests_serves [OF b] by auto
  then show ?thesis using serve_ok [of "req_items (w_bridge w)" vs "set_need_wakeup 0 w" vs' u] assms(2) by (simp add: wake)
qed

end

text \<open>Adding a configuration.\<close>

lemma post_mmap_regions: "post (\<lambda>(e, w'). w_bridge w' = w_bridge w) (mmap_regions z ms w)"
proof (induction ms arbitrary: w)
  case (Cons m ms)
  have IH: "post (\<lambda>(e, w'). w_bridge w' = w_bridge w) (mmap_regions z ms u)" if "w_bridge u = w_bridge w" for u
    using Cons.IH [of u] that by simp
  show ?case unfolding mmap_regions.simps by (intro wp IH) (auto dest!: sys_call_frame)
qed (simp add: post_Some)

lemma mmap_regions_bridge: "mmap_regions z ms w = Some (e, w') \<Longrightarrow> w_bridge w' = w_bridge w"
  using postD [OF post_mmap_regions] by fastforce

lemma mmap_zones_bridge: "mmap_zones cfg w = Some (e, w') \<Longrightarrow> w_bridge w' = w_bridge w"
proof (induction cfg arbitrary: w)
  case (Cons zc cfg)
  then show ?case
    by (auto simp: bind_Some_iff mmap_virtio_zone_memory_def split: if_splits dest!: mmap_regions_bridge)
qed simp

lemma write_mmio_addrs_length: "write_mmio_addrs i vs addrs = Some addrs' \<Longrightarrow> length addrs' = length addrs"
  by (induction i vs addrs rule: write_mmio_addrs.induct) (auto simp: bind_Some_iff upd_ub_Some)

context device_creator
begin

lemma start_from_json_world:
  assumes "virtio_start_from_json J ops env mem_ok buffer vs w = Some (e, vs', w')" and "daemon_ok (vs, w)"
  shows "daemon_ok (vs, w')"
proof (cases "w' = w")
  case False
  have zm: "\<And>z. unambiguous (w_zm w z) \<and> length (w_zm w z) \<le> CONFIG_MAX_MEMORY_REGIONS"
    using assms(2) by (simp add: daemon_ok_def)
  from False obtain cfg e1 w1 where m: "mmap_zones cfg w = Some (e1, w1)"
      and c: "w' = w1 \<or> (\<exists>e2. create_virtio_config_devices env mem_ok cfg vs w1 = Some (e2, vs', w'))"
    using assms(1) by (auto simp: virtio_start_from_json_def bind_Some_iff split: option.splits if_splits)
  have k: "wkeeps w1 w'" using c postD [OF create_config_devices_wkeeps] by fastforce
  have "daemon_ok (vs, w1)"
    using mmap_zones_unambiguous [OF m zm] mmap_zones_bridge [OF m] assms(2) by (simp add: daemon_ok_def)
  then show ?thesis by (rule wkeeps_daemon [OF k]) (use assms(2) in \<open>simp_all add: daemon_ok_def\<close>)
qed (use assms(2) in simp)

lemma start_from_json_ok:
  assumes "virtio_start_from_json J ops env mem_ok buffer vs w = Some (e, vs', w')" and "daemon_ok (vs, w)"
  shows "daemon_ok (vs', w')"
  using start_from_json_world [OF assms] start_from_json_published [OF assms(1)] assms(2) by (auto simp: daemon_ok_def)

lemma add_from_json_ok:
  assumes "virtio_add_from_json J ops env mem_ok buffer vs w = Some (e, vs', w')" and "daemon_ok (vs, w)"
  shows "daemon_ok (vs', w')"
proof -
  obtain e1 w1 where s: "virtio_start_from_json J ops env mem_ok buffer vs w = Some (e1, vs', w1)"
      and w': "w' = w1 \<or> (\<exists>addrs. write_mmio_addrs 0 vs' (mmio_addrs (w_bridge w1)) = Some addrs
        \<and> w' = w1\<lparr>w_bridge := (w_bridge w1)\<lparr>mmio_addrs := addrs, mmio_avail := 1\<rparr>\<rparr>)"
    using assms(1) by (auto simp: virtio_add_from_json_def bind_Some_iff split: if_splits)
  have "daemon_ok (vs', w1)" by (rule start_from_json_ok [OF s assms(2)])
  with w' show ?thesis by (auto simp: daemon_ok_def bridge_ok_def dest: write_mmio_addrs_length)
qed

end

lemma daemon_step_ok: "daemon_step need pad bytes J s t \<Longrightarrow> daemon_ok s \<Longrightarrow> daemon_ok t"
proof (induction rule: daemon_step.induct)
  case (requests vs w n vs' w')
  then show ?case by (rule hv.consume_ok)
next
  case (request q vs w r vs' w')
  then show ?case
    using hv.handle_req_ok [OF request(1)] next_index_bound [of "req_front (w_bridge w')"]
    by (simp add: daemon_ok_def bridge_ok_def set_req_front_def)
next
  case (events es vs w vs' w')
  then show ?case by (rule deliver_events_ok)
next
  case (worker a i vs w vs' w')
  then show ?case by (rule run_worker_ok)
next
  case (hot_add mem_ok buffer vs w e vs' w')
  then show ?case by (rule hv.add_from_json_ok)
qed (simp add: daemon_ok_def outside_step_def)

lemma daemon_run_ok: "daemon_run need pad bytes J s t \<Longrightarrow> daemon_ok s \<Longrightarrow> daemon_ok t"
  by (induction rule: daemon_run.induct) (auto dest: daemon_step_ok)

end
