(* ===== verification/Loader.thy ===== *)
theory Loader
  imports World
begin

text \<open>
  Files and images (\<^verbatim>\<open>src/tools/hvisor.c\<close>): reading a whole file, opening the device of the kernel
  module, and loading bytes, strings and files into physical memory. A call of \<open>exit\<close> is \<open>None\<close>:
  the process is gone.
\<close>

section \<open>Reading\<close>

definition PAGE_SIZE :: nat where [simp]: "PAGE_SIZE = 4096"

text \<open>The bytes of the file and the size of the buffer they are in.\<close>

definition read_file :: "string \<Rightarrow> world \<Rightarrow> (u8 list \<times> nat \<times> world) option" where
  "read_file filename w = do {
     (fd, w1) \<leftarrow> sys_call (Open_Path filename) w;
     if s_ret fd < 0 then None else do {
     (st, w2) \<leftarrow> sys_call (Fstat (s_ret fd)) w1;
     if s_ret st < 0 then None else do {
     let sz = unat (s_val st 0);
     let buf_size = (sz + PAGE_SIZE - 1) div PAGE_SIZE * PAGE_SIZE;
     (a, w3) \<leftarrow> sys_call Calloc w2;
     if s_ret a = 0 \<and> buf_size \<noteq> 0 then None else do {
     (r, w4) \<leftarrow> sys_call (Other_Call ''read'' [s_ret fd, int sz]) w3;
     if s_ret r < 0 then None else do {
     (c, w5) \<leftarrow> sys_call (Close_Fd (s_ret fd)) w4;
     Some (take (nat (s_ret r)) (s_bytes r), buf_size, w5) } } } }
   }"

definition open_dev :: "world \<Rightarrow> (int \<times> world) option" where
  "open_dev w = do {
     (fd, w1) \<leftarrow> sys_call (Open_Path ''/dev/hvisor'') w;
     if s_ret fd < 0 then None else Some (s_ret fd, w1)
   }"

section \<open>Loading\<close>

text \<open>The size of a buffer rounded up to whole pages, in 64 bits.\<close>

definition page_round :: "u64 \<Rightarrow> u64" where
  "page_round n = (n + 4096 - 1) AND NOT (4096 - 1)"

text \<open>The bytes of the buffer are the argument; their number is the size.\<close>

definition load_buffer_to_memory :: "u8 list \<Rightarrow> u64 \<Rightarrow> world \<Rightarrow> (u64 \<times> world) option" where
  "load_buffer_to_memory buf load_paddr w =
     (if buf = [] then Some (0, w)
      else do {
        (fd, w1) \<leftarrow> open_dev w;
        (r, w2) \<leftarrow> sys_call (Ioctl_Load_Image buf load_paddr) w1;
        if s_ret r \<noteq> 0 then None
        else do {
          (c, w3) \<leftarrow> sys_call (Close_Fd fd) w2;
          Some (page_round (of_nat (length buf)), w3)
        }
      })"

definition load_str_to_memory :: "string \<Rightarrow> u64 \<Rightarrow> world \<Rightarrow> (u64 \<times> world) option" where
  "load_str_to_memory str load_paddr w = load_buffer_to_memory (map of_char str @ [0]) load_paddr w"

definition load_image_to_memory :: "string \<Rightarrow> u64 \<Rightarrow> world \<Rightarrow> (u64 \<times> world) option" where
  "load_image_to_memory path load_paddr w =
     (if path = ''null'' then Some (0, w)
      else do {
        (image_content, buf_size, w1) \<leftarrow> read_file path w;
        load_buffer_to_memory image_content load_paddr w1
      })"

section \<open>Characters as bytes\<close>

lemma char_byte: "unat (of_char c :: u8) = of_char c"
proof -
  have "unat (of_nat (of_char c) :: u8) = of_char c mod 256" by (simp add: unsigned_of_nat take_bit_eq_mod del: of_char_mod_256)
  then show ?thesis by (simp add: of_nat_of_char)
qed

lemma char_byte_0: "(of_char c :: u8) = 0 \<longleftrightarrow> c = CHR 0x00"
proof -
  have "(of_char c :: u8) = 0 \<longleftrightarrow> (of_char c :: nat) = 0" using unat_eq_0 [of "of_char c :: u8"] by (simp only: char_byte)
  also have "\<dots> \<longleftrightarrow> (of_char c :: nat) = of_char (CHR 0x00)" by simp
  finally show ?thesis by (simp only: of_char_eq_iff)
qed

end
