(* ===== verification/Control.thy ===== *)
theory Control
  imports Daemon Loader
begin

text \<open>
  The control socket of the daemon (\<^verbatim>\<open>src/tools/virtio/virtio.c\<close>): reading and writing whole
  messages over a stream, the request and response structures, the server side that adds a
  configuration to the running daemon, and the client command. A call of \<open>exit\<close> is \<open>None\<close>: the
  daemon is gone.
\<close>

section \<open>Whole messages over a stream\<close>

text \<open>
  The kernel answers a read with the bytes it stored. The results are the return value, the bytes in
  the buffer, and the world.
\<close>

function read_full :: "int \<Rightarrow> nat \<Rightarrow> u8 list \<Rightarrow> world \<Rightarrow> (int \<times> u8 list \<times> world) option" where
  "read_full fd len buf w =
     (if length buf \<ge> len then Some (int (length buf), buf, w)
      else case sys_call (Other_Call ''read'' [fd, int (len - length buf)]) w of None \<Rightarrow> None
        | Some (r, w1) \<Rightarrow>
            if s_ret r = 0 then Some (int (length buf), buf, w1)
            else if s_ret r < 0 then (if s_errno r = EINTR then read_full fd len buf w1 else Some (-1, buf, w1))
            else read_full fd len (buf @ take (nat (s_ret r)) (s_bytes r)) w1)"
  by pat_completeness auto
termination
  by (relation "measure (\<lambda>(fd, len, buf, w). length (w_tape w))") (auto simp: sys_call_def split: list.splits)

declare read_full.simps [simp del]

function write_full :: "int \<Rightarrow> u8 list \<Rightarrow> nat \<Rightarrow> world \<Rightarrow> (int \<times> world) option" where
  "write_full fd buf off w =
     (if off \<ge> length buf then Some (int off, w)
      else case sys_call (Other_Call ''write'' (fd # map uint (drop off buf))) w of None \<Rightarrow> None
        | Some (r, w1) \<Rightarrow>
            if s_ret r < 0 then (if s_errno r = EINTR then write_full fd buf off w1 else Some (-1, w1))
            else if s_ret r = 0 then Some (int off, w1)
            else write_full fd buf (off + nat (s_ret r)) w1)"
  by pat_completeness auto
termination
  by (relation "measure (\<lambda>(fd, buf, off, w). length (w_tape w))") (auto simp: sys_call_def split: list.splits)

declare write_full.simps [simp del]

section \<open>The messages\<close>

definition CTRL_OP_LEN :: nat where [simp]: "CTRL_OP_LEN = 16"
definition VIRTIO_CTRL_MSG_LEN :: nat where [simp]: "VIRTIO_CTRL_MSG_LEN = 256"
definition VIRTIO_CTRL_OP_ADD :: string where [simp]: "VIRTIO_CTRL_OP_ADD = ''add''"

text \<open>
  A text in an array of \<open>n\<close> bytes as \<open>snprintf\<close> leaves it in a zeroed structure, and the text of such
  an array once its last byte is set to zero.
\<close>

definition put_text :: "nat \<Rightarrow> string \<Rightarrow> u8 list" where
  "put_text n s = (let t = map of_char (take (n - 1) s) in t @ replicate (n - length t) 0)"

definition get_text :: "nat \<Rightarrow> u8 list \<Rightarrow> string" where
  "get_text n bs = map (\<lambda>b. char_of (unat b)) (takeWhile (\<lambda>b. b \<noteq> 0) (take (n - 1) bs))"

record VirtioControlRequest =
  rq_op :: string
  rq_json_path :: string

definition request_bytes :: "VirtioControlRequest \<Rightarrow> u8 list" where
  "request_bytes q = put_text CTRL_OP_LEN (rq_op q) @ put_text PATH_MAX (rq_json_path q)"

definition bytes_request :: "u8 list \<Rightarrow> VirtioControlRequest" where
  "bytes_request bs = \<lparr>rq_op = get_text CTRL_OP_LEN (take CTRL_OP_LEN bs), rq_json_path = get_text PATH_MAX (drop CTRL_OP_LEN bs)\<rparr>"

record VirtioControlResponse =
  rs_status :: int
  rs_message :: string

definition fill_control_response :: "int \<Rightarrow> string \<Rightarrow> VirtioControlResponse" where
  "fill_control_response status message = \<lparr>rs_status = status, rs_message = take (VIRTIO_CTRL_MSG_LEN - 1) message\<rparr>"

definition int_bytes :: "int \<Rightarrow> u8 list" where
  "int_bytes x = map (\<lambda>i. ucast (drop_bit (8 * i) (of_int x :: u32))) [0..<4]"

definition bytes_int :: "u8 list \<Rightarrow> int" where
  "bytes_int bs = sint (foldr (\<lambda>b x. ucast b OR push_bit 8 x) (take 4 bs) (0 :: u32))"

definition response_bytes :: "VirtioControlResponse \<Rightarrow> u8 list" where
  "response_bytes r = int_bytes (rs_status r) @ put_text VIRTIO_CTRL_MSG_LEN (rs_message r)"

section \<open>The server\<close>

text \<open>The file as a C string: a terminating zero is stored behind its last byte.\<close>

definition read_json :: "string \<Rightarrow> world \<Rightarrow> (string \<times> world) option" where
  "read_json path w = do {
     (bs, buf_size, w1) \<leftarrow> read_file path w;
     if length bs < buf_size
     then Some (map (\<lambda>b. char_of (unat b)) (takeWhile (\<lambda>b. b \<noteq> 0) bs), w1)
     else None
   }"

definition add_path :: "'j cjson \<Rightarrow> need_event \<Rightarrow> u64 \<Rightarrow> (device_state \<Rightarrow> u8 list) \<Rightarrow> bool \<times> bool \<Rightarrow> string
    \<Rightarrow> hv_device list \<Rightarrow> world \<Rightarrow> (int \<times> hv_device list \<times> world) option" where
  "add_path J need pad bytes mem_ok path vs w = do {
     (str, w1) \<leftarrow> read_json path w;
     virtio_add_from_json J (hv_config_ops J) (hv_env need pad bytes) mem_ok (Some str) vs w1
   }"

text \<open>The flag says whether \<open>ctrl_running\<close> is still set when the request has been handled.\<close>

definition handle_request :: "'j cjson \<Rightarrow> need_event \<Rightarrow> u64 \<Rightarrow> (device_state \<Rightarrow> u8 list) \<Rightarrow> bool \<times> bool
    \<Rightarrow> VirtioControlRequest \<Rightarrow> hv_device list \<Rightarrow> world \<Rightarrow> (VirtioControlResponse \<times> hv_device list \<times> world) option" where
  "handle_request J need pad bytes mem_ok q vs w =
     (if rq_op q \<noteq> VIRTIO_CTRL_OP_ADD
      then Some (fill_control_response (-1) ''unsupported virtio control operation'', vs, w)
      else do {
        (e, vs', w1) \<leftarrow> add_path J need pad bytes mem_ok (rq_json_path q) vs w;
        Some (if e \<noteq> 0 then fill_control_response (-1) ''virtio add failed''
              else fill_control_response 0 ''virtio add succeeded'', vs', w1)
      })"

definition handle_control_client :: "'j cjson \<Rightarrow> need_event \<Rightarrow> u64 \<Rightarrow> (device_state \<Rightarrow> u8 list) \<Rightarrow> bool \<times> bool \<Rightarrow> bool
    \<Rightarrow> int \<Rightarrow> hv_device list \<Rightarrow> world \<Rightarrow> (hv_device list \<times> world) option" where
  "handle_control_client J need pad bytes mem_ok running client_fd vs w = do {
     (n, bs, w1) \<leftarrow> read_full client_fd (CTRL_OP_LEN + PATH_MAX) [] w;
     if n \<noteq> int (CTRL_OP_LEN + PATH_MAX) then Some (vs, w1)
     else do {
       (resp, vs', w2) \<leftarrow> handle_request J need pad bytes mem_ok (bytes_request bs) vs w1;
       if running
       then do { (k, w3) \<leftarrow> write_full client_fd (response_bytes resp) 0 w2; Some (vs', w3) }
       else Some (vs', w2)
     }
   }"

section \<open>The client\<close>

text \<open>The path is the result of \<open>realpath\<close>. The command prints the message and returns the status.\<close>

definition virtio_add :: "string option \<Rightarrow> world \<Rightarrow> (int \<times> world) option" where
  "virtio_add path w =
     (case path of None \<Rightarrow> Some (-1, w)
      | Some p \<Rightarrow> do {
          (s, w1) \<leftarrow> sys_call (Other_Call ''socket'' []) w;
          if s_ret s < 0 then Some (-1, w1) else do {
          (c, w2) \<leftarrow> sys_call (Other_Call ''connect'' [s_ret s]) w1;
          if s_ret c \<noteq> 0 then do { (x, w3) \<leftarrow> sys_call (Close_Fd (s_ret s)) w2; Some (-1, w3) } else do {
          let q = request_bytes \<lparr>rq_op = VIRTIO_CTRL_OP_ADD, rq_json_path = p\<rparr>;
          (n, w3) \<leftarrow> write_full (s_ret s) q 0 w2;
          if n \<noteq> int (length q) then do { (x, w4) \<leftarrow> sys_call (Close_Fd (s_ret s)) w3; Some (-1, w4) } else do {
          (k, bs, w4) \<leftarrow> read_full (s_ret s) (4 + VIRTIO_CTRL_MSG_LEN) [] w3;
          (x, w5) \<leftarrow> sys_call (Close_Fd (s_ret s)) w4;
          if k \<noteq> int (4 + VIRTIO_CTRL_MSG_LEN) then Some (-1, w5) else Some (bytes_int bs, w5) } } }
        })"

section \<open>Correctness\<close>

text \<open>
  A stream that delivers some data: reads may be interrupted and may return the data in pieces of
  any size. The last argument is what the kernel answers to later calls.
\<close>

inductive delivers :: "nat \<Rightarrow> sysret list \<Rightarrow> u8 list \<Rightarrow> sysret list \<Rightarrow> bool" where
  nothing: "delivers 0 ts [] ts"
| again: "interrupted r \<Longrightarrow> delivers (Suc n) ts bs rest \<Longrightarrow> delivers (Suc n) (r # ts) bs rest"
| piece: "length ds = k \<Longrightarrow> 0 < k \<Longrightarrow> k \<le> n \<Longrightarrow> s_ret r = int k \<Longrightarrow> s_bytes r = ds \<Longrightarrow> delivers (n - k) ts bs rest
    \<Longrightarrow> delivers n (r # ts) (ds @ bs) rest"

lemma read_full_delivers:
  assumes "delivers n (w_tape w) bs rest" and "len = length buf + n"
  shows "\<exists>w1. read_full fd len buf w = Some (int len, buf @ bs, w1) \<and> w_tape w1 = rest \<and> same_but_calls w w1"
  using assms
proof (induction n "w_tape w" bs rest arbitrary: buf w rule: delivers.induct)
  case (nothing ts)
  then show ?case by (simp add: read_full.simps)
next
  case (again r n ts bs rest)
  let ?c = "Other_Call ''read'' [fd, int (len - length buf)]"
  let ?w = "w\<lparr>w_tape := ts, w_trace := w_trace w @ [?c]\<rparr>"
  have call: "sys_call ?c w = Some (r, ?w)" using again.hyps(4) [symmetric] by (simp add: sys_call_def)
  then have "read_full fd len buf w = read_full fd len buf ?w"
    using again.hyps(1) again.prems by (subst read_full.simps) simp
  then show ?case
    using again.hyps(3) [of ?w buf] again.prems same_but_calls_trans [OF sys_call_frame [OF call]] by auto
next
  case (piece ds k n r ts bs rest)
  let ?c = "Other_Call ''read'' [fd, int (len - length buf)]"
  let ?w = "w\<lparr>w_tape := ts, w_trace := w_trace w @ [?c]\<rparr>"
  have call: "sys_call ?c w = Some (r, ?w)" using piece.hyps(8) [symmetric] by (simp add: sys_call_def)
  then have "read_full fd len buf w = read_full fd len (buf @ ds) ?w"
    using piece.hyps(1-5) piece.prems by (subst read_full.simps) simp
  then show ?case
    using piece.hyps(1,3) piece.hyps(7) [of ?w "buf @ ds"] piece.prems same_but_calls_trans [OF sys_call_frame [OF call]]
    by auto
qed

lemma put_text_fits: "length s < n \<Longrightarrow> put_text n s = map of_char s @ replicate (n - length s) 0"
  by (simp add: put_text_def Let_def)

lemma put_text_length: "0 < n \<Longrightarrow> length (put_text n s) = n"
  by (simp add: put_text_def Let_def)

lemma get_put_text:
  assumes "length s < n" and "CHR 0x00 \<notin> set s"
  shows "get_text n (put_text n s) = s"
proof -
  have "take (n - 1) (put_text n s) = map of_char s @ replicate (n - 1 - length s) 0"
    using assms(1) by (simp add: put_text_fits)
  moreover have "takeWhile (\<lambda>b :: u8. b \<noteq> 0) (map of_char s @ replicate k 0) = map of_char s" for k
    using assms(2) by (induction s) (auto simp: char_byte_0 takeWhile_eq_Nil_iff)
  ultimately show ?thesis by (simp add: get_text_def char_byte comp_def)
qed

text \<open>
  C22: A command that adds a configuration reaches the daemon unchanged: however the socket splits or
  interrupts the stream, once the client's request has arrived the server does exactly one thing,
  it adds the configuration at the path the client named and answers with the outcome.
\<close>

theorem control_add_served:
  assumes "length path < PATH_MAX" and "CHR 0x00 \<notin> set path"
    and "delivers (CTRL_OP_LEN + PATH_MAX) (w_tape w) (request_bytes \<lparr>rq_op = VIRTIO_CTRL_OP_ADD, rq_json_path = path\<rparr>) rest"
  shows "\<exists>w1. same_but_calls w w1 \<and> w_tape w1 = rest
     \<and> handle_control_client J need pad bytes mem_ok True fd vs w = do {
          (e, vs', w2) \<leftarrow> add_path J need pad bytes mem_ok path vs w1;
          let resp = (if e \<noteq> 0 then fill_control_response (-1) ''virtio add failed''
                      else fill_control_response 0 ''virtio add succeeded'');
          (k, w3) \<leftarrow> write_full fd (response_bytes resp) 0 w2;
          Some (vs', w3)
        }"
proof -
  let ?q = "\<lparr>rq_op = VIRTIO_CTRL_OP_ADD, rq_json_path = path\<rparr>"
  obtain w1 where r: "read_full fd (CTRL_OP_LEN + PATH_MAX) [] w = Some (int (CTRL_OP_LEN + PATH_MAX), request_bytes ?q, w1)"
      and w1: "w_tape w1 = rest" "same_but_calls w w1"
    using read_full_delivers [OF assms(3), of _ "[]" fd] by auto
  have "bytes_request (request_bytes ?q) = ?q"
    using get_put_text [OF assms(1,2)] get_put_text [of VIRTIO_CTRL_OP_ADD CTRL_OP_LEN]
    by (simp add: bytes_request_def request_bytes_def put_text_length)
  with r w1 show ?thesis
    by (intro exI [of _ w1], cases "add_path J need pad bytes mem_ok path vs w1")
      (auto simp: handle_control_client_def handle_request_def Let_def)
qed

text \<open>The request in two pieces, the first after an interruption.\<close>

definition split_stream :: "u8 list \<Rightarrow> sysret list" where
  "split_stream bs = [ok_ret\<lparr>s_ret := -1, s_errno := EINTR\<rparr>, ok_ret\<lparr>s_ret := 16, s_bytes := take 16 bs\<rparr>,
     ok_ret\<lparr>s_ret := 4096, s_bytes := drop 16 bs\<rparr>]"

lemma split_stream_delivers:
  assumes "length bs = 4112"
  shows "delivers 4112 (split_stream bs @ rest) bs rest"
proof -
  have "delivers 0 rest [] rest" by (rule nothing)
  then have "delivers 4096 (ok_ret\<lparr>s_ret := 4096, s_bytes := drop 16 bs\<rparr> # rest) (drop 16 bs @ []) rest"
    using assms by (intro piece [where k = 4096]) simp_all
  then have "delivers 4112 (ok_ret\<lparr>s_ret := 16, s_bytes := take 16 bs\<rparr> # ok_ret\<lparr>s_ret := 4096, s_bytes := drop 16 bs\<rparr> # rest)
      (take 16 bs @ drop 16 bs) rest"
    using assms by (intro piece [where k = 16]) simp_all
  then show ?thesis
    using again [of "ok_ret\<lparr>s_ret := -1, s_errno := EINTR\<rparr>" 4111 _ bs rest] by (simp add: split_stream_def)
qed

lemma control_add_served_witness:
  "\<exists>w1. w_tape w1 = [ok_ret] \<and> handle_control_client tree_cjson (\<lambda>_ _ _. True) 0 (\<lambda>_. []) (True, True) True 4 []
        (example_world\<lparr>w_tape := split_stream (request_bytes \<lparr>rq_op = VIRTIO_CTRL_OP_ADD, rq_json_path = ''/etc/add.json''\<rparr>) @ [ok_ret]\<rparr>)
     = do {
          (e, vs', w2) \<leftarrow> add_path tree_cjson (\<lambda>_ _ _. True) 0 (\<lambda>_. []) (True, True) ''/etc/add.json'' [] w1;
          let resp = (if e \<noteq> 0 then fill_control_response (-1) ''virtio add failed''
                      else fill_control_response 0 ''virtio add succeeded'');
          (k, w3) \<leftarrow> write_full 4 (response_bytes resp) 0 w2;
          Some (vs', w3)
        }"
proof -
  let ?bs = "request_bytes \<lparr>rq_op = VIRTIO_CTRL_OP_ADD, rq_json_path = ''/etc/add.json''\<rparr>"
  have "length ?bs = 4112" by (simp add: request_bytes_def put_text_length)
  from split_stream_delivers [OF this, of "[ok_ret]"] show ?thesis
    using control_add_served [of "''/etc/add.json''" "example_world\<lparr>w_tape := split_stream ?bs @ [ok_ret]\<rparr>" "[ok_ret]"
        tree_cjson "\<lambda>_ _ _. True" 0 "\<lambda>_. []" "(True, True)" 4 "[]"]
    by (auto simp del: VIRTIO_CTRL_OP_ADD_def)
qed

end
