(* ===== verification/Lifecycle.thy ===== *)
theory Lifecycle
  imports Control
begin

text \<open>
  The life of the daemon (\<^verbatim>\<open>src/tools/virtio/virtio.c\<close>): \<open>virtio_init\<close>, the start and stop of the
  control server, \<open>handle_virtio_requests\<close> with its event loop, \<open>virtio_close\<close> and \<open>virtio_start\<close>.
  The global variables that only these functions use are the fields of a record. A call of \<open>exit\<close>
  is \<open>None\<close>; threads other than the main one are not run here.
\<close>

section \<open>Global state\<close>

record daemon =
  d_vdevs :: "hv_device list"
  ko_fd :: int
  efd :: int
  sfd :: int
  main_epoll_fd :: int
  bridge_mapped :: bool
  ctrl_fd :: int
  ctrl_client_fd :: int
  ctrl_running :: bool
  ctrl_thread_started :: bool

section \<open>Starting\<close>

definition virtio_init :: "daemon \<Rightarrow> world \<Rightarrow> (int \<times> daemon \<times> world) option" where
  "virtio_init dm w = do {
     (m, w1) \<leftarrow> sys_call (Other_Call ''pthread_sigmask'' []) w;
     (p, w2) \<leftarrow> sys_call (Other_Call ''prctl'' []) w1;
     (k, w3) \<leftarrow> sys_call (Open_Path ''/dev/hvisor'') w2;
     if s_ret k < 0 then None else do {
     (i, w4) \<leftarrow> sys_call (Other_Call ''HVISOR_INIT_VIRTIO'' [s_ret k]) w3;
     if s_ret i \<noteq> 0 then None else do {
     (e, w5) \<leftarrow> sys_call (Other_Call ''eventfd'' []) w4;
     if s_ret e < 0 then None else do {
     (s, w6) \<leftarrow> sys_call (Other_Call ''HVISOR_SET_EVENTFD'' [s_ret k, s_ret e]) w5;
     if s_ret s < 0 then None else do {
     let dm1 = dm\<lparr>ko_fd := s_ret k, efd := s_ret e\<rparr>;
     (b, w7) \<leftarrow> sys_call (Mmap 4096 0) w6;
     if s_ret b = MAP_FAILED
     then do { (u, w8) \<leftarrow> sys_call (Munmap (-1) 4096) w7; Some (-1, dm1, w8) }
     else do {
       (r, w8) \<leftarrow> initialize_event_monitor w7;
       Some (0, dm1\<lparr>bridge_mapped := True\<rparr>, w8)
     } } } } }
   }"

definition start_virtio_control_server :: "daemon \<Rightarrow> world \<Rightarrow> (int \<times> daemon \<times> world) option" where
  "start_virtio_control_server dm w = do {
     (u, w1) \<leftarrow> sys_call (Other_Call ''unlink'' []) w;
     (s, w2) \<leftarrow> sys_call (Other_Call ''socket'' []) w1;
     let dm1 = dm\<lparr>ctrl_fd := s_ret s\<rparr>;
     if s_ret s < 0 then Some (-1, dm1, w2) else do {
     (b, w3) \<leftarrow> sys_call (Other_Call ''bind'' [s_ret s]) w2;
     (l, w4) \<leftarrow> (if s_ret b \<noteq> 0 then Some (b, w3) else sys_call (Other_Call ''listen'' [s_ret s]) w3);
     if s_ret l \<noteq> 0
     then do {
       (c, w5) \<leftarrow> sys_call (Close_Fd (s_ret s)) w4;
       (u2, w6) \<leftarrow> sys_call (Other_Call ''unlink'' []) w5;
       Some (-1, dm1\<lparr>ctrl_fd := -1\<rparr>, w6)
     }
     else do {
       (t, w5) \<leftarrow> sys_call Thread_Create w4;
       if s_ret t \<noteq> 0
       then do {
         (c, w6) \<leftarrow> sys_call (Close_Fd (s_ret s)) w5;
         (u2, w7) \<leftarrow> sys_call (Other_Call ''unlink'' []) w6;
         Some (-1, dm1\<lparr>ctrl_fd := -1, ctrl_client_fd := -1, ctrl_running := False\<rparr>, w7)
       }
       else Some (0, dm1\<lparr>ctrl_client_fd := -1, ctrl_running := True, ctrl_thread_started := True\<rparr>, w5)
     } }
   }"

section \<open>Stopping\<close>

text \<open>Shutting the sockets down makes the server thread leave its loop, so the join returns.\<close>

definition stop_virtio_control_server :: "daemon \<Rightarrow> world \<Rightarrow> (daemon \<times> world) option" where
  "stop_virtio_control_server dm w =
     (if \<not> ctrl_thread_started dm \<and> ctrl_fd dm < 0 then Some (dm, w)
      else do {
        w1 \<leftarrow> (if ctrl_fd dm \<ge> 0 then map_option snd (sys_call (Other_Call ''shutdown'' [ctrl_fd dm]) w) else Some w);
        w2 \<leftarrow> (if ctrl_client_fd dm \<ge> 0 then map_option snd (sys_call (Other_Call ''shutdown'' [ctrl_client_fd dm]) w1) else Some w1);
        w3 \<leftarrow> (if ctrl_thread_started dm then map_option snd (sys_call (Other_Call ''pthread_join'' []) w2) else Some w2);
        w4 \<leftarrow> (if ctrl_fd dm \<ge> 0 then map_option snd (sys_call (Close_Fd (ctrl_fd dm)) w3) else Some w3);
        (u, w5) \<leftarrow> sys_call (Other_Call ''unlink'' []) w4;
        Some (dm\<lparr>ctrl_running := False, ctrl_thread_started := False, ctrl_client_fd := -1, ctrl_fd := -1\<rparr>, w5)
      })"

definition close_if_open :: "int \<Rightarrow> world \<Rightarrow> world option" where
  "close_if_open fd w = (if fd \<ge> 0 then map_option snd (sys_call (Close_Fd fd) w) else Some w)"

fun unmap_regions :: "zone_mem_region list \<Rightarrow> world \<Rightarrow> world option" where
  "unmap_regions [] w = Some w"
| "unmap_regions (r # rs) w = do {
     w1 \<leftarrow> (if mem_size r \<noteq> 0 then map_option snd (sys_call (Munmap (virt_addr r) (mem_size r)) w) else Some w);
     unmap_regions rs w1
   }"

fun unmap_zones :: "nat list \<Rightarrow> world \<Rightarrow> world option" where
  "unmap_zones [] w = Some w"
| "unmap_zones (z # zs) w = do {
     w1 \<leftarrow> unmap_regions (w_zm w z) w;
     unmap_zones zs (w1\<lparr>w_zm := (w_zm w1)(z := [])\<rparr>)
   }"

definition virtio_close :: "(device_state, device_params) devenv \<Rightarrow> daemon \<Rightarrow> world \<Rightarrow> (daemon \<times> world) option" where
  "virtio_close env dm w = do {
     (dm1, w1) \<leftarrow> stop_virtio_control_server dm w;
     w2 \<leftarrow> destroy_event_monitor w1;
     w3 \<leftarrow> destroy_all env (d_vdevs dm1) w2;
     w4 \<leftarrow> close_if_open (ko_fd dm1) w3;
     w5 \<leftarrow> close_if_open (efd dm1) w4;
     w6 \<leftarrow> close_if_open (sfd dm1) w5;
     w7 \<leftarrow> close_if_open (main_epoll_fd dm1) w6;
     w8 \<leftarrow> (if bridge_mapped dm1 then map_option snd (sys_call (Munmap 0 4096) w7) else Some w7);
     w9 \<leftarrow> unmap_zones [0..<MAX_ZONES] w8;
     Some (dm1\<lparr>d_vdevs := [], ko_fd := min (ko_fd dm1) (-1), efd := min (efd dm1) (-1), sfd := min (sfd dm1) (-1),
             main_epoll_fd := min (main_epoll_fd dm1) (-1), bridge_mapped := False\<rparr>, w9)
   }"

section \<open>The event loop\<close>

definition SIGINFO_SIZE :: int where [simp]: "SIGINFO_SIZE = 128"

text \<open>
  The descriptors \<open>epoll_wait\<close> reports, in order. The first component of the result says whether the
  function returned from inside the loop.
\<close>

fun handle_ready :: "(device_state, device_params) devenv \<Rightarrow> int list \<Rightarrow> daemon \<Rightarrow> world \<Rightarrow> (bool \<times> daemon \<times> world) option" where
  "handle_ready env [] dm w = Some (False, dm, w)"
| "handle_ready env (fd # fds) dm w =
     (if fd = sfd dm
      then do {
        (r, w1) \<leftarrow> sys_call (Other_Call ''read signalfd'' [fd]) w;
        if s_ret r = SIGINFO_SIZE
        then do { (dm1, w2) \<leftarrow> virtio_close env dm w1; Some (True, dm1, w2) }
        else handle_ready env fds dm w1
      }
      else if fd = efd dm
      then do {
        (r, w1) \<leftarrow> sys_call (Other_Call ''read eventfd'' [fd]) w;
        if s_ret r \<noteq> 8 then handle_ready env fds dm w1
        else do {
          (n, vs, w2) \<leftarrow> consume_pending_requests env (d_vdevs dm) w1;
          handle_ready env fds (dm\<lparr>d_vdevs := vs\<rparr>) w2
        }
      }
      else handle_ready env fds dm w)"

definition loop_turn :: "(device_state, device_params) devenv \<Rightarrow> daemon \<Rightarrow> world \<Rightarrow> (bool \<times> daemon \<times> world) option" where
  "loop_turn env dm w = do {
     (r, w1) \<leftarrow> sys_call (Other_Call ''epoll_wait'' [main_epoll_fd dm]) w;
     if s_ret r = -1
     then (if s_errno r = EINTR then Some (False, dm, w1)
           else do { (dm1, w2) \<leftarrow> virtio_close env dm w1; Some (True, dm1, w2) })
     else handle_ready env (map sint (take (nat (s_ret r)) (s_vals r))) dm w1
   }"

text \<open>
  The argument \<open>loongarch\<close> selects the code compiled for that architecture. The Boolean of the result
  says whether the loop was entered; the function returns early when the set-up fails.
\<close>

definition handle_virtio_requests ::
  "bool \<Rightarrow> (device_state, device_params) devenv \<Rightarrow> daemon \<Rightarrow> world \<Rightarrow> (bool \<times> daemon \<times> world) option" where
  "handle_virtio_requests loongarch env dm w = do {
     (m, w1) \<leftarrow> sys_call (Other_Call ''sigprocmask'' []) w;
     if s_ret m = -1 then Some (False, dm, w1) else do {
     (s, w2) \<leftarrow> sys_call (Other_Call ''signalfd'' []) w1;
     let dm1 = dm\<lparr>sfd := s_ret s\<rparr>;
     if s_ret s = -1 then Some (False, dm1, w2) else do {
     (e, w3) \<leftarrow> sys_call (Other_Call ''epoll_create1'' []) w2;
     let dm2 = dm1\<lparr>main_epoll_fd := s_ret e\<rparr>;
     if s_ret e = -1
     then do { (c, w4) \<leftarrow> sys_call (Close_Fd (s_ret s)) w3; Some (False, dm2, w4) }
     else do {
     (a, w4) \<leftarrow> sys_call (Other_Call ''epoll_ctl_add'' [s_ret e, s_ret s]) w3;
     if s_ret a = -1
     then do { (c, w5) \<leftarrow> sys_call (Close_Fd (s_ret s)) w4; (c2, w6) \<leftarrow> sys_call (Close_Fd (s_ret e)) w5; Some (False, dm2, w6) }
     else do {
     (a2, w5) \<leftarrow> sys_call (Other_Call ''epoll_ctl_add'' [s_ret e, efd dm]) w4;
     if s_ret a2 = -1
     then do { (c, w6) \<leftarrow> sys_call (Close_Fd (s_ret s)) w5; (c2, w7) \<leftarrow> sys_call (Close_Fd (s_ret e)) w6; Some (False, dm2, w7) }
     else do {
     (dm3, w6) \<leftarrow> (if loongarch
        then do { (n, vs, w') \<leftarrow> consume_pending_requests env (d_vdevs dm2) w5; Some (dm2\<lparr>d_vdevs := vs\<rparr>, w') }
        else Some (dm2, set_need_wakeup 1 w5));
     (stop, dm4, w7) \<leftarrow> while_opt (\<lambda>(stop, dm, w). \<not> stop) (\<lambda>(stop, dm, w). loop_turn env dm w) (False, dm3, w6);
     Some (True, dm4, w7) } } } } }
   }"

definition virtio_start ::
  "'j cjson \<Rightarrow> need_event \<Rightarrow> u64 \<Rightarrow> (device_state \<Rightarrow> u8 list) \<Rightarrow> bool \<times> bool \<Rightarrow> bool \<Rightarrow> string option \<Rightarrow> daemon \<Rightarrow> world
    \<Rightarrow> (int \<times> daemon \<times> world) option" where
  "virtio_start J need pad bytes mem_ok loongarch path dm w =
     (let env = hv_env need pad bytes in
      case path of None \<Rightarrow> Some (-1, dm, w)
      | Some p \<Rightarrow> do {
          (err, dm1, w1) \<leftarrow> virtio_init dm w;
          if err \<noteq> 0 then Some (err, dm1, w1) else do {
          (str, w2) \<leftarrow> read_json p w1;
          (err, vs, w3) \<leftarrow> virtio_start_from_json J (hv_config_ops J) env mem_ok (Some str) (d_vdevs dm1) w2;
          let dm2 = dm1\<lparr>d_vdevs := vs\<rparr>;
          if err \<noteq> 0 then do { (dm3, w4) \<leftarrow> virtio_close env dm2 w3; Some (err, dm3, w4) } else do {
          (err, dm3, w4) \<leftarrow> start_virtio_control_server dm2 w3;
          if err \<noteq> 0 then do { (dm4, w5) \<leftarrow> virtio_close env dm3 w4; Some (-1, dm4, w5) } else do {
          addrs \<leftarrow> write_mmio_addrs 0 vs (mmio_addrs (w_bridge w4));
          (looped, dm4, w5) \<leftarrow> handle_virtio_requests loongarch env dm3
            (w4\<lparr>w_bridge := (w_bridge w4)\<lparr>mmio_addrs := addrs, mmio_avail := 1\<rparr>\<rparr>);
          Some (0, dm4, w5) } } }
        })"

section \<open>What closing releases\<close>





































end
