(* ===== verification/Zone_Config.thy ===== *)
theory Zone_Config
  imports Zone_Types Json
begin

text \<open>
  Reading the description of a zone (\<open>zone_start_from_json\<close> and \<open>parse_pci_config\<close> of
  \<^verbatim>\<open>src/tools/hvisor.c\<close>): processors, memory regions, interrupts, inter-VM channels, PCI buses and
  devices. The result \<open>Err (-1)\<close> is the code's error exit; \<open>None\<close> is a dereferenced null pointer, a
  shift by more than the width, or a store outside an array.
\<close>

section \<open>Sequencing\<close>

definition cbind :: "'a cres option \<Rightarrow> ('a \<Rightarrow> 'b cres option) \<Rightarrow> 'b cres option" where
  "cbind m f = Option.bind m (\<lambda>r. case r of Ok x \<Rightarrow> f x | Err e \<Rightarrow> Some (Err e))"

definition or_fail :: "'a option \<Rightarrow> 'a cres option" where
  "or_fail x = (case x of None \<Rightarrow> Some (Err (-1)) | Some y \<Rightarrow> Some (Ok y))"

text \<open>
  The loop that parses the entries of a JSON array into a fixed-size array. The argument lists the
  indices still to do.
\<close>

fun fill_array :: "'j cjson \<Rightarrow> ('j option \<Rightarrow> 'a cres option) \<Rightarrow> 'j option \<Rightarrow> nat list \<Rightarrow> 'a list \<Rightarrow> 'a list cres option" where
  "fill_array J parse arr [] xs = Some (Ok xs)"
| "fill_array J parse arr (i # is) xs =
     cbind (parse (safe_array_item J arr (int i))) (\<lambda>x. Option.bind (upd_ub xs i x) (fill_array J parse arr is))"

definition size_of :: "'j cjson \<Rightarrow> 'j option \<Rightarrow> nat" where
  "size_of J arr = nat (safe_array_size J arr)"

section \<open>The parts of a description\<close>

text \<open>\<open>1ULL << valueint\<close> for every processor.\<close>

fun add_cpus :: "'j cjson \<Rightarrow> 'j option \<Rightarrow> nat list \<Rightarrow> u64 \<Rightarrow> u64 option" where
  "add_cpus J arr [] cpus = Some cpus"
| "add_cpus J arr (i # is) cpus = do {
     item \<leftarrow> safe_array_item J arr (int i);
     if cj_valueint J item < 0 \<or> cj_valueint J item \<ge> 64 then None
     else add_cpus J arr is (cpus OR push_bit (nat (cj_valueint J item)) 1)
   }"

definition parse_region :: "'j cjson \<Rightarrow> 'j option \<Rightarrow> memory_region cres option" where
  "parse_region J region = cbind
     (or_fail (do {
        p \<leftarrow> parse_json_u64 J (safe_get_item J region ''physical_start'');
        v \<leftarrow> parse_json_u64 J (safe_get_item J region ''virtual_start'');
        s \<leftarrow> parse_json_u64 J (safe_get_item J region ''size'');
        Some (p, v, s)
      }))
     (\<lambda>(p, v, s). do {
        t \<leftarrow> safe_get_item J region ''type'';
        type_str \<leftarrow> cj_valuestring J t;
        (if type_str = ''ram''
         then Some (Ok \<lparr>mr_type = MEM_TYPE_RAM, mr_physical_start = p, mr_virtual_start = v, mr_size = s\<rparr>)
         else if type_str = ''io''
         then Some (Ok \<lparr>mr_type = MEM_TYPE_IO, mr_physical_start = p, mr_virtual_start = v, mr_size = s\<rparr>)
         else if type_str = ''virtio''
         then Some (Ok \<lparr>mr_type = MEM_TYPE_VIRTIO, mr_physical_start = p, mr_virtual_start = v, mr_size = s\<rparr>)
         else Some (Err (-1)))
      })"

fun set_irqs :: "'j cjson \<Rightarrow> 'j option \<Rightarrow> nat list \<Rightarrow> u32 list \<Rightarrow> u32 list cres option" where
  "set_irqs J arr [] bm = Some (Ok bm)"
| "set_irqs J arr (i # is) bm =
     cbind (or_fail (parse_json_u64 J (safe_array_item J arr (int i)))) (\<lambda>irq.
       if unat irq \<ge> CONFIG_MAX_INTERRUPTS then Some (Err (-1))
       else let word_index = unat irq div CONFIG_INTERRUPTS_BITMAP_BITS_PER_WORD;
                bit_index = unat irq mod CONFIG_INTERRUPTS_BITMAP_BITS_PER_WORD
            in do {
              x \<leftarrow> nth_ub bm word_index;
              bm' \<leftarrow> upd_ub bm word_index (x OR push_bit bit_index 1);
              set_irqs J arr is bm'
            })"

text \<open>\<open>SAFE_CJSON_GET_OBJECT_ITEM(...)->valueint\<close>\<close>

definition int_item :: "'j cjson \<Rightarrow> 'j option \<Rightarrow> string \<Rightarrow> int option" where
  "int_item J obj key = map_option (cj_valueint J) (safe_get_item J obj key)"

definition parse_ivc :: "'j cjson \<Rightarrow> 'j option \<Rightarrow> ivc_config cres option" where
  "parse_ivc J ivc = do {
     ivc_id \<leftarrow> int_item J ivc ''ivc_id'';
     peer_id \<leftarrow> int_item J ivc ''peer_id'';
     cbind
       (or_fail (do {
          sm \<leftarrow> parse_json_u64 J (safe_get_item J ivc ''shared_mem_ipa'');
          ct \<leftarrow> parse_json_u64 J (safe_get_item J ivc ''control_table_ipa'');
          rw \<leftarrow> parse_json_u32 J (safe_get_item J ivc ''rw_sec_size'');
          out \<leftarrow> parse_json_u32 J (safe_get_item J ivc ''out_sec_size'');
          Some (sm, ct, rw, out)
        }))
       (\<lambda>(sm, ct, rw, out). do {
          interrupt_num \<leftarrow> int_item J ivc ''interrupt_num'';
          max_peers \<leftarrow> int_item J ivc ''max_peers'';
          Some (Ok \<lparr>ic_ivc_id = of_int ivc_id, ic_peer_id = of_int peer_id, ic_control_table_ipa = ct,
                    ic_shared_mem_ipa = sm, ic_rw_sec_size = rw, ic_out_sec_size = out,
                    ic_interrupt_num = of_int interrupt_num, ic_max_peers = of_int max_peers\<rparr>)
        })
   }"

text \<open>A missing field is an error as well as one that cannot be read.\<close>

definition parse_pci_bus :: "'j cjson \<Rightarrow> 'j option \<Rightarrow> pci_config cres option" where
  "parse_pci_bus J pci = or_fail (do {
     ecam_base \<leftarrow> parse_json_u64 J (safe_get_item J pci ''ecam_base'');
     ecam_size \<leftarrow> parse_json_u64 J (safe_get_item J pci ''ecam_size'');
     io_base \<leftarrow> parse_json_u64 J (safe_get_item J pci ''io_base'');
     io_size \<leftarrow> parse_json_u64 J (safe_get_item J pci ''io_size'');
     pci_io_base \<leftarrow> parse_json_u64 J (safe_get_item J pci ''pci_io_base'');
     mem32_base \<leftarrow> parse_json_u64 J (safe_get_item J pci ''mem32_base'');
     mem32_size \<leftarrow> parse_json_u64 J (safe_get_item J pci ''mem32_size'');
     pci_mem32_base \<leftarrow> parse_json_u64 J (safe_get_item J pci ''pci_mem32_base'');
     mem64_base \<leftarrow> parse_json_u64 J (safe_get_item J pci ''mem64_base'');
     mem64_size \<leftarrow> parse_json_u64 J (safe_get_item J pci ''mem64_size'');
     pci_mem64_base \<leftarrow> parse_json_u64 J (safe_get_item J pci ''pci_mem64_base'');
     bus_range_begin \<leftarrow> parse_json_u32 J (safe_get_item J pci ''bus_range_begin'');
     bus_range_end \<leftarrow> parse_json_u32 J (safe_get_item J pci ''bus_range_end'');
     domain \<leftarrow> parse_json_u8 J (safe_get_item J pci ''domain'');
     Some \<lparr>pc_ecam_base = ecam_base, pc_ecam_size = ecam_size, pc_io_base = io_base, pc_io_size = io_size,
           pc_pci_io_base = pci_io_base, pc_mem32_base = mem32_base, pc_mem32_size = mem32_size,
           pc_pci_mem32_base = pci_mem32_base, pc_mem64_base = mem64_base, pc_mem64_size = mem64_size,
           pc_pci_mem64_base = pci_mem64_base, pc_bus_range_begin = bus_range_begin,
           pc_bus_range_end = bus_range_end, pc_domain = domain\<rparr>
   })"

definition parse_pci_dev :: "'j cjson \<Rightarrow> 'j option \<Rightarrow> hv_pci_dev_config cres option" where
  "parse_pci_dev J d = or_fail (do {
     domain \<leftarrow> parse_json_u8 J (safe_get_item J d ''domain'');
     bus \<leftarrow> parse_json_u8 J (safe_get_item J d ''bus'');
     device \<leftarrow> parse_json_u8 J (safe_get_item J d ''device'');
     func \<leftarrow> parse_json_u8 J (safe_get_item J d ''function'');
     v_bus \<leftarrow> parse_json_u8 J (safe_get_item J d ''v_bus'');
     v_device \<leftarrow> parse_json_u8 J (safe_get_item J d ''v_device'');
     v_function \<leftarrow> parse_json_u8 J (safe_get_item J d ''v_function'');
     dev_type \<leftarrow> parse_json_u32 J (safe_get_item J d ''dev_type'');
     Some \<lparr>pd_domain = domain, pd_bus = bus, pd_device = device, pd_function = func, pd_v_bus = v_bus,
           pd_v_device = v_device, pd_v_function = v_function, pd_dev_type = dev_type\<rparr>
   })"

definition parse_pci_config :: "'j cjson \<Rightarrow> 'j option \<Rightarrow> zone_config \<Rightarrow> zone_config cres option" where
  "parse_pci_config J root config =
     (let buses = safe_get_item J root ''pci_config''; devs = safe_get_item J root ''alloc_pci_devs'' in
      if buses = None then Some (Err (-1))
      else if safe_array_size J buses > int CONFIG_PCI_BUS_MAXNUM then Some (Err (-1))
      else cbind (fill_array J (parse_pci_bus J) buses [0..<size_of J buses] (zn_pci_config config)) (\<lambda>bs.
           cbind (fill_array J (parse_pci_dev J) devs [0..<size_of J devs] (zn_alloc_pci_devs config)) (\<lambda>ds.
             Some (Ok (config\<lparr>zn_num_pci_bus := of_int (safe_array_size J buses), zn_pci_config := bs,
                              zn_num_pci_devs := of_int (safe_array_size J devs), zn_alloc_pci_devs := ds\<rparr>)))))"

section \<open>The first part of \<open>zone_start_from_json\<close>\<close>

text \<open>Everything that is read before an image is loaded.\<close>

definition required_items :: "string list" where
  "required_items = [''zone_id'', ''cpus'', ''name'', ''memory_regions'', ''kernel_filepath'', ''dtb_filepath'',
     ''kernel_load_paddr'', ''dtb_load_paddr'', ''entry_point'', ''interrupts'', ''ivc_configs'']"

definition parse_zone_config :: "'j cjson \<Rightarrow> 'j option \<Rightarrow> zone_config \<Rightarrow> zone_config cres option" where
  "parse_zone_config J root config =
     (let get = safe_get_item J root in
      if \<exists>k\<in>set required_items. get k = None then Some (Err (-1))
      else do {
        zid \<leftarrow> int_item J root ''zone_id'';
        cpus \<leftarrow> add_cpus J (get ''cpus'') [0..<size_of J (get ''cpus'')] (zn_cpus config);
        (let regions = get ''memory_regions''; interrupts = get ''interrupts''; ivcs = get ''ivc_configs'' in
         if safe_array_size J regions > int CONFIG_MAX_MEMORY_REGIONS
           \<or> safe_array_size J interrupts > int CONFIG_MAX_INTERRUPTS then Some (Err (-1))
         else
         cbind (fill_array J (parse_region J) regions [0..<size_of J regions] (zn_memory_regions config)) (\<lambda>rs.
         cbind (set_irqs J interrupts [0..<size_of J interrupts] (map (\<lambda>_. 0) (zn_interrupts_bitmap config))) (\<lambda>bm.
         if safe_array_size J ivcs > int CONFIG_MAX_IVC_CONFIGS then Some (Err (-1))
         else
         cbind (fill_array J (parse_ivc J) ivcs [0..<size_of J ivcs] (zn_ivc_configs config)) (\<lambda>cs.
         cbind (or_fail (do {
            entry_point \<leftarrow> parse_json_u64 J (get ''entry_point'');
            kernel \<leftarrow> parse_json_u64 J (get ''kernel_load_paddr'');
            dtb \<leftarrow> parse_json_u64 J (get ''dtb_load_paddr'');
            Some (entry_point, kernel, dtb)
          })) (\<lambda>(entry_point, kernel, dtb).
           Some (Ok (config\<lparr>zn_zone_id := of_int zid, zn_cpus := cpus,
             zn_num_memory_regions := of_int (safe_array_size J regions), zn_memory_regions := rs,
             zn_interrupts_bitmap := bm, zn_num_ivc_configs := of_int (safe_array_size J ivcs), zn_ivc_configs := cs,
             zn_entry_point := entry_point, zn_kernel_load_paddr := kernel, zn_dtb_load_paddr := dtb\<rparr>)))))))
      })"

text \<open>\<open>strlen\<close> and \<open>strncpy\<close> on the name: a name of exactly 32 characters leaves no terminating zero.\<close>

definition set_name :: "string \<Rightarrow> zone_config \<Rightarrow> zone_config cres" where
  "set_name s config =
     (if length s > CONFIG_NAME_MAXLEN then Err (-1)
      else Ok (config\<lparr>zn_name := map of_char s @ replicate (CONFIG_NAME_MAXLEN - length s) 0\<rparr>))"

section \<open>What a successful parse means\<close>

lemma cbind_Ok: "cbind m f = Some (Ok y) \<longleftrightarrow> (\<exists>x. m = Some (Ok x) \<and> f x = Some (Ok y))"
  by (cases m) (auto simp: cbind_def split: cres.splits)

lemma or_fail_Ok: "or_fail x = Some (Ok y) \<longleftrightarrow> x = Some y"
  by (auto simp: or_fail_def split: option.splits)

lemmas parse_Ok = cbind_Ok or_fail_Ok bind_Some_iff upd_ub_Some nth_ub_Some

lemma fill_array_Ok:
  assumes "fill_array J parse arr is xs = Some (Ok ys)" and "distinct is"
  shows "length ys = length xs \<and> (\<forall>i\<in>set is. i < length xs \<and> parse (safe_array_item J arr (int i)) = Some (Ok (ys ! i)))
    \<and> (\<forall>i. i \<notin> set is \<longrightarrow> ys ! i = xs ! i)"
  using assms
proof (induction "is" arbitrary: xs)
  case (Cons i "is")
  then obtain x where x: "parse (safe_array_item J arr (int i)) = Some (Ok x)" and "i < length xs"
    and "fill_array J parse arr is (xs[i := x]) = Some (Ok ys)"
    by (auto simp: parse_Ok)
  with Cons.IH [of "xs[i := x]"] Cons.prems(2) show ?case by auto
qed simp

lemma fill_array_overflow:
  assumes "\<forall>i\<in>set is. \<exists>x. parse (safe_array_item J arr (int i)) = Some (Ok x)" and "\<exists>i\<in>set is. length xs \<le> i"
  shows "fill_array J parse arr is xs = None"
  using assms
proof (induction "is" arbitrary: xs)
  case (Cons i "is")
  then obtain x where "parse (safe_array_item J arr (int i)) = Some (Ok x)" by auto
  then show ?case using Cons.IH [of "xs[i := x]"] Cons.prems
    by (cases "i < length xs") (auto simp: cbind_def upd_ub_def)
qed simp

lemma add_cpus_bits:
  assumes "add_cpus J arr is cpus = Some c"
  shows "bit c k \<longleftrightarrow> bit cpus k \<or> (\<exists>i\<in>set is. \<exists>item. safe_array_item J arr (int i) = Some item \<and> cj_valueint J item = int k)"
  using assms
proof (induction "is" arbitrary: cpus)
  case (Cons i "is")
  then obtain item where item: "safe_array_item J arr (int i) = Some item"
    and range: "0 \<le> cj_valueint J item" "cj_valueint J item < 64"
    and rest: "add_cpus J arr is (cpus OR push_bit (nat (cj_valueint J item)) 1) = Some c"
    by (auto simp: bind_Some_iff split: if_splits)
  have "bit (push_bit (nat (cj_valueint J item)) 1 :: u64) k \<longleftrightarrow> cj_valueint J item = int k"
    using range by (auto simp: bit_exp_iff)
  with Cons.IH [OF rest] item show ?case by (auto simp: bit_or_iff)
qed simp

lemma set_irqs_bits:
  assumes "set_irqs J arr is bm = Some (Ok bm')" and "length bm = 32" and "k < 1024"
  shows "length bm' = 32 \<and> (bit (bm' ! (k div 32)) (k mod 32) \<longleftrightarrow> bit (bm ! (k div 32)) (k mod 32)
    \<or> (\<exists>i\<in>set is. parse_json_u64 J (safe_array_item J arr (int i)) = Some (of_nat k)))"
  using assms(1,2)
proof (induction "is" arbitrary: bm)
  case (Cons i "is")
  then obtain irq where irq: "parse_json_u64 J (safe_array_item J arr (int i)) = Some irq" and lt: "unat irq < 1024"
    and rest: "set_irqs J arr is (bm[unat irq div 32 := bm ! (unat irq div 32) OR push_bit (unat irq mod 32) 1]) = Some (Ok bm')"
    by (auto simp: parse_Ok Let_def split: if_splits)
  have eq: "unat irq = k \<longleftrightarrow> irq = of_nat k"
    using assms(3) by (auto simp: unat_of_nat_small)
  have slot: "unat irq div 32 = k div 32 \<and> unat irq mod 32 = k mod 32 \<longleftrightarrow> unat irq = k"
    by (metis div_mult_mod_eq)
  have "bit (bm[unat irq div 32 := bm ! (unat irq div 32) OR push_bit (unat irq mod 32) 1] ! (k div 32)) (k mod 32)
      \<longleftrightarrow> bit (bm ! (k div 32)) (k mod 32) \<or> unat irq = k"
    using Cons.prems(2) assms(3) slot
    by (cases "unat irq div 32 = k div 32") (auto simp: bit_or_iff bit_exp_iff nth_list_update)
  with Cons.IH [OF rest] Cons.prems(2) irq eq show ?case by auto
qed simp

text \<open>The entries of the array stored under a key.\<close>

definition entries :: "'j cjson \<Rightarrow> 'j option \<Rightarrow> string \<Rightarrow> 'j option list" where
  "entries J root key = (let arr = safe_get_item J root key in map (\<lambda>i. safe_array_item J arr (int i)) [0..<size_of J arr])"

lemma in_entries:
  "x \<in> set (entries J root key)
     \<longleftrightarrow> (\<exists>i\<in>set [0..<size_of J (safe_get_item J root key)]. x = safe_array_item J (safe_get_item J root key) (int i))"
  by (auto simp: entries_def Let_def)

text \<open>An array that was filled holds the parsed entries at its start.\<close>

lemma filled_entries:
  assumes "fill_array J parse (safe_get_item J root key) [0..<size_of J (safe_get_item J root key)] xs = Some (Ok ys)"
  shows "map parse (entries J root key) = map (\<lambda>y. Some (Ok y)) (take (size_of J (safe_get_item J root key)) ys)
    \<and> length ys = length xs \<and> size_of J (safe_get_item J root key) \<le> length xs"
proof -
  let ?n = "size_of J (safe_get_item J root key)"
  have filled: "length ys = length xs \<and> (\<forall>i<?n. i < length xs
      \<and> parse (safe_array_item J (safe_get_item J root key) (int i)) = Some (Ok (ys ! i)))"
    using fill_array_Ok [OF assms] by simp
  have "?n \<le> length xs" using filled by (cases ?n) auto
  then show ?thesis using filled by (auto simp: entries_def Let_def intro!: nth_equalityI)
qed

lemma size_of_word:
  assumes "\<forall>j. 0 \<le> cj_array_size J j" and "safe_array_size J arr \<le> int n" and "n < 2 ^ LENGTH('a)"
  shows "unat (of_int (safe_array_size J arr) :: 'a::len word) = size_of J arr"
proof -
  have "0 \<le> safe_array_size J arr" using assms(1) by (auto simp: safe_array_size_def split: option.splits)
  then have "safe_array_size J arr = int (size_of J arr)" and "size_of J arr \<le> n"
    using assms(2) by (auto simp: size_of_def)
  then have "safe_array_size J arr = int (size_of J arr)" and "size_of J arr < 2 ^ LENGTH('a)"
    using assms(3) by linarith+
  then show ?thesis by (simp add: unat_of_nat_small)
qed

lemma parsed_zone_config:
  assumes "parse_zone_config J root (zeroed_config a) = Some (Ok c)" and "\<forall>j. 0 \<le> cj_array_size J j"
  shows "(\<forall>k. bit (zn_cpus c) k \<longleftrightarrow> (\<exists>item. Some item \<in> set (entries J root ''cpus'') \<and> cj_valueint J item = int k))
    \<and> (\<forall>k<1024. bit (zn_interrupts_bitmap c ! (k div 32)) (k mod 32)
         \<longleftrightarrow> Some (of_nat k) \<in> parse_json_u64 J ` set (entries J root ''interrupts''))
    \<and> map (parse_region J) (entries J root ''memory_regions'')
        = map (\<lambda>r. Some (Ok r)) (take (unat (zn_num_memory_regions c)) (zn_memory_regions c))
    \<and> map (parse_ivc J) (entries J root ''ivc_configs'')
        = map (\<lambda>i. Some (Ok i)) (take (unat (zn_num_ivc_configs c)) (zn_ivc_configs c))
    \<and> zone_config_ok c"
proof -
  let ?z = "zeroed_config a" let ?get = "safe_get_item J root"
  obtain zid cpus rs bm cs e k d where
    cpus: "add_cpus J (?get ''cpus'') [0..<size_of J (?get ''cpus'')] (zn_cpus ?z) = Some cpus" and
    nr: "safe_array_size J (?get ''memory_regions'') \<le> int 64" and
    rs: "fill_array J (parse_region J) (?get ''memory_regions'') [0..<size_of J (?get ''memory_regions'')] (zn_memory_regions ?z) = Some (Ok rs)" and
    bm: "set_irqs J (?get ''interrupts'') [0..<size_of J (?get ''interrupts'')] (map (\<lambda>_. 0) (zn_interrupts_bitmap ?z)) = Some (Ok bm)" and
    nc: "safe_array_size J (?get ''ivc_configs'') \<le> int 2" and
    cs: "fill_array J (parse_ivc J) (?get ''ivc_configs'') [0..<size_of J (?get ''ivc_configs'')] (zn_ivc_configs ?z) = Some (Ok cs)" and
    c: "c = ?z\<lparr>zn_zone_id := of_int zid, zn_cpus := cpus,
             zn_num_memory_regions := of_int (safe_array_size J (?get ''memory_regions'')), zn_memory_regions := rs,
             zn_interrupts_bitmap := bm, zn_num_ivc_configs := of_int (safe_array_size J (?get ''ivc_configs'')), zn_ivc_configs := cs,
             zn_entry_point := e, zn_kernel_load_paddr := k, zn_dtb_load_paddr := d\<rparr>"
    using assms(1) by (auto simp: parse_zone_config_def Let_def parse_Ok split: if_splits)
  have sizes: "unat (zn_num_memory_regions c) = size_of J (?get ''memory_regions'')"
    "unat (zn_num_ivc_configs c) = size_of J (?get ''ivc_configs'')"
    using size_of_word [where 'a = 32, OF assms(2) nr] size_of_word [where 'a = 32, OF assms(2) nc] by (simp_all add: c)
  have bits: "length bm = 32 \<and> (bit (bm ! (k div 32)) (k mod 32)
      \<longleftrightarrow> Some (of_nat k) \<in> parse_json_u64 J ` set (entries J root ''interrupts''))" if "k < 1024" for k
    using set_irqs_bits [OF bm _ that] that
    by (force simp: zeroed_config_def in_entries image_iff)
  have mask: "bit (zn_cpus c) k \<longleftrightarrow> (\<exists>item. Some item \<in> set (entries J root ''cpus'') \<and> cj_valueint J item = int k)" for k
    using add_cpus_bits [OF cpus] by (force simp: c zeroed_config_def in_entries)
  have "length bm = 32" using bits [of 0] by simp
  then have "zone_config_ok c"
    using filled_entries [OF rs] filled_entries [OF cs] sizes by (simp add: zone_config_ok_def c zeroed_config_def)
  then show ?thesis
    using mask bits filled_entries [OF rs] filled_entries [OF cs] by (simp add: sizes) (simp add: c)
qed

lemmas parse_zone_config_ok = parsed_zone_config [THEN conjunct2, THEN conjunct2, THEN conjunct2, THEN conjunct2]

text \<open>
  C17: What an accepted zone description means. When the code accepts the first part of a
  description, the processor mask has exactly the bits of the listed processors, the interrupt
  bitmap exactly the bits of the listed interrupts, the arrays of memory regions and inter-VM
  channels hold exactly the parsed entries in order, every count is within its array and no
  array has changed its size.
\<close>

theorem parse_zone_config_exact:
  assumes "parse_zone_config J root (zeroed_config a) = Some (Ok c)" and "\<forall>j. 0 \<le> cj_array_size J j"
  shows "(\<forall>k. bit (zn_cpus c) k \<longleftrightarrow> (\<exists>item. Some item \<in> set (entries J root ''cpus'') \<and> cj_valueint J item = int k))
    \<and> (\<forall>k<1024. bit (zn_interrupts_bitmap c ! (k div 32)) (k mod 32)
         \<longleftrightarrow> Some (of_nat k) \<in> parse_json_u64 J ` set (entries J root ''interrupts''))
    \<and> map (parse_region J) (entries J root ''memory_regions'')
        = map (\<lambda>r. Some (Ok r)) (take (unat (zn_num_memory_regions c)) (zn_memory_regions c))
    \<and> map (parse_ivc J) (entries J root ''ivc_configs'')
        = map (\<lambda>i. Some (Ok i)) (take (unat (zn_num_ivc_configs c)) (zn_ivc_configs c))
    \<and> zone_config_ok c"
  by (rule parsed_zone_config [OF assms])

text \<open>A small description: two processors, one region, two interrupts and no channel.\<close>

definition small_zone :: json where
  "small_zone = JObj [(''zone_id'', JNum 1), (''cpus'', JArr [JNum 2, JNum 3]), (''name'', JStr ''linux2''),
     (''memory_regions'', JArr [JObj [(''type'', JStr ''ram''), (''physical_start'', JNum 0x50000000),
        (''virtual_start'', JNum 0x50000000), (''size'', JNum 0x30000000)]]),
     (''kernel_filepath'', JStr ''Image''), (''dtb_filepath'', JStr ''null''),
     (''kernel_load_paddr'', JNum 0x50400000), (''dtb_load_paddr'', JNum 0x50000000), (''entry_point'', JNum 0x50400000),
     (''interrupts'', JArr [JNum 33, JNum 78]), (''ivc_configs'', JArr []), (''pci_config'', JArr [])]"

lemma parse_zone_config_exact_witness:
  "\<exists>c. parse_zone_config tree_cjson (Some small_zone) (zeroed_config RISCV64) = Some (Ok c)
     \<and> zone_config_ok c \<and> zn_cpus c = 12"
proof -
  have "map_option (\<lambda>r. case r of Ok c \<Rightarrow> zn_cpus c | Err e \<Rightarrow> 0)
      (parse_zone_config tree_cjson (Some small_zone) (zeroed_config RISCV64)) = Some 12" by code_simp
  then obtain r where "parse_zone_config tree_cjson (Some small_zone) (zeroed_config RISCV64) = Some r"
    and "(case r of Ok c \<Rightarrow> zn_cpus c | Err e \<Rightarrow> 0) = 12" by blast
  then obtain c where run: "parse_zone_config tree_cjson (Some small_zone) (zeroed_config RISCV64) = Some (Ok c)"
    and "zn_cpus c = 12" by (cases r) auto
  moreover have "\<forall>j. 0 \<le> cj_array_size tree_cjson j" by (simp add: tree_cjson_def split: json.split)
  ultimately show ?thesis using parse_zone_config_exact [OF run] by blast
qed

text \<open>
  C35: The number of PCI devices is not checked against the array they are stored in: a description
  with at least 33 well-formed devices makes the code store past the end of the array.
\<close>

theorem pci_devices_overflow:
  assumes "safe_get_item J root ''pci_config'' \<noteq> None" and "safe_array_size J (safe_get_item J root ''pci_config'') = 0"
    and "safe_array_size J (safe_get_item J root ''alloc_pci_devs'') > 32"
    and "\<forall>i < size_of J (safe_get_item J root ''alloc_pci_devs'').
      \<exists>d. parse_pci_dev J (safe_array_item J (safe_get_item J root ''alloc_pci_devs'') (int i)) = Some (Ok d)"
    and "zone_config_ok c"
  shows "parse_pci_config J root c = None"
proof -
  let ?devs = "safe_get_item J root ''alloc_pci_devs''"
  have "32 \<in> set [0..<size_of J ?devs]" using assms(3) by (simp add: size_of_def)
  then have "fill_array J (parse_pci_dev J) ?devs [0..<size_of J ?devs] (zn_alloc_pci_devs c) = None"
    using assms(4,5) by (intro fill_array_overflow) (auto simp: zone_config_ok_def intro: bexI [of _ 32])
  then show ?thesis using assms(1,2) by (simp add: parse_pci_config_def Let_def size_of_def cbind_def)
qed

definition pci_dev_json :: json where
  "pci_dev_json = JObj (map (\<lambda>k. (k, JNum 1)) [''domain'', ''bus'', ''device'', ''function'', ''v_bus'', ''v_device'', ''v_function'', ''dev_type''])"

definition many_devices :: json where
  "many_devices = JObj [(''pci_config'', JArr []), (''alloc_pci_devs'', JArr (replicate 33 pci_dev_json))]"

lemma pci_devices_overflow_witness:
  "parse_pci_config tree_cjson (Some many_devices) (zeroed_config ARM64) = None"
proof (rule pci_devices_overflow)
  have parsed: "\<exists>d. parse_pci_dev tree_cjson (Some pci_dev_json) = Some (Ok d)"
    by (simp add: parse_pci_dev_def or_fail_def pci_dev_json_def safe_get_item_def tree_cjson_def parse_json_u8_def
        parse_json_u32_def parse_json_number_def)
  then show "\<forall>i < size_of tree_cjson (safe_get_item tree_cjson (Some many_devices) ''alloc_pci_devs'').
      \<exists>d. parse_pci_dev tree_cjson (safe_array_item tree_cjson
        (safe_get_item tree_cjson (Some many_devices) ''alloc_pci_devs'') (int i)) = Some (Ok d)"
    by (simp add: many_devices_def safe_get_item_def safe_array_item_def tree_cjson_def size_of_def safe_array_size_def)
qed (simp_all add: many_devices_def safe_get_item_def safe_array_size_def tree_cjson_def zeroed_config_ok)

end
