(* ===== verification/Zone_Boot.thy ===== *)
theory Zone_Boot
  imports Loader Zone_Config
begin

text \<open>
  How a zone boots (\<^verbatim>\<open>src/tools/boot/boot.c\<close>, \<^verbatim>\<open>src/tools/boot/multiboot2.c\<close>): the choice of the
  boot mode, the loader for ELF kernels, and the preparation of a multiboot2 zone. Loads from the
  buffer of the file at any alignment are taken as they execute on the architecture this code is
  compiled for; a load outside the buffer and a signed overflow are \<open>None\<close>.
\<close>

section \<open>Sequencing with system calls\<close>

definition wbind :: "('a cres \<times> world) option \<Rightarrow> ('a \<Rightarrow> world \<Rightarrow> ('b cres \<times> world) option) \<Rightarrow> ('b cres \<times> world) option" where
  "wbind m f = Option.bind m (\<lambda>(r, w). case r of Ok x \<Rightarrow> f x w | Err e \<Rightarrow> Some (Err e, w))"

text \<open>A step that makes no call.\<close>

definition pure_step :: "'a cres option \<Rightarrow> world \<Rightarrow> ('a cres \<times> world) option" where
  "pure_step m w = map_option (\<lambda>r. (r, w)) m"

section \<open>Numbers in a file\<close>

definition get_bytes :: "u8 list \<Rightarrow> nat \<Rightarrow> nat \<Rightarrow> u8 list option" where
  "get_bytes buf off n = (if off + n \<le> length buf then Some (take n (drop off buf)) else None)"

definition of_le :: "u8 list \<Rightarrow> 'a::len word" where
  "of_le bs = foldr (\<lambda>b x. ucast b OR push_bit 8 x) bs 0"

definition rd16 :: "u8 list \<Rightarrow> nat \<Rightarrow> u16 option" where "rd16 buf off = map_option of_le (get_bytes buf off 2)"
definition rd32 :: "u8 list \<Rightarrow> nat \<Rightarrow> u32 option" where "rd32 buf off = map_option of_le (get_bytes buf off 4)"
definition rd64 :: "u8 list \<Rightarrow> nat \<Rightarrow> u64 option" where "rd64 buf off = map_option of_le (get_bytes buf off 8)"

text \<open>Addition of signed 64-bit numbers, the result converted to an address.\<close>

definition add_i64 :: "int \<Rightarrow> int \<Rightarrow> int option" where
  "add_i64 x y = (if - (2 ^ 63) \<le> x + y \<and> x + y < 2 ^ 63 then Some (x + y) else None)"

definition moved :: "u64 \<Rightarrow> int \<Rightarrow> u64 option" where
  "moved gpa off = map_option of_int (add_i64 (sint gpa) off)"

section \<open>Boot modes\<close>

datatype boot_mode_kind = BOOT_MODE_NONE | BOOT_MODE_MULTIBOOT2

record boot_mode =
  bm_kind :: boot_mode_kind
  bm_multiboot_info_paddr :: u64

definition multiboot2_enabled :: "'j cjson \<Rightarrow> 'j \<Rightarrow> bool" where
  "multiboot2_enabled J root =
     (case cj_get_item J root ''multiboot_enabled'' of None \<Rightarrow> False
      | Some b \<Rightarrow> if cj_is_bool J b then cj_is_true J b else False)"

definition boot_mode_is_multiboot2 :: "'j cjson \<Rightarrow> 'j \<Rightarrow> bool option" where
  "boot_mode_is_multiboot2 J root =
     (case cj_get_item J root ''boot_protocol'' of None \<Rightarrow> Some (multiboot2_enabled J root)
      | Some p \<Rightarrow> if cj_is_string J p
                  then map_option (\<lambda>s. s = ''multiboot2'') (cj_valuestring J p)
                  else Some (multiboot2_enabled J root))"

definition boot_mode_parse :: "'j cjson \<Rightarrow> 'j \<Rightarrow> boot_mode option" where
  "boot_mode_parse J root = do {
     m \<leftarrow> boot_mode_is_multiboot2 J root;
     Some \<lparr>bm_kind = (if m then BOOT_MODE_MULTIBOOT2 else BOOT_MODE_NONE), bm_multiboot_info_paddr = 0\<rparr>
   }"

section \<open>Loading an ELF kernel\<close>

record elf_phdr =
  p_type :: u32
  p_offset :: u64
  p_paddr :: u64
  p_filesz :: u64
  p_memsz :: u64

text \<open>The product of the index and the entry size is a C \<open>int\<close>.\<close>

definition phdr_at :: "u8 list \<Rightarrow> u64 \<Rightarrow> u16 \<Rightarrow> nat \<Rightarrow> elf_phdr option" where
  "phdr_at elf e_phoff e_phentsize i =
     (if int (i * unat e_phentsize) > INT_MAX then None
      else do {
        let phdr = unat e_phoff + i * unat e_phentsize;
        t \<leftarrow> rd32 elf phdr;
        off \<leftarrow> rd64 elf (phdr + 8);
        pa \<leftarrow> rd64 elf (phdr + 24);
        fsz \<leftarrow> rd64 elf (phdr + 32);
        msz \<leftarrow> rd64 elf (phdr + 40);
        Some \<lparr>p_type = t, p_offset = off, p_paddr = pa, p_filesz = fsz, p_memsz = msz\<rparr>
      })"

text \<open>One loadable segment: the bytes of the file, and the zeros behind them.\<close>

definition load_file_part :: "u8 list \<Rightarrow> elf_phdr \<Rightarrow> u64 \<Rightarrow> world \<Rightarrow> world option" where
  "load_file_part elf ph load_paddr w =
     (if p_filesz ph > 0
      then do {
        seg \<leftarrow> get_bytes elf (unat (p_offset ph)) (unat (p_filesz ph));
        (n, w1) \<leftarrow> load_buffer_to_memory seg load_paddr w;
        Some w1
      }
      else Some w)"

definition zero_fill_part :: "elf_phdr \<Rightarrow> u64 \<Rightarrow> world \<Rightarrow> (unit cres \<times> world) option" where
  "zero_fill_part ph load_paddr w =
     (if p_memsz ph > p_filesz ph
      then do {
        (zero_buf, w1) \<leftarrow> sys_call Calloc w;
        if s_ret zero_buf = 0 then Some (Err (-1), w1)
        else do {
          (n, w2) \<leftarrow> load_buffer_to_memory (replicate (unat (p_memsz ph - p_filesz ph)) 0) (load_paddr + p_filesz ph) w1;
          Some (Ok (), w2)
        }
      }
      else Some (Ok (), w))"

definition load_segment :: "u8 list \<Rightarrow> u64 \<Rightarrow> int \<Rightarrow> elf_phdr \<Rightarrow> world \<Rightarrow> (unit cres \<times> world) option" where
  "load_segment elf file_size gpa_to_hpa_offset ph w =
     (if p_offset ph + p_filesz ph > file_size then Some (Err (-1), w)
      else do {
        load_paddr \<leftarrow> moved (p_paddr ph) gpa_to_hpa_offset;
        w1 \<leftarrow> load_file_part elf ph load_paddr w;
        zero_fill_part ph load_paddr w1
      })"

fun load_segments :: "u8 list \<Rightarrow> u64 \<Rightarrow> int \<Rightarrow> u64 \<Rightarrow> u16 \<Rightarrow> nat list \<Rightarrow> u64 \<Rightarrow> u64 \<Rightarrow> world
    \<Rightarrow> ((u64 \<times> u64) cres \<times> world) option" where
  "load_segments elf file_size off e_phoff e_phentsize [] min_paddr max_end w = Some (Ok (min_paddr, max_end), w)"
| "load_segments elf file_size off e_phoff e_phentsize (i # is) min_paddr max_end w = do {
     ph \<leftarrow> phdr_at elf e_phoff e_phentsize i;
     (if p_type ph \<noteq> 1 then load_segments elf file_size off e_phoff e_phentsize is min_paddr max_end w
      else wbind (load_segment elf file_size off ph w) (\<lambda>_.
        load_segments elf file_size off e_phoff e_phentsize is
          (if p_paddr ph < min_paddr then p_paddr ph else min_paddr)
          (if p_paddr ph + p_memsz ph > max_end then p_paddr ph + p_memsz ph else max_end)))
   }"

text \<open>The buffer is the file followed by zeros up to a whole page. The result is the entry point and the size.\<close>

definition elf_buffer :: "u8 list \<Rightarrow> nat \<Rightarrow> u8 list" where
  "elf_buffer bs buf_size = bs @ replicate (buf_size - length bs) 0"

definition load_elf_kernel :: "string \<Rightarrow> int \<Rightarrow> world \<Rightarrow> ((u64 \<times> u64) cres \<times> world) option" where
  "load_elf_kernel elf_path gpa_to_hpa_offset w = do {
     (bs, buf_size, w1) \<leftarrow> read_file elf_path w;
     let elf = elf_buffer bs buf_size;
     e_ident \<leftarrow> get_bytes elf 0 5;
     if take 4 e_ident \<noteq> [0x7f, 0x45, 0x4c, 0x46] then Some (Err (-1), w1)
     else if e_ident ! 4 \<noteq> 2 then Some (Err (-1), w1)
     else do {
       entry_point \<leftarrow> rd64 elf 24;
       e_phoff \<leftarrow> rd64 elf 32;
       e_phentsize \<leftarrow> rd16 elf 54;
       e_phnum \<leftarrow> rd16 elf 56;
       wbind (load_segments elf (of_nat (length bs)) gpa_to_hpa_offset e_phoff e_phentsize [0..<unat e_phnum] (-1) 0 w1)
         (\<lambda>(min_paddr, max_end) w2.
            Some (Ok (entry_point, if min_paddr = -1 then 0 else max_end - min_paddr), w2))
     }
   }"

section \<open>Preparing a multiboot2 zone\<close>

definition set_x86 :: "(x86_64_arch \<Rightarrow> x86_64_arch) \<Rightarrow> zone_config \<Rightarrow> zone_config" where
  "set_x86 f config =
     (case zn_arch_config config of X86_64_Config x \<Rightarrow> config\<lparr>zn_arch_config := X86_64_Config (f x)\<rparr> | _ \<Rightarrow> config)"

fun ram_offset :: "memory_region list \<Rightarrow> nat list \<Rightarrow> int option" where
  "ram_offset rs [] = Some 0"
| "ram_offset rs (i # is) = do {
     r \<leftarrow> nth_ub rs i;
     if mr_type r = MEM_TYPE_RAM then add_i64 (sint (mr_physical_start r)) (- sint (mr_virtual_start r))
     else ram_offset rs is
   }"

text \<open>The text of an item, or \<open>None\<close> where the item or its text is missing.\<close>

definition text_of :: "'j cjson \<Rightarrow> 'j option \<Rightarrow> string option" where
  "text_of J item = Option.bind item (cj_valuestring J)"

definition load_boot_file :: "'j cjson \<Rightarrow> 'j option \<Rightarrow> int \<Rightarrow> world \<Rightarrow> (unit cres \<times> world) option" where
  "load_boot_file J arch_json off w =
     (let file = text_of J (safe_get_item J arch_json ''boot_filepath'');
          addr = safe_get_item J arch_json ''boot_load_paddr'' in
      case file of None \<Rightarrow> Some (Ok (), w)
      | Some path \<Rightarrow>
          if addr = None then Some (Ok (), w)
          else case parse_json_u64 J addr of None \<Rightarrow> Some (Err (-1), w)
            | Some gpa \<Rightarrow> do {
                hpa \<leftarrow> moved gpa off;
                (n, w1) \<leftarrow> load_image_to_memory path hpa w;
                Some (Ok (), w1)
              })"

definition load_cmdline :: "'j cjson \<Rightarrow> 'j option \<Rightarrow> string \<Rightarrow> u64 \<Rightarrow> int \<Rightarrow> zone_config \<Rightarrow> world \<Rightarrow> (zone_config cres \<times> world) option" where
  "load_cmdline J arch_json cmdline info_paddr off config w =
     (let item = safe_get_item J arch_json ''cmdline_load_gpa'' in
      wbind (pure_step (if item = None then Some (Ok info_paddr) else or_fail (parse_json_u64 J item)) w) (\<lambda>cmdline_gpa w.
        if cmdline = [] then Some (Ok config, w)
        else do {
          hpa \<leftarrow> moved cmdline_gpa off;
          (n, w1) \<leftarrow> load_buffer_to_memory (map of_char cmdline @ [0]) hpa w;
          Some (Ok (set_x86 (cmdline_load_gpa_update (\<lambda>_. cmdline_gpa)) config), w1)
        }))"

definition load_initramfs :: "'j cjson \<Rightarrow> 'j option \<Rightarrow> int \<Rightarrow> zone_config \<Rightarrow> world \<Rightarrow> (zone_config cres \<times> world) option" where
  "load_initramfs J root off config w =
     (let addr = safe_get_item J root ''initramfs_load_gpa'' in
      case text_of J (safe_get_item J root ''initramfs_filepath'') of None \<Rightarrow> Some (Ok config, w)
      | Some path \<Rightarrow>
          if addr = None \<or> path = ''null'' then Some (Ok config, w)
          else case parse_json_u64 J addr of None \<Rightarrow> Some (Err (-1), w)
            | Some gpa \<Rightarrow> do {
                hpa \<leftarrow> moved gpa off;
                (n, w1) \<leftarrow> load_image_to_memory path hpa w;
                Some (Ok (set_x86 (\<lambda>x. x\<lparr>initrd_load_gpa := gpa, initrd_size := n\<rparr>) config), w1)
              })"

definition multiboot2_prepare_zone ::
  "arch \<Rightarrow> 'j cjson \<Rightarrow> 'j option \<Rightarrow> zone_config \<Rightarrow> world \<Rightarrow> ((zone_config \<times> u64) cres \<times> world) option" where
  "multiboot2_prepare_zone a J root config w =
     (if a \<noteq> X86_64 then Some (Err (-1), w)
      else do {
        off \<leftarrow> ram_offset (zn_memory_regions config) [0..<unat (zn_num_memory_regions config)];
        (case text_of J (safe_get_item J root ''kernel_filepath'') of
           None \<Rightarrow> Some (Err (-1), w)
         | Some path \<Rightarrow>
             wbind (load_elf_kernel path off w) (\<lambda>(entry, total_size) w1.
             let config1 = set_x86 (kernel_entry_gpa_update (\<lambda>_. entry)) (config\<lparr>zn_kernel_size := total_size\<rparr>);
                 cmdline = (case text_of J (safe_get_item J root ''kernel_cmdline'') of None \<Rightarrow> [] | Some s \<Rightarrow> s);
                 info = safe_get_item J root ''multiboot_info_paddr'';
                 arch_json = safe_get_item J root ''arch_config'' in
             wbind (pure_step (if info = None then Some (Ok 0x9000000) else or_fail (parse_json_u64 J info)) w1) (\<lambda>info_paddr w2.
             wbind (load_boot_file J arch_json off w2) (\<lambda>_ w3.
             wbind (load_cmdline J arch_json cmdline info_paddr off config1 w3) (\<lambda>config2 w4.
             wbind (load_initramfs J root off config2 w4) (\<lambda>config3 w5.
               Some (Ok (config3, info_paddr), w5)))))))
      })"

definition multiboot2_set_boot_mode :: "arch \<Rightarrow> int \<Rightarrow> u32 \<Rightarrow> u64 \<Rightarrow> world \<Rightarrow> (int \<times> world) option" where
  "multiboot2_set_boot_mode a fd zone_id info_paddr w =
     (if a \<noteq> X86_64 then Some (-1, w)
      else do {
        (r, w1) \<leftarrow> sys_call (Ioctl_Set_Boot_Mode zone_id info_paddr) w;
        Some (if s_ret r \<noteq> 0 then -1 else 0, w1)
      })"

definition boot_mode_prepare_zone ::
  "arch \<Rightarrow> 'j cjson \<Rightarrow> boot_mode \<Rightarrow> 'j option \<Rightarrow> zone_config \<Rightarrow> world \<Rightarrow> ((zone_config \<times> boot_mode) cres \<times> world) option" where
  "boot_mode_prepare_zone a J mode root config w =
     (case bm_kind mode of BOOT_MODE_NONE \<Rightarrow> Some (Ok (config, mode), w)
      | BOOT_MODE_MULTIBOOT2 \<Rightarrow> wbind (multiboot2_prepare_zone a J root config w)
          (\<lambda>(config', info) w1. Some (Ok (config', mode\<lparr>bm_multiboot_info_paddr := info\<rparr>), w1)))"

definition boot_mode_apply :: "arch \<Rightarrow> int \<Rightarrow> u32 \<Rightarrow> boot_mode \<Rightarrow> world \<Rightarrow> (int \<times> world) option" where
  "boot_mode_apply a fd zone_id mode w =
     (case bm_kind mode of BOOT_MODE_NONE \<Rightarrow> Some (0, w)
      | BOOT_MODE_MULTIBOOT2 \<Rightarrow> multiboot2_set_boot_mode a fd zone_id (bm_multiboot_info_paddr mode) w)"

section \<open>What the loader leaves in physical memory\<close>

text \<open>The effect of the loads among some calls on physical memory.\<close>

fun apply_load :: "syscall \<Rightarrow> memory \<Rightarrow> memory" where
  "apply_load (Ioctl_Load_Image bs a) m = st_bytes m a bs"
| "apply_load _ m = m"

definition phys :: "syscall list \<Rightarrow> memory \<Rightarrow> memory" where
  "phys cs = fold apply_load cs"

lemma phys_Nil [simp]: "phys [] m = m"
  by (simp add: phys_def)

lemma phys_append [simp]: "phys (cs @ ds) m = phys ds (phys cs m)"
  by (simp add: phys_def)

text \<open>A run made some calls, and they stored the bytes at the address.\<close>

definition stores :: "world \<Rightarrow> world \<Rightarrow> (memory \<Rightarrow> memory) \<Rightarrow> bool" where
  "stores w w' f \<longleftrightarrow> (\<exists>cs. w_trace w' = w_trace w @ cs \<and> phys cs = f)"

lemma stores_refl: "stores w w (\<lambda>m. m)"
  by (auto simp: stores_def phys_def intro: exI [of _ "[]"])

lemma stores_trans: "stores u v f \<Longrightarrow> stores v w g \<Longrightarrow> stores u w (\<lambda>m. g (f m))"
  unfolding stores_def by (metis append.assoc phys_append ext)

lemma stores_call: "sys_call c w = Some (r, w') \<Longrightarrow> stores w w' (apply_load c)"
  by (auto simp: stores_def phys_def dest!: sys_call_trace)

lemma load_buffer_stores:
  assumes "load_buffer_to_memory bs a w = Some (n, w')"
  shows "stores w w' (\<lambda>m. st_bytes m a bs)"
proof (cases "bs = []")
  case True
  then show ?thesis using assms stores_refl by (simp add: load_buffer_to_memory_def)
next
  case False
  then obtain f w1 r w2 c w3 where "sys_call (Open_Path ''/dev/hvisor'') w = Some (f, w1)"
    and "sys_call (Ioctl_Load_Image bs a) w1 = Some (r, w2)" and "sys_call (Close_Fd (s_ret f)) w2 = Some (c, w')"
    using assms by (auto simp: load_buffer_to_memory_def open_dev_def bind_Some_iff split: if_splits)
  from stores_trans [OF stores_trans [OF this(1,2) [THEN stores_call]] this(3) [THEN stores_call]]
  show ?thesis by simp
qed

lemma st_bytes_append: "st_bytes m a (xs @ ys) = st_bytes (st_bytes m a xs) (a + of_nat (length xs)) ys"
  by (induction m a xs rule: st_bytes.induct) (simp_all add: algebra_simps del: fun_upd_apply)

text \<open>The contents of a segment: the bytes of the file, then zeros.\<close>

definition segment_bytes :: "u8 list \<Rightarrow> elf_phdr \<Rightarrow> u8 list" where
  "segment_bytes elf ph = take (unat (p_filesz ph)) (drop (unat (p_offset ph)) elf)
     @ replicate (unat (p_memsz ph) - unat (p_filesz ph)) 0"

definition segment_addr :: "int \<Rightarrow> elf_phdr \<Rightarrow> u64" where
  "segment_addr off ph = the (moved (p_paddr ph) off)"

lemma load_file_part_stores:
  assumes "load_file_part elf ph a w = Some w'"
  shows "stores w w' (\<lambda>m. st_bytes m a (take (unat (p_filesz ph)) (drop (unat (p_offset ph)) elf)))
    \<and> length (take (unat (p_filesz ph)) (drop (unat (p_offset ph)) elf)) = unat (p_filesz ph)"
proof (cases "p_filesz ph = 0")
  case True
  then show ?thesis using assms stores_refl by (simp add: load_file_part_def)
next
  case False
  then have "p_filesz ph > 0" by (simp add: word_greater_zero_iff)
  then show ?thesis using assms
    by (auto simp: load_file_part_def bind_Some_iff get_bytes_def load_buffer_stores split: if_splits)
qed

lemma zero_fill_part_stores:
  assumes "zero_fill_part ph a w = Some (Ok u, w')"
  shows "stores w w' (\<lambda>m. st_bytes m (a + p_filesz ph) (replicate (unat (p_memsz ph) - unat (p_filesz ph)) 0))"
proof (cases "p_memsz ph > p_filesz ph")
  case True
  then obtain z w1 k where "sys_call Calloc w = Some (z, w1)"
    and "load_buffer_to_memory (replicate (unat (p_memsz ph - p_filesz ph)) 0) (a + p_filesz ph) w1 = Some (k, w')"
    using assms by (auto simp: zero_fill_part_def bind_Some_iff split: if_splits)
  from stores_trans [OF stores_call [OF this(1)] load_buffer_stores [OF this(2)]]
  show ?thesis using True by (simp add: unat_sub order_less_imp_le)
next
  case False
  then show ?thesis using assms stores_refl by (simp add: zero_fill_part_def word_less_nat_alt)
qed

lemma load_segment_stores:
  assumes "load_segment elf fsz off ph w = Some (Ok u, w')"
  shows "stores w w' (\<lambda>m. st_bytes m (segment_addr off ph) (segment_bytes elf ph))
    \<and> length (segment_bytes elf ph) = max (unat (p_filesz ph)) (unat (p_memsz ph))"
proof -
  let ?a = "segment_addr off ph" let ?seg = "take (unat (p_filesz ph)) (drop (unat (p_offset ph)) elf)"
  obtain w1 where w1: "load_file_part elf ph ?a w = Some w1" and w': "zero_fill_part ph ?a w1 = Some (Ok u, w')"
    using assms by (auto simp: load_segment_def segment_addr_def bind_Some_iff split: if_splits)
  note part = load_file_part_stores [OF w1]
  have "st_bytes m ?a (segment_bytes elf ph) = st_bytes (st_bytes m ?a ?seg) (?a + p_filesz ph)
      (replicate (unat (p_memsz ph) - unat (p_filesz ph)) 0)" for m
    using conjunct2 [OF part] by (simp add: segment_bytes_def st_bytes_append)
  then show ?thesis
    using stores_trans [OF conjunct1 [OF part] zero_fill_part_stores [OF w']] conjunct2 [OF part]
    by (simp add: segment_bytes_def)
qed

lemma wbind_Ok: "wbind m f = Some (Ok y, w') \<longleftrightarrow> (\<exists>x w1. m = Some (Ok x, w1) \<and> f x w1 = Some (Ok y, w'))"
  by (cases m) (auto simp: wbind_def split: cres.splits)

text \<open>The loadable segments among some entries of the program header table.\<close>

definition load_phdrs :: "u8 list \<Rightarrow> u64 \<Rightarrow> u16 \<Rightarrow> nat list \<Rightarrow> elf_phdr list" where
  "load_phdrs elf e_phoff e_phentsize is = filter (\<lambda>ph. p_type ph = 1) (map (\<lambda>i. the (phdr_at elf e_phoff e_phentsize i)) is)"

definition store_segment :: "u8 list \<Rightarrow> int \<Rightarrow> elf_phdr \<Rightarrow> memory \<Rightarrow> memory" where
  "store_segment elf off ph m = st_bytes m (segment_addr off ph) (segment_bytes elf ph)"

lemma load_segments_stores:
  assumes "load_segments elf fsz off phoff es is mn mx w = Some (Ok (mn', mx'), w')"
  shows "stores w w' (fold (store_segment elf off) (load_phdrs elf phoff es is))
    \<and> (\<forall>ph\<in>set (load_phdrs elf phoff es is). length (segment_bytes elf ph) = max (unat (p_filesz ph)) (unat (p_memsz ph)))
    \<and> mn' = fold (\<lambda>ph x. min (p_paddr ph) x) (load_phdrs elf phoff es is) mn
    \<and> mx' = fold (\<lambda>ph x. max (p_paddr ph + p_memsz ph) x) (load_phdrs elf phoff es is) mx"
  using assms
proof (induction "is" arbitrary: mn mx w)
  case Nil
  then show ?case using stores_refl by (simp add: load_phdrs_def)
next
  case (Cons i "is")
  then obtain ph where ph: "phdr_at elf phoff es i = Some ph" by (auto simp: bind_Some_iff)
  show ?case
  proof (cases "p_type ph = 1")
    case False
    then show ?thesis using Cons ph by (simp add: load_phdrs_def)
  next
    case True
    let ?mn = "min (p_paddr ph) mn" let ?mx = "max (p_paddr ph + p_memsz ph) mx"
    have mins: "(if p_paddr ph < mn then p_paddr ph else mn) = ?mn" "(if p_paddr ph + p_memsz ph > mx then p_paddr ph + p_memsz ph else mx) = ?mx"
      by (auto simp: min_def max_def)
    obtain u w1 where seg: "load_segment elf fsz off ph w = Some (Ok u, w1)"
      and rest: "load_segments elf fsz off phoff es is ?mn ?mx w1 = Some (Ok (mn', mx'), w')"
      using Cons.prems ph True by (auto simp: wbind_Ok mins)
    have "fold (store_segment elf off) (load_phdrs elf phoff es (i # is)) =
        (\<lambda>m. fold (store_segment elf off) (load_phdrs elf phoff es is) (store_segment elf off ph m))"
      using ph True by (auto simp: load_phdrs_def)
    moreover note stores_trans [OF conjunct1 [OF load_segment_stores [OF seg], folded store_segment_def] conjunct1 [OF Cons.IH [OF rest]]]
    ultimately show ?thesis
      using conjunct2 [OF Cons.IH [OF rest]] conjunct2 [OF load_segment_stores [OF seg]] ph True
      by (simp add: load_phdrs_def)
  qed
qed

text \<open>Segments that do not overlap do not disturb each other.\<close>

abbreviation segment_area :: "u8 list \<Rightarrow> int \<Rightarrow> elf_phdr \<Rightarrow> u64 set" where
  "segment_area elf off ph \<equiv> footprint (segment_addr off ph) (length (segment_bytes elf ph))"

lemma fold_store_outside:
  "\<forall>ph\<in>set phs. a \<notin> segment_area elf off ph \<Longrightarrow> fold (store_segment elf off) phs m a = m a"
  by (induction phs arbitrary: m) (simp_all add: store_segment_def st_bytes_outside)

lemma fold_store_inside:
  assumes "sorted_wrt (\<lambda>p q. segment_area elf off p \<inter> segment_area elf off q = {}) phs" and "ph \<in> set phs"
    and "k < length (segment_bytes elf ph)" and "length (segment_bytes elf ph) \<le> 2 ^ 64"
  shows "fold (store_segment elf off) phs m (segment_addr off ph + of_nat k) = segment_bytes elf ph ! k"
  using assms
proof (induction phs arbitrary: m)
  case (Cons p phs)
  show ?case
  proof (cases "p = ph")
    case True
    have "segment_addr off ph + of_nat k \<in> segment_area elf off ph" using Cons.prems(3) by (rule in_footprint)
    then have "\<forall>q\<in>set phs. segment_addr off ph + of_nat k \<notin> segment_area elf off q"
      using Cons.prems(1) True by auto
    then show ?thesis using True Cons.prems(3,4) by (simp add: fold_store_outside) (simp add: store_segment_def st_bytes_inside)
  next
    case False
    then show ?thesis using Cons by simp
  qed
qed simp

lemma segment_bytes_nth:
  assumes "length (segment_bytes elf ph) = max (unat (p_filesz ph)) (unat (p_memsz ph))"
    and "k < max (unat (p_filesz ph)) (unat (p_memsz ph))"
  shows "segment_bytes elf ph ! k = (if k < unat (p_filesz ph) then elf ! (unat (p_offset ph) + k) else 0)"
proof -
  have "unat (p_filesz ph) \<le> length (drop (unat (p_offset ph)) elf)"
    using assms(1) by (auto simp: segment_bytes_def split: if_splits simp: max_def)
  then show ?thesis using assms(2) by (auto simp: segment_bytes_def nth_append)
qed

text \<open>The loadable segments the header of a file announces.\<close>

definition elf_segments :: "u8 list \<Rightarrow> elf_phdr list" where
  "elf_segments elf = load_phdrs elf (of_le (take 8 (drop 32 elf))) (of_le (take 2 (drop 54 elf)))
     [0..<unat (of_le (take 2 (drop 56 elf)) :: u16)]"

text \<open>
  C15: The ELF loader puts every loadable segment where it belongs. When it succeeds and the
  segments do not overlap, then after the loads it asked for, physical memory holds the bytes of
  the file at the physical address of every segment moved by the offset of the zone, zeros in the
  part of the segment that is not in the file, and its old contents everywhere else. The entry
  point is the one of the header, and the size of a file without loadable segments is 0.
\<close>

theorem elf_kernel_loaded:
  assumes "load_elf_kernel path off w = Some (Ok (entry, sz), w')"
    and "read_file path w = Some (bs, buf_size, w1)" and "elf = elf_buffer bs buf_size"
    and "sorted_wrt (\<lambda>p q. segment_area elf off p \<inter> segment_area elf off q = {}) (elf_segments elf)"
  shows "\<exists>cs. w_trace w' = w_trace w1 @ cs \<and> entry = of_le (take 8 (drop 24 elf))
    \<and> (\<forall>ph\<in>set (elf_segments elf). \<forall>k < max (unat (p_filesz ph)) (unat (p_memsz ph)). \<forall>m.
         phys cs m (segment_addr off ph + of_nat k) = (if k < unat (p_filesz ph) then elf ! (unat (p_offset ph) + k) else 0))
    \<and> (\<forall>a m. (\<forall>ph\<in>set (elf_segments elf). a \<notin> segment_area elf off ph) \<longrightarrow> phys cs m a = m a)
    \<and> (elf_segments elf = [] \<longrightarrow> sz = 0)"
proof -
  obtain mn mx where segs: "load_segments elf (of_nat (length bs)) off (of_le (take 8 (drop 32 elf))) (of_le (take 2 (drop 54 elf)))
      [0..<unat (of_le (take 2 (drop 56 elf)) :: u16)] (-1) 0 w1 = Some (Ok (mn, mx), w')"
    and entry: "entry = of_le (take 8 (drop 24 elf))" and sz: "sz = (if mn = -1 then 0 else mx - mn)"
    using assms(1-3)
    by (auto simp: load_elf_kernel_def rd64_def rd16_def get_bytes_def wbind_Ok Let_def bind_Some_iff split: if_splits)
  note loaded = load_segments_stores [OF segs, folded elf_segments_def]
  then obtain cs where cs: "w_trace w' = w_trace w1 @ cs" "phys cs = fold (store_segment elf off) (elf_segments elf)"
    by (auto simp: stores_def)
  have inside: "phys cs m (segment_addr off ph + of_nat k) = (if k < unat (p_filesz ph) then elf ! (unat (p_offset ph) + k) else 0)"
    if "ph \<in> set (elf_segments elf)" and "k < max (unat (p_filesz ph)) (unat (p_memsz ph))" for ph k m
  proof -
    have len: "length (segment_bytes elf ph) = max (unat (p_filesz ph)) (unat (p_memsz ph))" using loaded that(1) by blast
    then have "length (segment_bytes elf ph) \<le> 2 ^ 64" by (simp add: order_less_imp_le)
    then show ?thesis
      using fold_store_inside [OF assms(4) that(1)] segment_bytes_nth [OF len that(2)] len that(2) by (simp add: cs(2))
  qed
  moreover have "sz = 0" if "elf_segments elf = []" using loaded that by (simp add: sz)
  ultimately show ?thesis
    using cs entry fold_store_outside [where phs = "elf_segments elf" and elf = elf and off = off] by (intro exI [of _ cs]) auto
qed

text \<open>A file with one segment of two bytes and two zeros.\<close>

definition tiny_elf :: "u8 list" where
  "tiny_elf = [0x7f, 0x45, 0x4c, 0x46, 2] @ replicate 19 0 @ [0, 0, 0x10, 0, 0, 0, 0, 0] @ [64, 0, 0, 0, 0, 0, 0, 0]
     @ replicate 14 0 @ [56, 0, 1, 0] @ replicate 6 0
     @ [1, 0, 0, 0, 5, 0, 0, 0] @ [120, 0, 0, 0, 0, 0, 0, 0] @ replicate 8 0 @ [0, 0, 0x10, 0, 0, 0, 0, 0]
     @ [2, 0, 0, 0, 0, 0, 0, 0] @ [4, 0, 0, 0, 0, 0, 0, 0] @ replicate 8 0 @ [0xaa, 0xbb]"

definition tiny_phdr :: elf_phdr where
  "tiny_phdr = \<lparr>p_type = 1, p_offset = 120, p_paddr = 0x100000, p_filesz = 2, p_memsz = 4\<rparr>"

definition after_read :: world where
  "after_read = example_world\<lparr>w_tape := [ok_ret, ok_ret, ok_ret, ok_ret\<lparr>s_ret := 1\<rparr>, ok_ret, ok_ret, ok_ret],
     w_trace := [Open_Path ''Image'', Fstat 3, Calloc, Other_Call ''read'' [3, 122], Close_Fd 3]\<rparr>"

definition elf_world :: world where
  "elf_world = example_world\<lparr>w_tape := [ok_ret\<lparr>s_ret := 3\<rparr>, ok_ret\<lparr>s_vals := [122]\<rparr>, ok_ret\<lparr>s_ret := 1\<rparr>,
     ok_ret\<lparr>s_ret := 122, s_bytes := tiny_elf\<rparr>, ok_ret] @ w_tape after_read\<rparr>"

abbreviation tiny_buffer :: "u8 list" where
  "tiny_buffer \<equiv> elf_buffer tiny_elf 4096"

lemma tiny_length: "length tiny_elf = 122"
  by (simp add: tiny_elf_def)

lemma tiny_read: "read_file ''Image'' elf_world = Some (tiny_elf, 4096, after_read)"
  by (simp add: read_file_def elf_world_def after_read_def sys_call_def ok_ret_def example_world_def s_val_def tiny_length)

lemma tiny_header:
  "get_bytes tiny_buffer 0 5 = Some [0x7f, 0x45, 0x4c, 0x46, 2]" "rd64 tiny_buffer 24 = Some 0x100000"
  "rd64 tiny_buffer 32 = Some 64" "rd16 tiny_buffer 54 = Some 56" "rd16 tiny_buffer 56 = Some 1"
  "phdr_at tiny_buffer 64 56 0 = Some tiny_phdr" "get_bytes tiny_buffer 120 2 = Some [0xaa, 0xbb]"
  by (simp_all add: elf_buffer_def tiny_elf_def tiny_phdr_def phdr_at_def rd16_def rd32_def rd64_def get_bytes_def of_le_def)

lemma tiny_segments: "elf_segments tiny_buffer = [tiny_phdr]"
  using tiny_header(3-5)
  by (simp add: elf_segments_def load_phdrs_def tiny_header(6) tiny_phdr_def rd64_def rd16_def get_bytes_def split: if_splits)

lemma tiny_loaded: "\<exists>w'. load_elf_kernel ''Image'' 0x50000000 elf_world = Some (Ok (0x100000, 4), w')"
  by (simp add: load_elf_kernel_def tiny_read tiny_header tiny_length tiny_phdr_def wbind_def load_segment_def
      load_file_part_def zero_fill_part_def moved_def add_i64_def load_buffer_to_memory_def open_dev_def sys_call_def
      after_read_def ok_ret_def Let_def)

lemma elf_kernel_loaded_witness:
  "\<exists>w' cs. load_elf_kernel ''Image'' 0x50000000 elf_world = Some (Ok (0x100000, 4), w')
     \<and> w_trace w' = w_trace after_read @ cs
     \<and> phys cs (\<lambda>_. 1) 0x50100001 = 0xbb \<and> phys cs (\<lambda>_. 1) 0x50100002 = 0 \<and> phys cs (\<lambda>_. 1) 0x50100004 = 1"
proof -
  obtain w' where run: "load_elf_kernel ''Image'' 0x50000000 elf_world = Some (Ok (0x100000, 4), w')"
    using tiny_loaded by blast
  have addr: "segment_addr 0x50000000 tiny_phdr = 0x50100000"
    by (simp add: segment_addr_def tiny_phdr_def moved_def add_i64_def)
  have len: "length (segment_bytes tiny_buffer tiny_phdr) = 4"
    by (simp add: segment_bytes_def elf_buffer_def tiny_length tiny_phdr_def)
  have at: "tiny_buffer ! 121 = 0xbb" by (simp add: elf_buffer_def tiny_elf_def nth_append)
  have area: "0x50100004 \<notin> segment_area tiny_buffer 0x50000000 tiny_phdr"
    by (simp add: addr len footprint_4 footprint_2)
  have sorted: "sorted_wrt (\<lambda>p q. segment_area tiny_buffer 0x50000000 p \<inter> segment_area tiny_buffer 0x50000000 q = {})
      (elf_segments tiny_buffer)" by (simp add: tiny_segments)
  obtain cs where cs: "w_trace w' = w_trace after_read @ cs"
    and inside: "\<forall>ph\<in>set (elf_segments tiny_buffer). \<forall>k < max (unat (p_filesz ph)) (unat (p_memsz ph)). \<forall>m.
      phys cs m (segment_addr 0x50000000 ph + of_nat k) = (if k < unat (p_filesz ph) then tiny_buffer ! (unat (p_offset ph) + k) else 0)"
    and outside: "\<forall>a m. (\<forall>ph\<in>set (elf_segments tiny_buffer). a \<notin> segment_area tiny_buffer 0x50000000 ph) \<longrightarrow> phys cs m a = m a"
    using elf_kernel_loaded [OF run tiny_read refl sorted] by blast
  have "\<forall>k < 4. \<forall>m. phys cs m (0x50100000 + of_nat k) = (if k < 2 then tiny_buffer ! (120 + k) else 0)"
    using bspec [OF inside, of tiny_phdr] addr by (simp add: tiny_segments) (simp add: tiny_phdr_def)
  then have "phys cs m 0x50100001 = 0xbb" "phys cs m 0x50100002 = 0" for m
    using at by (auto dest: spec [of _ 1] spec [of _ 2])
  moreover have "phys cs (\<lambda>_. 1) 0x50100004 = 1" using outside area by (simp add: tiny_segments)
  ultimately show ?thesis using run cs by blast
qed

end
