(* ===== verification/Zone_Start.thy ===== *)
theory Zone_Start
  imports Zone_Boot
begin

text \<open>
  The zone commands of the tool (\<^verbatim>\<open>src/tools/hvisor.c\<close>): the architecture part of a description,
  additional modules, and \<open>zone start\<close>. The architecture of the build is
  an argument. A call of \<open>exit\<close> is \<open>None\<close>.
\<close>

section \<open>The architecture part\<close>

definition parse_gic :: "'j cjson \<Rightarrow> 'j option \<Rightarrow> GicConfig cres option" where
  "parse_gic J arch_json =
     (let get = safe_get_item J arch_json in
      case get ''gic_version'' of None \<Rightarrow> Some (Err (-1))
      | Some v \<Rightarrow> do {
          gic_version \<leftarrow> cj_valuestring J v;
          (if gic_version = ''v2''
           then or_fail (do {
             gicd_base \<leftarrow> parse_json_u64 J (get ''gicd_base'');
             gicd_size \<leftarrow> parse_json_u64 J (get ''gicd_size'');
             gicc_base \<leftarrow> parse_json_u64 J (get ''gicc_base'');
             gicc_size \<leftarrow> parse_json_u64 J (get ''gicc_size'');
             gicc_offset \<leftarrow> parse_json_u64 J (get ''gicc_offset'');
             gich_base \<leftarrow> parse_json_u64 J (get ''gich_base'');
             gich_size \<leftarrow> parse_json_u64 J (get ''gich_size'');
             gicv_base \<leftarrow> parse_json_u64 J (get ''gicv_base'');
             gicv_size \<leftarrow> parse_json_u64 J (get ''gicv_size'');
             Some (Gicv2 \<lparr>g2_gicd_base = gicd_base, g2_gicd_size = gicd_size, g2_gicc_base = gicc_base,
               g2_gicc_size = gicc_size, g2_gicc_offset = gicc_offset, g2_gich_base = gich_base,
               g2_gich_size = gich_size, g2_gicv_base = gicv_base, g2_gicv_size = gicv_size\<rparr>)
           })
           else if gic_version = ''v3''
           then or_fail (do {
             gicd_base \<leftarrow> parse_json_u64 J (get ''gicd_base'');
             gicd_size \<leftarrow> parse_json_u64 J (get ''gicd_size'');
             gicr_base \<leftarrow> parse_json_u64 J (get ''gicr_base'');
             gicr_size \<leftarrow> parse_json_u64 J (get ''gicr_size'');
             (gits_base, gits_size) \<leftarrow>
               (if get ''gits_base'' = None \<or> get ''gits_size'' = None then Some (0, 0)
                else do {
                  b \<leftarrow> parse_json_u64 J (get ''gits_base'');
                  s \<leftarrow> parse_json_u64 J (get ''gits_size'');
                  Some (b, s)
                });
             Some (Gicv3 \<lparr>g3_gicd_base = gicd_base, g3_gicd_size = gicd_size, g3_gicr_base = gicr_base,
               g3_gicr_size = gicr_size, g3_gits_base = gits_base, g3_gits_size = gits_size\<rparr>)
           })
           else Some (Err (-1)))
        })"

definition parse_uefi :: "'j cjson \<Rightarrow> 'j option \<Rightarrow> UefiConfig cres option" where
  "parse_uefi J arch_json =
     (let get = safe_get_item J arch_json in
      if get ''memory_map_addr'' = None then Some (Ok No_Uefi)
      else or_fail (do {
        addr \<leftarrow> parse_json_u64 J (get ''memory_map_addr'');
        sz \<leftarrow> parse_json_u64 J (get ''memory_map_size'');
        sys \<leftarrow> parse_json_u64 J (get ''sys_map_addr'');
        Some (Uefi_Payload \<lparr>ue_memory_map_addr = addr, ue_memory_map_size = sz, ue_sys_map_addr = sys\<rparr>)
      }))"

definition parse_arm64 :: "'j cjson \<Rightarrow> 'j option \<Rightarrow> arch_zone_config cres option" where
  "parse_arm64 J arch_json =
     cbind (parse_gic J arch_json) (\<lambda>gic.
     cbind (parse_uefi J arch_json) (\<lambda>uefi.
       Some (Ok (Arm64_Config \<lparr>is_aarch32 = (case int_item J arch_json ''is_aarch32'' of None \<Rightarrow> 0 | Some v \<Rightarrow> of_int v),
                   gic_config = gic, uefi_config = uefi\<rparr>))))"

definition parse_riscv64 :: "'j cjson \<Rightarrow> 'j option \<Rightarrow> arch_zone_config cres option" where
  "parse_riscv64 J arch_json = or_fail (do {
     pb \<leftarrow> parse_json_u64 J (safe_get_item J arch_json ''plic_base'');
     ps \<leftarrow> parse_json_u64 J (safe_get_item J arch_json ''plic_size'');
     ab \<leftarrow> parse_json_u64 J (safe_get_item J arch_json ''aplic_base'');
     as \<leftarrow> parse_json_u64 J (safe_get_item J arch_json ''aplic_size'');
     Some (Riscv64_Config \<lparr>plic_base = pb, plic_size = ps, aplic_base = ab, aplic_size = as\<rparr>)
   })"

text \<open>
  The pattern of the set-up code, the command line and the initial file system: when the item is
  there, its two addresses are read and it is loaded. The result is the guest address and the size.
\<close>

definition load_item ::
  "'j cjson \<Rightarrow> 'j option \<Rightarrow> string \<Rightarrow> string \<Rightarrow> string \<Rightarrow> (string \<Rightarrow> u64 \<Rightarrow> world \<Rightarrow> (u64 \<times> world) option) \<Rightarrow> world
    \<Rightarrow> ((u64 \<times> u64) option cres \<times> world) option" where
  "load_item J arch_json key gpa_key hpa_key load w =
     (case safe_get_item J arch_json key of None \<Rightarrow> Some (Ok None, w)
      | Some f \<Rightarrow>
          wbind (pure_step (or_fail (do {
            gpa \<leftarrow> parse_json_u64 J (safe_get_item J arch_json gpa_key);
            hpa \<leftarrow> parse_json_u64 J (safe_get_item J arch_json hpa_key);
            Some (gpa, hpa)
          })) w) (\<lambda>(gpa, hpa) w. do {
            s \<leftarrow> cj_valuestring J f;
            (n, w1) \<leftarrow> load s hpa w;
            Some (Ok (Some (gpa, n)), w1)
          }))"

definition load_legacy_boot :: "'j cjson \<Rightarrow> 'j option \<Rightarrow> bool \<Rightarrow> world \<Rightarrow> (unit cres \<times> world) option" where
  "load_legacy_boot J arch_json multiboot w =
     (case safe_get_item J arch_json ''boot_filepath'' of None \<Rightarrow> Some (Ok (), w)
      | Some f \<Rightarrow>
          if multiboot then Some (Ok (), w)
          else wbind (pure_step (or_fail (parse_json_u64 J (safe_get_item J arch_json ''boot_load_paddr''))) w) (\<lambda>addr w. do {
            s \<leftarrow> cj_valuestring J f;
            (n, w1) \<leftarrow> load_image_to_memory s addr w;
            Some (Ok (), w1)
          }))"

definition parse_x86_64 :: "'j cjson \<Rightarrow> 'j \<Rightarrow> 'j option \<Rightarrow> x86_64_arch \<Rightarrow> world \<Rightarrow> (x86_64_arch cres \<times> world) option" where
  "parse_x86_64 J root arch_json x w = do {
     multiboot \<leftarrow> boot_mode_is_multiboot2 J root;
     wbind (pure_step (or_fail (do {
       b \<leftarrow> parse_json_u64 J (safe_get_item J arch_json ''ioapic_base'');
       s \<leftarrow> parse_json_u64 J (safe_get_item J arch_json ''ioapic_size'');
       k \<leftarrow> (if multiboot then Some (kernel_entry_gpa x) else parse_json_u64 J (safe_get_item J arch_json ''kernel_entry_gpa''));
       Some (x\<lparr>ioapic_base := b, ioapic_size := s, kernel_entry_gpa := k\<rparr>)
     })) w) (\<lambda>x1 w1.
     wbind (load_legacy_boot J arch_json multiboot w1) (\<lambda>_ w2.
     wbind (load_item J arch_json ''setup_filepath'' ''setup_load_gpa'' ''setup_load_hpa'' load_image_to_memory w2) (\<lambda>setup w3.
     wbind (load_item J arch_json ''cmdline'' ''cmdline_load_gpa'' ''cmdline_load_hpa'' load_str_to_memory w3) (\<lambda>cmdline w4.
     wbind (load_item J arch_json ''initrd_filepath'' ''initrd_load_gpa'' ''initrd_load_hpa'' load_image_to_memory w4) (\<lambda>initrd w5.
     let x2 = (case setup of None \<Rightarrow> x1 | Some (gpa, n) \<Rightarrow> x1\<lparr>setup_load_gpa := gpa\<rparr>);
         x3 = (case cmdline of None \<Rightarrow> x2 | Some (gpa, n) \<Rightarrow> x2\<lparr>cmdline_load_gpa := gpa\<rparr>);
         x4 = (case initrd of None \<Rightarrow> x3 | Some (gpa, n) \<Rightarrow> x3\<lparr>initrd_load_gpa := gpa, initrd_size := n\<rparr>)
     in pure_step (or_fail (do {
          rsdp \<leftarrow> parse_json_u64 J (safe_get_item J arch_json ''rsdp_memory_region_id'');
          acpi \<leftarrow> parse_json_u64 J (safe_get_item J arch_json ''acpi_memory_region_id'');
          uefi \<leftarrow> parse_json_u64 J (safe_get_item J arch_json ''uefi_memory_region_id'');
          screen \<leftarrow> parse_json_u64 J (safe_get_item J arch_json ''screen_base'');
          Some (x4\<lparr>rsdp_memory_region_id := rsdp, acpi_memory_region_id := acpi, uefi_memory_region_id := uefi, screen_base := screen\<rparr>)
        })) w5)))))
   }"

definition parse_arch_config :: "arch \<Rightarrow> 'j cjson \<Rightarrow> 'j \<Rightarrow> zone_config \<Rightarrow> world \<Rightarrow> (zone_config cres \<times> world) option" where
  "parse_arch_config a J root config w =
     (let arch_json = safe_get_item J (Some root) ''arch_config'' in
      if arch_json = None then Some (Err (-1), w)
      else case a of
        ARM64 \<Rightarrow> wbind (pure_step (parse_arm64 J arch_json) w) (\<lambda>ac w1. Some (Ok (config\<lparr>zn_arch_config := ac\<rparr>), w1))
      | RISCV64 \<Rightarrow> wbind (pure_step (parse_riscv64 J arch_json) w) (\<lambda>ac w1. Some (Ok (config\<lparr>zn_arch_config := ac\<rparr>), w1))
      | LOONGARCH64 \<Rightarrow> Some (Ok config, w)
      | X86_64 \<Rightarrow> (case zn_arch_config config of
          X86_64_Config x \<Rightarrow> wbind (parse_x86_64 J root arch_json x w) (\<lambda>x' w1. Some (Ok (config\<lparr>zn_arch_config := X86_64_Config x'\<rparr>), w1))
        | _ \<Rightarrow> None))"

section \<open>Modules\<close>

fun load_modules :: "'j cjson \<Rightarrow> 'j option \<Rightarrow> nat list \<Rightarrow> world \<Rightarrow> (unit cres \<times> world) option" where
  "load_modules J modules [] w = Some (Ok (), w)"
| "load_modules J modules (i # is) w =
     (let item = safe_array_item J modules (int i); name = safe_get_item J item ''name'';
          file_json = safe_get_item J item ''filepath''; addr = safe_get_item J item ''load_paddr'' in
      if \<not> is_string J name \<or> \<not> is_string J file_json \<or> \<not> is_string J addr then Some (Err (-1), w)
      else do {
        f \<leftarrow> file_json;
        path \<leftarrow> cj_valuestring J f;
        (r, w1) \<leftarrow> sys_call (Access_Path path) w;
        (if s_ret r \<noteq> 0 then Some (Err (-1), w1)
         else case parse_json_u64 J addr of None \<Rightarrow> Some (Err (-1), w1)
           | Some paddr \<Rightarrow> do {
               (n, w2) \<leftarrow> load_image_to_memory path paddr w1;
               load_modules J modules is w2
             })
      })"

definition parse_modules :: "'j cjson \<Rightarrow> 'j option \<Rightarrow> world \<Rightarrow> (unit cres \<times> world) option" where
  "parse_modules J modules w =
     (case modules of None \<Rightarrow> Some (Ok (), w)
      | Some m \<Rightarrow> if \<not> cj_is_array J m then Some (Ok (), w) else load_modules J modules [0..<size_of J modules] w)"

section \<open>Starting a zone\<close>

text \<open>A description that is longer than what \<open>fread\<close> delivers would be parsed from uninitialised memory.\<close>

definition read_zone_json :: "string \<Rightarrow> world \<Rightarrow> (string option \<times> world) option" where
  "read_zone_json path w = do {
     (f, w1) \<leftarrow> sys_call (Open_Path path) w;
     if s_ret f < 0 then None else do {
     (sz, w2) \<leftarrow> sys_call (Other_Call ''ftell'' [s_ret f]) w1;
     if s_ret sz < 0 then None else do {
     (m, w3) \<leftarrow> sys_call Calloc w2;
     if s_ret m = 0 then None else do {
     (r, w4) \<leftarrow> sys_call (Other_Call ''fread'' [s_ret f, s_ret sz]) w3;
     (c, w5) \<leftarrow> sys_call (Close_Fd (s_ret f)) w4;
     if s_ret r = 0 then Some (None, w5)
     else if s_ret r \<noteq> s_ret sz then None
     else Some (Some (map (\<lambda>b. char_of (unat b)) (takeWhile (\<lambda>b. b \<noteq> 0) (take (nat (s_ret r)) (s_bytes r)))), w5) } } }
   }"

definition load_kernel :: "arch \<Rightarrow> 'j cjson \<Rightarrow> 'j \<Rightarrow> zone_config \<Rightarrow> world \<Rightarrow> ((zone_config \<times> boot_mode) cres \<times> world) option" where
  "load_kernel a J root config w = do {
     mode \<leftarrow> boot_mode_parse J root;
     (if bm_kind mode \<noteq> BOOT_MODE_NONE then boot_mode_prepare_zone a J mode (Some root) config w
      else do {
        path \<leftarrow> text_of J (safe_get_item J (Some root) ''kernel_filepath'');
        (n, w1) \<leftarrow> load_image_to_memory path (zn_kernel_load_paddr config) w;
        Some (Ok (config\<lparr>zn_kernel_size := n\<rparr>, mode), w1)
      })
   }"

definition load_dtb :: "arch \<Rightarrow> 'j cjson \<Rightarrow> 'j \<Rightarrow> zone_config \<Rightarrow> world \<Rightarrow> (zone_config cres \<times> world) option" where
  "load_dtb a J root config w =
     (if a = X86_64 then Some (Ok config, w)
      else do {
        path \<leftarrow> text_of J (safe_get_item J (Some root) ''dtb_filepath'');
        (n, w1) \<leftarrow> load_image_to_memory path (zn_dtb_load_paddr config) w;
        Some (Ok (config\<lparr>zn_dtb_size := n\<rparr>), w1)
      })"

definition name_zone :: "'j cjson \<Rightarrow> 'j \<Rightarrow> zone_config \<Rightarrow> zone_config cres option" where
  "name_zone J root config = map_option (\<lambda>s. set_name s config) (text_of J (safe_get_item J (Some root) ''name''))"

definition prepare_zone :: "arch \<Rightarrow> 'j cjson \<Rightarrow> 'j option \<Rightarrow> zone_config \<Rightarrow> world \<Rightarrow> ((zone_config \<times> boot_mode) cres \<times> world) option" where
  "prepare_zone a J root config w =
     wbind (pure_step (parse_zone_config J root config) w) (\<lambda>c1 w1. Option.bind root (\<lambda>r.
     wbind (load_kernel a J r c1 w1) (\<lambda>(c2, mode) w2.
     wbind (load_dtb a J r c2 w2) (\<lambda>c3 w3.
     wbind (parse_modules J (safe_get_item J root ''modules'') w3) (\<lambda>_ w4.
     wbind (pure_step (name_zone J r c3) w4) (\<lambda>c4 w5.
     wbind (if a = LOONGARCH64 then Some (Ok c4, w5) else parse_arch_config a J r c4 w5) (\<lambda>c5 w6.
     wbind (pure_step (parse_pci_config J root c5) w6) (\<lambda>c6 w7.
       Some (Ok (c6, mode), w7)))))))))"

definition zone_apply_dynamic_ecam :: "int \<Rightarrow> zone_config \<Rightarrow> world \<Rightarrow> (zone_config cres \<times> world) option" where
  "zone_apply_dynamic_ecam fd config w =
     (if zn_num_pci_bus config = 0 then Some (Ok config, w)
      else do {
        (r, w1) \<leftarrow> sys_call Ioctl_Get_Ecam_Base w;
        if s_ret r \<noteq> 0 then Some (Err (-1), w1)
        else if s_val r 0 = 0 then Some (Ok config, w1)
        else do {
          p \<leftarrow> nth_ub (zn_pci_config config) 0;
          ps \<leftarrow> upd_ub (zn_pci_config config) 0 (p\<lparr>pc_ecam_base := s_val r 0\<rparr>);
          Some (Ok (config\<lparr>zn_pci_config := ps\<rparr>), w1)
        }
      })"

definition start_prepared :: "arch \<Rightarrow> zone_config \<Rightarrow> boot_mode \<Rightarrow> world \<Rightarrow> (int \<times> world) option" where
  "start_prepared a config mode w = do {
     (fd, w1) \<leftarrow> open_dev w;
     (e, w2) \<leftarrow> zone_apply_dynamic_ecam fd config w1;
     (case e of
        Err _ \<Rightarrow> do { (c, w3) \<leftarrow> sys_call (Close_Fd fd) w2; Some (-1, w3) }
      | Ok config1 \<Rightarrow> do {
          (b, w3) \<leftarrow> (if bm_kind mode \<noteq> BOOT_MODE_NONE then boot_mode_apply a fd (zn_zone_id config1) mode w2 else Some (0, w2));
          (if b \<noteq> 0 then do { (c, w4) \<leftarrow> sys_call (Close_Fd fd) w3; Some (-1, w4) }
           else do {
             (r, w4) \<leftarrow> sys_call (Ioctl_Zone_Start config1) w3;
             (c, w5) \<leftarrow> sys_call (Close_Fd fd) w4;
             Some (s_ret r, w5)
           })
        })
   }"

definition zone_start_from_json :: "arch \<Rightarrow> 'j cjson \<Rightarrow> string \<Rightarrow> zone_config \<Rightarrow> world \<Rightarrow> (int \<times> world) option" where
  "zone_start_from_json a J path config w = do {
     (str, w1) \<leftarrow> read_zone_json path w;
     (case str of None \<Rightarrow> Some (-1, w1)
      | Some s \<Rightarrow> do {
          (r, w2) \<leftarrow> prepare_zone a J (safe_parse J s) config w1;
          (case r of Err e \<Rightarrow> Some (-1, w2) | Ok (c, mode) \<Rightarrow> start_prepared a c mode w2)
        })
   }"

text \<open>The argument is the path of the command line; another number of arguments ends in \<open>help\<close>.\<close>

definition zone_start :: "arch \<Rightarrow> 'j cjson \<Rightarrow> string \<Rightarrow> world \<Rightarrow> (int \<times> world) option" where
  "zone_start a J path w = do {
     (fd, w1) \<leftarrow> open_dev w;
     (r, w2) \<leftarrow> sys_call Ioctl_Config_Check w1;
     (c, w3) \<leftarrow> sys_call (Close_Fd fd) w2;
     if s_ret r \<noteq> 0 then Some (-1, w3)
     else if s_val r 0 \<noteq> CONFIG_MAGIC_VERSION then Some (-1, w3)
     else zone_start_from_json a J path (zeroed_config a) w3
   }"

section \<open>Only the last step starts a zone\<close>

fun start_of :: "syscall \<Rightarrow> zone_config list" where
  "start_of (Ioctl_Zone_Start c) = [c]"
| "start_of _ = []"

definition starts :: "syscall list \<Rightarrow> zone_config list" where
  "starts cs = concat (map start_of cs)"

lemma starts_simps [simp]: "starts [] = []" "starts (c # cs) = start_of c @ starts cs" "starts (cs @ ds) = starts cs @ starts ds"
  by (simp_all add: starts_def)

text \<open>The calls between two states start no zone.\<close>

definition calm :: "world \<Rightarrow> world \<Rightarrow> bool" where
  "calm w w' \<longleftrightarrow> (\<exists>cs. w_trace w' = w_trace w @ cs \<and> starts cs = [])"

definition calmly :: "world \<Rightarrow> ('a \<times> world) option \<Rightarrow> bool" where
  "calmly u m \<longleftrightarrow> post (\<lambda>(r, w). calm u w) m"

named_theorems calm_intros \<open>calls that start no zone, along the statements of a definition\<close>

lemma calm_refl [simp]: "calm w w"
  by (simp add: calm_def)

lemma calm_call: "sys_call c w = Some (r, w') \<Longrightarrow> start_of c = [] \<Longrightarrow> calm u w \<Longrightarrow> calm u w'"
  by (auto simp: calm_def dest!: sys_call_trace)

lemma calmly_Some [calm_intros]: "calm u w \<Longrightarrow> calmly u (Some (r, w))"
  by (simp add: calmly_def post_def)

lemma calmly_None [calm_intros]: "calmly u None"
  by (simp add: calmly_def post_def)

lemma calmly_bind [calm_intros]:
  "calmly u m \<Longrightarrow> (\<And>r w. calm u w \<Longrightarrow> calmly u (f r w)) \<Longrightarrow> calmly u (Option.bind m (\<lambda>(r, w). f r w))"
  by (cases m) (auto simp: calmly_def post_def)

lemma calmly_bind_triple [calm_intros]:
  "post (\<lambda>(a, b, w). calm u w) m \<Longrightarrow> (\<And>a b w. calm u w \<Longrightarrow> calmly u (f a b w)) \<Longrightarrow> calmly u (Option.bind m (\<lambda>(a, b, w). f a b w))"
  by (cases m) (auto simp: calmly_def post_def)

lemma calmly_bind_world [calm_intros]:
  "post (calm u) m \<Longrightarrow> (\<And>w. calm u w \<Longrightarrow> calmly u (f w)) \<Longrightarrow> calmly u (Option.bind m f)"
  by (cases m) (auto simp: calmly_def post_def)

lemma calmly_wbind [calm_intros]:
  "calmly u m \<Longrightarrow> (\<And>x w. calm u w \<Longrightarrow> calmly u (f x w)) \<Longrightarrow> calmly u (wbind m f)"
  by (cases m) (auto simp: calmly_def post_def wbind_def split: cres.splits)

lemma calmly_pure_step [calm_intros]: "calm u w \<Longrightarrow> calmly u (pure_step m w)"
  by (auto simp: calmly_def post_def pure_step_def)

lemma calmly_call [calm_intros]: "start_of c = [] \<Longrightarrow> calm u w \<Longrightarrow> calmly u (sys_call c w)"
  by (auto simp: calmly_def post_def intro: calm_call)

lemma calmly_if [calm_intros]: "calmly u a \<Longrightarrow> calmly u b \<Longrightarrow> calmly u (if c then a else b)"
  by simp

lemma calmly_let [calm_intros]: "(\<And>y. calmly u (f y)) \<Longrightarrow> calmly u (Let x f)"
  by simp

lemma calmly_case_option [calm_intros]:
  "calmly u a \<Longrightarrow> (\<And>y. calmly u (f y)) \<Longrightarrow> calmly u (case x of None \<Rightarrow> a | Some y \<Rightarrow> f y)"
  by (cases x) simp_all

lemma calmly_case_prod [calm_intros]: "(\<And>a b. calmly u (f a b)) \<Longrightarrow> calmly u (case x of (a, b) \<Rightarrow> f a b)"
  by (cases x) simp

lemma calmly_case_prod_app [calm_intros]: "(\<And>a b. calmly u (f a b w)) \<Longrightarrow> calmly u ((case x of (a, b) \<Rightarrow> f a b) w)"
  by (cases x) simp

text \<open>A step without calls; this rule comes last.\<close>

lemma calmly_bind_pure: "(\<And>x. calmly u (f x)) \<Longrightarrow> calmly u (Option.bind m f)"
  by (cases m) (auto simp: calmly_def post_def)

lemma open_dev_calm [calm_intros]: "calm u w \<Longrightarrow> calmly u (open_dev w)"
  unfolding open_dev_def by (intro calm_intros) simp_all

lemma load_buffer_calm [calm_intros]: "calm u w \<Longrightarrow> calmly u (load_buffer_to_memory bs a w)"
  unfolding load_buffer_to_memory_def by (intro calm_intros) simp_all

lemma load_str_calm [calm_intros]: "calm u w \<Longrightarrow> calmly u (load_str_to_memory s a w)"
  unfolding load_str_to_memory_def by (intro calm_intros)

lemma read_file_calm [calm_intros]: "calm u w \<Longrightarrow> post (\<lambda>(a, b, w). calm u w) (read_file path w)"
  by (intro postI) (auto simp: read_file_def bind_Some_iff Let_def dest!: calm_call [where u = u] split: if_splits)

lemma load_image_calm [calm_intros]: "calm u w \<Longrightarrow> calmly u (load_image_to_memory path a w)"
  unfolding load_image_to_memory_def by (intro calm_intros)

lemma load_file_part_calm: "calm u w \<Longrightarrow> post (calm u) (load_file_part elf ph a w)"
  using postD [OF load_buffer_calm [of u w, unfolded calmly_def]]
  by (intro postI) (auto simp: load_file_part_def bind_Some_iff split: if_splits)

lemma zero_fill_part_calm [calm_intros]: "calm u w \<Longrightarrow> calmly u (zero_fill_part ph a w)"
  unfolding zero_fill_part_def by (intro calm_intros) simp_all

lemma load_segment_calm [calm_intros]: "calm u w \<Longrightarrow> calmly u (load_segment elf n off ph w)"
  unfolding load_segment_def
  by (intro calmly_if calmly_Some calmly_bind_pure [where m = "moved _ _"] calmly_bind_world load_file_part_calm zero_fill_part_calm)

lemma load_segments_calm [calm_intros]: "calm u w \<Longrightarrow> calmly u (load_segments elf n off phoff es is mn mx w)"
proof (induction "is" arbitrary: mn mx w)
  case (Cons i "is")
  then show ?case unfolding load_segments.simps by (intro calmly_bind_pure calmly_if calmly_wbind load_segment_calm)
qed (simp add: calmly_Some)

lemma load_elf_kernel_calm [calm_intros]: "calm u w \<Longrightarrow> calmly u (load_elf_kernel path off w)"
  unfolding load_elf_kernel_def
  by (intro calmly_bind_triple read_file_calm calmly_let calmly_if calmly_Some calmly_bind_pure calmly_wbind load_segments_calm
      calmly_case_prod_app)

lemma load_boot_file_calm [calm_intros]: "calm u w \<Longrightarrow> calmly u (load_boot_file J arch_json off w)"
  unfolding load_boot_file_def
  by (intro calmly_let calmly_case_option calmly_if calmly_Some calmly_bind_pure [where m = "moved _ _"] calmly_bind load_image_calm)

lemma load_cmdline_calm [calm_intros]: "calm u w \<Longrightarrow> calmly u (load_cmdline J arch_json cmdline info off config w)"
  unfolding load_cmdline_def
  by (intro calmly_let calmly_wbind calmly_pure_step calmly_if calmly_Some calmly_bind_pure [where m = "moved _ _"] calmly_bind load_buffer_calm)

lemma load_initramfs_calm [calm_intros]: "calm u w \<Longrightarrow> calmly u (load_initramfs J root off config w)"
  unfolding load_initramfs_def
  by (intro calmly_let calmly_case_option calmly_if calmly_Some calmly_bind_pure [where m = "moved _ _"] calmly_bind load_image_calm)

lemma boot_mode_prepare_zone_calm [calm_intros]: "calm u w \<Longrightarrow> calmly u (boot_mode_prepare_zone a J mode root config w)"
proof -
  assume "calm u w"
  then have "calmly u (multiboot2_prepare_zone a J root config w)"
    unfolding multiboot2_prepare_zone_def
    by (intro calmly_if calmly_Some calmly_bind_pure [where m = "ram_offset _ _"] calm_intros)
  then show ?thesis using \<open>calm u w\<close>
    unfolding boot_mode_prepare_zone_def by (cases "bm_kind mode") (auto intro!: calm_intros)
qed

lemma boot_mode_apply_calm [calm_intros]: "calm u w \<Longrightarrow> calmly u (boot_mode_apply a fd z mode w)"
  unfolding boot_mode_apply_def multiboot2_set_boot_mode_def by (cases "bm_kind mode") (auto intro!: calm_intros)

lemma load_item_calm [calm_intros]:
  assumes "calm u w" and "\<And>s a w. calm u w \<Longrightarrow> calmly u (load s a w)"
  shows "calmly u (load_item J arch_json key gpa_key hpa_key load w)"
  unfolding load_item_def
  by (intro calmly_case_option calmly_wbind calmly_pure_step calmly_Some calmly_case_prod_app
      calmly_bind_pure [where m = "cj_valuestring _ _"] calmly_bind assms)

lemma load_legacy_boot_calm [calm_intros]: "calm u w \<Longrightarrow> calmly u (load_legacy_boot J arch_json m w)"
  unfolding load_legacy_boot_def
  by (intro calmly_case_option calmly_if calmly_wbind calmly_pure_step calmly_Some
      calmly_bind_pure [where m = "cj_valuestring _ _"] calmly_bind load_image_calm)

lemma parse_x86_64_calm [calm_intros]: "calm u w \<Longrightarrow> calmly u (parse_x86_64 J root arch_json x w)"
  unfolding parse_x86_64_def
  by (intro calmly_bind_pure [where m = "boot_mode_is_multiboot2 _ _"] calm_intros)

lemma parse_arch_config_calm [calm_intros]: "calm u w \<Longrightarrow> calmly u (parse_arch_config a J root config w)"
  unfolding parse_arch_config_def Let_def
  by (cases a; cases "zn_arch_config config") (auto intro!: calm_intros)

lemma load_modules_calm: "calm u w \<Longrightarrow> calmly u (load_modules J modules is w)"
proof (induction "is" arbitrary: w)
  case (Cons i "is")
  then show ?case unfolding load_modules.simps Let_def
    by (intro calmly_if calmly_Some calmly_bind_pure [where m = "safe_get_item _ _ _"]
        calmly_bind_pure [where m = "cj_valuestring _ _"] calmly_bind calmly_call calmly_case_option load_image_calm) simp_all
qed (simp add: calmly_Some)

lemma parse_modules_calm [calm_intros]: "calm u w \<Longrightarrow> calmly u (parse_modules J modules w)"
  unfolding parse_modules_def by (intro calm_intros load_modules_calm)

lemma load_kernel_calm [calm_intros]: "calm u w \<Longrightarrow> calmly u (load_kernel a J root config w)"
  unfolding load_kernel_def
  by (intro calmly_bind_pure [where m = "boot_mode_parse _ _"] calmly_bind_pure [where m = "text_of _ _"] calm_intros)

lemma load_dtb_calm [calm_intros]: "calm u w \<Longrightarrow> calmly u (load_dtb a J root config w)"
  unfolding load_dtb_def by (intro calmly_bind_pure [where m = "text_of _ _"] calm_intros)

lemma prepare_zone_calm: "calm u w \<Longrightarrow> calmly u (prepare_zone a J root config w)"
  unfolding prepare_zone_def by (intro calmly_bind_pure [where m = root] calm_intros)

section \<open>The zone that is started is the one that was described\<close>

text \<open>The parts of a description that no later step touches.\<close>

definition same_base :: "zone_config \<Rightarrow> zone_config \<Rightarrow> bool" where
  "same_base c c' \<longleftrightarrow> zn_zone_id c' = zn_zone_id c \<and> zn_cpus c' = zn_cpus c
     \<and> zn_num_memory_regions c' = zn_num_memory_regions c \<and> zn_memory_regions c' = zn_memory_regions c
     \<and> zn_interrupts_bitmap c' = zn_interrupts_bitmap c
     \<and> zn_num_ivc_configs c' = zn_num_ivc_configs c \<and> zn_ivc_configs c' = zn_ivc_configs c
     \<and> zn_entry_point c' = zn_entry_point c \<and> zn_kernel_load_paddr c' = zn_kernel_load_paddr c
     \<and> zn_dtb_load_paddr c' = zn_dtb_load_paddr c"

definition same_zone :: "zone_config \<Rightarrow> zone_config \<Rightarrow> bool" where
  "same_zone c c' \<longleftrightarrow> same_base c c' \<and> (zone_config_ok c \<longrightarrow> zone_config_ok c')"

lemma same_zone_refl [simp]: "same_zone c c"
  by (simp add: same_zone_def same_base_def)

lemma same_zone_trans: "same_zone a b \<Longrightarrow> same_zone b c \<Longrightarrow> same_zone a c"
  by (simp add: same_zone_def same_base_def)

lemma same_zone_fields [simp]:
  "same_zone c (c\<lparr>zn_kernel_size := n\<rparr>)" "same_zone c (c\<lparr>zn_dtb_size := n\<rparr>)" "same_zone c (c\<lparr>zn_arch_config := x\<rparr>)"
  by (simp_all add: same_zone_def same_base_def zone_config_ok_def)

lemma same_zone_set_x86 [simp]: "same_zone c (set_x86 f c)"
  by (simp add: set_x86_def split: arch_zone_config.split)

lemma load_cmdline_keeps: "load_cmdline J arch_json cmdline info off c w = Some (Ok c', w') \<Longrightarrow> same_zone c c'"
  by (auto simp: load_cmdline_def wbind_Ok bind_Some_iff Let_def split: if_splits)

lemma load_initramfs_keeps: "load_initramfs J root off c w = Some (Ok c', w') \<Longrightarrow> same_zone c c'"
  by (auto simp: load_initramfs_def bind_Some_iff Let_def split: if_splits option.splits)

lemma multiboot2_keeps: "multiboot2_prepare_zone a J root c w = Some (Ok (c', i), w') \<Longrightarrow> same_zone c c'"
  by (auto simp: multiboot2_prepare_zone_def bind_Some_iff wbind_Ok Let_def split: if_splits option.splits
      dest!: load_cmdline_keeps load_initramfs_keeps
      intro: same_zone_trans [OF same_zone_trans [OF same_zone_trans [OF same_zone_fields(1) same_zone_set_x86]]])

lemma load_kernel_keeps: "load_kernel a J root c w = Some (Ok (c', mode), w') \<Longrightarrow> same_zone c c'"
  by (auto simp: load_kernel_def boot_mode_prepare_zone_def bind_Some_iff wbind_Ok split: if_splits boot_mode_kind.splits
      dest: multiboot2_keeps)

lemma load_dtb_keeps: "load_dtb a J root c w = Some (Ok c', w') \<Longrightarrow> same_zone c c'"
  by (auto simp: load_dtb_def bind_Some_iff split: if_splits)

lemma name_zone_keeps: "name_zone J root c = Some (Ok c') \<Longrightarrow> same_zone c c'"
  by (auto simp: name_zone_def set_name_def same_zone_def same_base_def zone_config_ok_def split: if_splits)

lemma parse_arch_config_keeps: "parse_arch_config a J root c w = Some (Ok c', w') \<Longrightarrow> same_zone c c'"
  by (auto simp: parse_arch_config_def Let_def wbind_Ok split: if_splits arch.splits arch_zone_config.splits)

lemma parse_pci_config_keeps:
  assumes "parse_pci_config J root c = Some (Ok c')" and "\<forall>j. 0 \<le> cj_array_size J j"
  shows "same_zone c c'"
proof -
  let ?buses = "safe_get_item J root ''pci_config''" let ?devs = "safe_get_item J root ''alloc_pci_devs''"
  obtain bs ds where n: "safe_array_size J ?buses \<le> int 4"
    and bs: "fill_array J (parse_pci_bus J) ?buses [0..<size_of J ?buses] (zn_pci_config c) = Some (Ok bs)"
    and ds: "fill_array J (parse_pci_dev J) ?devs [0..<size_of J ?devs] (zn_alloc_pci_devs c) = Some (Ok ds)"
    and c': "c' = c\<lparr>zn_num_pci_bus := of_int (safe_array_size J ?buses), zn_pci_config := bs,
      zn_num_pci_devs := of_int (safe_array_size J ?devs), zn_alloc_pci_devs := ds\<rparr>"
    using assms(1) by (auto simp: parse_pci_config_def Let_def cbind_Ok split: if_splits)
  note filled = filled_entries [OF bs] filled_entries [OF ds]
  have "zone_config_ok c'" if ok: "zone_config_ok c"
  proof -
    have "safe_array_size J ?devs \<le> int 32" using filled(2) ok by (simp add: zone_config_ok_def size_of_def nat_le_iff)
    then show ?thesis
      using size_of_word [where 'a = 64, OF assms(2) n] size_of_word [where 'a = 64, OF assms(2), of ?devs 32] filled ok
      by (simp add: c' zone_config_ok_def)
  qed
  then show ?thesis by (simp add: same_zone_def same_base_def c')
qed

lemma pure_step_Ok: "pure_step m w = Some (Ok x, w') \<longleftrightarrow> m = Some (Ok x) \<and> w' = w"
  by (auto simp: pure_step_def)

lemma prepare_zone_keeps:
  assumes "prepare_zone a J root c w = Some (Ok (c', mode), w')" and "\<forall>j. 0 \<le> cj_array_size J j"
  shows "\<exists>c1. parse_zone_config J root c = Some (Ok c1) \<and> same_zone c1 c'"
proof -
  obtain r c1 w2 c2 w3 c3 c4 w5 c5 w6 where "parse_zone_config J root c = Some (Ok c1)" and
    steps: "load_kernel a J r c1 w = Some (Ok (c2, mode), w2)" "load_dtb a J r c2 w2 = Some (Ok c3, w3)"
      "name_zone J r c3 = Some (Ok c4)" "(if a = LOONGARCH64 then Some (Ok c4, w5) else parse_arch_config a J r c4 w5) = Some (Ok c5, w6)"
      "parse_pci_config J root c5 = Some (Ok c')"
    using assms(1) by (auto simp: prepare_zone_def wbind_Ok pure_step_Ok bind_Some_iff)
  moreover have "same_zone c4 c5" using steps(4) parse_arch_config_keeps by (auto split: if_splits)
  ultimately show ?thesis
    by (meson same_zone_trans load_kernel_keeps load_dtb_keeps name_zone_keeps parse_pci_config_keeps [OF _ assms(2)])
qed

lemma calmlyD: "calmly u m \<Longrightarrow> m = Some (r, w) \<Longrightarrow> calm u w"
  by (auto simp: calmly_def post_def)

lemma ecam_calm [calm_intros]: "calm u w \<Longrightarrow> calmly u (zone_apply_dynamic_ecam fd c w)"
  unfolding zone_apply_dynamic_ecam_def
  by (intro calmly_if calmly_Some calmly_bind calmly_call calmly_bind_pure [where m = "nth_ub _ _"] calmly_bind_pure [where m = "upd_ub _ _ _"]) simp_all

lemma ecam_keeps: "zone_apply_dynamic_ecam fd c w = Some (Ok c', w') \<Longrightarrow> same_zone c c'"
  by (auto simp: zone_apply_dynamic_ecam_def bind_Some_iff upd_ub_Some same_zone_def same_base_def zone_config_ok_def split: if_splits)

lemma start_prepared_starts:
  assumes "start_prepared a c mode w = Some (e, w')" and "calm u w"
  shows "calm u w' \<and> e = -1
    \<or> (\<exists>w1 c' fd. calm u w1 \<and> w_trace w' = w_trace w1 @ [Ioctl_Zone_Start c', Close_Fd fd] \<and> same_zone c c')"
proof -
  obtain fd w1 r w2 where w1: "open_dev w = Some (fd, w1)" and w2: "zone_apply_dynamic_ecam fd c w1 = Some (r, w2)"
    and rest: "(case r of Err _ \<Rightarrow> do { (c, w3) \<leftarrow> sys_call (Close_Fd fd) w2; Some (-1, w3) }
      | Ok config1 \<Rightarrow> do {
          (b, w3) \<leftarrow> (if bm_kind mode \<noteq> BOOT_MODE_NONE then boot_mode_apply a fd (zn_zone_id config1) mode w2 else Some (0, w2));
          (if b \<noteq> 0 then do { (c, w4) \<leftarrow> sys_call (Close_Fd fd) w3; Some (-1, w4) }
           else do { (r, w4) \<leftarrow> sys_call (Ioctl_Zone_Start config1) w3; (c, w5) \<leftarrow> sys_call (Close_Fd fd) w4; Some (s_ret r, w5) })
        }) = Some (e, w')"
    using assms(1) unfolding start_prepared_def by (auto simp: bind_Some_iff)
  have "calm u w1" using calmlyD [OF open_dev_calm [OF assms(2)] w1] .
  then have calm2: "calm u w2" using calmlyD [OF ecam_calm w2] by blast
  show ?thesis
  proof (cases r)
    case (Err x)
    then show ?thesis using rest calm2 by (auto simp: bind_Some_iff dest!: calm_call [where u = u])
  next
    case (Ok c1)
    then obtain b w3 where w3: "(if bm_kind mode \<noteq> BOOT_MODE_NONE then boot_mode_apply a fd (zn_zone_id c1) mode w2 else Some (0, w2)) = Some (b, w3)"
      and last: "(if b \<noteq> 0 then do { (c, w4) \<leftarrow> sys_call (Close_Fd fd) w3; Some (-1, w4) }
        else do { (r, w4) \<leftarrow> sys_call (Ioctl_Zone_Start c1) w3; (c, w5) \<leftarrow> sys_call (Close_Fd fd) w4; Some (s_ret r, w5) }) = Some (e, w')"
      using rest by (auto simp: bind_Some_iff simp del: split_paired_Ex)
    have "calm u w3" using w3 calm2 calmlyD [OF boot_mode_apply_calm [OF calm2]] by (auto split: if_splits)
    moreover have "same_zone c c1" using ecam_keeps w2 Ok by blast
    ultimately show ?thesis
    proof (cases "b = 0")
      case True
      then show ?thesis using last \<open>calm u w3\<close> \<open>same_zone c c1\<close> by (auto simp: bind_Some_iff dest!: sys_call_trace)
    next
      case False
      then show ?thesis using last \<open>calm u w3\<close> by (auto simp: bind_Some_iff dest!: calm_call [where u = u])
    qed
  qed
qed

lemma read_zone_json_calm [calm_intros]: "calm u w \<Longrightarrow> calmly u (read_zone_json path w)"
  unfolding read_zone_json_def by (intro calm_intros) simp_all

text \<open>The possible outcomes of a run that reads the file in the given state.\<close>

definition start_outcome :: "arch \<Rightarrow> 'j cjson \<Rightarrow> string \<Rightarrow> world \<Rightarrow> int \<Rightarrow> syscall list \<Rightarrow> bool" where
  "start_outcome a J path w3 e cs \<longleftrightarrow> starts cs = [] \<and> e = -1
     \<or> (\<exists>pre c fd w4 str c1. cs = pre @ [Ioctl_Zone_Start c, Close_Fd fd] \<and> starts pre = [] \<and> zone_config_ok c
         \<and> read_zone_json path w3 = Some (Some str, w4)
         \<and> parse_zone_config J (safe_parse J str) (zeroed_config a) = Some (Ok c1) \<and> same_base c1 c)"

text \<open>The hypervisor was asked for its version of the structure, and it is the tool's.\<close>

definition version_checked :: "world \<Rightarrow> world \<Rightarrow> bool" where
  "version_checked w w3 \<longleftrightarrow> (\<exists>fd w1 r w2 x. open_dev w = Some (fd, w1) \<and> sys_call Ioctl_Config_Check w1 = Some (r, w2)
     \<and> sys_call (Close_Fd fd) w2 = Some (x, w3) \<and> s_ret r = 0 \<and> s_val r 0 = CONFIG_MAGIC_VERSION)"

lemma outcome_none: "calm w w' \<Longrightarrow> \<exists>cs. w_trace w' = w_trace w @ cs \<and> start_outcome a J path w3 (-1) cs"
  by (auto simp: calm_def start_outcome_def)

lemma start_prepared_outcome:
  assumes "start_prepared a c mode w5 = Some (e, w')" and "calm w w5" and "read_zone_json path w3 = Some (Some str, w4)"
    and "parse_zone_config J (safe_parse J str) (zeroed_config a) = Some (Ok c1)" and "same_zone c1 c" and "zone_config_ok c1"
  shows "\<exists>cs. w_trace w' = w_trace w @ cs \<and> start_outcome a J path w3 e cs"
  using start_prepared_starts [OF assms(1,2)]
proof (elim disjE exE conjE)
  fix w6 c' fd
  assume "calm w w6" and t: "w_trace w' = w_trace w6 @ [Ioctl_Zone_Start c', Close_Fd fd]" and "same_zone c c'"
  then obtain pre where pre: "w_trace w6 = w_trace w @ pre" "starts pre = []" by (auto simp: calm_def)
  have k: "same_base c1 c'" "zone_config_ok c'" using same_zone_trans [OF assms(5) \<open>same_zone c c'\<close>] assms(6) by (simp_all add: same_zone_def)
  have "start_outcome a J path w3 e (pre @ [Ioctl_Zone_Start c', Close_Fd fd])"
    unfolding start_outcome_def using pre(2) k assms(3,4) by blast
  then show ?thesis using t pre(1) by (metis append.assoc)
qed (simp add: outcome_none)

lemma zone_start_from_json_outcome:
  assumes "zone_start_from_json a J path (zeroed_config a) w3 = Some (e, w')" and "calm w w3" and "\<forall>j. 0 \<le> cj_array_size J j"
  shows "\<exists>cs. w_trace w' = w_trace w @ cs \<and> start_outcome a J path w3 e cs"
proof -
  obtain str w4 where w4: "read_zone_json path w3 = Some (str, w4)" and
    rest: "(case str of None \<Rightarrow> Some (-1, w4) | Some s \<Rightarrow> do { (r, w2) \<leftarrow> prepare_zone a J (safe_parse J s) (zeroed_config a) w4;
        (case r of Err e \<Rightarrow> Some (-1, w2) | Ok (c, mode) \<Rightarrow> start_prepared a c mode w2) }) = Some (e, w')"
    using assms(1) unfolding zone_start_from_json_def by (auto simp: bind_Some_iff)
  have calm4: "calm w w4" using calmlyD [OF read_zone_json_calm [OF assms(2)] w4] .
  show ?thesis
  proof (cases str)
    case None
    then show ?thesis using rest outcome_none [OF calm4] by simp
  next
    case (Some s)
    then obtain r w5 where w5: "prepare_zone a J (safe_parse J s) (zeroed_config a) w4 = Some (r, w5)"
      and last: "(case r of Err e \<Rightarrow> Some (-1, w5) | Ok (c, mode) \<Rightarrow> start_prepared a c mode w5) = Some (e, w')"
      using rest by (auto simp: bind_Some_iff)
    have calm5: "calm w w5" using calmlyD [OF prepare_zone_calm [OF calm4] w5] .
    show ?thesis
    proof (cases r)
      case (Err x)
      then show ?thesis using last outcome_none [OF calm5] by simp
    next
      case (Ok p)
      then obtain c mode where r: "r = Ok (c, mode)" by (cases p) auto
      obtain c1 where c1: "parse_zone_config J (safe_parse J s) (zeroed_config a) = Some (Ok c1)" and k: "same_zone c1 c"
        using prepare_zone_keeps [OF w5 [unfolded r] assms(3)] by blast
      show ?thesis
        using start_prepared_outcome [OF _ calm5 w4 [unfolded Some] c1 k parse_zone_config_ok [OF c1 assms(3)]] last r by simp
    qed
  qed
qed

text \<open>
  C8: Starting a zone is safe. Whatever the configuration file and the kernel's answers are: a run of
  the command either starts no zone and fails, or its last call but the closing one starts exactly
  one zone. Then the hypervisor reported the tool's version of the structure before anything was
  read, the description handed over has its counts within its arrays, and its processors, memory
  regions, interrupts, channels and addresses are exactly the parsed contents of the file as it was
  read after that check.
\<close>

theorem zone_start_sound:
  assumes "zone_start a J path w = Some (e, w')" and "\<forall>j. 0 \<le> cj_array_size J j"
  shows "\<exists>cs. w_trace w' = w_trace w @ cs \<and>
    (starts cs = [] \<and> e = -1
     \<or> (\<exists>pre c fd w3 w4 str c1. cs = pre @ [Ioctl_Zone_Start c, Close_Fd fd] \<and> starts pre = [] \<and> zone_config_ok c
         \<and> version_checked w w3 \<and> read_zone_json path w3 = Some (Some str, w4)
         \<and> parse_zone_config J (safe_parse J str) (zeroed_config a) = Some (Ok c1) \<and> same_base c1 c))"
proof -
  obtain fd w1 r w2 x w3 where o1: "open_dev w = Some (fd, w1)" and o2: "sys_call Ioctl_Config_Check w1 = Some (r, w2)"
    and o3: "sys_call (Close_Fd fd) w2 = Some (x, w3)"
    and body: "(if s_ret r \<noteq> 0 then Some (-1, w3) else if s_val r 0 \<noteq> CONFIG_MAGIC_VERSION then Some (-1, w3)
       else zone_start_from_json a J path (zeroed_config a) w3) = Some (e, w')"
    using assms(1) unfolding zone_start_def by (auto simp: bind_Some_iff simp del: CONFIG_MAGIC_VERSION_def)
  have calm3: "calm w w3"
    by (rule calm_call [OF o3 _ calm_call [OF o2 _ calmlyD [OF open_dev_calm [OF calm_refl] o1]]]) simp_all
  show ?thesis
  proof (cases "s_ret r \<noteq> 0 \<or> s_val r 0 \<noteq> CONFIG_MAGIC_VERSION")
    case True
    then have "e = -1" "w' = w3" using body by (auto split: if_splits)
    then show ?thesis using calm3 by (auto simp: calm_def)
  next
    case False
    then have "version_checked w w3" unfolding version_checked_def using o1 o2 o3 by blast
    moreover have "zone_start_from_json a J path (zeroed_config a) w3 = Some (e, w')" using False body by simp
    from zone_start_from_json_outcome [OF this calm3 assms(2)] obtain cs
      where "w_trace w' = w_trace w @ cs" "start_outcome a J path w3 e cs" by blast
    ultimately show ?thesis unfolding start_outcome_def by blast
  qed
qed

text \<open>A kernel that answers every call of a run for the small description, with a kernel image of two bytes.\<close>

definition zone_json :: "json cjson" where
  "zone_json = tree_cjson\<lparr>cj_parse := (\<lambda>_. Some small_zone)\<rparr>"

definition zone_world :: world where
  "zone_world = example_world\<lparr>w_tape := [ok_ret\<lparr>s_ret := 3\<rparr>, ok_ret\<lparr>s_vals := [6]\<rparr>, ok_ret,
     ok_ret\<lparr>s_ret := 3\<rparr>, ok_ret\<lparr>s_ret := 1\<rparr>, ok_ret\<lparr>s_ret := 1\<rparr>, ok_ret\<lparr>s_ret := 1, s_bytes := [123]\<rparr>, ok_ret,
     ok_ret\<lparr>s_ret := 4\<rparr>, ok_ret\<lparr>s_vals := [2]\<rparr>, ok_ret\<lparr>s_ret := 1\<rparr>, ok_ret\<lparr>s_ret := 2, s_bytes := [1, 2]\<rparr>, ok_ret,
     ok_ret\<lparr>s_ret := 4\<rparr>, ok_ret, ok_ret, ok_ret\<lparr>s_ret := 5\<rparr>, ok_ret, ok_ret]\<rparr>"

lemma small_items:
  "safe_get_item zone_json (Some small_zone) ''kernel_filepath'' = Some (JStr ''Image'')"
  "safe_get_item zone_json (Some small_zone) ''dtb_filepath'' = Some (JStr ''null'')"
  "safe_get_item zone_json (Some small_zone) ''name'' = Some (JStr ''linux2'')"
  "safe_get_item zone_json (Some small_zone) ''modules'' = None"
  "safe_get_item zone_json (Some small_zone) ''pci_config'' = Some (JArr [])"
  "safe_get_item zone_json (Some small_zone) ''alloc_pci_devs'' = None"
  "boot_mode_is_multiboot2 zone_json small_zone = Some False"
  "text_of zone_json (Some (JStr s)) = Some s"
  "safe_array_size zone_json (Some (JArr [])) = 0"
  "safe_parse zone_json s = Some small_zone"
  by (simp_all add: zone_json_def tree_cjson_def small_zone_def safe_get_item_def boot_mode_is_multiboot2_def
      multiboot2_enabled_def text_of_def safe_array_size_def safe_parse_def)

lemma small_pci: "parse_pci_config zone_json (Some small_zone) c = Some (Ok (c\<lparr>zn_num_pci_bus := 0, zn_num_pci_devs := 0\<rparr>))"
  by (simp add: parse_pci_config_def small_items cbind_def size_of_def safe_array_size_def [of _ None])

lemma small_parsed: "\<exists>c. parse_zone_config zone_json (Some small_zone) (zeroed_config LOONGARCH64) = Some (Ok c)"
proof -
  have "map_option (\<lambda>r. case r of Ok c \<Rightarrow> zn_cpus c | Err e \<Rightarrow> 0)
      (parse_zone_config zone_json (Some small_zone) (zeroed_config LOONGARCH64)) = Some 12" by code_simp
  then obtain r where "parse_zone_config zone_json (Some small_zone) (zeroed_config LOONGARCH64) = Some r"
    and "(case r of Ok c \<Rightarrow> zn_cpus c | Err e \<Rightarrow> 0) = 12" by blast
  then show ?thesis by (cases r) auto
qed

lemma small_started: "\<exists>w'. zone_start LOONGARCH64 zone_json ''zone.json'' zone_world = Some (0, w')"
proof -
  obtain c where c: "parse_zone_config zone_json (Some small_zone) (zeroed_config LOONGARCH64) = Some (Ok c)"
    using small_parsed by blast
  show ?thesis
    by (simp add: zone_start_def zone_start_from_json_def read_zone_json_def prepare_zone_def pure_step_def wbind_def c
       small_items load_kernel_def boot_mode_parse_def load_dtb_def parse_modules_def name_zone_def set_name_def
       small_pci start_prepared_def zone_apply_dynamic_ecam_def
       load_image_to_memory_def read_file_def load_buffer_to_memory_def open_dev_def sys_call_def zone_world_def ok_ret_def s_val_def)
qed

lemma zone_start_sound_witness:
  "\<exists>w' cs c. zone_start LOONGARCH64 zone_json ''zone.json'' zone_world = Some (0, w')
     \<and> w_trace w' = w_trace zone_world @ cs \<and> starts cs = [c] \<and> zone_config_ok c"
proof -
  obtain w' where run: "zone_start LOONGARCH64 zone_json ''zone.json'' zone_world = Some (0, w')"
    using small_started by blast
  have "\<forall>j. 0 \<le> cj_array_size zone_json j" by (simp add: zone_json_def tree_cjson_def split: json.split)
  from zone_start_sound [OF run this] obtain cs pre c fd where "w_trace w' = w_trace zone_world @ cs"
    and "cs = pre @ [Ioctl_Zone_Start c, Close_Fd fd]" "starts pre = []" "zone_config_ok c" by auto
  with run show ?thesis by (intro exI [of _ w'] exI [of _ cs] exI [of _ c]) simp
qed

end
