(* ===== verification/Zone_Admin.thy ===== *)
theory Zone_Admin
  imports Zone_Start
begin

text \<open>
  The commands \<open>zone shutdown\<close> and \<open>zone list\<close> (\<^verbatim>\<open>src/tools/hvisor.c\<close>). What \<open>zone list\<close> prints is its
  list of rows; the padding of the columns is left out.
\<close>

section \<open>Shutting a zone down\<close>

text \<open>
  \<open>sscanf\<close> with \<open>%lu\<close>: without a digit the variable stays uninitialised, and a number that does not
  fit is undefined.
\<close>

definition scan_lu :: "string \<Rightarrow> u64 option" where
  "scan_lu s =
     (let s1 = dropWhile isspace s;
          s2 = (if take 1 s1 = ''-'' \<or> take 1 s1 = ''+'' then drop 1 s1 else s1);
          (n, rest) = scan_digits 10 0 s2
      in if rest = s2 \<or> n > UINTMAX then None else Some (if take 1 s1 = ''-'' then - of_nat n else of_nat n))"

text \<open>The arguments are the words after \<open>shutdown\<close>; a wrong number of them ends in \<open>help\<close>.\<close>

definition zone_shutdown :: "string list \<Rightarrow> world \<Rightarrow> (int \<times> world) option" where
  "zone_shutdown args w =
     (case args of
        [opt, num] \<Rightarrow>
          if opt \<noteq> ''-id'' then None
          else do {
            zone_id \<leftarrow> scan_lu num;
            (fd, w1) \<leftarrow> open_dev w;
            (r, w2) \<leftarrow> sys_call (Ioctl_Zone_Shutdown zone_id) w1;
            (c, w3) \<leftarrow> sys_call (Close_Fd fd) w2;
            Some (s_ret r, w3)
          }
      | _ \<Rightarrow> None)"

section \<open>Listing the zones\<close>

text \<open>
  The characters written so far are the second argument; the write position is their number. A
  character stored past the buffer is \<open>None\<close>.
\<close>

fun cpu_loop :: "u64 \<Rightarrow> nat \<Rightarrow> nat list \<Rightarrow> string \<Rightarrow> bool \<Rightarrow> (string \<times> bool) option" where
  "cpu_loop cpu_mask bufsize [] out found_cpu = Some (out, found_cpu)"
| "cpu_loop cpu_mask bufsize (i # is) out found_cpu =
     (if length out \<ge> bufsize then Some (out, found_cpu)
      else if cpu_mask AND push_bit i 1 \<noteq> 0
      then let out1 = (if found_cpu then out @ '', '' else out) in
           if length out1 \<ge> bufsize then None
           else cpu_loop cpu_mask bufsize is (out1 @ take (bufsize - length out1 - 1) (to_digits 10 i)) True
      else cpu_loop cpu_mask bufsize is out found_cpu)"

definition print_cpu_list :: "u64 \<Rightarrow> nat \<Rightarrow> string option" where
  "print_cpu_list cpu_mask bufsize = do {
     (out, found_cpu) \<leftarrow> cpu_loop cpu_mask bufsize [0..<MAX_CPUS] [] False;
     if found_cpu then Some out else if bufsize < 5 then None else Some ''none''
   }"

text \<open>A name is printed up to its terminating zero; without one the code reads past the array.\<close>

definition name_text :: "u8 list \<Rightarrow> string option" where
  "name_text bs = (if 0 \<in> set bs then Some (map (\<lambda>b. char_of (unat b)) (takeWhile (\<lambda>b. b \<noteq> 0) bs)) else None)"

text \<open>The kernel stores number, processors and error flag of every zone among its values, and the names among its bytes.\<close>

definition zone_info_at :: "sysret \<Rightarrow> nat \<Rightarrow> zone_info" where
  "zone_info_at r i = \<lparr>zi_zone_id = ucast (s_val r (3 * i)), zi_cpus = s_val r (3 * i + 1),
     zi_name = take CONFIG_NAME_MAXLEN (drop (CONFIG_NAME_MAXLEN * i) (s_bytes r)), zi_is_err = ucast (s_val r (3 * i + 2))\<rparr>"

definition zone_row :: "zone_info \<Rightarrow> (u32 \<times> string \<times> string \<times> string) option" where
  "zone_row z = do {
     cpus \<leftarrow> print_cpu_list (zi_cpus z) 256;
     name \<leftarrow> name_text (zi_name z);
     Some (zi_zone_id z, cpus, name, if zi_is_err z \<noteq> 0 then ''error'' else ''running'')
   }"

fun zone_rows :: "sysret \<Rightarrow> nat list \<Rightarrow> (u32 \<times> string \<times> string \<times> string) list option" where
  "zone_rows r [] = Some []"
| "zone_rows r (i # is) =
     (if i \<ge> CONFIG_MAX_ZONES then None
      else do { row \<leftarrow> zone_row (zone_info_at r i); rows \<leftarrow> zone_rows r is; Some (row # rows) })"

definition zone_list :: "string list \<Rightarrow> world \<Rightarrow> (int \<times> (u32 \<times> string \<times> string \<times> string) list \<times> world) option" where
  "zone_list args w =
     (if args \<noteq> [] then None
      else do {
        (zones, w1) \<leftarrow> sys_call Calloc w;
        (fd, w2) \<leftarrow> open_dev w1;
        (r, w3) \<leftarrow> sys_call (Ioctl_Zone_List (of_nat CONFIG_MAX_ZONES)) w2;
        rows \<leftarrow> (if s_ret zones = 0 \<and> s_ret r > 0 then None else zone_rows r [0..<nat (s_ret r)]);
        (c, w4) \<leftarrow> sys_call (Close_Fd fd) w3;
        Some (s_ret r, rows, w4)
      })"

section \<open>What is printed\<close>

text \<open>Numbers separated by a comma and a space.\<close>

fun commas :: "nat list \<Rightarrow> string" where
  "commas [] = []"
| "commas [n] = to_digits 10 n"
| "commas (n # ns) = to_digits 10 n @ '', '' @ commas ns"

fun commas_after :: "nat list \<Rightarrow> string" where
  "commas_after [] = []"
| "commas_after (n # ns) = '', '' @ to_digits 10 n @ commas_after ns"

lemma commas_Cons: "commas (n # ns) = to_digits 10 n @ commas_after ns"
  by (induction ns arbitrary: n) simp_all

lemma to_digits_short: "n < 100 \<Longrightarrow> length (to_digits 10 n) \<le> 2"
proof -
  assume "n < 100"
  then have "n div 10 < 10" by (simp add: less_mult_imp_div_less)
  then show ?thesis by (simp add: to_digits.simps [of 10 n] to_digits.simps [of 10 "n div 10"])
qed

lemma mask_bit: "(m :: u64) AND 2 ^ i = 0 \<longleftrightarrow> \<not> bit m i"
  by (rule and_exp_eq_0_iff_not_bit)

lemma cpu_loop_prints:
  assumes "\<forall>i\<in>set is. i < 100" and "length out + 4 * length is < bufsize"
  shows "cpu_loop m bufsize is out found = Some
    (out @ (if found then commas_after (filter (bit m) is) else commas (filter (bit m) is)), found \<or> filter (bit m) is \<noteq> [])"
  using assms
proof (induction "is" arbitrary: out found)
  case (Cons i "is")
  let ?out1 = "if found then out @ '', '' else out"
  have short: "length (to_digits 10 i) \<le> 2" using Cons.prems(1) to_digits_short by simp
  show ?case
  proof (cases "bit m i")
    case True
    have "take (bufsize - length ?out1 - 1) (to_digits 10 i) = to_digits 10 i" and "length ?out1 < bufsize"
      and "length (?out1 @ to_digits 10 i) + 4 * length is < bufsize"
      using short Cons.prems(2) by auto
    then show ?thesis using Cons.IH [of "?out1 @ to_digits 10 i" True] Cons.prems True
      by (simp add: mask_bit commas_Cons Let_def)
  next
    case False
    then show ?thesis using Cons by (simp add: mask_bit)
  qed
qed simp

text \<open>
  C37: The processors of a zone are printed without overrunning the buffer of 256 characters: for
  every mask, the text is the numbers of the processors below 32 in the mask, in increasing order and
  separated by a comma and a space, or the word \<open>none\<close>.
\<close>

theorem print_cpu_list_exact:
  "print_cpu_list m 256 = Some (if filter (bit m) [0..<32] = [] then ''none'' else commas (filter (bit m) [0..<32]))"
  using cpu_loop_prints [of "[0..<32]" "[]" 256 m False] by (simp add: print_cpu_list_def del: upt_conv_Cons_Cons upt_rec_numeral)

text \<open>A zone whose name uses the whole array cannot be listed.\<close>

lemma long_name_not_terminated:
  assumes "set_name s c = Ok c'" and "length s = 32" and "CHR 0x00 \<notin> set s"
  shows "name_text (zn_name c') = None"
  using assms by (auto simp: set_name_def name_text_def char_byte_0)

end
