(* ===== verification/Kernel.thy ===== *)
theory Kernel
  imports Device "HOL-Library.Multiset"
begin

text \<open>
  The surroundings of the kernel module (\<^verbatim>\<open>src/driver\<close>): its global variables and the functions of the
  Linux kernel it calls. As for the daemon, the results of the calls are a tape, and every call is
  recorded in a trace together with the value it returned. A pointer is an integer: 0 is \<open>NULL\<close>,
  a negative number an error pointer, and \<open>None\<close> stands for a dereferenced null pointer.
\<close>

section \<open>Calls\<close>

definition ENOENT :: int where [simp]: "ENOENT = 2"
definition EFAULT :: int where [simp]: "EFAULT = 14"
definition ENODEV :: int where [simp]: "ENODEV = 19"
definition ENOTTY :: int where [simp]: "ENOTTY = 25"
definition ENOTSUPP :: int where [simp]: "ENOTSUPP = 524"

text \<open>
  \<open>Copy_Image dst src n\<close> is the copy of \<open>n\<close> bytes of the user's memory to a kernel address. The calls named by a string are the
  operations on a handle that no property tells apart.
\<close>

datatype kcall =
    Hypercall u64 u64 u64
  | Copy_From_User u64
  | Copy_To_User u64 "u64 list" "u8 list"
  | Copy_Image u64 u64 u64
  | Kmalloc u64
  | Kfree int
  | Get_Free_Page
  | Free_Page int
  | Memremap u64 u64
  | Memunmap u64
  | Remap_Pfn u64 u64 u64
  | Read_Ctr
  | Clean_Lines "u64 list"
  | Flush_Icache u64 u64
  | Eventfd_Get int
  | Eventfd_Put int
  | Eventfd_Signal int
  | Of_Find_Compatible
  | Of_Find_Path
  | Of_Node_Put int
  | Of_Count string
  | Of_Irq_Get int nat
  | Request_Irq int int
  | Free_Irq int int
  | Misc_Register
  | Misc_Deregister
  | Clk_Get u32
  | Clk_Put int
  | Reset_Get u32
  | Reset_Put int
  | Reset_Acquire int
  | Reset_Release int
  | Pd_Attach u32
  | Pd_Detach int
  | Pdev_Alloc
  | Pdev_Add int
  | Pdev_Put int
  | Pdev_Unregister int
  | Handle_Op string int u64

text \<open>
  What every module shares: the physical address of a kernel pointer (\<open>__pa\<close>), which the machine
  fixes, the answers of the kernel and the calls so far.
\<close>

record kernel_world =
  k_pa :: "int \<Rightarrow> u64"
  k_tape :: "sysret list"
  k_trace :: "(kcall \<times> int) list"

text \<open>The global variables of the module. The variable \<open>task\<close> is only written and is left out.\<close>

record kern = kernel_world +
  virtio_bridge_page :: int
  virtio_irq :: int
  virtio_irq_ctx :: int
  hvisor_np :: int
  clock_cache :: "int list option"
  clock_max_num :: nat
  reset_cache :: "int list option"
  reset_cache_count :: nat
  power_devices :: "(int \<times> bool) list option"
  power_max_num :: nat
  ctrl_pdev :: int

definition kernel_call :: "kcall \<Rightarrow> 'a kernel_world_scheme \<Rightarrow> (sysret \<times> 'a kernel_world_scheme) option" where
  "kernel_call c k =
     (case k_tape k of [] \<Rightarrow> None
      | r # rs \<Rightarrow> Some (r, k\<lparr>k_tape := rs, k_trace := k_trace k @ [(c, s_ret r)]\<rparr>))"

definition IS_ERR :: "int \<Rightarrow> bool" where [simp]: "IS_ERR p \<longleftrightarrow> p < 0"

text \<open>A hypercall returns 64 bits, which the callers convert to \<open>int\<close>.\<close>

definition hvisor_call :: "u64 \<Rightarrow> u64 \<Rightarrow> u64 \<Rightarrow> 'a kernel_world_scheme \<Rightarrow> (int \<times> sysret \<times> 'a kernel_world_scheme) option" where
  "hvisor_call code a b k = do {
     (r, k1) \<leftarrow> kernel_call (Hypercall code a b) k;
     Some (to_c_int (s_ret r), r, k1)
   }"

definition copy_from_user :: "u64 \<Rightarrow> 'a kernel_world_scheme \<Rightarrow> (sysret option \<times> 'a kernel_world_scheme) option" where
  "copy_from_user arg k = do {
     (r, k1) \<leftarrow> kernel_call (Copy_From_User arg) k;
     Some (if s_ret r \<noteq> 0 then None else Some r, k1)
   }"

text \<open>The result code of a function that ends with a copy to the user.\<close>

definition answer_user :: "u64 \<Rightarrow> u64 list \<Rightarrow> u8 list \<Rightarrow> 'a kernel_world_scheme \<Rightarrow> (int \<times> 'a kernel_world_scheme) option" where
  "answer_user arg vals bytes k = do {
     (r, k1) \<leftarrow> kernel_call (Copy_To_User arg vals bytes) k;
     Some (if s_ret r \<noteq> 0 then - EFAULT else 0, k1)
   }"

text \<open>A call whose result is not looked at.\<close>

definition kernel_do :: "kcall \<Rightarrow> 'a kernel_world_scheme \<Rightarrow> 'a kernel_world_scheme option" where
  "kernel_do c k = map_option snd (kernel_call c k)"

section \<open>Handles\<close>

text \<open>The counted resources of the kernel the module obtains, and what a call obtains or gives back.\<close>

datatype resource = R_Eventfd int | R_Clk int | R_Reset int | R_Domain int | R_Acquired int

fun gained :: "kcall \<times> int \<Rightarrow> resource list" where
  "gained (Eventfd_Get fd, h) = (if h > 0 then [R_Eventfd h] else [])"
| "gained (Clk_Get i, h) = (if h > 0 then [R_Clk h] else [])"
| "gained (Reset_Get i, h) = (if h > 0 then [R_Reset h] else [])"
| "gained (Pd_Attach i, h) = (if h > 0 then [R_Domain h] else [])"
| "gained (Reset_Acquire p, r) = (if r = 0 then [R_Acquired p] else [])"
| "gained _ = []"

fun lost :: "kcall \<times> int \<Rightarrow> resource list" where
  "lost (Eventfd_Put h, r) = [R_Eventfd h]"
| "lost (Clk_Put h, r) = [R_Clk h]"
| "lost (Reset_Put h, r) = [R_Reset h]"
| "lost (Pd_Detach h, r) = [R_Domain h]"
| "lost (Reset_Release p, r) = [R_Acquired p]"
| "lost _ = []"

definition gains :: "(kcall \<times> int) list \<Rightarrow> resource multiset" where
  "gains tr = mset (concat (map gained tr))"

definition losses :: "(kcall \<times> int) list \<Rightarrow> resource multiset" where
  "losses tr = mset (concat (map lost tr))"

lemma gains_simps [simp]: "gains [] = {#}" "gains (x # tr) = mset (gained x) + gains tr" "gains (tr @ us) = gains tr + gains us"
  by (simp_all add: gains_def)

lemma losses_simps [simp]: "losses [] = {#}" "losses (x # tr) = mset (lost x) + losses tr" "losses (tr @ us) = losses tr + losses us"
  by (simp_all add: losses_def)

text \<open>The handles of a cache are its valid pointers.\<close>

definition held_list :: "(int \<Rightarrow> resource) \<Rightarrow> int list \<Rightarrow> resource multiset" where
  "held_list R xs = image_mset R (mset (filter (\<lambda>p. p > 0) xs))"

lemma held_list_simps [simp]:
  "held_list R [] = {#}" "held_list R (p # xs) = (if p > 0 then {#R p#} else {#}) + held_list R xs"
  "held_list R (replicate n 0) = {#}"
  by (simp_all add: held_list_def)

lemma held_list_update:
  assumes "i < length xs" and "\<not> xs ! i > 0"
  shows "held_list R (xs[i := p]) = held_list R xs + (if p > 0 then {#R p#} else {#})"
  using assms by (induction xs arbitrary: i) (auto split: nat.split simp: less_Suc_eq_0_disj)

text \<open>At the end of the module its event descriptor is given back and the variable keeps its value.\<close>

definition held_event :: "bool \<Rightarrow> kern \<Rightarrow> resource multiset" where
  "held_event live k = (if live then held_list R_Eventfd [virtio_irq_ctx k] else {#})"

definition held_clk :: "kern \<Rightarrow> resource multiset" where
  "held_clk k = (case clock_cache k of None \<Rightarrow> {#} | Some c \<Rightarrow> held_list R_Clk c)"

definition held_reset :: "kern \<Rightarrow> resource multiset" where
  "held_reset k = (case reset_cache k of None \<Rightarrow> {#} | Some c \<Rightarrow> held_list R_Reset c)"

text \<open>A domain that is not attached has no handle.\<close>

definition domain_handle :: "int \<times> bool \<Rightarrow> int" where
  "domain_handle d = (if snd d then fst d else 0)"

definition held_domain :: "kern \<Rightarrow> resource multiset" where
  "held_domain k = (case power_devices k of None \<Rightarrow> {#} | Some ds \<Rightarrow> held_list R_Domain (map domain_handle ds))"

definition no_caches :: "kern \<Rightarrow> bool" where
  "no_caches k \<longleftrightarrow> clock_cache k = None \<and> reset_cache k = None \<and> power_devices k = None"

text \<open>
  The invariant of the module: every handle obtained and not given back is in one of its variables,
  and the arrays have the length the counters say. The parameter tells whether the machine has a
  device tree, without which there are no arrays, and whether the event descriptor is still held.
\<close>

definition kern_ok :: "bool \<times> bool \<Rightarrow> kern \<Rightarrow> bool" where
  "kern_ok md k \<longleftrightarrow>
     gains (k_trace k) = losses (k_trace k) + held_event (snd md) k + held_clk k + held_reset k + held_domain k
     \<and> (\<forall>c. clock_cache k = Some c \<longrightarrow> length c = clock_max_num k)
     \<and> (\<forall>c. reset_cache k = Some c \<longrightarrow> length c = reset_cache_count k)
     \<and> (\<forall>ds. power_devices k = Some ds \<longrightarrow> length ds = power_max_num k \<and> (\<forall>d\<in>set ds. domain_handle d \<ge> 0))
     \<and> virtio_irq_ctx k \<ge> 0 \<and> (fst md \<or> no_caches k)"

lemmas held_defs = held_event_def held_clk_def held_reset_def held_domain_def

section \<open>Postconditions\<close>

lemma post_kernel_call [wp]:
  "(\<And>r rs. k_tape k = r # rs \<Longrightarrow> P (r, k\<lparr>k_tape := rs, k_trace := k_trace k @ [(c, s_ret r)]\<rparr>)) \<Longrightarrow> post P (kernel_call c k)"
  by (auto simp: kernel_call_def post_def split: list.splits)

lemma post_kernel_do [wp]:
  "(\<And>r rs. k_tape k = r # rs \<Longrightarrow> P (k\<lparr>k_tape := rs, k_trace := k_trace k @ [(c, s_ret r)]\<rparr>)) \<Longrightarrow> post P (kernel_do c k)"
  by (auto simp: kernel_do_def kernel_call_def post_def split: list.splits)

text \<open>Reading a pointer that may be null.\<close>

lemma post_cache [wp]:
  "(\<And>c. clock_cache k = Some c \<Longrightarrow> P c) \<Longrightarrow> post P (clock_cache k)"
  "(\<And>c. reset_cache k = Some c \<Longrightarrow> P c) \<Longrightarrow> post P (reset_cache k)"
  "(\<And>d. power_devices k = Some d \<Longrightarrow> Q d) \<Longrightarrow> post Q (power_devices k)"
  by (simp_all add: post_def)

text \<open>Calls that give back what they obtain.\<close>

lemma kern_ok_call [simp]:
  "gains cs = losses cs \<Longrightarrow> kern_ok md (k\<lparr>k_tape := rs, k_trace := k_trace k @ cs\<rparr>) = kern_ok md k"
  by (simp add: kern_ok_def no_caches_def held_defs add.assoc)

lemma kern_ok_np [simp]: "kern_ok md (k\<lparr>hvisor_np := n\<rparr>) = kern_ok md k"
  by (simp add: kern_ok_def no_caches_def held_defs)

text \<open>An operation keeps the invariant: its rule gives the invariant to what follows.\<close>

lemma post_copy_from_user [wp]:
  "kern_ok md k \<Longrightarrow> (\<And>r k'. kern_ok md k' \<Longrightarrow> P (r, k')) \<Longrightarrow> post P (copy_from_user arg k)"
  unfolding copy_from_user_def by (intro wp) auto

lemma post_answer_user [wp]:
  "kern_ok md k \<Longrightarrow> (\<And>r k'. kern_ok md k' \<Longrightarrow> P (r, k')) \<Longrightarrow> post P (answer_user arg vals bytes k)"
  unfolding answer_user_def by (intro wp) auto

lemma post_hvisor_call [wp]:
  "kern_ok md k \<Longrightarrow> (\<And>e r k'. kern_ok md k' \<Longrightarrow> P (e, r, k')) \<Longrightarrow> post P (hvisor_call code a b k)"
  unfolding hvisor_call_def by (intro wp) auto

end
