(* ===== verification/Kernel_Scmi.thy ===== *)
theory Kernel_Scmi
  imports Kernel Scmi_Clock Scmi_Power Scmi_Reset
begin

text \<open>
  The SCMI server of the kernel module (\<^verbatim>\<open>src/driver/virtio/scmi\<close>): the clocks, reset lines and
  power domains of the \<open>hvisor\<close> node, which the daemon reaches by their index. The argument
  structure of a request is the list of values the kernel copied from the user: the subcommand, the
  length, and the fields of the union in order; an answer goes to the union, behind the first 8
  bytes. The branches for Linux 5.10 and later are the ones modelled: reset lines are acquired and
  released, and a domain is resumed by \<open>pm_runtime_resume_and_get\<close>.
\<close>

section \<open>The device tree node\<close>

definition hvisor_get_node :: "kern \<Rightarrow> (int \<times> kern) option" where
  "hvisor_get_node k =
     (if hvisor_np k \<noteq> 0 then Some (hvisor_np k, k)
      else do {
        (r, k1) \<leftarrow> kernel_call Of_Find_Compatible k;
        Some (s_ret r, k1\<lparr>hvisor_np := s_ret r\<rparr>)
      })"

definition hvisor_put_node :: "kern \<Rightarrow> kern option" where
  "hvisor_put_node k =
     (if hvisor_np k \<noteq> 0
      then do { (r, k1) \<leftarrow> kernel_call (Of_Node_Put (hvisor_np k)) k; Some (k1\<lparr>hvisor_np := 0\<rparr>) }
      else Some k)"

section \<open>Clocks\<close>

definition clock_init :: "kern \<Rightarrow> (int \<times> kern) option" where
  "clock_init k = do {
     (np, k1) \<leftarrow> hvisor_get_node k;
     if np = 0 then Some (- ENODEV, k1)
     else do {
       (c, k2) \<leftarrow> kernel_call (Of_Count ''clocks'') k1;
       if s_ret c = - ENOENT then Some (0, k2\<lparr>clock_max_num := 0, clock_cache := None\<rparr>)
       else if s_ret c < 0 then Some (s_ret c, k2)
       else do {
         (p, k3) \<leftarrow> kernel_call (Kmalloc (of_int (8 * s_ret c))) k2;
         let k4 = k3\<lparr>clock_max_num := nat (s_ret c)\<rparr>;
         if s_ret p = 0 then Some (- ENOMEM, k4\<lparr>clock_cache := None\<rparr>)
         else Some (0, k4\<lparr>clock_cache := Some (replicate (nat (s_ret c)) 0)\<rparr>)
       }
     }
   }"

definition clock_get_cached :: "u32 \<Rightarrow> kern \<Rightarrow> (int \<times> kern) option" where
  "clock_get_cached clk_id k =
     (if unat clk_id \<ge> clock_max_num k then Some (- ENOENT, k)
      else do {
        cache \<leftarrow> clock_cache k;
        p \<leftarrow> nth_ub cache (unat clk_id);
        (if p \<noteq> 0 then Some (p, k)
         else do {
           (np, k1) \<leftarrow> hvisor_get_node k;
           (r, k2) \<leftarrow> kernel_call (Clk_Get clk_id) k1;
           cache' \<leftarrow> upd_ub cache (unat clk_id) (s_ret r);
           Some (s_ret r, k2\<lparr>clock_cache := Some cache'\<rparr>)
         })
      })"

text \<open>The handlers that look a clock up and ask for something: what they report on success.\<close>

definition get_clock_config :: "u32 \<Rightarrow> kern \<Rightarrow> (int \<times> u64 list \<times> kern) option" where
  "get_clock_config clock_id k = do {
     (clk, k1) \<leftarrow> clock_get_cached clock_id k;
     if IS_ERR clk then Some (clk, [], k1)
     else do {
       (r, k2) \<leftarrow> kernel_call (Handle_Op ''__clk_is_enabled'' clk 0) k1;
       Some (0, [if s_ret r \<noteq> 0 then 1 else 0, 0], k2)
     }
   }"

text \<open>\<open>strncpy\<close> of 63 characters and a terminating zero, or the text with the number.\<close>

definition clk_name_bytes :: "sysret \<Rightarrow> u32 \<Rightarrow> u8 list" where
  "clk_name_bytes r clock_id =
     (if s_ret r \<noteq> 0 then strncpy (s_bytes r) 63 @ [0]
      else strncpy (c_chars (''unknown_clk_'' @ to_digits 10 (unat clock_id))) 63 @ [0])"

definition get_clock_name :: "u32 \<Rightarrow> kern \<Rightarrow> (int \<times> u8 list \<times> kern) option" where
  "get_clock_name clock_id k = do {
     (clk, k1) \<leftarrow> clock_get_cached clock_id k;
     if IS_ERR clk then Some (clk, [], k1)
     else do {
       (r, k2) \<leftarrow> kernel_call (Handle_Op ''__clk_get_name'' clk 0) k1;
       Some (0, clk_name_bytes r clock_id, k2)
     }
   }"

definition get_clock_attributes :: "u32 \<Rightarrow> kern \<Rightarrow> (int \<times> u64 list \<times> u8 list \<times> kern) option" where
  "get_clock_attributes clock_id k = do {
     (clk, k1) \<leftarrow> clock_get_cached clock_id k;
     if IS_ERR clk then Some (clk, [], [], k1)
     else do {
       (e, k2) \<leftarrow> kernel_call (Handle_Op ''__clk_is_enabled'' clk 0) k1;
       (r, k3) \<leftarrow> kernel_call (Handle_Op ''__clk_get_name'' clk 0) k2;
       Some (0, [if s_ret e \<noteq> 0 then 1 else 0, 0xffffffff, 1], clk_name_bytes r clock_id, k3)
     }
   }"

definition get_clock_rate :: "u32 \<Rightarrow> kern \<Rightarrow> (int \<times> u64 \<times> kern) option" where
  "get_clock_rate clock_id k = do {
     (clk, k1) \<leftarrow> clock_get_cached clock_id k;
     if IS_ERR clk then Some (clk, 0, k1)
     else do {
       (r, k2) \<leftarrow> kernel_call (Handle_Op ''clk_get_rate'' clk 0) k1;
       Some (0, s_val r 0, k2)
     }
   }"

definition set_clock_rate :: "u32 \<Rightarrow> u64 \<Rightarrow> kern \<Rightarrow> (int \<times> kern) option" where
  "set_clock_rate clock_id rate k = do {
     (clk, k1) \<leftarrow> clock_get_cached clock_id k;
     if IS_ERR clk then Some (clk, k1)
     else do { (r, k2) \<leftarrow> kernel_call (Handle_Op ''clk_set_rate'' clk rate) k1; Some (s_ret r, k2) }
   }"

definition set_clock_config :: "u32 \<Rightarrow> u32 \<Rightarrow> kern \<Rightarrow> (int \<times> kern) option" where
  "set_clock_config clock_id config k = do {
     (clk, k1) \<leftarrow> clock_get_cached clock_id k;
     if IS_ERR clk then Some (clk, k1)
     else if has_flag config 1
     then do { (r, k2) \<leftarrow> kernel_call (Handle_Op ''clk_prepare_enable'' clk 0) k1; Some (s_ret r, k2) }
     else do { (r, k2) \<leftarrow> kernel_call (Handle_Op ''clk_disable_unprepare'' clk 0) k1; Some (0, k2) }
   }"

fun put_clocks :: "int list \<Rightarrow> kern \<Rightarrow> kern option" where
  "put_clocks [] k = Some k"
| "put_clocks (p # ps) k = do {
     k1 \<leftarrow> (if p \<noteq> 0 \<and> \<not> IS_ERR p then kernel_do (Clk_Put p) k else Some k);
     put_clocks ps k1
   }"

definition clock_ctrl_finish :: "kern \<Rightarrow> kern option" where
  "clock_ctrl_finish k = do {
     k1 \<leftarrow> (case clock_cache k of None \<Rightarrow> Some k | Some cache \<Rightarrow> put_clocks (take (clock_max_num k) cache) k);
     (r, k2) \<leftarrow> kernel_call (Kfree (if clock_cache k = None then 0 else 1)) k1;
     Some (k2\<lparr>clock_cache := None, clock_max_num := 0\<rparr>)
   }"

definition HVISOR_SCMI_CLOCK_GET_COUNT :: u32 where [simp]: "HVISOR_SCMI_CLOCK_GET_COUNT = 1"
definition HVISOR_SCMI_CLOCK_DESCRIBE_RATES :: u32 where [simp]: "HVISOR_SCMI_CLOCK_DESCRIBE_RATES = 3"

text \<open>The field of the argument structure behind the subcommand and the length.\<close>

definition arg_u32 :: "sysret \<Rightarrow> nat \<Rightarrow> u32" where
  "arg_u32 r i = ucast (s_val r (2 + i))"

definition hvisor_scmi_clock_ioctl :: "u64 \<Rightarrow> kern \<Rightarrow> (int \<times> kern) option" where
  "hvisor_scmi_clock_ioctl arg k = do {
     (a, k1) \<leftarrow> copy_from_user arg k;
     (case a of None \<Rightarrow> Some (- EFAULT, k1)
      | Some r \<Rightarrow>
          let subcmd = ucast (s_val r 0) :: u32; clock_id = arg_u32 r 0 in
          if subcmd = HVISOR_SCMI_CLOCK_GET_COUNT then answer_user (arg + 8) [of_nat (clock_max_num k1)] [] k1
          else if subcmd = HVISOR_SCMI_CLOCK_GET_ATTRIBUTES
          then do {
            (e, vals, name, k2) \<leftarrow> get_clock_attributes clock_id k1;
            if e < 0 then Some (e, k2) else answer_user (arg + 8) (ucast clock_id # vals) name k2
          }
          else if subcmd = HVISOR_SCMI_CLOCK_DESCRIBE_RATES then Some (0, k1)
          else if subcmd = HVISOR_SCMI_CLOCK_RATE_GET
          then do {
            (e, rate, k2) \<leftarrow> get_clock_rate clock_id k1;
            if e < 0 then Some (e, k2) else answer_user (arg + 8) [ucast clock_id, rate] [] k2
          }
          else if subcmd = HVISOR_SCMI_CLOCK_RATE_SET then set_clock_rate clock_id (s_val r 4) k1
          else if subcmd = HVISOR_SCMI_CLOCK_CONFIG_GET
          then do {
            (e, vals, k2) \<leftarrow> get_clock_config clock_id k1;
            if e < 0 then Some (e, k2) else answer_user (arg + 8) (ucast clock_id # ucast (arg_u32 r 1) # vals) [] k2
          }
          else if subcmd = HVISOR_SCMI_CLOCK_CONFIG_SET then set_clock_config clock_id (arg_u32 r 2) k1
          else if subcmd = HVISOR_SCMI_CLOCK_NAME_GET
          then do {
            (e, name, k2) \<leftarrow> get_clock_name clock_id k1;
            if e < 0 then Some (e, k2) else answer_user (arg + 8) [ucast clock_id] name k2
          }
          else Some (- EINVAL, k1))
   }"

section \<open>Reset lines\<close>

definition reset_init :: "kern \<Rightarrow> (int \<times> kern) option" where
  "reset_init k = do {
     (np, k1) \<leftarrow> hvisor_get_node k;
     if np = 0 then Some (- ENODEV, k1)
     else do {
       (c, k2) \<leftarrow> kernel_call (Of_Count ''resets'') k1;
       if s_ret c = - ENOENT then Some (0, k2\<lparr>reset_cache := None, reset_cache_count := 0\<rparr>)
       else if s_ret c < 0 then Some (s_ret c, k2)
       else do {
         (p, k3) \<leftarrow> kernel_call (Kmalloc (of_int (8 * s_ret c))) k2;
         if s_ret p = 0 then Some (- ENOMEM, k3\<lparr>reset_cache := None\<rparr>)
         else Some (0, k3\<lparr>reset_cache := Some (replicate (nat (s_ret c)) 0), reset_cache_count := nat (s_ret c)\<rparr>)
       }
     }
   }"

definition reset_get_cached :: "u32 \<Rightarrow> kern \<Rightarrow> (int \<times> kern) option" where
  "reset_get_cached reset_id k =
     (if unat reset_id \<ge> reset_cache_count k then Some (- ENOENT, k)
      else do {
        cache \<leftarrow> reset_cache k;
        p \<leftarrow> nth_ub cache (unat reset_id);
        (if p \<noteq> 0 then Some (p, k)
         else do {
           (np, k1) \<leftarrow> hvisor_get_node k;
           (if np = 0 then Some (- ENODEV, k1)
            else do {
              (r, k2) \<leftarrow> kernel_call (Reset_Get reset_id) k1;
              cache' \<leftarrow> upd_ub cache (unat reset_id) (s_ret r);
              Some (s_ret r, k2\<lparr>reset_cache := Some cache'\<rparr>)
            })
         })
      })"

fun put_resets :: "int list \<Rightarrow> kern \<Rightarrow> kern option" where
  "put_resets [] k = Some k"
| "put_resets (p # ps) k = do {
     k1 \<leftarrow> (if p \<noteq> 0 \<and> \<not> IS_ERR p then kernel_do (Reset_Put p) k else Some k);
     put_resets ps k1
   }"

definition reset_ctrl_finish :: "kern \<Rightarrow> kern option" where
  "reset_ctrl_finish k =
     (case reset_cache k of None \<Rightarrow> Some k
      | Some cache \<Rightarrow> do {
          k1 \<leftarrow> put_resets (take (reset_cache_count k) cache) k;
          (r, k2) \<leftarrow> kernel_call (Kfree 1) k1;
          Some (k2\<lparr>reset_cache := None, reset_cache_count := 0\<rparr>)
        })"

definition SCMI_RESET_DEASSERT :: u32 where [simp]: "SCMI_RESET_DEASSERT = 0"
definition SCMI_RESET_RESET :: u32 where [simp]: "SCMI_RESET_RESET = 1"
definition SCMI_RESET_ASSERT :: u32 where [simp]: "SCMI_RESET_ASSERT = 2"

text \<open>The switch over the flags; the delay between assertion and deassertion is left out.\<close>

definition drive_reset :: "int \<Rightarrow> u32 \<Rightarrow> kern \<Rightarrow> (int \<times> kern) option" where
  "drive_reset rstc flags k =
     (if flags = SCMI_RESET_DEASSERT
      then do { (r, k1) \<leftarrow> kernel_call (Handle_Op ''reset_control_deassert'' rstc 0) k; Some (s_ret r, k1) }
      else if flags = SCMI_RESET_ASSERT
      then do { (r, k1) \<leftarrow> kernel_call (Handle_Op ''reset_control_assert'' rstc 0) k; Some (s_ret r, k1) }
      else if flags = SCMI_RESET_RESET
      then do {
        (r, k1) \<leftarrow> kernel_call (Handle_Op ''reset_control_reset'' rstc 0) k;
        if s_ret r \<noteq> - ENOTSUPP then Some (s_ret r, k1)
        else do {
          (a, k2) \<leftarrow> kernel_call (Handle_Op ''reset_control_assert'' rstc 0) k1;
          if s_ret a \<noteq> 0 then Some (s_ret a, k2)
          else do { (d, k3) \<leftarrow> kernel_call (Handle_Op ''reset_control_deassert'' rstc 0) k2; Some (s_ret d, k3) }
        }
      }
      else Some (- EINVAL, k))"

text \<open>The third argument, the state the message carries, is not used by the code and is left out.\<close>

definition reset_domain :: "u32 \<Rightarrow> u32 \<Rightarrow> kern \<Rightarrow> (int \<times> kern) option" where
  "reset_domain reset_id flags k = do {
     (rstc, k1) \<leftarrow> reset_get_cached reset_id k;
     if IS_ERR rstc then Some (rstc, k1)
     else do {
       (a, k2) \<leftarrow> kernel_call (Reset_Acquire rstc) k1;
       if s_ret a \<noteq> 0 then Some (s_ret a, k2)
       else do {
         (ret, k3) \<leftarrow> drive_reset rstc flags k2;
         (x, k4) \<leftarrow> kernel_call (Reset_Release rstc) k3;
         Some (ret, k4)
       }
     }
   }"

definition HVISOR_SCMI_RESET_GET_COUNT :: u32 where [simp]: "HVISOR_SCMI_RESET_GET_COUNT = 1"

definition hvisor_scmi_reset_ioctl :: "u64 \<Rightarrow> kern \<Rightarrow> (int \<times> kern) option" where
  "hvisor_scmi_reset_ioctl arg k = do {
     (a, k1) \<leftarrow> copy_from_user arg k;
     (case a of None \<Rightarrow> Some (- EFAULT, k1)
      | Some r \<Rightarrow>
          let subcmd = ucast (s_val r 0) :: u32 in
          if subcmd = HVISOR_SCMI_RESET_GET_COUNT then answer_user (arg + 8) [of_nat (reset_cache_count k1)] [] k1
          else if subcmd = HVISOR_SCMI_RESET_RESET then reset_domain (arg_u32 r 0) (arg_u32 r 1) k1
          else Some (- EINVAL, k1))
   }"

section \<open>Power domains\<close>

definition power_init :: "kern \<Rightarrow> (int \<times> kern) option" where
  "power_init k = do {
     (np, k1) \<leftarrow> hvisor_get_node k;
     if np = 0 then Some (- ENODEV, k1)
     else do {
       (c, k2) \<leftarrow> kernel_call (Of_Count ''power-domains'') k1;
       if s_ret c = - ENOENT then Some (0, k2\<lparr>power_devices := None, power_max_num := 0, ctrl_pdev := 0\<rparr>)
       else if s_ret c < 0 then Some (s_ret c, k2)
       else do {
         (p, k3) \<leftarrow> kernel_call (Kmalloc (of_int (16 * s_ret c))) k2;
         let k4 = k3\<lparr>power_max_num := nat (s_ret c)\<rparr>;
         if s_ret p = 0 then Some (- ENOMEM, k4\<lparr>power_devices := None\<rparr>)
         else do {
           (d, k5) \<leftarrow> kernel_call Pdev_Alloc k4;
           if s_ret d = 0
           then do { (f, k6) \<leftarrow> kernel_call (Kfree 1) k5; Some (- ENOMEM, k6\<lparr>power_devices := None, ctrl_pdev := 0\<rparr>) }
           else do {
             (e, k6) \<leftarrow> kernel_call (Pdev_Add (s_ret d)) k5;
             if s_ret e \<noteq> 0
             then do {
               (x, k7) \<leftarrow> kernel_call (Pdev_Put (s_ret d)) k6;
               (f, k8) \<leftarrow> kernel_call (Kfree 1) k7;
               Some (- ENODEV, k8\<lparr>power_devices := None, ctrl_pdev := 0\<rparr>)
             }
             else Some (0, k6\<lparr>power_devices := Some (replicate (nat (s_ret c)) (0, False)), ctrl_pdev := s_ret d\<rparr>)
           }
         }
       }
     }
   }"

definition power_domain_init :: "u32 \<Rightarrow> kern \<Rightarrow> (int \<times> kern) option" where
  "power_domain_init domain_id k =
     (if unat domain_id \<ge> power_max_num k then Some (- ENOENT, k)
      else do {
        devs \<leftarrow> power_devices k;
        d \<leftarrow> nth_ub devs (unat domain_id);
        (if snd d then Some (0, k)
         else if ctrl_pdev k = 0 then None
         else do {
           (r, k1) \<leftarrow> kernel_call (Pd_Attach domain_id) k;
           (if s_ret r \<le> 0 then Some (if s_ret r \<noteq> 0 then s_ret r else - ENODEV, k1)
            else do {
              devs' \<leftarrow> upd_ub devs (unat domain_id) (s_ret r, True);
              Some (0, k1\<lparr>power_devices := Some devs'\<rparr>)
            })
         })
      })"

fun detach_domains :: "(int \<times> bool) list \<Rightarrow> kern \<Rightarrow> kern option" where
  "detach_domains [] k = Some k"
| "detach_domains ((p, attached) # ds) k = do {
     k1 \<leftarrow> (if attached \<and> p \<noteq> 0 then kernel_do (Pd_Detach p) k else Some k);
     detach_domains ds k1
   }"

definition power_ctrl_finish :: "kern \<Rightarrow> kern option" where
  "power_ctrl_finish k = do {
     k1 \<leftarrow> (case power_devices k of None \<Rightarrow> Some k
           | Some devs \<Rightarrow> do {
               k1 \<leftarrow> detach_domains (take (power_max_num k) devs) k;
               (r, k2) \<leftarrow> kernel_call (Kfree 1) k1;
               Some (k2\<lparr>power_devices := None, power_max_num := 0\<rparr>)
             });
     (if ctrl_pdev k1 \<noteq> 0
      then do { (r, k2) \<leftarrow> kernel_call (Pdev_Unregister (ctrl_pdev k1)) k1; Some (k2\<lparr>ctrl_pdev := 0\<rparr>) }
      else Some k1)
   }"

definition SCMI_POWER_STATE_GENERIC_ON :: u32 where [simp]: "SCMI_POWER_STATE_GENERIC_ON = 0"
definition SCMI_POWER_STATE_GENERIC_OFF :: u32 where [simp]: "SCMI_POWER_STATE_GENERIC_OFF = 0x40000000"

definition power_domain_state_set :: "u32 \<Rightarrow> u32 \<Rightarrow> kern \<Rightarrow> (int \<times> kern) option" where
  "power_domain_state_set domain_id power_state k =
     (if unat domain_id \<ge> power_max_num k then Some (- ENODEV, k)
      else do {
        devs \<leftarrow> power_devices k;
        d \<leftarrow> nth_ub devs (unat domain_id);
        (if \<not> snd d then Some (- ENODEV, k)
         else if power_state = SCMI_POWER_STATE_GENERIC_ON
         then do { (r, k1) \<leftarrow> kernel_call (Handle_Op ''pm_runtime_resume_and_get'' (fst d) 0) k; Some (s_ret r, k1) }
         else if power_state = SCMI_POWER_STATE_GENERIC_OFF
         then do { (r, k1) \<leftarrow> kernel_call (Handle_Op ''pm_runtime_put_sync'' (fst d) 0) k; Some (s_ret r, k1) }
         else Some (- EINVAL, k))
      })"

text \<open>Attaching a domain that is not attached yet.\<close>

definition ensure_attached :: "u32 \<Rightarrow> kern \<Rightarrow> (int \<times> kern) option" where
  "ensure_attached domain_id k =
     (if unat domain_id \<ge> power_max_num k then Some (- ENODEV, k)
      else do {
        devs \<leftarrow> power_devices k;
        d \<leftarrow> nth_ub devs (unat domain_id);
        (if \<not> snd d then power_domain_init domain_id k else Some (0, k))
      })"

definition power_domain_state_get :: "u32 \<Rightarrow> kern \<Rightarrow> (int \<times> u32 \<times> kern) option" where
  "power_domain_state_get domain_id k = do {
     (e, k1) \<leftarrow> ensure_attached domain_id k;
     if e \<noteq> 0 then Some (e, 0, k1)
     else do {
       devs \<leftarrow> power_devices k1;
       d \<leftarrow> nth_ub devs (unat domain_id);
       (r, k2) \<leftarrow> kernel_call (Handle_Op ''pm_runtime_active'' (fst d) 0) k1;
       Some (0, if s_ret r \<noteq> 0 then SCMI_POWER_STATE_GENERIC_ON else SCMI_POWER_STATE_GENERIC_OFF, k2)
     }
   }"

definition power_domain_get_attributes :: "u32 \<Rightarrow> kern \<Rightarrow> (int \<times> u8 list \<times> kern) option" where
  "power_domain_get_attributes domain_id k = do {
     (e, k1) \<leftarrow> ensure_attached domain_id k;
     if e \<noteq> 0 then Some (e, [], k1)
     else Some (0, strncpy (c_chars (''pd_'' @ to_digits 10 (unat domain_id))) 63 @ [0], k1)
   }"

definition HVISOR_SCMI_POWER_GET_COUNT :: u32 where [simp]: "HVISOR_SCMI_POWER_GET_COUNT = 1"

definition hvisor_scmi_power_ioctl :: "u64 \<Rightarrow> kern \<Rightarrow> (int \<times> kern) option" where
  "hvisor_scmi_power_ioctl arg k = do {
     (a, k1) \<leftarrow> copy_from_user arg k;
     (case a of None \<Rightarrow> Some (- EFAULT, k1)
      | Some r \<Rightarrow>
          let subcmd = ucast (s_val r 0) :: u32; domain_id = arg_u32 r 0 in
          if subcmd = HVISOR_SCMI_POWER_GET_COUNT then answer_user (arg + 8) [of_nat (power_max_num k1)] [] k1
          else if subcmd = HVISOR_SCMI_POWER_GET_ATTRIBUTES
          then do {
            (e, k2) \<leftarrow> power_domain_init domain_id k1;
            if e < 0 then Some (e, k2)
            else do {
              (e2, name, k3) \<leftarrow> power_domain_get_attributes domain_id k2;
              if e2 < 0 then Some (e2, k3) else answer_user (arg + 8) [ucast domain_id, 0] name k3
            }
          }
          else if subcmd = HVISOR_SCMI_POWER_STATE_SET
          then do {
            (e, k2) \<leftarrow> power_domain_init domain_id k1;
            if e < 0 then Some (e, k2) else power_domain_state_set domain_id (arg_u32 r 1) k2
          }
          else if subcmd = HVISOR_SCMI_POWER_STATE_GET
          then do {
            (e, power_state, k2) \<leftarrow> power_domain_state_get domain_id k1;
            if e < 0 then Some (e, k2) else answer_user (arg + 8) [ucast domain_id, ucast power_state] [] k2
          }
          else Some (- EINVAL, k1))
   }"

section \<open>Start and end\<close>

definition hvisor_scmi_init :: "kern \<Rightarrow> (int \<times> kern) option" where
  "hvisor_scmi_init k = do {
     (c, k1) \<leftarrow> clock_init k;
     if c \<noteq> 0 then Some (c, k1)
     else do {
       (r, k2) \<leftarrow> reset_init k1;
       if r \<noteq> 0 then do { k3 \<leftarrow> clock_ctrl_finish k2; Some (r, k3) }
       else do {
         (p, k3) \<leftarrow> power_init k2;
         if p \<noteq> 0 then do { k4 \<leftarrow> reset_ctrl_finish k3; k5 \<leftarrow> clock_ctrl_finish k4; Some (p, k5) }
         else Some (0, k3)
       }
     }
   }"

definition hvisor_scmi_cleanup :: "kern \<Rightarrow> kern option" where
  "hvisor_scmi_cleanup k = do {
     k1 \<leftarrow> power_ctrl_finish k;
     k2 \<leftarrow> reset_ctrl_finish k1;
     clock_ctrl_finish k2
   }"

section \<open>Handles are kept and given back\<close>

text \<open>A handle that is obtained is stored where none was.\<close>

lemma kern_ok_store_clk:
  assumes "kern_ok md k" and "clock_cache k = Some c" and "i < length c" and "c ! i = 0"
  shows "kern_ok md (k\<lparr>k_tape := rs, k_trace := k_trace k @ [(Clk_Get n, p)], clock_cache := Some (c[i := p])\<rparr>)"
  using assms by (simp add: kern_ok_def no_caches_def held_defs held_list_update)

lemma kern_ok_store_reset:
  assumes "kern_ok md k" and "reset_cache k = Some c" and "i < length c" and "c ! i = 0"
  shows "kern_ok md (k\<lparr>k_tape := rs, k_trace := k_trace k @ [(Reset_Get n, p)], reset_cache := Some (c[i := p])\<rparr>)"
  using assms by (simp add: kern_ok_def no_caches_def held_defs held_list_update)

lemma kern_ok_store_domain:
  assumes "kern_ok md k" and "power_devices k = Some ds" and "i < length ds" and "\<not> snd (ds ! i)" and "p > 0"
  shows "kern_ok md (k\<lparr>k_tape := rs, k_trace := k_trace k @ [(Pd_Attach n, p)], power_devices := Some (ds[i := (p, True)])\<rparr>)"
  using assms
  by (auto simp: kern_ok_def no_caches_def held_defs held_list_update map_update domain_handle_def dest!: subsetD [OF set_update_subset_insert])

lemma post_hvisor_get_node [wp]:
  "kern_ok md k \<Longrightarrow> (\<And>n k'. kern_ok md k' \<Longrightarrow> clock_cache k' = clock_cache k \<Longrightarrow> reset_cache k' = reset_cache k \<Longrightarrow> P (n, k'))
    \<Longrightarrow> post P (hvisor_get_node k)"
  unfolding hvisor_get_node_def by (intro wp) auto

lemma post_clock_get_cached [wp]:
  assumes "kern_ok md k" and "\<And>p k'. kern_ok md k' \<Longrightarrow> P (p, k')"
  shows "post P (clock_get_cached clk_id k)"
  unfolding clock_get_cached_def
  using assms by (intro wp) (auto intro: kern_ok_store_clk)

lemma post_reset_get_cached [wp]:
  assumes "kern_ok md k" and "\<And>p k'. kern_ok md k' \<Longrightarrow> P (p, k')"
  shows "post P (reset_get_cached reset_id k)"
  unfolding reset_get_cached_def
  using assms by (intro wp) (auto intro: kern_ok_store_reset)

lemma post_power_domain_init [wp]:
  assumes "kern_ok md k" and "\<And>e k'. kern_ok md k' \<Longrightarrow> P (e, k')"
  shows "post P (power_domain_init domain_id k)"
  unfolding power_domain_init_def
  using assms by (intro wp) (auto simp: not_le intro: kern_ok_store_domain)

text \<open>The requests.\<close>

lemmas clock_handlers = get_clock_attributes_def get_clock_rate_def set_clock_rate_def get_clock_config_def
  set_clock_config_def get_clock_name_def

lemma clock_ioctl_keeps: "kern_ok md k \<Longrightarrow> post (\<lambda>(e, k'). kern_ok md k') (hvisor_scmi_clock_ioctl arg k)"
  unfolding hvisor_scmi_clock_ioctl_def clock_handlers Let_def by (intro wp) auto

lemma reset_ioctl_keeps: "kern_ok md k \<Longrightarrow> post (\<lambda>(e, k'). kern_ok md k') (hvisor_scmi_reset_ioctl arg k)"
  unfolding hvisor_scmi_reset_ioctl_def reset_domain_def drive_reset_def Let_def by (intro wp) auto

lemma post_ensure_attached [wp]:
  "kern_ok md k \<Longrightarrow> (\<And>e k'. kern_ok md k' \<Longrightarrow> P (e, k')) \<Longrightarrow> post P (ensure_attached domain_id k)"
  unfolding ensure_attached_def by (intro wp) auto

lemma power_ioctl_keeps: "kern_ok md k \<Longrightarrow> post (\<lambda>(e, k'). kern_ok md k') (hvisor_scmi_power_ioctl arg k)"
  unfolding hvisor_scmi_power_ioctl_def power_domain_state_set_def power_domain_state_get_def power_domain_get_attributes_def Let_def
  by (intro wp) auto

text \<open>Giving handles back: only calls are made, and exactly the given handles are lost.\<close>

definition gives_back :: "resource multiset \<Rightarrow> kern \<Rightarrow> kern \<Rightarrow> bool" where
  "gives_back L k k' \<longleftrightarrow> (\<exists>rs cs. k' = k\<lparr>k_tape := rs, k_trace := k_trace k @ cs\<rparr> \<and> gains cs = {#} \<and> losses cs = L)"

lemma gives_back_refl: "gives_back {#} k k"
  unfolding gives_back_def by (rule exI [of _ "k_tape k"], rule exI [of _ "[]"]) simp

lemma gives_back_call:
  "gained (c, x) = [] \<Longrightarrow> gives_back L (k\<lparr>k_tape := rs, k_trace := k_trace k @ [(c, x)]\<rparr>) k' \<Longrightarrow> gives_back (mset (lost (c, x)) + L) k k'"
  unfolding gives_back_def by clarsimp (rule exI, rule exI [of _ "(c, x) # cs" for cs], simp)

lemma post_gives_back:
  assumes "gained (c, x) = []" and "lost (c, x) = [R]"
    and "post (gives_back L (k\<lparr>k_tape := rs, k_trace := k_trace k @ [(c, x)]\<rparr>)) m"
  shows "post (gives_back (add_mset R L) k) m"
  by (rule post_mono [OF assms(3)]) (use gives_back_call [OF assms(1)] assms(2) in fastforce)

lemma put_clocks_back: "post (gives_back (held_list R_Clk ps) k) (put_clocks ps k)"
proof (induction ps arbitrary: k)
  case (Cons p ps)
  then show ?case by (auto intro!: wp post_gives_back)
qed (simp add: gives_back_refl wp)

lemma put_resets_back: "post (gives_back (held_list R_Reset ps) k) (put_resets ps k)"
proof (induction ps arbitrary: k)
  case (Cons p ps)
  then show ?case by (auto intro!: wp post_gives_back)
qed (simp add: gives_back_refl wp)

lemma detach_domains_back:
  "\<forall>d\<in>set ds. domain_handle d \<ge> 0 \<Longrightarrow> post (gives_back (held_list R_Domain (map domain_handle ds)) k) (detach_domains ds k)"
proof (induction ds arbitrary: k)
  case (Cons d ds)
  obtain p attached where d: "d = (p, attached)" by (cases d)
  show ?case using Cons by (auto simp: d domain_handle_def intro!: wp post_gives_back)
qed (simp add: gives_back_refl wp)

text \<open>Every part of the server has the handles it had, or none.\<close>

definition shrinks :: "kern \<Rightarrow> kern \<Rightarrow> bool" where
  "shrinks k k' \<longleftrightarrow> (held_clk k' = held_clk k \<or> held_clk k' = {#}) \<and> (held_reset k' = held_reset k \<or> held_reset k' = {#})
     \<and> (held_domain k' = held_domain k \<or> held_domain k' = {#}) \<and> virtio_irq_ctx k' = virtio_irq_ctx k"

lemma clock_finish_keeps:
  assumes "kern_ok md k"
  shows "post (\<lambda>k'. kern_ok md k' \<and> held_clk k' = {#} \<and> shrinks k k') (clock_ctrl_finish k)"
proof (cases "clock_cache k")
  case None
  with assms show ?thesis unfolding clock_ctrl_finish_def
    by (auto intro!: wp simp: kern_ok_def no_caches_def held_defs shrinks_def)
next
  case (Some c)
  with assms have "take (clock_max_num k) c = c" by (auto simp: kern_ok_def)
  with Some assms show ?thesis unfolding clock_ctrl_finish_def
    by (auto intro!: wp post_mono [OF put_clocks_back] simp: gives_back_def kern_ok_def no_caches_def held_defs shrinks_def)
qed

lemma reset_finish_keeps:
  assumes "kern_ok md k"
  shows "post (\<lambda>k'. kern_ok md k' \<and> held_reset k' = {#} \<and> shrinks k k') (reset_ctrl_finish k)"
proof (cases "reset_cache k")
  case None
  with assms show ?thesis unfolding reset_ctrl_finish_def by (auto intro!: wp simp: held_defs shrinks_def)
next
  case (Some c)
  with assms have "take (reset_cache_count k) c = c" by (auto simp: kern_ok_def)
  with Some assms show ?thesis unfolding reset_ctrl_finish_def
    by (auto intro!: wp post_mono [OF put_resets_back] simp: gives_back_def kern_ok_def no_caches_def held_defs shrinks_def)
qed

lemma kern_ok_pdev [simp]: "kern_ok md (k\<lparr>ctrl_pdev := p\<rparr>) = kern_ok md k"
  by (simp add: kern_ok_def no_caches_def held_defs)

lemma power_finish_keeps:
  assumes "kern_ok md k"
  shows "post (\<lambda>k'. kern_ok md k' \<and> held_domain k' = {#} \<and> shrinks k k') (power_ctrl_finish k)"
proof (cases "power_devices k")
  case None
  with assms show ?thesis unfolding power_ctrl_finish_def by (auto intro!: wp simp: held_defs shrinks_def)
next
  case (Some ds)
  with assms have "take (power_max_num k) ds = ds" and "\<forall>d\<in>set ds. domain_handle d \<ge> 0" by (auto simp: kern_ok_def)
  with Some assms show ?thesis unfolding power_ctrl_finish_def
    by (auto intro!: wp post_mono [OF detach_domains_back] simp: gives_back_def kern_ok_def no_caches_def held_defs shrinks_def)
qed

text \<open>
  What each part of the server promises the module: requests and the final clean-up keep the
  invariant, and the clean-up leaves the part without a handle.
\<close>

locale scmi_part =
  fixes request :: "u64 \<Rightarrow> kern \<Rightarrow> (int \<times> kern) option"
    and finish :: "kern \<Rightarrow> kern option"
    and own :: "kern \<Rightarrow> resource multiset"
  assumes request_keeps: "kern_ok md k \<Longrightarrow> post (\<lambda>(e, k'). kern_ok md k') (request arg k)"
    and finish_keeps: "kern_ok md k \<Longrightarrow> post (\<lambda>k'. kern_ok md k' \<and> own k' = {#} \<and> shrinks k k') (finish k)"
begin

lemma post_request: "kern_ok md k \<Longrightarrow> (\<And>e k'. kern_ok md k' \<Longrightarrow> P (e, k')) \<Longrightarrow> post P (request arg k)"
  by (rule post_mono [OF request_keeps]) auto

lemma post_finish:
  "kern_ok md k \<Longrightarrow> (\<And>k'. kern_ok md k' \<Longrightarrow> own k' = {#} \<Longrightarrow> shrinks k k' \<Longrightarrow> P k') \<Longrightarrow> post P (finish k)"
  by (rule post_mono [OF finish_keeps]) auto

end

interpretation clk_part: scmi_part hvisor_scmi_clock_ioctl clock_ctrl_finish held_clk
  by unfold_locales (rule clock_ioctl_keeps clock_finish_keeps, assumption)+

interpretation reset_part: scmi_part hvisor_scmi_reset_ioctl reset_ctrl_finish held_reset
  by unfold_locales (rule reset_ioctl_keeps reset_finish_keeps, assumption)+

interpretation power_part: scmi_part hvisor_scmi_power_ioctl power_ctrl_finish held_domain
  by unfold_locales (rule power_ioctl_keeps power_finish_keeps, assumption)+

lemmas scmi_wp = clk_part.post_request reset_part.post_request power_part.post_request
  clk_part.post_finish reset_part.post_finish power_part.post_finish

lemma scmi_cleanup_empties:
  assumes "kern_ok md k"
  shows "post (\<lambda>k'. kern_ok md k' \<and> held_clk k' = {#} \<and> held_reset k' = {#} \<and> held_domain k' = {#} \<and> virtio_irq_ctx k' = virtio_irq_ctx k)
    (hvisor_scmi_cleanup k)"
  unfolding hvisor_scmi_cleanup_def using assms by (intro post_bind scmi_wp) (auto simp: shrinks_def)

text \<open>The start, from a state without caches.\<close>

text \<open>A start leaves the variables of the other parts alone.\<close>

lemma post_get_node_frame:
  "(\<And>n rs cs np. gains cs = losses cs \<Longrightarrow> P (n, k\<lparr>k_tape := rs, k_trace := k_trace k @ cs, hvisor_np := np\<rparr>)) \<Longrightarrow> post P (hvisor_get_node k)"
  unfolding hvisor_get_node_def
proof (intro wp)
  assume P: "\<And>n rs cs np. gains cs = losses cs \<Longrightarrow> P (n, k\<lparr>k_tape := rs, k_trace := k_trace k @ cs, hvisor_np := np\<rparr>)"
  show "P (hvisor_np k, k)" using P [where cs = "[]" and rs = "k_tape k" and np = "hvisor_np k" and n = "hvisor_np k"] by simp
qed simp_all

lemma clock_init_keeps:
  "kern_ok (True, live) k \<Longrightarrow> clock_cache k = None \<Longrightarrow> post (\<lambda>(e, k'). kern_ok (True, live) k' \<and> reset_cache k' = reset_cache k
     \<and> power_devices k' = power_devices k \<and> virtio_irq_ctx k' = virtio_irq_ctx k) (clock_init k)"
  unfolding clock_init_def Let_def
  by (intro post_get_node_frame wp) (auto simp: kern_ok_def no_caches_def held_defs)

lemma reset_init_keeps:
  "kern_ok (True, live) k \<Longrightarrow> reset_cache k = None \<Longrightarrow> post (\<lambda>(e, k'). kern_ok (True, live) k'
     \<and> power_devices k' = power_devices k \<and> virtio_irq_ctx k' = virtio_irq_ctx k) (reset_init k)"
  unfolding reset_init_def Let_def
  by (intro post_get_node_frame wp) (auto simp: kern_ok_def no_caches_def held_defs)

lemma power_init_keeps:
  "kern_ok (True, live) k \<Longrightarrow> power_devices k = None \<Longrightarrow> post (\<lambda>(e, k'). kern_ok (True, live) k' \<and> virtio_irq_ctx k' = virtio_irq_ctx k) (power_init k)"
  unfolding power_init_def Let_def
  by (intro post_get_node_frame wp) (auto simp: kern_ok_def no_caches_def held_defs domain_handle_def)

lemma scmi_init_keeps:
  assumes "kern_ok (True, live) k" and "no_caches k"
  shows "post (\<lambda>(e, k'). kern_ok (True, live) k' \<and> virtio_irq_ctx k' = virtio_irq_ctx k) (hvisor_scmi_init k)"
  unfolding hvisor_scmi_init_def
  using assms
  by (intro wp post_mono [OF clock_init_keeps] post_mono [OF reset_init_keeps] post_mono [OF power_init_keeps] scmi_wp)
    (auto simp: no_caches_def shrinks_def)

end
