(* ===== verification/Kernel_Driver.thy ===== *)
theory Kernel_Driver
  imports Kernel_Scmi Zone_Boot
begin

text \<open>
  The kernel module itself (\<^verbatim>\<open>src/driver/hvisor_main.c\<close>): the requests of the device file, its memory
  mapping, the interrupt handler, and the start and the end of the module. The processor
  architecture is a parameter where the code is compiled differently.
\<close>

section \<open>Requests\<close>

definition HVISOR_HC_INIT_VIRTIO :: u64 where [simp]: "HVISOR_HC_INIT_VIRTIO = 0"
definition HVISOR_HC_FINISH_REQ :: u64 where [simp]: "HVISOR_HC_FINISH_REQ = 1"
definition HVISOR_HC_START_ZONE :: u64 where [simp]: "HVISOR_HC_START_ZONE = 2"
definition HVISOR_HC_SHUTDOWN_ZONE :: u64 where [simp]: "HVISOR_HC_SHUTDOWN_ZONE = 3"
definition HVISOR_HC_ZONE_LIST :: u64 where [simp]: "HVISOR_HC_ZONE_LIST = 4"
definition HVISOR_HC_CONFIG_CHECK :: u64 where [simp]: "HVISOR_HC_CONFIG_CHECK = 6"
definition HVISOR_HC_SET_BOOT_MODE :: u64 where [simp]: "HVISOR_HC_SET_BOOT_MODE = 8"
definition HVISOR_HC_GET_ECAM_BASE :: u64 where [simp]: "HVISOR_HC_GET_ECAM_BASE = 9"
definition HVISOR_HC_CLEAR_INJECT_IRQ :: u64 where [simp]: "HVISOR_HC_CLEAR_INJECT_IRQ = 11"
definition HVISOR_HC_GET_VIRTIO_IRQ :: u64 where [simp]: "HVISOR_HC_GET_VIRTIO_IRQ = 86"
definition HVISOR_VIRTIO_WAKEUP_HWI :: u64 where [simp]: "HVISOR_VIRTIO_WAKEUP_HWI = 4"

text \<open>The page is reserved and cleared before the hypervisor is told about it; its contents are no part of this state.\<close>

definition hvisor_init_virtio :: "kern \<Rightarrow> (int \<times> kern) option" where
  "hvisor_init_virtio k =
     (if virtio_irq k = -1 then Some (ENOTTY, k)
      else do {
        (p, k1) \<leftarrow> kernel_call Get_Free_Page k;
        let k2 = k1\<lparr>virtio_bridge_page := s_ret p\<rparr>;
        if s_ret p = 0 then Some (- ENOMEM, k2)
        else do {
          (err, r, k3) \<leftarrow> hvisor_call HVISOR_HC_INIT_VIRTIO (k_pa k2 (s_ret p)) 0 k2;
          Some (err, k3)
        }
      })"

definition hvisor_finish_req :: "kern \<Rightarrow> (int \<times> kern) option" where
  "hvisor_finish_req k = do { (err, r, k1) \<leftarrow> hvisor_call HVISOR_HC_FINISH_REQ 0 0 k; Some (err, k1) }"

text \<open>The structure has the two 32-bit fields \<open>zone_id\<close> and \<open>irq_id\<close>.\<close>

definition hvisor_deassert_irq :: "u64 \<Rightarrow> kern \<Rightarrow> (int \<times> kern) option" where
  "hvisor_deassert_irq arg k = do {
     (a, k1) \<leftarrow> copy_from_user arg k;
     (case a of None \<Rightarrow> Some (- EFAULT, k1)
      | Some r \<Rightarrow> do {
          (err, x, k2) \<leftarrow> hvisor_call HVISOR_HC_CLEAR_INJECT_IRQ
            (ucast (ucast (s_val r 0) :: u32)) (ucast (ucast (s_val r 1) :: u32)) k1;
          Some (err, k2)
        })
   }"

subsection \<open>Loading an image\<close>

text \<open>Pages have 4096 bytes, the page size of the kernels the module is built for.\<close>

definition PAGE_MASK :: u64 where "PAGE_MASK = NOT (4096 - 1)"

definition PAGE_ALIGN :: "u64 \<Rightarrow> u64" where
  "PAGE_ALIGN x = (x + (4096 - 1)) AND PAGE_MASK"

text \<open>The addresses \<open>dc civac\<close> is executed for. A loop that runs past the end of the address space starts again at its beginning.\<close>

partial_function (option) clean_from :: "u64 \<Rightarrow> u64 \<Rightarrow> u64 \<Rightarrow> u64 list option" where
  "clean_from line_size end_addr addr =
     (if addr < end_addr then Option.bind (clean_from line_size end_addr (addr + line_size)) (\<lambda>xs. Some (addr # xs))
      else Some [])"

definition flush_cache_mapped :: "arch \<Rightarrow> u64 \<Rightarrow> u64 \<Rightarrow> kern \<Rightarrow> (int \<times> kern) option" where
  "flush_cache_mapped a vaddr sz k =
     (if a \<noteq> ARM64 then Some (0, k)
      else do {
        let end_addr = vaddr + PAGE_ALIGN sz;
        (c, k1) \<leftarrow> kernel_call Read_Ctr k;
        let line_size = push_bit (unat (drop_bit 16 (s_val c 0) AND 0xf)) 4;
        xs \<leftarrow> clean_from line_size end_addr (vaddr AND NOT (line_size - 1));
        k2 \<leftarrow> kernel_do (Clean_Lines xs) k1;
        Some (0, k2)
      })"

text \<open>The part of the mapping around a range of physical memory, or \<open>None\<close> where the range is refused.\<close>

definition image_window :: "u64 \<Rightarrow> u64 \<Rightarrow> (u64 \<times> u64 \<times> u64) option" where
  "image_window load_paddr sz =
     (let map_phys = load_paddr AND PAGE_MASK; page_offs = load_paddr - map_phys; map_size = PAGE_ALIGN (sz + page_offs) in
      if sz > -1 - page_offs then None
      else if map_size < sz then None
      else Some (map_phys, page_offs, map_size))"

text \<open>The copy into the mapping, the cache maintenance and the end of the mapping.\<close>

definition copy_image :: "arch \<Rightarrow> u64 \<Rightarrow> u64 \<Rightarrow> u64 \<Rightarrow> u64 \<Rightarrow> u64 \<Rightarrow> kern \<Rightarrow> (int \<times> kern) option" where
  "copy_image a vaddr dst map_size user_buffer sz k = do {
     (c, k1) \<leftarrow> kernel_call (Copy_Image dst user_buffer sz) k;
     (ret, k2) \<leftarrow> (if s_ret c \<noteq> 0 then Some (- EFAULT, k1)
       else do {
         (e, k2) \<leftarrow> flush_cache_mapped a vaddr map_size k1;
         k3 \<leftarrow> (if e \<noteq> 0 then Some k2 else kernel_do (Flush_Icache dst (dst + sz)) k2);
         Some (e, k3)
       });
     k3 \<leftarrow> kernel_do (Memunmap vaddr) k2;
     Some (ret, k3)
   }"

text \<open>The address \<open>memremap\<close> returns is the first value of its result.\<close>

definition hvisor_load_image :: "arch \<Rightarrow> u64 \<Rightarrow> kern \<Rightarrow> (int \<times> kern) option" where
  "hvisor_load_image a arg k = do {
     (args, k1) \<leftarrow> copy_from_user arg k;
     (case args of None \<Rightarrow> Some (- EFAULT, k1)
      | Some r \<Rightarrow>
          let user_buffer = s_val r 0; sz = s_val r 1; load_paddr = s_val r 2 in
          if user_buffer = 0 \<or> sz = 0 then Some (- EINVAL, k1)
          else (case image_window load_paddr sz of None \<Rightarrow> Some (- EINVAL, k1)
            | Some (map_phys, page_offs, map_size) \<Rightarrow> do {
                (m, k2) \<leftarrow> kernel_call (Memremap map_phys map_size) k1;
                let vaddr = s_val m 0;
                if vaddr = 0 then Some (- ENOMEM, k2)
                else copy_image a vaddr (vaddr + page_offs) map_size user_buffer sz k2
              }))
   }"

subsection \<open>Zones\<close>

text \<open>The sizes of the structures for each architecture.\<close>

fun sizeof_zone_config :: "arch \<Rightarrow> u64" where
  "sizeof_zone_config ARM64 = 3296"
| "sizeof_zone_config RISCV64 = 3208"
| "sizeof_zone_config LOONGARCH64 = 3184"
| "sizeof_zone_config X86_64 = 3264"

definition sizeof_zone_info :: u64 where [simp]: "sizeof_zone_info = 56"
definition sizeof_boot_mode :: u64 where [simp]: "sizeof_boot_mode = 16"

text \<open>A failed allocation is only reported: the copy then goes to a null pointer.\<close>

definition hvisor_zone_start :: "arch \<Rightarrow> u64 \<Rightarrow> kern \<Rightarrow> (int \<times> kern) option" where
  "hvisor_zone_start a arg k = do {
     (p, k1) \<leftarrow> kernel_call (Kmalloc (sizeof_zone_config a)) k;
     if s_ret p = 0 then None
     else do {
       (c, k2) \<leftarrow> copy_from_user arg k1;
       (if c = None then do { k3 \<leftarrow> kernel_do (Kfree (s_ret p)) k2; Some (- EFAULT, k3) }
        else do {
          (err, r, k3) \<leftarrow> hvisor_call HVISOR_HC_START_ZONE (k_pa k2 (s_ret p)) (sizeof_zone_config a) k2;
          k4 \<leftarrow> kernel_do (Kfree (s_ret p)) k3;
          Some (err, k4)
        })
     }
   }"

definition hvisor_set_boot_mode :: "u64 \<Rightarrow> kern \<Rightarrow> (int \<times> kern) option" where
  "hvisor_set_boot_mode arg k = do {
     (p, k1) \<leftarrow> kernel_call (Kmalloc sizeof_boot_mode) k;
     if s_ret p = 0 then Some (- ENOMEM, k1)
     else do {
       (c, k2) \<leftarrow> copy_from_user arg k1;
       (if c = None then do { k3 \<leftarrow> kernel_do (Kfree (s_ret p)) k2; Some (- EFAULT, k3) }
        else do {
          (err, r, k3) \<leftarrow> hvisor_call HVISOR_HC_SET_BOOT_MODE (k_pa k2 (s_ret p)) sizeof_boot_mode k2;
          k4 \<leftarrow> kernel_do (Kfree (s_ret p)) k3;
          Some (err, k4)
        })
     }
   }"

text \<open>
  The hypervisor stores the 64-bit value through the physical address: it is the first value of the
  result. The allocation is not checked; reading the value through a null pointer is \<open>None\<close>.
\<close>

definition hvisor_config_check :: "u64 \<Rightarrow> kern \<Rightarrow> (int \<times> kern) option" where
  "hvisor_config_check arg k = do {
     (p, k1) \<leftarrow> kernel_call (Kmalloc 8) k;
     (err, r, k2) \<leftarrow> hvisor_call HVISOR_HC_CONFIG_CHECK (k_pa k1 (s_ret p)) 0 k1;
     if s_ret p = 0 then None
     else do {
       (e, k3) \<leftarrow> answer_user arg [s_val r 0] [] k2;
       k4 \<leftarrow> kernel_do (Kfree (s_ret p)) k3;
       Some (if e \<noteq> 0 then e else err, k4)
     }
   }"

definition hvisor_get_ecam_base :: "u64 \<Rightarrow> kern \<Rightarrow> (int \<times> kern) option" where
  "hvisor_get_ecam_base arg k = do {
     (p, k1) \<leftarrow> kernel_call (Kmalloc 8) k;
     if s_ret p = 0 then Some (- ENOMEM, k1)
     else do {
       (err, r, k2) \<leftarrow> hvisor_call HVISOR_HC_GET_ECAM_BASE (k_pa k1 (s_ret p)) 0 k1;
       (if err \<noteq> 0 then do { k3 \<leftarrow> kernel_do (Kfree (s_ret p)) k2; Some (err, k3) }
        else do {
          (e, k3) \<leftarrow> answer_user arg [s_val r 0] [] k2;
          k4 \<leftarrow> kernel_do (Kfree (s_ret p)) k3;
          Some (e, k4)
        })
     }
   }"

text \<open>
  The structure has the fields \<open>cnt\<close> and \<open>zones\<close>. The size of the allocation wraps at 64 bits.
  Clearing a null pointer and reading behind the allocation are \<open>None\<close>. The result of the copy is
  not reported.
\<close>

definition hvisor_zone_list :: "u64 \<Rightarrow> kern \<Rightarrow> (int \<times> kern) option" where
  "hvisor_zone_list arg k = do {
     (a, k1) \<leftarrow> copy_from_user arg k;
     (case a of None \<Rightarrow> Some (- EFAULT, k1)
      | Some r \<Rightarrow> do {
          let cnt = s_val r 0;
          (p, k2) \<leftarrow> kernel_call (Kmalloc (cnt * sizeof_zone_info)) k1;
          if s_ret p = 0 \<and> cnt * sizeof_zone_info \<noteq> 0 then None
          else do {
            (ret, z, k3) \<leftarrow> hvisor_call HVISOR_HC_ZONE_LIST (k_pa k2 (s_ret p)) cnt k2;
            k4 \<leftarrow> (if ret < 0 then Some k3
                   else if nat ret * unat sizeof_zone_info > unat (cnt * sizeof_zone_info) then None
                   else kernel_do (Copy_To_User (s_val r 1) (s_vals z) (s_bytes z)) k3);
            k5 \<leftarrow> kernel_do (Kfree (s_ret p)) k4;
            Some (ret, k5)
          }
        })
   }"

subsection \<open>The device file\<close>

datatype ioctl_code = HVISOR_INIT_VIRTIO | HVISOR_FINISH_REQ | HVISOR_ZONE_START | HVISOR_ZONE_SHUTDOWN | HVISOR_ZONE_LIST
  | HVISOR_CONFIG_CHECK | HVISOR_SET_EVENTFD | HVISOR_LOAD_IMAGE | HVISOR_SET_BOOT_MODE | HVISOR_GET_ECAM_BASE
  | HVISOR_DEASSERT_IRQ | HVISOR_SCMI_CLOCK_IOCTL | HVISOR_SCMI_RESET_IOCTL | HVISOR_SCMI_POWER_IOCTL | Other_Code

definition hvisor_set_eventfd :: "u64 \<Rightarrow> kern \<Rightarrow> (int \<times> kern) option" where
  "hvisor_set_eventfd arg k = do {
     (ctx, k1) \<leftarrow> kernel_call (Eventfd_Get (to_c_int (uint arg))) k;
     if IS_ERR (s_ret ctx) then Some (s_ret ctx, k1)
     else do {
       k2 \<leftarrow> (if virtio_irq_ctx k1 \<noteq> 0 then kernel_do (Eventfd_Put (virtio_irq_ctx k1)) k1 else Some k1);
       Some (0, k2\<lparr>virtio_irq_ctx := s_ret ctx\<rparr>)
     }
   }"

fun hvisor_ioctl :: "arch \<Rightarrow> ioctl_code \<Rightarrow> u64 \<Rightarrow> kern \<Rightarrow> (int \<times> kern) option" where
  "hvisor_ioctl a HVISOR_INIT_VIRTIO arg k = hvisor_init_virtio k"
| "hvisor_ioctl a HVISOR_ZONE_START arg k = hvisor_zone_start a arg k"
| "hvisor_ioctl a HVISOR_SET_BOOT_MODE arg k = hvisor_set_boot_mode arg k"
| "hvisor_ioctl a HVISOR_ZONE_SHUTDOWN arg k = do { (err, r, k1) \<leftarrow> hvisor_call HVISOR_HC_SHUTDOWN_ZONE arg 0 k; Some (err, k1) }"
| "hvisor_ioctl a HVISOR_ZONE_LIST arg k = hvisor_zone_list arg k"
| "hvisor_ioctl a HVISOR_FINISH_REQ arg k = hvisor_finish_req k"
| "hvisor_ioctl a HVISOR_CONFIG_CHECK arg k = hvisor_config_check arg k"
| "hvisor_ioctl a HVISOR_GET_ECAM_BASE arg k = hvisor_get_ecam_base arg k"
| "hvisor_ioctl a HVISOR_SET_EVENTFD arg k = hvisor_set_eventfd arg k"
| "hvisor_ioctl a HVISOR_LOAD_IMAGE arg k = hvisor_load_image a arg k"
| "hvisor_ioctl a HVISOR_SCMI_CLOCK_IOCTL arg k = hvisor_scmi_clock_ioctl arg k"
| "hvisor_ioctl a HVISOR_SCMI_RESET_IOCTL arg k = hvisor_scmi_reset_ioctl arg k"
| "hvisor_ioctl a HVISOR_SCMI_POWER_IOCTL arg k = hvisor_scmi_power_ioctl arg k"
| "hvisor_ioctl a HVISOR_DEASSERT_IRQ arg k =
     (if a = LOONGARCH64 \<or> a = X86_64 then hvisor_deassert_irq arg k else Some (- EINVAL, k))"
| "hvisor_ioctl a Other_Code arg k = Some (- EINVAL, k)"

text \<open>The area to map is its first address, its end and the page offset asked for.\<close>

definition hvisor_map :: "u64 \<Rightarrow> u64 \<Rightarrow> u64 \<Rightarrow> kern \<Rightarrow> (int \<times> kern) option" where
  "hvisor_map vm_start vm_end vm_pgoff k = do {
     let pfn = (if vm_pgoff = 0 then drop_bit 12 (k_pa k (virtio_bridge_page k)) else vm_pgoff);
     (r, k1) \<leftarrow> kernel_call (Remap_Pfn vm_start pfn (vm_end - vm_start)) k;
     Some (s_ret r, k1)
   }"

text \<open>Whether the interrupt is the module's own is the first argument; the result is whether it was handled.\<close>

definition virtio_irq_handler :: "arch \<Rightarrow> bool \<Rightarrow> kern \<Rightarrow> (bool \<times> kern) option" where
  "virtio_irq_handler a own k =
     (if \<not> own \<or> virtio_irq_ctx k = 0 then Some (False, k)
      else do {
        k1 \<leftarrow> kernel_do (Eventfd_Signal (virtio_irq_ctx k)) k;
        k2 \<leftarrow> (if a = LOONGARCH64
               then kernel_do (Hypercall HVISOR_HC_CLEAR_INJECT_IRQ 0 HVISOR_VIRTIO_WAKEUP_HWI) k1 else Some k1);
        Some (True, k2)
      })"

section \<open>Start and end of the module\<close>

text \<open>The module's device structure, by which its interrupts are requested and freed, is the pointer 1.\<close>

definition err_misc :: "arch \<Rightarrow> int \<Rightarrow> kern \<Rightarrow> (int \<times> kern) option" where
  "err_misc a err k = do {
     k1 \<leftarrow> kernel_do Misc_Deregister k;
     k2 \<leftarrow> (if a \<noteq> X86_64 then hvisor_scmi_cleanup k1 else Some k1);
     Some (err, k2)
   }"

definition err_out :: "arch \<Rightarrow> int \<Rightarrow> int \<Rightarrow> kern \<Rightarrow> (int \<times> kern) option" where
  "err_out a err node k = do {
     k1 \<leftarrow> (if virtio_irq k \<noteq> -1 then kernel_do (Free_Irq (virtio_irq k) 1) k else Some k);
     k2 \<leftarrow> kernel_do (Of_Node_Put node) k1;
     err_misc a err k2
   }"

definition init_irq_dt :: "arch \<Rightarrow> kern \<Rightarrow> (int \<times> kern) option" where
  "init_irq_dt a k = do {
     (node, k1) \<leftarrow> kernel_call Of_Find_Path k;
     if s_ret node = 0 then err_misc a (- ENODEV) k1
     else do {
       (irq, k2) \<leftarrow> kernel_call (Of_Irq_Get (s_ret node) 0) k1;
       let k3 = k2\<lparr>virtio_irq := s_ret irq\<rparr>;
       (e, k4) \<leftarrow> kernel_call (Request_Irq (s_ret irq) 1) k3;
       if s_ret e \<noteq> 0 then err_out a (s_ret e) (s_ret node) k4
       else do { k5 \<leftarrow> kernel_do (Of_Node_Put (s_ret node)) k4; Some (0, k5) }
     }
   }"

text \<open>The number the hypervisor stored is the first value of the result, taken as an \<open>int\<close>.\<close>

definition init_irq_x86 :: "kern \<Rightarrow> (int \<times> kern) option" where
  "init_irq_x86 k = do {
     (p, k1) \<leftarrow> kernel_call (Kmalloc 4) k;
     if s_ret p = 0 then err_misc X86_64 (- ENOMEM) k1
     else do {
       (err, r, k2) \<leftarrow> hvisor_call HVISOR_HC_GET_VIRTIO_IRQ (k_pa k1 (s_ret p)) 0 k1;
       if err \<noteq> 0 then do { k3 \<leftarrow> kernel_do (Kfree (s_ret p)) k2; err_misc X86_64 err k3 }
       else do {
         let k3 = k2\<lparr>virtio_irq := to_c_int (uint (s_val r 0))\<rparr>;
         k4 \<leftarrow> kernel_do (Kfree (s_ret p)) k3;
         (e, k5) \<leftarrow> kernel_call (Request_Irq (virtio_irq k4) 1) k4;
         if s_ret e \<noteq> 0 then err_out X86_64 (s_ret e) 0 k5 else Some (0, k5)
       }
     }
   }"

definition hvisor_init :: "arch \<Rightarrow> kern \<Rightarrow> (int \<times> kern) option" where
  "hvisor_init a k = do {
     (m, k1) \<leftarrow> kernel_call Misc_Register k;
     if s_ret m \<noteq> 0 then Some (s_ret m, k1)
     else if a = X86_64 then init_irq_x86 k1
     else do {
       (e, k2) \<leftarrow> hvisor_scmi_init k1;
       if e \<noteq> 0 then do { k3 \<leftarrow> kernel_do Misc_Deregister k2; Some (e, k3) }
       else init_irq_dt a k2
     }
   }"

definition hvisor_exit :: "arch \<Rightarrow> kern \<Rightarrow> kern option" where
  "hvisor_exit a k = do {
     k1 \<leftarrow> (if virtio_irq k \<noteq> -1 then kernel_do (Free_Irq (virtio_irq k) 1) k else Some k);
     k2 \<leftarrow> (if virtio_irq_ctx k1 \<noteq> 0 then kernel_do (Eventfd_Put (virtio_irq_ctx k1)) k1 else Some k1);
     k3 \<leftarrow> (if virtio_bridge_page k2 \<noteq> 0 then kernel_do (Free_Page (virtio_bridge_page k2)) k2 else Some k2);
     k4 \<leftarrow> kernel_do Misc_Deregister k3;
     (if a \<noteq> X86_64 then do { k5 \<leftarrow> hvisor_scmi_cleanup k4; hvisor_put_node k5 } else Some k4)
   }"

section \<open>The life of the module\<close>

text \<open>What can happen between the start and the end: requests, mappings and interrupts, in any order.\<close>

datatype kernel_event = Ev_Ioctl ioctl_code u64 | Ev_Map u64 u64 u64 | Ev_Irq bool

fun kernel_step :: "arch \<Rightarrow> kernel_event \<Rightarrow> kern \<Rightarrow> kern option" where
  "kernel_step a (Ev_Ioctl code arg) k = map_option snd (hvisor_ioctl a code arg k)"
| "kernel_step a (Ev_Map s e off) k = map_option snd (hvisor_map s e off k)"
| "kernel_step a (Ev_Irq own) k = map_option snd (virtio_irq_handler a own k)"

fun kernel_run :: "arch \<Rightarrow> kernel_event list \<Rightarrow> kern \<Rightarrow> kern option" where
  "kernel_run a [] k = Some k"
| "kernel_run a (ev # evs) k = Option.bind (kernel_step a ev k) (kernel_run a evs)"

lemma kern_ok_irq [simp]: "kern_ok md (k\<lparr>virtio_irq := n\<rparr>) = kern_ok md k" "kern_ok md (k\<lparr>virtio_bridge_page := n\<rparr>) = kern_ok md k"
  "gains cs = losses cs \<Longrightarrow> kern_ok md (k\<lparr>virtio_irq := n, k_tape := rs, k_trace := k_trace k @ cs\<rparr>) = kern_ok md k"
  by (simp_all add: kern_ok_def no_caches_def held_defs add.assoc)

lemma post_clean_from [wp]: "(\<And>xs. P xs) \<Longrightarrow> post P (clean_from line_size e addr)"
  by (simp add: post_def)

lemma post_flush [wp]:
  "kern_ok md k \<Longrightarrow> (\<And>e k'. kern_ok md k' \<Longrightarrow> P (e, k')) \<Longrightarrow> post P (flush_cache_mapped a v n k)"
  unfolding flush_cache_mapped_def Let_def by (intro wp) auto

lemma load_image_keeps: "kern_ok md k \<Longrightarrow> post (\<lambda>(e, k'). kern_ok md k') (hvisor_load_image a arg k)"
  unfolding hvisor_load_image_def copy_image_def Let_def by (intro wp) auto

lemma set_eventfd_keeps: "kern_ok (dt, True) k \<Longrightarrow> post (\<lambda>(e, k'). kern_ok (dt, True) k') (hvisor_set_eventfd arg k)"
  unfolding hvisor_set_eventfd_def by (intro wp) (auto simp: kern_ok_def no_caches_def held_defs)

lemmas zone_requests = hvisor_init_virtio_def hvisor_zone_start_def hvisor_set_boot_mode_def hvisor_zone_list_def hvisor_finish_req_def
  hvisor_config_check_def hvisor_get_ecam_base_def hvisor_deassert_irq_def Let_def

lemma ioctl_keeps: "kern_ok (dt, True) k \<Longrightarrow> post (\<lambda>(e, k'). kern_ok (dt, True) k') (hvisor_ioctl a code arg k)"
proof (cases code)
  case HVISOR_SET_EVENTFD
  moreover assume "kern_ok (dt, True) k"
  ultimately show ?thesis by (simp add: set_eventfd_keeps)
next
  case HVISOR_LOAD_IMAGE
  moreover assume "kern_ok (dt, True) k"
  ultimately show ?thesis by (simp add: load_image_keeps)
qed (auto simp: zone_requests clk_part.request_keeps reset_part.request_keeps power_part.request_keeps intro!: wp)

lemma kernel_step_keeps: "kern_ok (dt, True) k \<Longrightarrow> post (kern_ok (dt, True)) (kernel_step a ev k)"
proof (cases ev)
  case (Ev_Ioctl code arg)
  moreover assume "kern_ok (dt, True) k"
  ultimately show ?thesis using ioctl_keeps [of dt k a code arg] by (auto simp: post_def)
next
  case (Ev_Map s e off)
  moreover assume k: "kern_ok (dt, True) k"
  have "post (\<lambda>(e, k'). kern_ok (dt, True) k') (hvisor_map s e off k)"
    unfolding hvisor_map_def Let_def using k by (intro wp) auto
  ultimately show ?thesis by (auto simp: post_def)
next
  case (Ev_Irq own)
  moreover assume k: "kern_ok (dt, True) k"
  have "post (\<lambda>(e, k'). kern_ok (dt, True) k') (virtio_irq_handler a own k)"
    unfolding virtio_irq_handler_def using k by (intro wp) auto
  ultimately show ?thesis by (auto simp: post_def)
qed

lemma kernel_run_keeps: "kern_ok (dt, True) k \<Longrightarrow> post (kern_ok (dt, True)) (kernel_run a evs k)"
proof (induction evs arbitrary: k)
  case (Cons ev evs)
  then show ?case by (auto intro!: post_bind post_mono [OF kernel_step_keeps])
qed (simp add: wp)

text \<open>A successful start reaches its end without an error branch.\<close>

lemma err_misc_code: "post (\<lambda>(e, k'). e = err) (err_misc a err k)"
  unfolding err_misc_def by (auto simp: post_def bind_Some_iff)

lemma err_out_code: "post (\<lambda>(e, k'). e = err) (err_out a err node k)"
  using err_misc_code unfolding err_out_def by (fastforce simp: post_def bind_Some_iff)

lemma init_irq_dt_keeps: "kern_ok md k \<Longrightarrow> post (\<lambda>(e, k'). e = 0 \<longrightarrow> kern_ok md k') (init_irq_dt a k)"
  unfolding init_irq_dt_def Let_def
  by (intro wp post_mono [OF err_misc_code] post_mono [OF err_out_code]) auto

lemma init_irq_x86_keeps: "kern_ok md k \<Longrightarrow> post (\<lambda>(e, k'). e = 0 \<longrightarrow> kern_ok md k') (init_irq_x86 k)"
  unfolding init_irq_x86_def Let_def
  by (intro wp post_mono [OF err_misc_code] post_mono [OF err_out_code]) auto

text \<open>The variables before the module is loaded.\<close>

definition fresh_kern :: "kern \<Rightarrow> bool" where
  "fresh_kern k \<longleftrightarrow> no_caches k \<and> virtio_irq_ctx k = 0 \<and> k_trace k = []"

lemma fresh_ok: "fresh_kern k \<Longrightarrow> kern_ok md k"
  by (simp add: fresh_kern_def kern_ok_def no_caches_def held_defs)

lemma hvisor_init_keeps:
  assumes "fresh_kern k"
  shows "post (\<lambda>(e, k'). e = 0 \<longrightarrow> kern_ok (a \<noteq> X86_64, True) k') (hvisor_init a k)"
proof -
  have "no_caches k" using assms by (simp add: fresh_kern_def)
  then show ?thesis unfolding hvisor_init_def
    using fresh_ok [OF assms]
    by (intro wp init_irq_dt_keeps init_irq_x86_keeps post_mono [OF scmi_init_keeps]) (auto simp: no_caches_def)
qed

lemma kern_ok_put_event:
  assumes "kern_ok (dt, True) k"
  shows "virtio_irq_ctx k \<noteq> 0 \<Longrightarrow> kern_ok (dt, False) (k\<lparr>k_tape := rs, k_trace := k_trace k @ [(Eventfd_Put (virtio_irq_ctx k), x)]\<rparr>)"
    and "virtio_irq_ctx k = 0 \<Longrightarrow> kern_ok (dt, False) k"
  using assms by (auto simp: kern_ok_def no_caches_def held_defs)

lemma kern_ok_empty:
  "kern_ok (dt, False) k \<Longrightarrow> held_clk k = {#} \<Longrightarrow> held_reset k = {#} \<Longrightarrow> held_domain k = {#} \<Longrightarrow> gains (k_trace k) = losses (k_trace k)"
  by (simp add: kern_ok_def held_event_def)

lemma post_put_node:
  "gains (k_trace k) = losses (k_trace k) \<Longrightarrow> post (\<lambda>k'. gains (k_trace k') = losses (k_trace k')) (hvisor_put_node k)"
  unfolding hvisor_put_node_def by (intro wp) auto

lemma exit_tail:
  assumes "kern_ok (a \<noteq> X86_64, False) k"
  shows "post (\<lambda>k'. gains (k_trace k') = losses (k_trace k'))
    (if a \<noteq> X86_64 then Option.bind (hvisor_scmi_cleanup k) hvisor_put_node else Some k)"
proof (cases "a = X86_64")
  case True
  with assms show ?thesis by (auto intro!: wp kern_ok_empty simp: kern_ok_def no_caches_def held_defs)
next
  case False
  with assms show ?thesis
    by (auto intro!: post_bind post_mono [OF scmi_cleanup_empties] post_put_node kern_ok_empty)
qed

lemma post_cond_do:
  assumes "kern_ok md k" and "\<And>x. gains [(c, x)] = losses [(c, x)]" and "\<And>k'. kern_ok md k' \<Longrightarrow> P k'"
  shows "post P (if b then kernel_do c k else Some k)"
  using assms(1,2) by (auto intro!: wp assms(3))

lemma post_put_event:
  assumes "kern_ok (dt, True) k" and "\<And>k'. kern_ok (dt, False) k' \<Longrightarrow> P k'"
  shows "post P (if virtio_irq_ctx k \<noteq> 0 then kernel_do (Eventfd_Put (virtio_irq_ctx k)) k else Some k)"
  using kern_ok_put_event [OF assms(1)] by (auto intro!: wp assms(2))

lemma post_neutral_do:
  assumes "kern_ok md k" and "\<And>x. gains [(c, x)] = losses [(c, x)]" and "\<And>k'. kern_ok md k' \<Longrightarrow> P k'"
  shows "post P (kernel_do c k)"
  using post_cond_do [OF assms, where b = True] by simp

lemma exit_releases:
  assumes "kern_ok (a \<noteq> X86_64, True) k"
  shows "post (\<lambda>k'. gains (k_trace k') = losses (k_trace k')) (hvisor_exit a k)"
  unfolding hvisor_exit_def
proof (rule post_bind, rule post_cond_do [OF assms])
  fix k1 assume "kern_ok (a \<noteq> X86_64, True) k1"
  then show "post (\<lambda>k'. gains (k_trace k') = losses (k_trace k'))
     (Option.bind (if virtio_irq_ctx k1 \<noteq> 0 then kernel_do (Eventfd_Put (virtio_irq_ctx k1)) k1 else Some k1)
       (\<lambda>k2. Option.bind (if virtio_bridge_page k2 \<noteq> 0 then kernel_do (Free_Page (virtio_bridge_page k2)) k2 else Some k2)
       (\<lambda>k3. Option.bind (kernel_do Misc_Deregister k3)
       (\<lambda>k4. if a \<noteq> X86_64 then Option.bind (hvisor_scmi_cleanup k4) hvisor_put_node else Some k4))))"
    by (rule post_bind [OF post_put_event], intro post_bind [OF post_cond_do] post_bind [OF post_neutral_do] exit_tail)
      simp_all
qed simp

text \<open>
  C39: The module gives back what it takes. Whatever requests, mappings and interrupts happen between
  a successful start and the end of the module, in whatever order and with whatever answers of the
  kernel: over the whole life of the module the handles of event descriptors, clocks, reset lines and
  power domains that it obtained are exactly those it gave back, each as often, and every reset line
  it acquired it released.
\<close>

theorem module_releases_handles:
  assumes "fresh_kern k0" and "hvisor_init a k0 = Some (0, k1)" and "kernel_run a evs k1 = Some k2" and "hvisor_exit a k2 = Some k3"
  shows "gains (k_trace k3) = losses (k_trace k3)"
proof -
  have "kern_ok (a \<noteq> X86_64, True) k1" using postD [OF hvisor_init_keeps [OF assms(1)] assms(2)] by simp
  then have "kern_ok (a \<noteq> X86_64, True) k2" by (rule postD [OF kernel_run_keeps assms(3)])
  then show ?thesis by (rule postD [OF exit_releases assms(4)])
qed

section \<open>Loading an image\<close>

lemma and_not_low: "(x :: u64) AND NOT (mask n) = push_bit n (drop_bit n x)"
  by (rule bit_eqI) (auto simp: bit_simps)

lemma unat_and_not_low: "unat ((x :: u64) AND NOT (mask n)) = unat x div 2 ^ n * 2 ^ n"
proof -
  have le: "unat x div 2 ^ n * 2 ^ n < 18446744073709551616"
    by (rule le_less_trans [of _ "unat x"]) (simp_all add: unat_lt_64)
  have "unat (push_bit n (drop_bit n x)) = take_bit 64 (push_bit n (drop_bit n (unat x)))"
    unfolding unsigned_push_bit_eq unsigned_drop_bit_eq by (simp add: take_bit_nat_eq_self)
  then have "unat (push_bit n (drop_bit n x)) = take_bit 64 (unat x div 2 ^ n * 2 ^ n)"
    by (simp only: push_bit_eq_mult drop_bit_eq_div)
  then show ?thesis using le by (simp add: and_not_low take_bit_nat_eq_self)
qed

lemma PAGE_MASK_mask: "PAGE_MASK = NOT (mask 12)"
  by (simp add: PAGE_MASK_def mask_eq_exp_minus_1)

lemma unat_PAGE_MASK: "unat (x AND PAGE_MASK) = unat x div 4096 * 4096"
  unfolding PAGE_MASK_mask unat_and_not_low by simp

lemma page_offset: "unat (x - (x AND PAGE_MASK)) = unat x mod 4096"
proof -
  have "(x AND PAGE_MASK) \<le> x" unfolding word_le_nat_alt unat_PAGE_MASK by simp
  then show ?thesis by (simp add: unat_sub unat_PAGE_MASK minus_div_mult_eq_mod)
qed

lemma unat_plus_4095: "unat (x + 4095 :: u64) = (if unat x + 4095 < 18446744073709551616 then unat x + 4095 else unat x + 4095 - 18446744073709551616)"
proof -
  have m: "unat (x + 4095) = (unat x + 4095) mod 18446744073709551616" by (simp add: unat_word_ariths)
  show ?thesis
  proof (cases "unat x + 4095 < 18446744073709551616")
    case True
    then show ?thesis using m by (simp only: mod_less if_True)
  next
    case False
    then have "(unat x + 4095) mod 18446744073709551616 = (unat x + 4095 - 18446744073709551616) mod 18446744073709551616" by (intro le_mod_geq) simp
    moreover have "unat x + 4095 - 18446744073709551616 < 18446744073709551616" using unat_lt_64 [of x] by linarith
    ultimately show ?thesis using m False by (simp only: mod_less if_False)
  qed
qed

lemma unat_PAGE_ALIGN:
  "unat (PAGE_ALIGN x) = (if unat x + 4095 < 18446744073709551616 then (unat x + 4095) div 4096 * 4096 else 0)"
proof -
  have "unat (PAGE_ALIGN x) = unat (x + 4095) div 4096 * 4096"
    unfolding PAGE_ALIGN_def unat_PAGE_MASK by simp
  moreover have "(unat x + 4095 - 18446744073709551616) div 4096 = 0" using unat_lt_64 [of x] by (intro div_less) linarith
  ultimately show ?thesis unfolding unat_plus_4095 by (simp only: if_split) simp
qed

lemma image_window_Some:
  assumes "image_window load_paddr n = Some (map_phys, page_offs, map_size)" and "n \<noteq> 0"
  shows "map_phys + page_offs = load_paddr" and "unat map_phys mod 4096 = 0" and "unat map_size mod 4096 = 0"
    and "unat page_offs + unat n \<le> unat map_size" and "unat map_size < unat page_offs + unat n + 4096"
proof -
  have w: "map_phys = load_paddr AND PAGE_MASK" "page_offs = load_paddr - map_phys" "map_size = PAGE_ALIGN (n + page_offs)"
    and le: "n \<le> -1 - page_offs" and ge: "n \<le> map_size"
    using assms(1) by (auto simp: image_window_def Let_def not_less split: if_splits)
  have "unat (-1 - page_offs) = 18446744073709551616 - 1 - unat page_offs" by (simp add: unat_sub unsigned_minus_1_eq_mask mask_eq_exp_minus_1)
  then have sum: "unat (n + page_offs) = unat n + unat page_offs"
    using le by (intro unat_add_lem [THEN iffD1]) (simp add: word_le_nat_alt, use unat_lt_64 [of page_offs] in linarith)
  have fits: "unat n + unat page_offs + 4095 < 18446744073709551616"
  proof (rule ccontr)
    assume "\<not> ?thesis"
    then have "unat map_size = 0" unfolding w(3) unat_PAGE_ALIGN sum by simp
    then show False using ge assms(2) by (simp add: word_le_nat_alt unat_eq_0 [symmetric])
  qed
  have ms: "unat map_size = (unat n + unat page_offs + 4095) div 4096 * 4096"
    unfolding w(3) unat_PAGE_ALIGN sum using fits by (simp only: if_True)
  show "map_phys + page_offs = load_paddr" by (simp add: w(2))
  show "unat map_phys mod 4096 = 0" by (simp add: w(1) unat_PAGE_MASK)
  show "unat map_size mod 4096 = 0" by (simp add: ms)
  show "unat page_offs + unat n \<le> unat map_size" unfolding ms by linarith
  show "unat map_size < unat page_offs + unat n + 4096" unfolding ms by linarith
qed

text \<open>
  The user's memory, and what a copy through a mapping of the physical memory at \<open>map_phys\<close> to the
  address \<open>vaddr\<close> does to physical memory.
\<close>

definition user_bytes :: "memory \<Rightarrow> u64 \<Rightarrow> u64 \<Rightarrow> u8 list" where
  "user_bytes um src n = map (\<lambda>i. um (src + of_nat i)) [0..<unat n]"

fun through_mapping :: "memory \<Rightarrow> u64 \<Rightarrow> u64 \<Rightarrow> kcall \<Rightarrow> memory \<Rightarrow> memory" where
  "through_mapping um vaddr map_phys (Copy_Image dst src n) m = st_bytes m (dst - vaddr + map_phys) (user_bytes um src n)"
| "through_mapping um vaddr map_phys _ m = m"

text \<open>Cache maintenance.\<close>

fun cache_call :: "kcall \<Rightarrow> bool" where
  "cache_call Read_Ctr = True"
| "cache_call (Clean_Lines xs) = True"
| "cache_call (Flush_Icache s e) = True"
| "cache_call _ = False"

lemma flush_calls:
  "post (\<lambda>(e, k'). e = 0 \<and> (\<exists>cs. k_trace k' = k_trace k @ cs \<and> (\<forall>c\<in>set cs. cache_call (fst c)))) (flush_cache_mapped a v n k)"
  unfolding flush_cache_mapped_def Let_def by (intro wp) auto

lemma mid_calls:
  assumes "\<forall>c\<in>set cs. cache_call (fst c)" and "cache_call f"
  shows "\<exists>mid. (\<exists>y. cs @ [(f, x), (u, z)] = mid @ [(u, y)]) \<and> (\<forall>c\<in>set mid. cache_call (fst c))"
  using assms by (intro exI [of _ "cs @ [(f, x)]"]) auto

lemma copy_image_calls:
  "post (\<lambda>(e, k'). e = 0 \<longrightarrow> (\<exists>mid y. k_trace k' = k_trace k @ [(Copy_Image dst src n, 0)] @ mid @ [(Memunmap v, y)]
     \<and> (\<forall>c\<in>set mid. cache_call (fst c)))) (copy_image a v dst ms src n k)"
  supply post_flush [wp del]
  unfolding copy_image_def
  by (intro wp post_mono [OF flush_calls]) (auto intro: mid_calls)

text \<open>
  Loading an image does what the tool asks for. When the request succeeds, the kernel copied the
  user's buffer once, through a mapping it made for it and removed afterwards; the mapping starts and
  ends at page boundaries, the copy stays inside it, and it leaves physical memory as the tool's view
  of the request says: the bytes of the buffer at the physical address, and nothing else changed.
\<close>

theorem load_image_exact:
  assumes "hvisor_load_image a arg k = Some (0, k')" and "k_tape k = r # m # rs"
  shows "\<exists>map_phys map_size dst y mid.
    k_trace k' = k_trace k @ [(Copy_From_User arg, 0), (Memremap map_phys map_size, s_ret m), (Copy_Image dst (s_val r 0) (s_val r 1), 0)]
      @ mid @ [(Memunmap (s_val m 0), y)]
    \<and> (\<forall>c\<in>set mid. cache_call (fst c)) \<and> unat map_phys mod 4096 = 0 \<and> unat map_size mod 4096 = 0
    \<and> unat (dst - s_val m 0) + unat (s_val r 1) \<le> unat map_size
    \<and> (\<forall>um pm. through_mapping um (s_val m 0) map_phys (Copy_Image dst (s_val r 0) (s_val r 1)) pm
         = apply_load (Ioctl_Load_Image (user_bytes um (s_val r 0) (s_val r 1)) (s_val r 2)) pm)"
proof -
  let ?k2 = "\<lambda>mp ms. k\<lparr>k_tape := rs, k_trace := k_trace k @ [(Copy_From_User arg, s_ret r), (Memremap mp ms, s_ret m)]\<rparr>"
  obtain mp off ms where r: "s_ret r = 0" and n: "s_val r 1 \<noteq> 0"
    and w: "image_window (s_val r 2) (s_val r 1) = Some (mp, off, ms)"
    and run: "copy_image a (s_val m 0) (s_val m 0 + off) ms (s_val r 0) (s_val r 1) (?k2 mp ms) = Some (0, k')"
    using assms by (auto simp: hvisor_load_image_def copy_from_user_def kernel_call_def bind_Some_iff Let_def
        split: if_splits option.splits)
  from postD [OF copy_image_calls run] obtain mid y where
    "k_trace k' = k_trace (?k2 mp ms) @ [(Copy_Image (s_val m 0 + off) (s_val r 0) (s_val r 1), 0)] @ mid @ [(Memunmap (s_val m 0), y)]"
    and "\<forall>c\<in>set mid. cache_call (fst c)" by auto
  moreover note win = image_window_Some [OF w n]
  moreover have "off + mp = s_val r 2" using win(1) by (simp add: add.commute)
  ultimately show ?thesis
    by (intro exI [of _ mp] exI [of _ ms] exI [of _ "s_val m 0 + off"] exI [of _ y] exI [of _ mid]) (simp add: r)
qed

section \<open>The cache\<close>

lemma clean_from_covers:
  assumes "unat line = L" and "0 < L" and "unat e + L \<le> 18446744073709551616"
  shows "\<exists>xs. clean_from line e a = Some xs \<and> (\<forall>b. unat a \<le> b \<longrightarrow> b < unat e \<longrightarrow> (\<exists>x\<in>set xs. unat x \<le> b \<and> b < unat x + L))"
proof (induction "unat e - unat a" arbitrary: a rule: less_induct)
  case less
  show ?case
  proof (cases "a < e")
    case True
    then have lt: "unat a < unat e" by (simp add: word_less_nat_alt)
    then have next_addr: "unat (a + line) = unat a + L"
      using assms by (subst unat_add_lem [THEN iffD1]) simp_all
    then have "unat e - unat (a + line) < unat e - unat a" using lt assms(2) by arith
    from less [OF this] next_addr obtain xs where xs: "clean_from line e (a + line) = Some xs"
      and cover: "\<forall>b. unat a + L \<le> b \<longrightarrow> b < unat e \<longrightarrow> (\<exists>x\<in>set xs. unat x \<le> b \<and> b < unat x + L)"
      by auto
    have "clean_from line e a = Some (a # xs)" using True xs by (subst clean_from.simps) simp
    moreover have "\<forall>b. unat a \<le> b \<longrightarrow> b < unat e \<longrightarrow> (\<exists>x\<in>set (a # xs). unat x \<le> b \<and> b < unat x + L)"
      using cover by (auto simp: not_le [symmetric])
    ultimately show ?thesis by blast
  next
    case False
    then show ?thesis by (subst clean_from.simps) (auto simp: word_less_nat_alt)
  qed
qed

lemma line_mask:
  assumes "u \<le> 15"
  shows "unat (push_bit u (4 :: u64)) = 4 * 2 ^ u" and "push_bit u (4 :: u64) - 1 = mask (u + 2)"
proof -
  have "(2 :: nat) ^ u \<le> 2 ^ 15" using assms by (intro power_increasing) simp_all
  then have "take_bit 64 (4 * 2 ^ u :: nat) = 4 * 2 ^ u" by (intro take_bit_nat_eq_self) simp
  moreover have "unat (push_bit u (4 :: u64)) = take_bit 64 (push_bit u (4 :: nat))" unfolding unsigned_push_bit_eq by simp
  ultimately show "unat (push_bit u (4 :: u64)) = 4 * 2 ^ u" by (simp only: push_bit_eq_mult)
  have e: "push_bit u (4 :: u64) = 2 ^ (u + 2)" by (simp add: push_bit_eq_mult power_add)
  show "push_bit u (4 :: u64) - 1 = mask (u + 2)" unfolding e mask_eq_exp_minus_1 by simp
qed

text \<open>
  The loop that cleans the data cache ends and misses nothing. On ARM64, for every size of a cache
  line the processor can report and every mapping that ends at least one line below the end of the
  address space, the loop ends, and each byte of the mapping lies in one of the lines it cleaned.
\<close>

theorem cache_lines_cleaned:
  assumes "k_tape k = c # d # rs" and "L = 4 * 2 ^ unat (drop_bit 16 (s_val c 0) AND 0xf)"
    and "unat v + unat (PAGE_ALIGN n) + L \<le> 18446744073709551616"
  shows "\<exists>xs. flush_cache_mapped ARM64 v n k
      = Some (0, k\<lparr>k_tape := rs, k_trace := k_trace k @ [(Read_Ctr, s_ret c), (Clean_Lines xs, s_ret d)]\<rparr>)
    \<and> (\<forall>i < unat (PAGE_ALIGN n). \<exists>x\<in>set xs. unat x \<le> unat v + i \<and> unat v + i < unat x + L)"
proof -
  let ?u = "unat (drop_bit 16 (s_val c 0) AND 0xf)" and ?e = "v + PAGE_ALIGN n"
  have u: "?u \<le> 15" using word_and_le1 [of "drop_bit 16 (s_val c 0)" 15] by (simp add: word_le_nat_alt)
  have L: "unat (push_bit ?u (4 :: u64)) = L" using line_mask(1) [OF u] assms(2) by simp
  have e: "unat ?e = unat v + unat (PAGE_ALIGN n)" proof -
    have "0 < L" using assms(2) by simp
    then have "unat v + unat (PAGE_ALIGN n) < 2 ^ 64" using assms(3) by simp
    then show ?thesis by (intro unat_add_lem [THEN iffD1]) simp
  qed
  have start: "unat (v AND NOT (push_bit ?u 4 - 1)) \<le> unat v" unfolding line_mask(2) [OF u] unat_and_not_low by simp
  obtain xs where xs: "clean_from (push_bit ?u 4) ?e (v AND NOT (push_bit ?u 4 - 1)) = Some xs"
    and cover: "\<forall>b. unat (v AND NOT (push_bit ?u 4 - 1)) \<le> b \<longrightarrow> b < unat ?e \<longrightarrow> (\<exists>x\<in>set xs. unat x \<le> b \<and> b < unat x + L)"
    using clean_from_covers [OF L, of ?e "v AND NOT (push_bit ?u 4 - 1)"] assms(2,3) e by auto
  have "flush_cache_mapped ARM64 v n k = Some (0, k\<lparr>k_tape := rs, k_trace := k_trace k @ [(Read_Ctr, s_ret c), (Clean_Lines xs, s_ret d)]\<rparr>)"
    by (simp add: flush_cache_mapped_def kernel_call_def kernel_do_def assms(1) xs Let_def)
  moreover have "\<forall>i < unat (PAGE_ALIGN n). \<exists>x\<in>set xs. unat x \<le> unat v + i \<and> unat v + i < unat x + L"
    using cover e start by auto
  ultimately show ?thesis by blast
qed

section \<open>An example\<close>

definition example_kern :: "sysret list \<Rightarrow> kern" where
  "example_kern tape = \<lparr>k_pa = (\<lambda>_. 0), k_tape = tape, k_trace = [], virtio_bridge_page = 0, virtio_irq = -1, virtio_irq_ctx = 0, hvisor_np = 0, clock_cache = None,
     clock_max_num = 0, reset_cache = None, reset_cache_count = 0, power_devices = None, power_max_num = 0, ctrl_pdev = 0\<rparr>"

text \<open>A module that is given an event descriptor, looks up one clock and is unloaded.\<close>

definition example_answers :: "sysret list" where
  "example_answers = map (\<lambda>n. ok_ret\<lparr>s_ret := n\<rparr>) [0, 7, 1, 1, -2, -2, 8, 9, 0, 0, 11] @ [ok_ret\<lparr>s_vals := [4, 0, 0]\<rparr>]
     @ map (\<lambda>n. ok_ret\<lparr>s_ret := n\<rparr>) [21, 0, 0, 0, 0, 0, 0, 0, 0]"

definition example_events :: "kernel_event list" where
  "example_events = [Ev_Ioctl HVISOR_SET_EVENTFD 5, Ev_Ioctl HVISOR_SCMI_CLOCK_IOCTL 64]"

lemma example_life:
  "\<exists>k1 k2 k3. hvisor_init ARM64 (example_kern example_answers) = Some (0, k1) \<and> kernel_run ARM64 example_events k1 = Some k2
    \<and> hvisor_exit ARM64 k2 = Some k3 \<and> gains (k_trace k3) = {#R_Eventfd 11, R_Clk 21#}"
proof -
  have "(case hvisor_init ARM64 (example_kern example_answers) of None \<Rightarrow> None
      | Some (e, k1) \<Rightarrow> if e \<noteq> 0 then None else Option.bind (kernel_run ARM64 example_events k1) (\<lambda>k2.
          map_option (\<lambda>k3. concat (map gained (k_trace k3))) (hvisor_exit ARM64 k2)))
    = Some [R_Eventfd 11, R_Clk 21]" by code_simp
  then show ?thesis by (auto simp: gains_def bind_Some_iff split: option.splits if_splits)
qed

lemma module_releases_handles_witness:
  "\<exists>k1 k2 k3. hvisor_init ARM64 (example_kern example_answers) = Some (0, k1) \<and> kernel_run ARM64 example_events k1 = Some k2
    \<and> hvisor_exit ARM64 k2 = Some k3 \<and> losses (k_trace k3) = {#R_Eventfd 11, R_Clk 21#}"
proof -
  obtain k1 k2 k3 where run: "hvisor_init ARM64 (example_kern example_answers) = Some (0, k1)"
    "kernel_run ARM64 example_events k1 = Some k2" "hvisor_exit ARM64 k2 = Some k3" "gains (k_trace k3) = {#R_Eventfd 11, R_Clk 21#}"
    using example_life by blast
  have "fresh_kern (example_kern example_answers)" by (simp add: fresh_kern_def no_caches_def example_kern_def)
  from module_releases_handles [OF this run(1-3)] run show ?thesis by (intro exI conjI) simp_all
qed

text \<open>A request to load 100 bytes at the physical address 0x50000010.\<close>

definition load_answers :: "sysret list" where
  "load_answers = [ok_ret\<lparr>s_vals := [0x7000, 100, 0x50000010]\<rparr>, ok_ret\<lparr>s_vals := [0xffff0000]\<rparr>, ok_ret, ok_ret, ok_ret]"

lemma load_image_exact_witness:
  "\<exists>k' map_phys dst. hvisor_load_image RISCV64 64 (example_kern load_answers) = Some (0, k')
    \<and> (\<forall>um pm. through_mapping um 0xffff0000 map_phys (Copy_Image dst 0x7000 100) pm = st_bytes pm 0x50000010 (user_bytes um 0x7000 100))"
proof -
  let ?r = "ok_ret\<lparr>s_vals := [0x7000, 100, 0x50000010]\<rparr>" and ?m = "ok_ret\<lparr>s_vals := [0xffff0000]\<rparr>"
  have "\<exists>k'. hvisor_load_image RISCV64 64 (example_kern load_answers) = Some (0, k')"
    by (simp add: hvisor_load_image_def copy_image_def copy_from_user_def kernel_call_def kernel_do_def flush_cache_mapped_def
        image_window_def PAGE_MASK_def PAGE_ALIGN_def load_answers_def example_kern_def ok_ret_def s_val_def)
  then obtain k' where run: "hvisor_load_image RISCV64 64 (example_kern load_answers) = Some (0, k')" by blast
  have tape: "k_tape (example_kern load_answers) = ?r # ?m # [ok_ret, ok_ret, ok_ret]"
    by (simp add: example_kern_def load_answers_def)
  have vals: "s_val ?r 0 = 0x7000" "s_val ?r 1 = 100" "s_val ?r 2 = 0x50000010" "s_val ?m 0 = 0xffff0000"
    by (simp_all add: s_val_def)
  from load_image_exact [OF run tape] obtain map_phys dst where
    "\<forall>um pm. through_mapping um 0xffff0000 map_phys (Copy_Image dst 0x7000 100) pm = st_bytes pm 0x50000010 (user_bytes um 0x7000 100)"
    unfolding vals apply_load.simps by blast
  with run show ?thesis by blast
qed

lemma cache_lines_cleaned_witness:
  "\<exists>xs k'. flush_cache_mapped ARM64 0xffff0000 100 (example_kern [ok_ret\<lparr>s_vals := [0x84448004]\<rparr>, ok_ret]) = Some (0, k')
    \<and> k_trace k' = [(Read_Ctr, 0), (Clean_Lines xs, 0)]"
proof -
  have "k_tape (example_kern [ok_ret\<lparr>s_vals := [0x84448004]\<rparr>, ok_ret]) = ok_ret\<lparr>s_vals := [0x84448004]\<rparr> # ok_ret # []"
    by (simp add: example_kern_def)
  moreover have "unat (0xffff0000 :: u64) + unat (PAGE_ALIGN 100) + 4 * 2 ^ unat (drop_bit 16 (s_val (ok_ret\<lparr>s_vals := [0x84448004]\<rparr>) 0) AND 0xf)
      \<le> 18446744073709551616"
    by (simp add: s_val_def ok_ret_def PAGE_ALIGN_def PAGE_MASK_def)
  ultimately show ?thesis
    using cache_lines_cleaned [OF _ refl, of _ "ok_ret\<lparr>s_vals := [0x84448004]\<rparr>" ok_ret "[]" "0xffff0000" 100]
    by (fastforce simp: example_kern_def ok_ret_def)
qed

text \<open>
  The size of the buffer for the list of zones is not checked against overflow. A caller that asks
  for so many zones that their size exceeds 64 bits gets a smaller buffer, and the hypervisor is told
  the full number of entries it may store there.
\<close>

theorem zone_list_undersized:
  assumes "hvisor_zone_list arg k = Some (e, k')" and "k_tape k = r # p # rs" and "s_ret r = 0"
    and "18446744073709551616 \<le> unat (s_val r 0) * 56"
  shows "\<exists>n x cs. k_trace k' = k_trace k @ [(Copy_From_User arg, 0), (Kmalloc n, s_ret p),
      (Hypercall HVISOR_HC_ZONE_LIST (k_pa k (s_ret p)) (s_val r 0), x)] @ cs \<and> unat n < unat (s_val r 0) * 56"
proof -
  have "unat (s_val r 0 * 56) < unat (s_val r 0) * 56"
    by (rule less_le_trans [OF unat_lt_64 assms(4)])
  moreover have "\<exists>x cs. k_trace k' = k_trace k @ [(Copy_From_User arg, 0), (Kmalloc (s_val r 0 * 56), s_ret p),
      (Hypercall HVISOR_HC_ZONE_LIST (k_pa k (s_ret p)) (s_val r 0), x)] @ cs"
    using assms(1-3)
    by (auto simp: hvisor_zone_list_def copy_from_user_def hvisor_call_def kernel_do_def kernel_call_def bind_Some_iff Let_def
        split: if_splits list.splits)
  ultimately show ?thesis by blast
qed

lemma zone_list_undersized_witness:
  "\<exists>k' n. hvisor_zone_list 64 (example_kern [ok_ret\<lparr>s_vals := [0x2000000000000000]\<rparr>, ok_ret\<lparr>s_ret := 16\<rparr>, ok_ret, ok_ret, ok_ret]) = Some (0, k')
    \<and> k_trace k' ! 1 = (Kmalloc n, 16) \<and> unat n < unat (0x2000000000000000 :: u64) * 56"
proof -
  let ?k = "example_kern [ok_ret\<lparr>s_vals := [0x2000000000000000]\<rparr>, ok_ret\<lparr>s_ret := 16\<rparr>, ok_ret, ok_ret, ok_ret]"
  have "\<exists>k'. hvisor_zone_list 64 ?k = Some (0, k')"
    by (simp add: hvisor_zone_list_def copy_from_user_def hvisor_call_def kernel_do_def kernel_call_def example_kern_def ok_ret_def s_val_def)
  then obtain k' where run: "hvisor_zone_list 64 ?k = Some (0, k')" by blast
  have tape: "k_tape ?k = ok_ret\<lparr>s_vals := [0x2000000000000000]\<rparr> # ok_ret\<lparr>s_ret := 16\<rparr> # [ok_ret, ok_ret, ok_ret]"
    by (simp add: example_kern_def)
  from zone_list_undersized [OF run tape] run show ?thesis by (auto simp: ok_ret_def s_val_def example_kern_def)
qed

end
