(* ===== verification/Spec2Isabelle.thy ===== *)
theory Spec2Isabelle
  imports Used_Ring Desc_Chain Wakeup Blk_Worker Lifecycle Zone_Admin Kernel_Driver
begin

text \<open>
  Verification of hvisor-tool, the management tool of the hvisor hypervisor, written in C.

  \<^bold>\<open>The program.\<close> The tool is a command \<^verbatim>\<open>hvisor\<close> (\<^verbatim>\<open>src/tools/hvisor.c\<close>) and a kernel module
  (\<^verbatim>\<open>src/driver\<close>), both running in the root zone. \<^verbatim>\<open>hvisor zone start\<close> reads the description of a zone
  from a JSON file, loads its images into physical memory through the module, and has the
  hypervisor start the zone. \<^verbatim>\<open>hvisor virtio start\<close> becomes a daemon (\<^verbatim>\<open>src/tools/virtio\<close>) that
  provides virtio devices to the other zones. A guest's access to a device register traps into the
  hypervisor, which puts a request into a ring of the bridge page; the daemon serves the requests,
  reads and writes the guest's queues and buffers in the memory of the zone, which it has mapped,
  and answers in a second ring. Terminal and network events reach it through an event monitor,
  and further devices through a control socket. Block requests are served by a thread per device.

  \<^bold>\<open>Conventions.\<close> Unsigned C integers are words of their width, so that arithmetic wraps as it
  does in C; integers whose sign matters are \<open>int\<close>; pointers are \<open>u64\<close> with 0 for \<open>NULL\<close>. A structure is a
  record with the fields of the source, an enumeration a datatype, and every function a definition
  of the same name (a name that clashes carries the component in front). A function returns
  \<open>None\<close> where the C execution is undefined or does not return, or where \<open>exit\<close> is called; C error
  codes are ordinary results. The surroundings (kernel, hypervisor, guests) are not part of the
  sources: the record \<open>world\<close> holds the memory the daemon shares with them, the bridge page, the
  zone memory table, a tape of answers that system calls consume, and a trace of the calls. A statement
  for every world is one for whatever the guests wrote and whatever the kernel answers. Code outside the
  sources is an argument: the functions of the cJSON library (\<open>cjson\<close>), the function
  \<open>vring_need_event\<close> of the Linux headers (\<open>need\<close>), the bytes of a device structure (\<open>bytes\<close>) and
  the address of a buffer on the stack (\<open>pad\<close>).

  \<^bold>\<open>The theories and the source.\<close>
  \<^item> \<open>Prelude\<close>: integers, list access with undefined behaviour out of range, the predicate \<open>post\<close> with
    its rules \<open>wp\<close>, and loops that may not end (\<open>while_opt\<close>).
  \<^item> \<open>Guest_Memory\<close>: bytes of memory; \<open>struct zone_mem\<close> and \<open>get_virt_addr\<close> of \<^verbatim>\<open>virtio.c\<close>, which is the
    interface \<open>address_translation\<close>. A guest address is translated exactly when a region holds it.
  \<^item> \<open>Virtqueue\<close>, \<open>Desc_Chain\<close>, \<open>Used_Ring\<close>: the queues of \<^verbatim>\<open>virtio.c\<close>. The walks over descriptor chains agree
    with the list of descriptors of the chain, bound the number of buffers, and give buffers that begin
    in the zone; buffers are wholly inside exactly when the guest's descriptors are. A chain
    that refers to itself through an indirect descriptor makes the allocating walk run for ever. A batch of
    completions is the same as single ones and is what the driver then reads.
  \<^item> \<open>World\<close>, \<open>Device\<close>, \<open>Mmio\<close>, \<open>Bridge_Ring\<close>, \<open>Requests\<close>, \<open>Consume\<close>: the devices, their registers, interrupts, and the
    rings of \<^verbatim>\<open>src/include/hvisor.h\<close>. The response ring refines a bounded queue
    (interface \<open>bounded_queue\<close>); a request reaches at most one device, of its own zone; draining serves
    the requests in order. What the generic code expects of a device is the interface
    \<open>device_backend\<close>.
  \<^item> \<open>Wakeup\<close>: the sleeping protocol of \<open>consume_pending_requests\<close> as a step relation against any number
    of processors of the hypervisor. No wake-up is lost once the ring has been drained; at the start of the
    architectures that sleep without a look at the ring, requests can be stranded.
  \<^item> \<open>Json\<close>, \<open>Virtio_Config\<close>, \<open>Config_Safety\<close>: \<^verbatim>\<open>json_parse.c\<close>, \<^verbatim>\<open>safe_cjson.c\<close> and the configuration part of
    \<^verbatim>\<open>virtio.c\<close>. Validation keeps the windows of the devices of a zone disjoint, mapping keeps the
    translation of mapped addresses, and a failed configuration leaves the table as it was
    (interface \<open>device_creator\<close>).
  \<^item> \<open>Queue_IO\<close>, \<open>Io_Calls\<close>, \<open>Event_Monitor\<close>, \<open>Blk\<close>, \<open>Blk_Worker\<close>, \<open>Console\<close>, \<open>Net\<close>: the devices of
    \<^verbatim>\<open>src/tools/virtio/devices\<close> and \<^verbatim>\<open>event_monitor.c\<close>. For each device, what one
    request of a queue does: the calls it makes, the memory it may change, and the completion. Loops
    over a queue are the interface \<open>request_server\<close>. \<open>Blk_Worker\<close> is the handshake of the block
    worker with reset and close.
  \<^item> \<open>Scmi_Core\<close>, \<open>Scmi_Base\<close>, \<open>Scmi_Clock\<close>, \<open>Scmi_Power\<close>, \<open>Scmi_Reset\<close>, \<open>Virtio_Scmi\<close>: the SCMI device, with every
    message of its four protocols. A message reaches only what the zone was granted, and its answer
    carries its own identification.
  \<^item> \<open>Backends\<close>, \<open>Daemon\<close>, \<open>Control\<close>, \<open>Lifecycle\<close>: the operation tables of \<^verbatim>\<open>virtio.c\<close> over the sum of the
    device types (interface \<open>ops_contract\<close>, and \<open>device_creator\<close> interpreted on the table), the daemon as a
    transition system, the control socket, and start and end. \<open>daemon_ok\<close> is the invariant of
    the daemon; on leaving, its last calls close and unmap what it holds.
  \<^item> \<open>Zone_Types\<close>, \<open>Zone_Config\<close>, \<open>Loader\<close>, \<open>Zone_Boot\<close>, \<open>Zone_Start\<close>, \<open>Zone_Admin\<close>: \<^verbatim>\<open>zone_config.h\<close>, \<^verbatim>\<open>hvisor.c\<close> and
    \<^verbatim>\<open>src/tools/boot\<close>. The description handed to the hypervisor is the one of the file, an ELF kernel is
    loaded as its segments say, and a run of \<^verbatim>\<open>zone start\<close> starts one zone, last, or fails.
  \<^item> \<open>Kernel\<close>, \<open>Kernel_Scmi\<close>, \<open>Kernel_Driver\<close>: \<^verbatim>\<open>src/driver/hvisor_main.c\<close> and \<^verbatim>\<open>src/driver/virtio/scmi\<close>, over a
    tape and a trace of their own. Every handle the module obtains it gives back (the three protocols of its
    SCMI server are the interface \<open>scmi_part\<close>); an image is loaded where the tool asks for
    it; the loop that cleans the cache ends and covers the mapping.
  \<^item> This theory: the properties that span the components of the daemon.

  \<^bold>\<open>Loops.\<close> There is no fuel. Loops bounded by data are total functions; loops
  whose end depends on a guest or on the tape are partial functions, for which not returning is
  \<open>None\<close>. Where a property says that such a loop returns, it says so; the others are about the
  executions that return. The bounds in the statements are the constants of the source: eight devices,
  64 regions of a zone, 32 slots of a ring of the bridge, 16 events, 256 entries of a batch.

  \<^bold>\<open>What is not modelled.\<close> The GPU device, which is compiled in on request and works through libdrm; the driver
  and the demonstration programs for inter-VM communication; the command line parser (\<open>main\<close>); log
  output; freeing of memory by the tool; allocation failure where the code does not check it. A buffer of a guest is
  identified by its first address: the code checks no more of it. The threads of the daemon are
  interleaved at the granularity the theory \<open>Daemon\<close> states; the finer interleavings of the wake-up
  protocol and of the block worker are in theories of their own.
\<close>

section \<open>The daemon as a whole\<close>

text \<open>
  C2: The invariant of the virtio daemon holds in every reachable state. Whatever requests the
  hypervisor queues, whatever the guests put into their queues and memory, whatever events and
  configuration files arrive, however the main thread, the event monitor, the control server and
  the workers of the block devices are interleaved, and whatever the kernel answers: there are at
  most eight devices, no address of a zone belongs to two of them, every device has the queues it
  records and holds its interrupt line only while an interrupt is pending, the indices of the
  bridge page stay inside its rings, and no guest address is translated in two ways.
\<close>

theorem daemon_invariant:
  assumes "daemon_run need pad bytes J s t" and "daemon_ok s"
  shows "daemon_ok t"
  using assms by (rule daemon_run_ok)

text \<open>A configuration with one console, a parser that returns it, and a kernel that grants every call.\<close>

definition console_tree :: json where
  "console_tree = JObj [(''zones'', JArr [JObj [(''id'', JNum 1),
     (''memory_region'', JArr [JObj [(''zone0_ipa'', JNum 0x50000000), (''zonex_ipa'', JNum 0x50000000), (''size'', JNum 0x1000)]]),
     (''devices'', JArr [JObj [(''status'', JStr ''enable''), (''type'', JStr ''console''), (''addr'', JNum 0xa003c00),
        (''len'', JNum 0x200), (''irq'', JNum 78)]])]])]"

definition console_json :: "json cjson" where
  "console_json = tree_cjson\<lparr>cj_parse := (\<lambda>_. Some console_tree)\<rparr>"

definition empty_world :: world where
  "empty_world = example_world\<lparr>w_zm := (\<lambda>_. []),
     w_tape := ok_ret\<lparr>s_ret := 0x7f0000000000\<rparr> # replicate 12 (ok_ret\<lparr>s_ret := 7\<rparr>)\<rparr>"

abbreviation plain_env :: "(device_state, device_params) devenv" where
  "plain_env \<equiv> hv_env (\<lambda>_ _ _. True) 0 (\<lambda>_. [])"

lemma empty_daemon_ok: "daemon_ok ([] :: hv_device list, empty_world)"
  by (simp add: daemon_ok_def table_ok_def bridge_ok_def unambiguous_def empty_world_def example_world_def example_bridge_def)

text \<open>What the parser makes of it, and the daemon once the memory of the zone is mapped.\<close>

definition console_cfg :: "device_params VirtioConfig" where
  "console_cfg = [\<lparr>zc_zone_id = 1, zc_memory_regions = [\<lparr>mc_zone0_ipa = 0x50000000, mc_zonex_ipa = 0x50000000, mc_size = 0x1000\<rparr>],
     zc_devices = [\<lparr>dc_type = VirtioTConsole, dc_zone_id = 1, dc_addr = 0xa003c00, dc_len = 0x200, dc_irq = 78,
       dc_enabled = True, dc_params = Some Null_Params\<rparr>]\<rparr>]"

definition mapped_world :: world where
  "mapped_world = empty_world\<lparr>w_zm := (\<lambda>_. [])(1 := [\<lparr>virt_addr = 0x7f0000000000, zone0_ipa = 0x50000000,
       zonex_ipa = 0x50000000, mem_size = 0x1000\<rparr>]),
     w_tape := replicate 12 (ok_ret\<lparr>s_ret := 7\<rparr>), w_trace := [Mmap 0x1000 0x50000000]\<rparr>"

lemma console_parsed: "parse_virtio_config console_json (hv_config_ops console_json) console_tree = Some console_cfg"
  by code_simp

lemma console_validated: "validate_virtio_config_devices ([] :: hv_device list) console_cfg = 0"
  by code_simp

lemma console_mapped: "mmap_zones console_cfg empty_world = Some (0, mapped_world)"
  by (simp add: console_cfg_def empty_world_def mapped_world_def mmap_virtio_zone_memory_def example_world_def ok_ret_def
      sys_call_def)

lemma console_created:
  "\<exists>v w'. create_virtio_config_devices plain_env (True, True) console_cfg [] mapped_world = Some (0, [v], w')
     \<and> length (mmio_addrs (w_bridge w')) = 8"
proof -
  have "map_option (\<lambda>(e, vs, w). (e, length vs, length (mmio_addrs (w_bridge w))))
      (create_virtio_config_devices plain_env (True, True) console_cfg [] mapped_world) = Some (0, 1, 8)" by code_simp
  then show ?thesis by (auto simp: length_Suc_conv)
qed

lemma start_console:
  "\<exists>v w'. virtio_start_from_json console_json (hv_config_ops console_json) plain_env (True, True) (Some []) [] empty_world
     = Some (0, [v], w') \<and> length (mmio_addrs (w_bridge w')) = 8"
  using console_created console_parsed
  by (auto simp: virtio_start_from_json_def safe_parse_def console_json_def console_validated console_mapped)

lemma hot_add_console:
  "\<exists>v w'. virtio_add_from_json console_json (hv_config_ops console_json) plain_env (True, True) (Some []) [] empty_world
     = Some (0, [v], w')"
  using start_console by (auto simp: virtio_add_from_json_def upd_ub_def)

lemma daemon_invariant_witness:
  "\<exists>v w'. daemon_run (\<lambda>_ _ _. True) 0 (\<lambda>_. []) console_json ([], empty_world) ([v], w') \<and> daemon_ok ([v], w')"
proof -
  obtain v w' where "virtio_add_from_json console_json (hv_config_ops console_json) plain_env (True, True) (Some []) [] empty_world
      = Some (0, [v], w')" using hot_add_console by blast
  from step [OF stop hot_add [OF this]]
  have run: "daemon_run (\<lambda>_ _ _. True) 0 (\<lambda>_. []) console_json ([], empty_world) ([v], w')" .
  with daemon_invariant [OF run empty_daemon_ok] show ?thesis by blast
qed

text \<open>
  C4: Adding a configuration is all or nothing. Either the call fails with -1 and the device table
  is exactly what it was, or it succeeds, and then the table is the old one followed by one device
  for every enabled entry of the configuration, in order, each with the zone, window, interrupt and
  type of its entry, and no address of a zone has two owners.
\<close>

theorem start_from_json_all_or_nothing:
  assumes "virtio_start_from_json J (hv_config_ops J) (hv_env need pad bytes) mem_ok buffer vs w = Some (e, vs', w')"
    and "table_ok vs" and "\<forall>v\<in>set vs. dev_ok v"
  shows "(e = -1 \<and> vs' = vs)
    \<or> (e = 0 \<and> table_ok vs' \<and> (\<forall>v\<in>set vs'. dev_ok v)
       \<and> (\<exists>str root cfg made. buffer = Some str \<and> safe_parse J str = Some root
            \<and> parse_virtio_config J (hv_config_ops J) root = Some cfg \<and> vs' = vs @ made
            \<and> list_all2 made_from (enabled_devs (concat (map zc_devices cfg))) made))"
  by (rule hv.start_from_json_published [OF assms])

lemma start_from_json_all_or_nothing_witness:
  "\<exists>v w'. virtio_start_from_json console_json (hv_config_ops console_json) plain_env (True, True) (Some []) [] empty_world
     = Some (0, [v], w') \<and> table_ok [v]"
proof -
  obtain v w' where run: "virtio_start_from_json console_json (hv_config_ops console_json) plain_env (True, True) (Some []) []
      empty_world = Some (0, [v], w')" using start_console by blast
  have "table_ok [v]" using start_from_json_all_or_nothing [OF run] by (simp add: table_ok_def)
  with run show ?thesis by blast
qed

text \<open>
  C6: Draining the request ring is serving the requests one after the other, oldest first, on all
  the devices: the number returned is the number of requests that were pending, every one of them is
  handled exactly once in the order of the ring, the ring is empty afterwards and the producer is
  asked to wake the daemon up again.
\<close>

theorem consume_serves_in_order:
  assumes "bridge_ok (w_bridge w)"
  shows "consume_pending_requests (hv_env need pad bytes) vs w =
      map_option (\<lambda>(vs', w'). (int (length (req_items (w_bridge w))), vs', set_need_wakeup 1 w'))
        (serve (hv_env need pad bytes) (req_items (w_bridge w)) vs (set_need_wakeup 0 w))
    \<and> (\<forall>n vs' w'. consume_pending_requests (hv_env need pad bytes) vs w = Some (n, vs', w') \<longrightarrow>
         req_items (w_bridge w') = [] \<and> need_wakeup (w_bridge w') = 1 \<and> bridge_ok (w_bridge w'))"
proof -
  note eq = hv.consume_pending_requests_serves [OF assms, of need pad bytes vs]
  have "bridge_ok (w_bridge (set_need_wakeup 0 w))" and "req_items (w_bridge w) = req_items (w_bridge (set_need_wakeup 0 w))"
    using assms by (simp_all add: bridge_ok_def req_items_def)
  note after = hv.serve_ring [OF this]
  have "req_items (w_bridge w') = [] \<and> need_wakeup (w_bridge w') = 1 \<and> bridge_ok (w_bridge w')"
    if run: "consume_pending_requests (hv_env need pad bytes) vs w = Some (n, vs', w')" for n vs' w'
  proof -
    obtain w1 where served: "serve (hv_env need pad bytes) (req_items (w_bridge w)) vs (set_need_wakeup 0 w) = Some (vs', w1)"
      and w': "w' = set_need_wakeup 1 w1"
      using run unfolding eq by auto
    have "req_items (w_bridge w1) = []" and "bridge_ok (w_bridge w1)" using after [OF served] by simp_all
    then show ?thesis by (simp add: w' bridge_ok_def req_items_def)
  qed
  with eq show ?thesis by blast
qed

text \<open>One request for an address no device has, in an otherwise empty ring.\<close>

definition one_request_world :: world where
  "one_request_world = example_world\<lparr>w_bridge := example_bridge\<lparr>req_rear := 1\<rparr>\<rparr>"

lemma consume_serves_in_order_witness:
  "\<exists>w'. consume_pending_requests plain_env [] one_request_world = Some (1, [], w')
     \<and> req_items (w_bridge w') = [] \<and> need_wakeup (w_bridge w') = 1"
proof -
  have ok: "bridge_ok (w_bridge one_request_world)" by code_simp
  have "\<not> Option.is_none (serve plain_env (req_items (w_bridge one_request_world)) [] (set_need_wakeup 0 one_request_world))"
    by code_simp
  moreover have "length (req_items (w_bridge one_request_world)) = 1" by code_simp
  moreover have "fst y = []" if "serve plain_env qs [] w = Some y" for qs w y
    using that by (induction qs arbitrary: w) (auto simp: bind_Some_iff virtio_handle_req_def)
  ultimately obtain w' where "consume_pending_requests plain_env [] one_request_world = Some (1, [], w')"
    using conjunct1 [OF consume_serves_in_order [OF ok, of "\<lambda>_ _ _. True" 0 "\<lambda>_. []" "[]"]]
    by (cases "serve plain_env (req_items (w_bridge one_request_world)) [] (set_need_wakeup 0 one_request_world)") fastforce+
  then show ?thesis
    using conjunct2 [OF consume_serves_in_order [OF ok, of "\<lambda>_ _ _. True" 0 "\<lambda>_. []" "[]"]] by blast
qed

end
